(* ===== verification/Rust_Prelude.thy ===== *)
theory Rust_Prelude
  imports Complex_Main "HOL-Library.Word" "HOL-Library.Multiset" "HOL-Library.AList"
begin

text \<open>
  What the orchestrator uses of Rust and its standard library, and the lemmas the components
  share: results with panics, \<open>collect\<close> over results, UTF-8 strings, \<open>BTreeMap\<close> as a sorted
  association list, \<open>HashMap\<close> as an association list in iteration order, and integer casts.
\<close>

named_theorems res_simps \<open>computation rules of results\<close>
named_theorems bt_simps \<open>computation rules of ordered maps\<close>

section \<open>Results\<close>

text \<open>
  \<^verbatim>\<open>Result<T, E>\<close> with a third outcome: \<open>Panic\<close> is an \<^verbatim>\<open>unwrap()\<close> on \<^verbatim>\<open>None\<close>/\<^verbatim>\<open>Err\<close>,
  \<^verbatim>\<open>unimplemented!()\<close>, or a checked arithmetic operation that fails.
\<close>

datatype ('e, 'a) res = Ok 'a | Err 'e | Panic

fun res_bind :: "('e, 'a) res \<Rightarrow> ('a \<Rightarrow> ('e, 'b) res) \<Rightarrow> ('e, 'b) res" where
  "res_bind (Ok x) f = f x"
| "res_bind (Err e) f = Err e"
| "res_bind Panic f = Panic"

fun res_map :: "('a \<Rightarrow> 'b) \<Rightarrow> ('e, 'a) res \<Rightarrow> ('e, 'b) res" where
  "res_map f (Ok x) = Ok (f x)"
| "res_map f (Err e) = Err e"
| "res_map f Panic = Panic"

fun res_map_err :: "('e \<Rightarrow> 'f) \<Rightarrow> ('e, 'a) res \<Rightarrow> ('f, 'a) res" where
  "res_map_err f (Ok x) = Ok x"
| "res_map_err f (Err e) = Err (f e)"
| "res_map_err f Panic = Panic"

fun ok_or :: "'e \<Rightarrow> 'a option \<Rightarrow> ('e, 'a) res" where
  "ok_or e None = Err e"
| "ok_or e (Some x) = Ok x"

fun unwrap :: "'a option \<Rightarrow> ('e, 'a) res" where
  "unwrap None = Panic"
| "unwrap (Some x) = Ok x"

fun unwrap_or :: "'a \<Rightarrow> 'a option \<Rightarrow> 'a" where
  "unwrap_or d None = d"
| "unwrap_or d (Some x) = x"

text \<open>
  \<^verbatim>\<open>iter.collect::<Result<Vec<_>, _>>()\<close>: elements are produced one by one and the first failure ends
  the iteration, so later elements are not evaluated.
\<close>

fun collect_results :: "('e, 'a) res list \<Rightarrow> ('e, 'a list) res" where
  "collect_results [] = Ok []"
| "collect_results (r # rs) = res_bind r (\<lambda>x. res_map ((#) x) (collect_results rs))"

lemma res_bind_Ok_iff [simp]:
  "res_bind r f = Ok y \<longleftrightarrow> (\<exists>x. r = Ok x \<and> f x = Ok y)"
  by (cases r) auto

lemma res_bind_Err_iff:
  "res_bind r f = Err e \<longleftrightarrow> r = Err e \<or> (\<exists>x. r = Ok x \<and> f x = Err e)"
  by (cases r) auto

lemma res_map_Ok_iff [simp]: "res_map f r = Ok y \<longleftrightarrow> (\<exists>x. r = Ok x \<and> y = f x)"
  by (cases r) auto

lemma res_map_Err_iff [simp]: "res_map f r = Err e \<longleftrightarrow> r = Err e"
  by (cases r) auto

lemma res_map_err_Ok_iff [simp]: "res_map_err f r = Ok y \<longleftrightarrow> r = Ok y"
  by (cases r) auto

lemma res_map_err_Err_iff [simp]: "res_map_err f r = Err e \<longleftrightarrow> (\<exists>d. r = Err d \<and> e = f d)"
  by (cases r) auto

lemma res_map_err_Panic_iff [simp]: "res_map_err f r = Panic \<longleftrightarrow> r = Panic"
  by (cases r) auto

lemma ok_or_Ok_iff [simp]: "ok_or e x = Ok y \<longleftrightarrow> x = Some y"
  by (cases x) auto

lemma unwrap_Ok_iff [simp]: "unwrap x = Ok y \<longleftrightarrow> x = Some y"
  by (cases x) auto

lemma collect_results_Ok_iff: "collect_results rs = Ok xs \<longleftrightarrow> rs = map Ok xs"
  by (induction rs arbitrary: xs) auto

lemma collect_results_Ok_map [simp]: "collect_results (map Ok xs) = Ok xs"
  by (simp add: collect_results_Ok_iff)

lemma collect_results_Err_in: "collect_results rs = Err e \<Longrightarrow> Err e \<in> set rs"
  by (induction rs) (auto simp: res_bind_Err_iff)

lemma collect_results_map_Ok_iff:
  "collect_results (map f xs) = Ok ys \<longleftrightarrow> list_all2 (\<lambda>x y. f x = Ok y) xs ys"
  by (induction xs arbitrary: ys) (auto simp: list_all2_Cons1)

lemma collect_results_no_Err:
  assumes "\<And>r. r \<in> set rs \<Longrightarrow> \<exists>x. r = Ok x"
  shows "\<exists>xs. collect_results rs = Ok xs"
  using assms by (induction rs) fastforce+

section \<open>UTF-8 strings\<close>

text \<open>
  A Rust \<^verbatim>\<open>String\<close> is its UTF-8 bytes; HOL's \<open>string\<close> is a list of bytes, so \<open>length\<close> is
  \<^verbatim>\<open>str::len\<close>. \<open>chars\<close> groups each leading byte with the continuation bytes (\<^verbatim>\<open>0b10xxxxxx\<close>) after it,
  which is \<^verbatim>\<open>str::chars\<close> on valid UTF-8, the only strings Rust has.
\<close>

definition is_continuation :: "char \<Rightarrow> bool" where
  "is_continuation c \<longleftrightarrow> (let b = (of_char c :: nat) in 128 \<le> b \<and> b < 192)"

function chars :: "string \<Rightarrow> string list" where
  "chars [] = []"
| "chars (c # cs) = (c # takeWhile is_continuation cs) # chars (dropWhile is_continuation cs)"
  by pat_completeness auto
termination
  by (relation "measure length") (auto simp: le_imp_less_Suc length_dropWhile_le)

definition is_ascii :: "string \<Rightarrow> bool" where
  "is_ascii s \<longleftrightarrow> list_all (\<lambda>c. (of_char c :: nat) < 128) s"

lemma concat_chars [simp]: "concat (chars s) = s"
  by (induction s rule: chars.induct) auto

lemma length_chars_le: "length (chars s) \<le> length s"
proof (induction s rule: chars.induct)
  case (2 c cs)
  then show ?case using length_dropWhile_le [of is_continuation cs] by simp
qed simp

lemma chars_ascii: "is_ascii s \<Longrightarrow> chars s = map (\<lambda>c. [c]) s"
proof (induction s)
  case (Cons c s)
  then have "takeWhile is_continuation s = []" "dropWhile is_continuation s = s"
    by (cases s; auto simp: is_ascii_def is_continuation_def Let_def)+
  with Cons show ?case by (simp add: is_ascii_def)
qed simp

lemma chars_eq_Nil_iff [simp]: "chars s = [] \<longleftrightarrow> s = []"
  by (cases s) auto

section \<open>Ordered maps\<close>

text \<open>
  A \<^verbatim>\<open>BTreeMap\<close> is the list of its entries in key order. Keys are compared through a projection
  \<open>kf\<close> into a linear order, because \<^verbatim>\<open>Ord\<close> of a key type need not look at all of its fields.
\<close>

type_synonym ('k, 'v) btree = "('k \<times> 'v) list"

definition bt_keys :: "('k \<Rightarrow> 'o::linorder) \<Rightarrow> ('k, 'v) btree \<Rightarrow> 'o list" where
  "bt_keys kf m = map (\<lambda>e. kf (fst e)) m"

definition bt_wf :: "('k \<Rightarrow> 'o::linorder) \<Rightarrow> ('k, 'v) btree \<Rightarrow> bool" where
  "bt_wf kf m \<longleftrightarrow> sorted_wrt (<) (bt_keys kf m)"

definition bt_lookup :: "('k \<Rightarrow> 'o::linorder) \<Rightarrow> ('k, 'v) btree \<Rightarrow> 'o \<rightharpoonup> 'v" where
  "bt_lookup kf m = map_of (map (\<lambda>(k, v). (kf k, v)) m)"

text \<open>\<^verbatim>\<open>entry(k)\<close>: insert \<open>v\<close> where vacant, else apply \<open>f\<close> to the value; the stored key stays.\<close>

fun bt_entry :: "('k \<Rightarrow> 'o::linorder) \<Rightarrow> 'k \<Rightarrow> 'v \<Rightarrow> ('v \<Rightarrow> 'v) \<Rightarrow> ('k, 'v) btree \<Rightarrow> ('k, 'v) btree" where
  "bt_entry kf k v f [] = [(k, v)]"
| "bt_entry kf k v f ((k', v') # m) =
     (if kf k < kf k' then (k, v) # (k', v') # m
      else if kf k = kf k' then (k', f v') # m
      else (k', v') # bt_entry kf k v f m)"

definition bt_insert :: "'k::linorder \<Rightarrow> 'v \<Rightarrow> ('k, 'v) btree \<Rightarrow> ('k, 'v) btree" where
  "bt_insert k v m = bt_entry id k v (\<lambda>_. v) m"

fun bt_pop_first :: "('k, 'v) btree \<Rightarrow> (('k \<times> 'v) \<times> ('k, 'v) btree) option" where
  "bt_pop_first [] = None"
| "bt_pop_first (e # m) = Some (e, m)"

text \<open>\<^verbatim>\<open>range(lo..=hi)\<close> panics when \<open>lo > hi\<close>.\<close>

definition bt_range :: "'k::linorder \<Rightarrow> 'k \<Rightarrow> ('k, 'v) btree \<Rightarrow> ('e, ('k \<times> 'v) list) res" where
  "bt_range lo hi m = (if hi < lo then Panic else Ok (filter (\<lambda>(k, _). lo \<le> k \<and> k \<le> hi) m))"

definition bt_last :: "('k, 'v) btree \<Rightarrow> ('k \<times> 'v) option" where
  "bt_last m = (if m = [] then None else Some (last m))"

lemma bt_keys_simps [simp, bt_simps]:
  "bt_keys kf [] = []" "bt_keys kf ((k, v) # m) = kf k # bt_keys kf m"
  by (simp_all add: bt_keys_def)

lemma bt_wf_simps [simp, bt_simps]:
  "bt_wf kf []"
  "bt_wf kf ((k, v) # m) \<longleftrightarrow> (\<forall>o' \<in> set (bt_keys kf m). kf k < o') \<and> bt_wf kf m"
  by (simp_all add: bt_wf_def)

lemma bt_lookup_simps [simp, bt_simps]:
  "bt_lookup kf [] = Map.empty"
  "bt_lookup kf ((k, v) # m) = (bt_lookup kf m)(kf k \<mapsto> v)"
  by (simp_all add: bt_lookup_def)

lemma dom_bt_lookup [simp]: "dom (bt_lookup kf m) = set (bt_keys kf m)"
  by (simp add: bt_lookup_def bt_keys_def dom_map_of_conv_image_fst image_image case_prod_unfold)

lemma bt_lookup_None_iff: "bt_lookup kf m x = None \<longleftrightarrow> x \<notin> set (bt_keys kf m)"
  by (metis dom_bt_lookup domIff)

lemma bt_keys_entry [simp]: "set (bt_keys kf (bt_entry kf k v f m)) = insert (kf k) (set (bt_keys kf m))"
  by (induction m) (auto split: if_splits)

lemma bt_wf_entry: "bt_wf kf m \<Longrightarrow> bt_wf kf (bt_entry kf k v f m)"
proof (induction m)
  case (Cons e m)
  then show ?case by (cases e) (auto intro: less_trans not_less_iff_gr_or_eq [THEN iffD1] elim: linorder_neqE)
qed simp

lemma bt_lookup_entry:
  "bt_wf kf m \<Longrightarrow> bt_lookup kf (bt_entry kf k v f m) =
     (bt_lookup kf m)(kf k \<mapsto> (case bt_lookup kf m (kf k) of None \<Rightarrow> v | Some w \<Rightarrow> f w))"
proof (induction m)
  case (Cons e m)
  obtain k' v' where [simp]: "e = (k', v')" by (cases e)
  from Cons.prems have wf: "bt_wf kf m" and lt: "\<forall>x \<in> set (bt_keys kf m). kf k' < x" by auto
  show ?case
  proof (cases "kf k < kf k'")
    case True
    then have "kf k \<notin> set (bt_keys kf m)" using lt by fastforce
    then have "bt_lookup kf m (kf k) = None" by (simp add: bt_lookup_None_iff)
    with True show ?thesis by (auto simp: fun_eq_iff)
  next
    case False
    then show ?thesis using Cons.IH [OF wf] by (auto simp: fun_eq_iff split: option.splits)
  qed
qed simp

lemma bt_insert_wf: "bt_wf id m \<Longrightarrow> bt_wf id (bt_insert k v m)"
  by (simp add: bt_insert_def bt_wf_entry)

lemma bt_insert_lookup: "bt_wf id m \<Longrightarrow> bt_lookup id (bt_insert k v m) = (bt_lookup id m)(k \<mapsto> v)"
  by (auto simp: bt_insert_def bt_lookup_entry fun_eq_iff split: option.splits)

lemma bt_lookup_first_least:
  "bt_wf kf ((k, v) # m) \<Longrightarrow> x \<in> dom (bt_lookup kf ((k, v) # m)) \<Longrightarrow> kf k \<le> x"
  by auto

lemma bt_wf_imp_distinct: "bt_wf kf m \<Longrightarrow> distinct (bt_keys kf m)"
  unfolding bt_wf_def by (simp add: strict_sorted_iff)

subsection \<open>The ordered-map interface\<close>

text \<open>
  What the batchers and the completion state rely on: entries are found under the projected key,
  \<open>pop\<close> removes the least key, and every operation keeps the representation invariant.
\<close>

locale ordered_map =
  fixes emptym :: 'm
    and entry :: "'k \<Rightarrow> 'v \<Rightarrow> ('v \<Rightarrow> 'v) \<Rightarrow> 'm \<Rightarrow> 'm"
    and pop :: "'m \<Rightarrow> (('k \<times> 'v) \<times> 'm) option"
    and look :: "'m \<Rightarrow> 'o::linorder \<rightharpoonup> 'v"
    and key :: "'k \<Rightarrow> 'o"
    and wf :: "'m \<Rightarrow> bool"
  assumes wf_empty: "wf emptym"
    and look_empty: "look emptym = Map.empty"
    and wf_entry: "wf m \<Longrightarrow> wf (entry k v f m)"
    and look_entry: "wf m \<Longrightarrow> look (entry k v f m) =
          (look m)(key k \<mapsto> (case look m (key k) of None \<Rightarrow> v | Some w \<Rightarrow> f w))"
    and pop_None: "wf m \<Longrightarrow> pop m = None \<longleftrightarrow> look m = Map.empty"
    and pop_Some: "wf m \<Longrightarrow> pop m = Some ((k, v), m') \<Longrightarrow>
          wf m' \<and> look m (key k) = Some v \<and> look m' = (look m)(key k := None)
          \<and> (\<forall>x \<in> dom (look m). key k \<le> x)"
begin

lemma pop_increasing:
  assumes "wf m" "pop m = Some ((k, v), m')" "pop m' = Some ((k2, v2), m2)"
  shows "key k < key k2"
proof -
  from pop_Some [OF assms(1,2)] have m': "wf m'" "look m' = (look m)(key k := None)"
    and least: "\<forall>x \<in> dom (look m). key k \<le> x" by auto
  from pop_Some [OF m'(1) assms(3)] have "look m' (key k2) = Some v2" by blast
  with m'(2) have ne: "key k2 \<noteq> key k" and "key k2 \<in> dom (look m)" by (auto split: if_splits)
  with least ne show ?thesis by (metis order_le_imp_less_or_eq)
qed

lemma entry_fresh: "wf m \<Longrightarrow> look m (key k) = None \<Longrightarrow> look (entry k v f m) = (look m)(key k \<mapsto> v)"
  by (simp add: look_entry)

end

lemma btree_ordered_map:
  "ordered_map [] (bt_entry kf) bt_pop_first (bt_lookup kf) kf (bt_wf (kf :: 'k \<Rightarrow> 'o::linorder))"
proof (unfold_locales, goal_cases)
  case (5 m)
  then show ?case by (cases m) auto
next
  case (6 m k v m')
  then have m: "m = (k, v) # m'" by (cases m) auto
  with 6 have "kf k \<notin> set (bt_keys kf m')" by auto
  with 6 m show ?case by (auto simp: fun_eq_iff bt_lookup_None_iff intro: less_imp_le)
qed (auto simp: bt_wf_entry bt_lookup_entry)

section \<open>Hash maps\<close>

text \<open>
  A \<^verbatim>\<open>HashMap\<close> is the list of its entries in iteration order, keys distinct. Iteration order is
  unspecified in Rust; a theorem about every list is a theorem about every order.
\<close>

type_synonym ('k, 'v) hashmap = "('k \<times> 'v) list"

definition hm_wf :: "('k, 'v) hashmap \<Rightarrow> bool" where
  "hm_wf m \<longleftrightarrow> distinct (map fst m)"

abbreviation hm_get :: "('k, 'v) hashmap \<Rightarrow> 'k \<rightharpoonup> 'v" where
  "hm_get \<equiv> map_of"

definition hm_insert :: "'k \<Rightarrow> 'v \<Rightarrow> ('k, 'v) hashmap \<Rightarrow> ('k, 'v) hashmap" where
  "hm_insert = AList.update"

text \<open>\<^verbatim>\<open>collect::<HashMap<_, _>>()\<close>: entries are inserted in order, a later one replaces an earlier.\<close>

definition hm_collect :: "('k \<times> 'v) list \<Rightarrow> ('k, 'v) hashmap" where
  "hm_collect xs = fold (\<lambda>(k, v). hm_insert k v) xs []"

lemma hm_get_insert [simp]: "hm_get (hm_insert k v m) = (hm_get m)(k \<mapsto> v)"
  by (simp add: hm_insert_def update_conv')

lemma hm_wf_insert [simp]: "hm_wf m \<Longrightarrow> hm_wf (hm_insert k v m)"
  by (simp add: hm_insert_def hm_wf_def distinct_update)

lemma hm_wf_Nil [simp]: "hm_wf []"
  by (simp add: hm_wf_def)

lemma hm_wf_fold: "hm_wf m \<Longrightarrow> hm_wf (fold (\<lambda>(k, v). hm_insert k v) xs m)"
  by (induction xs arbitrary: m) auto

lemma hm_wf_collect [simp]: "hm_wf (hm_collect xs)"
  by (simp add: hm_collect_def hm_wf_fold)

lemma hm_get_fold: "hm_get (fold (\<lambda>(k, v). hm_insert k v) xs m) = hm_get m ++ map_of (rev xs)"
  by (induction xs arbitrary: m) (auto simp: map_add_def fun_eq_iff split: option.splits)

lemma hm_get_collect: "hm_get (hm_collect xs) = map_of (rev xs)"
  by (simp add: hm_collect_def hm_get_fold)

lemma hm_get_collect_distinct: "distinct (map fst xs) \<Longrightarrow> hm_get (hm_collect xs) = map_of xs"
  by (metis hm_get_collect map_of_inject_set distinct_rev rev_map set_rev)

section \<open>Integers\<close>

text \<open>\<^verbatim>\<open>x as u32\<close> on a \<^verbatim>\<open>usize\<close> keeps the low 32 bits. A \<^verbatim>\<open>usize\<close> is 64 bits wide.\<close>

type_synonym u32 = "32 word"

definition as_u32 :: "nat \<Rightarrow> u32" where
  "as_u32 n = word_of_nat n"

definition usize_max :: nat where
  "usize_max = 2 ^ 64 - 1"

text \<open>
  \<open>a - b\<close> on \<^verbatim>\<open>usize\<close>: an underflow panics with overflow checks (debug builds) and wraps without
  (the release profile of \<^verbatim>\<open>Cargo.toml\<close> does not turn them on).
\<close>

definition usize_sub :: "bool \<Rightarrow> nat \<Rightarrow> nat \<Rightarrow> ('e, nat) res" where
  "usize_sub checks a b =
     (if b \<le> a then Ok (a - b) else if checks then Panic else Ok (a + 2 ^ 64 - b))"

lemma unat_as_u32: "unat (as_u32 n) = n mod 2 ^ 32"
  by (simp add: as_u32_def unat_of_nat)

lemma unat_as_u32_small [simp]: "n < 2 ^ 32 \<Longrightarrow> unat (as_u32 n) = n"
  by (simp add: unat_as_u32)

text \<open>Decimal rendering of an unsigned number, as \<^verbatim>\<open>{}\<close> prints it.\<close>

fun show_nat :: "nat \<Rightarrow> string" where
  "show_nat n = (if n < 10 then [char_of (48 + n)] else show_nat (n div 10) @ [char_of (48 + n mod 10)])"

declare show_nat.simps [simp del]

section \<open>Lists\<close>

lemma mset_concat_perm: "mset xs = mset ys \<Longrightarrow> mset (concat xs) = mset (concat ys)"
  by (simp add: mset_concat flip: sum_mset_sum_list)

lemma filter_key_distinct:
  "distinct (map f xs) \<Longrightarrow> k \<in> set xs \<Longrightarrow> filter (\<lambda>x. f k = f x) xs = [k]"
proof (induction xs)
  case (Cons x xs)
  show ?case
  proof (cases "k = x")
    case True
    with Cons.prems have "filter (\<lambda>x. f k = f x) xs = []" by (auto simp: filter_empty_conv)
    with True show ?thesis by simp
  next
    case False
    with Cons.prems have "f k \<noteq> f x" by (metis distinct.simps(2) image_eqI list.set_map list.simps(9) set_ConsD)
    with False Cons show ?thesis by simp
  qed
qed simp

lemma sort_key_perm_unique:
  assumes "mset xs = mset ys" "distinct (map f xs)"
  shows "sort_key f xs = sort_key f ys"
proof (rule properties_for_sort_key)
  show "mset (sort_key f ys) = mset xs" using assms by simp
  show "sorted (map f (sort_key f ys))" by simp
  fix k assume "k \<in> set (sort_key f ys)"
  then have k: "k \<in> set xs" using assms(1) by (metis mset_eq_setD set_sort)
  have "mset (filter (\<lambda>x. f k = f x) (sort_key f ys)) = mset (filter (\<lambda>x. f k = f x) xs)"
    using assms(1) by (metis mset_filter mset_sort)
  then have "filter (\<lambda>x. f k = f x) (sort_key f ys) = [k]"
    unfolding filter_key_distinct [OF assms(2) k] by (simp del: mset_filter)
  then show "filter (\<lambda>x. f k = f x) (sort_key f ys) = filter (\<lambda>x. f k = f x) xs"
    by (simp add: filter_key_distinct [OF assms(2) k])
qed

end
