(* ===== verification/Orch_Types.thy ===== *)
theory Orch_Types
  imports Rust_Prelude
begin

text \<open>
  The data the detection pipeline carries (\<^verbatim>\<open>src/orchestrator/types/chunk.rs\<close>, \<^verbatim>\<open>types/detection.rs\<close>,
  \<^verbatim>\<open>errors.rs\<close>, \<^verbatim>\<open>clients/errors.rs\<close>, the response types of \<^verbatim>\<open>models.rs\<close> and \<^verbatim>\<open>clients/detector.rs\<close>):
  chunks and their order, detections with their conversions, and the errors of the program.
\<close>

named_theorems conv_defs \<open>conversions between wire and internal types\<close>

section \<open>Numbers, JSON values and errors\<close>

text \<open>
  An \<^verbatim>\<open>f64\<close> here is a finite value that came from JSON or YAML (which cannot carry NaN or
  infinities); the program only copies and compares these, so a rational number stands for it.
\<close>

type_synonym f64 = rat

text \<open>\<^verbatim>\<open>serde_json::Value\<close>; an integer and a float literal are different numbers.\<close>

datatype json = JNull | JBool bool | JInt int | JFloat f64 | JString string
  | JArray "json list" | JObject "(string \<times> json) list"

fun is_number :: "json \<Rightarrow> bool" where
  "is_number (JInt _) = True"
| "is_number (JFloat _) = True"
| "is_number _ = False"

fun as_f64 :: "json \<Rightarrow> f64 option" where
  "as_f64 (JInt i) = Some (of_int i)"
| "as_f64 (JFloat x) = Some x"
| "as_f64 _ = None"

fun as_i64 :: "json \<Rightarrow> int option" where
  "as_i64 (JInt i) = (if - (2 ^ 63) \<le> i \<and> i < 2 ^ 63 then Some i else None)"
| "as_i64 _ = None"

type_synonym metadata = "(string, json) btree"

text \<open>Client errors carry the HTTP status code they are reported with.\<close>

datatype client_error =
    Grpc nat string
  | Http nat string
  | ModelNotFound string

fun client_status_code :: "client_error \<Rightarrow> nat" where
  "client_status_code (Grpc code _) = code"
| "client_status_code (Http code _) = code"
| "client_status_code (ModelNotFound _) = 404"

text \<open>The gRPC status codes of \<^verbatim>\<open>tonic::Code\<close> and the HTTP code each is reported with.\<close>

datatype grpc_code = GOk | GCancelled | GUnknown | GInvalidArgument | GDeadlineExceeded | GNotFound
  | GAlreadyExists | GPermissionDenied | GResourceExhausted | GFailedPrecondition | GAborted
  | GOutOfRange | GUnimplemented | GInternal | GUnavailable | GDataLoss | GUnauthenticated

fun grpc_to_http_code :: "grpc_code \<Rightarrow> nat" where
  "grpc_to_http_code GInvalidArgument = 400"
| "grpc_to_http_code GInternal = 500"
| "grpc_to_http_code GNotFound = 404"
| "grpc_to_http_code GDeadlineExceeded = 408"
| "grpc_to_http_code GUnimplemented = 501"
| "grpc_to_http_code GUnauthenticated = 401"
| "grpc_to_http_code GPermissionDenied = 403"
| "grpc_to_http_code GUnavailable = 503"
| "grpc_to_http_code GOk = 200"
| "grpc_to_http_code _ = 500"

datatype error =
    Client client_error
  | DetectorNotFound string
  | ChunkerNotFound string
  | DetectorRequestFailed string client_error
  | ChunkerRequestFailed string client_error
  | GenerateRequestFailed string client_error
  | ChatCompletionRequestFailed string client_error
  | CompletionRequestFailed string client_error
  | TokenizeRequestFailed string client_error
  | Validation string
  | Other string
  | Cancelled
  | JsonError string

section \<open>Chunks\<close>

record chunk =
  input_start_index :: nat
  input_end_index :: nat
  c_start :: nat
  c_end :: nat
  c_text :: string

definition chunk_default :: chunk where
  "chunk_default = \<lparr>input_start_index = 0, input_end_index = 0, c_start = 0, c_end = 0, c_text = []\<rparr>"

text \<open>
  \<^verbatim>\<open>Ord\<close>, \<^verbatim>\<open>Eq\<close> and \<^verbatim>\<open>Hash\<close> of a chunk look at its four indices and not at its text: \<open>chunk_pos\<close> is
  that tuple, ordered lexicographically.
\<close>

datatype chunk_pos = Chunk_Pos nat nat nat nat

definition chunk_key :: "chunk \<Rightarrow> chunk_pos" where
  "chunk_key c = Chunk_Pos (input_start_index c) (input_end_index c) (c_start c) (c_end c)"

instantiation chunk_pos :: linorder
begin

fun less_eq_chunk_pos :: "chunk_pos \<Rightarrow> chunk_pos \<Rightarrow> bool" where
  "less_eq_chunk_pos (Chunk_Pos a b c d) (Chunk_Pos a' b' c' d') \<longleftrightarrow>
     a < a' \<or> (a = a' \<and> (b < b' \<or> (b = b' \<and> (c < c' \<or> (c = c' \<and> d \<le> d')))))"

definition less_chunk_pos :: "chunk_pos \<Rightarrow> chunk_pos \<Rightarrow> bool" where
  "less_chunk_pos x y \<longleftrightarrow> x \<le> y \<and> \<not> y \<le> x"

instance
proof
  fix x y z :: chunk_pos
  show "(x < y) = (x \<le> y \<and> \<not> y \<le> x)" by (simp add: less_chunk_pos_def)
  show "x \<le> x" by (cases x) auto
  show "x \<le> y \<Longrightarrow> y \<le> z \<Longrightarrow> x \<le> z" by (cases x; cases y; cases z) auto
  show "x \<le> y \<Longrightarrow> y \<le> x \<Longrightarrow> x = y" by (cases x; cases y) auto
  show "x \<le> y \<or> y \<le> x" by (cases x; cases y) auto
qed

end

lemma less_chunk_pos_simp [simp]:
  "Chunk_Pos a b c d < Chunk_Pos a' b' c' d' \<longleftrightarrow>
     a < a' \<or> (a = a' \<and> (b < b' \<or> (b = b' \<and> (c < c' \<or> (c = c' \<and> d < d')))))"
  by (auto simp: less_chunk_pos_def)

definition chunk_eq :: "chunk \<Rightarrow> chunk \<Rightarrow> bool" where
  "chunk_eq c d \<longleftrightarrow> chunk_key c = chunk_key d"

text \<open>
  The chunker's protobuf messages (\<^verbatim>\<open>protos/caikit_data_model_nlp.proto\<close>) carry 64-bit signed indices;
  \<^verbatim>\<open>as usize\<close> reinterprets them modulo $2^{64}$.
\<close>

definition as_usize :: "int \<Rightarrow> nat" where
  "as_usize i = nat (i mod 2 ^ 64)"

record pb_token =
  tok_start :: int
  tok_end :: int
  tok_text :: string

record pb_stream_result =
  sr_results :: "pb_token list"
  sr_processed_index :: int
  sr_start_index :: int
  sr_input_start_index :: int
  sr_input_end_index :: int

definition chunk_of_stream_result :: "pb_stream_result \<Rightarrow> chunk" where
  "chunk_of_stream_result v =
     \<lparr>input_start_index = as_usize (sr_input_start_index v),
      input_end_index = as_usize (sr_input_end_index v),
      c_start = as_usize (sr_start_index v),
      c_end = as_usize (sr_processed_index v),
      c_text = concat (map tok_text (sr_results v))\<rparr>"

definition chunks_of_tokenization_results :: "pb_token list \<Rightarrow> chunk list" where
  "chunks_of_tokenization_results toks =
     map (\<lambda>t. chunk_default\<lparr>c_start := as_usize (tok_start t), c_end := as_usize (tok_end t),
                             c_text := tok_text t\<rparr>) toks"

lemma as_usize_nonneg [simp]: "0 \<le> i \<Longrightarrow> i < 2 ^ 64 \<Longrightarrow> int (as_usize i) = i"
  by (simp add: as_usize_def)

lemma chunk_key_inject:
  "chunk_key c = chunk_key d \<longleftrightarrow>
     input_start_index c = input_start_index d \<and> input_end_index c = input_end_index d \<and>
     c_start c = c_start d \<and> c_end c = c_end d"
  by (simp add: chunk_key_def)

section \<open>Evidence and detections\<close>

record evidence =
  ev_name :: string
  ev_value :: "string option"
  ev_score :: "f64 option"

record detection_evidence =
  de_name :: string
  de_value :: "string option"
  de_score :: "f64 option"
  de_evidence :: "evidence list"

record detection =
  d_start :: "nat option"
  d_end :: "nat option"
  d_text :: "string option"
  d_detector_id :: "string option"
  d_detection_type :: string
  d_detection :: string
  d_score :: f64
  d_evidence :: "detection_evidence list"
  d_metadata :: metadata

text \<open>The wire types of \<^verbatim>\<open>models.rs\<close> (\<^verbatim>\<open>Evidence\<close>, \<^verbatim>\<open>EvidenceObj\<close>, \<^verbatim>\<open>DetectionResult\<close>, \<^verbatim>\<open>TokenClassificationResult\<close>)
  and \<^verbatim>\<open>clients/detector.rs\<close> (\<^verbatim>\<open>ContentAnalysisResponse\<close>).\<close>

record m_evidence =
  me_name :: string
  me_value :: "string option"
  me_score :: "f64 option"

record evidence_obj =
  eo_name :: string
  eo_value :: "string option"
  eo_score :: "f64 option"
  eo_evidence :: "m_evidence list option"

record detection_result =
  dr_detection_type :: string
  dr_detection :: string
  dr_detector_id :: "string option"
  dr_score :: f64
  dr_evidence :: "evidence_obj list option"
  dr_metadata :: metadata

record content_analysis_response =
  ca_start :: nat
  ca_end :: nat
  ca_text :: string
  ca_detection :: string
  ca_detection_type :: string
  ca_detector_id :: "string option"
  ca_score :: f64
  ca_evidence :: "evidence_obj list option"
  ca_metadata :: metadata

record token_classification_result =
  tc_start :: u32
  tc_end :: u32
  tc_word :: string
  tc_entity :: string
  tc_entity_group :: string
  tc_detector_id :: "string option"
  tc_score :: f64
  tc_token_count :: "u32 option"

subsection \<open>Conversions\<close>

definition m_evidence_of :: "evidence \<Rightarrow> m_evidence" where
  "m_evidence_of v = \<lparr>me_name = ev_name v, me_value = ev_value v, me_score = ev_score v\<rparr>"

definition evidence_of :: "m_evidence \<Rightarrow> evidence" where
  "evidence_of v = \<lparr>ev_name = me_name v, ev_value = me_value v, ev_score = me_score v\<rparr>"

text \<open>\<^verbatim>\<open>(!v.is_empty()).then_some(v.into_iter().map(Into::into).collect())\<close> and its reverse.\<close>

definition then_some_map :: "('a \<Rightarrow> 'b) \<Rightarrow> 'a list \<Rightarrow> 'b list option" where
  "then_some_map f xs = (if xs = [] then None else Some (map f xs))"

definition map_or_default :: "('a \<Rightarrow> 'b) \<Rightarrow> 'a list option \<Rightarrow> 'b list" where
  "map_or_default f x = unwrap_or [] (map_option (map f) x)"

definition evidence_obj_of :: "detection_evidence \<Rightarrow> evidence_obj" where
  "evidence_obj_of v =
     \<lparr>eo_name = de_name v, eo_value = de_value v, eo_score = de_score v,
      eo_evidence = then_some_map m_evidence_of (de_evidence v)\<rparr>"

definition detection_evidence_of :: "evidence_obj \<Rightarrow> detection_evidence" where
  "detection_evidence_of v =
     \<lparr>de_name = eo_name v, de_value = eo_value v, de_score = eo_score v,
      de_evidence = map_or_default evidence_of (eo_evidence v)\<rparr>"

definition detection_of_content :: "content_analysis_response \<Rightarrow> detection" where
  "detection_of_content v =
     \<lparr>d_start = Some (ca_start v), d_end = Some (ca_end v), d_text = Some (ca_text v),
      d_detector_id = ca_detector_id v, d_detection_type = ca_detection_type v,
      d_detection = ca_detection v, d_score = ca_score v,
      d_evidence = map_or_default detection_evidence_of (ca_evidence v),
      d_metadata = ca_metadata v\<rparr>"

definition detection_of_result :: "detection_result \<Rightarrow> detection" where
  "detection_of_result v =
     \<lparr>d_start = None, d_end = None, d_text = None,
      d_detector_id = dr_detector_id v, d_detection_type = dr_detection_type v,
      d_detection = dr_detection v, d_score = dr_score v,
      d_evidence = map_or_default detection_evidence_of (dr_evidence v),
      d_metadata = dr_metadata v\<rparr>"

definition result_of_detection :: "detection \<Rightarrow> detection_result" where
  "result_of_detection v =
     \<lparr>dr_detection_type = d_detection_type v, dr_detection = d_detection v,
      dr_detector_id = d_detector_id v, dr_score = d_score v,
      dr_evidence = then_some_map evidence_obj_of (d_evidence v),
      dr_metadata = d_metadata v\<rparr>"

text \<open>These two conversions unwrap the span of the detection and panic without one.\<close>

definition token_class_of_detection :: "detection \<Rightarrow> ('e, token_classification_result) res" where
  "token_class_of_detection v =
     res_bind (unwrap (map_option as_u32 (d_start v))) (\<lambda>s.
     res_bind (unwrap (map_option as_u32 (d_end v))) (\<lambda>e.
     Ok \<lparr>tc_start = s, tc_end = e, tc_word = unwrap_or [] (d_text v),
         tc_entity = d_detection v, tc_entity_group = d_detection_type v,
         tc_detector_id = d_detector_id v, tc_score = d_score v, tc_token_count = None\<rparr>))"

definition content_of_detection :: "detection \<Rightarrow> ('e, content_analysis_response) res" where
  "content_of_detection v =
     res_bind (unwrap (d_start v)) (\<lambda>s.
     res_bind (unwrap (d_end v)) (\<lambda>e.
     res_bind (unwrap (d_text v)) (\<lambda>t.
     Ok \<lparr>ca_start = s, ca_end = e, ca_text = t, ca_detection = d_detection v,
         ca_detection_type = d_detection_type v, ca_detector_id = d_detector_id v,
         ca_score = d_score v, ca_evidence = then_some_map evidence_obj_of (d_evidence v),
         ca_metadata = d_metadata v\<rparr>)))"

lemmas conversions [conv_defs] =
  m_evidence_of_def evidence_of_def evidence_obj_of_def detection_evidence_of_def
  detection_of_content_def detection_of_result_def result_of_detection_def

lemma evidence_roundtrip [simp]: "evidence_of (m_evidence_of v) = v" "m_evidence_of (evidence_of w) = w"
  by (simp_all add: conv_defs)

lemma map_or_default_then_some:
  "(\<And>x. g (f x) = x) \<Longrightarrow> map_or_default g (then_some_map f xs) = xs"
  by (cases xs) (auto simp: map_or_default_def then_some_map_def intro: map_idI)

lemma detection_evidence_roundtrip [simp]: "detection_evidence_of (evidence_obj_of v) = v"
  by (simp add: conv_defs map_or_default_then_some [where f = m_evidence_of and g = evidence_of, simplified conv_defs])

text \<open>A detection has a span when its start, end and text are all present.\<close>

definition has_span :: "detection \<Rightarrow> bool" where
  "has_span d \<longleftrightarrow> d_start d \<noteq> None \<and> d_end d \<noteq> None \<and> d_text d \<noteq> None"

lemma has_span_of_content [simp]: "has_span (detection_of_content r)"
  by (simp add: has_span_def detection_of_content_def)

lemma content_of_detection_ok_iff: "(\<exists>r. content_of_detection d = Ok r) \<longleftrightarrow> has_span d"
  by (auto simp: content_of_detection_def has_span_def)

lemma content_of_detection_inverse:
  "content_of_detection d = Ok r \<Longrightarrow> detection_of_content r = d"
  by (auto simp: content_of_detection_def detection_of_content_def map_or_default_then_some)

lemma result_of_detection_inverse:
  "d_start d = None \<Longrightarrow> d_end d = None \<Longrightarrow> d_text d = None \<Longrightarrow>
   detection_of_result (result_of_detection d) = d"
  by (simp add: result_of_detection_def detection_of_result_def map_or_default_then_some)

text \<open>Evidence lists on the wire are absent rather than empty.\<close>

definition evidence_normal :: "evidence_obj list option \<Rightarrow> bool" where
  "evidence_normal es \<longleftrightarrow> (case es of None \<Rightarrow> True | Some xs \<Rightarrow> xs \<noteq> [] \<and> list_all (\<lambda>x. eo_evidence x \<noteq> Some []) xs)"

lemma then_some_map_or_default:
  "then_some_map f (map_or_default g x) = x \<longleftrightarrow> (case x of None \<Rightarrow> True | Some xs \<Rightarrow> xs \<noteq> [] \<and> list_all (\<lambda>y. f (g y) = y) xs)"
  by (cases x) (auto simp: then_some_map_def map_or_default_def list_all_iff map_idI dest: map_eq_conv [THEN iffD1, of _ _ id, simplified])

lemma evidence_obj_roundtrip: "evidence_obj_of (detection_evidence_of x) = x \<longleftrightarrow> eo_evidence x \<noteq> Some []"
proof -
  have "evidence_obj_of (detection_evidence_of x) = x \<longleftrightarrow>
      then_some_map m_evidence_of (map_or_default evidence_of (eo_evidence x)) = eo_evidence x"
    by (cases x) (simp add: evidence_obj_of_def detection_evidence_of_def)
  also have "\<dots> \<longleftrightarrow> eo_evidence x \<noteq> Some []"
    unfolding then_some_map_or_default by (auto simp: list_all_iff split: option.splits)
  finally show ?thesis .
qed

lemma evidence_list_roundtrip:
  "then_some_map evidence_obj_of (map_or_default detection_evidence_of es) = es \<longleftrightarrow> evidence_normal es"
  by (cases es) (simp_all add: then_some_map_or_default evidence_obj_roundtrip evidence_normal_def)

text \<open>
  The conversions between a detector's answer and a detection lose nothing: converting a detection to the wire and
  back gives the detection, which is possible exactly when it has a span; and an answer of a detector that goes through
  the orchestrator comes out unchanged exactly when its evidence lists are absent rather than empty, for contents
  detectors as for the others.
\<close>

theorem detection_conversions_roundtrip:
  "((\<exists>r. content_of_detection d = Ok r) \<longleftrightarrow> has_span d)
   \<and> (content_of_detection d = Ok r \<longrightarrow> detection_of_content r = d)
   \<and> (content_of_detection (detection_of_content r) = Ok r \<longleftrightarrow> evidence_normal (ca_evidence r))
   \<and> (result_of_detection (detection_of_result q) = q \<longleftrightarrow> evidence_normal (dr_evidence q))"
proof (intro conjI impI)
  show "content_of_detection (detection_of_content r) = Ok r \<longleftrightarrow> evidence_normal (ca_evidence r)"
    by (cases r) (simp add: content_of_detection_def detection_of_content_def evidence_list_roundtrip)
  show "result_of_detection (detection_of_result q) = q \<longleftrightarrow> evidence_normal (dr_evidence q)"
    by (cases q) (simp add: result_of_detection_def detection_of_result_def evidence_list_roundtrip)
qed (use content_of_detection_ok_iff content_of_detection_inverse in auto)

theorem detection_conversions_roundtrip_witness:
  "(content_of_detection :: detection \<Rightarrow> (error, content_analysis_response) res) (detection_of_content \<lparr>ca_start = 1, ca_end = 3, ca_text = ''ab'', ca_detection = ''x'', ca_detection_type = ''y'',
     ca_detector_id = None, ca_score = 1, ca_evidence = Some [\<lparr>eo_name = ''n'', eo_value = None, eo_score = None, eo_evidence = None\<rparr>],
     ca_metadata = []\<rparr>) = Ok \<lparr>ca_start = 1, ca_end = 3, ca_text = ''ab'', ca_detection = ''x'', ca_detection_type = ''y'',
     ca_detector_id = None, ca_score = 1, ca_evidence = Some [\<lparr>eo_name = ''n'', eo_value = None, eo_score = None, eo_evidence = None\<rparr>],
     ca_metadata = []\<rparr>"
proof -
  let ?r = "\<lparr>ca_start = 1, ca_end = 3, ca_text = ''ab'', ca_detection = ''x'', ca_detection_type = ''y'',
     ca_detector_id = None, ca_score = 1, ca_evidence = Some [\<lparr>eo_name = ''n'', eo_value = None, eo_score = None, eo_evidence = None\<rparr>],
     ca_metadata = []\<rparr>"
  have "evidence_normal (ca_evidence ?r)" by (simp add: evidence_normal_def)
  with detection_conversions_roundtrip [of _ ?r] show ?thesis by blast
qed

end
