(* ===== verification/Openai.thy ===== *)
theory Openai
  imports Orch_Types
begin

text \<open>
  The OpenAI API types of \<^verbatim>\<open>src/clients/openai.rs\<close>: requests, messages and their content, completions and
  completion chunks, usage, guardrails detections and warnings, error responses; request validation; and the
  message iterators of \<^verbatim>\<open>src/orchestrator/types/chat_message.rs\<close>.
\<close>

type_synonym f32 = rat

text \<open>\<^verbatim>\<open>DetectorParams\<close> of \<^verbatim>\<open>models.rs\<close>: a map of JSON values.\<close>

type_synonym detector_params = "(string, json) btree"
type_synonym detector_map = "(string, detector_params) hashmap"

datatype validation_error = Required string | Invalid string

datatype detection_warning_reason = UnsuitableInput | UnsuitableOutput | EmptyOutput

section \<open>Tools and messages\<close>

record function_definition =
  fd_name :: string
  fd_description :: "string option"
  fd_parameters :: "(string, json) btree"
  fd_strict :: "bool option"

record custom_definition =
  cd_name :: string
  cd_description :: "string option"
  cd_format :: "json option"

record function_tool =
  ft_type :: string
  ft_function :: function_definition

record custom_tool =
  ct_type :: string
  ct_custom :: custom_definition

datatype tool = FunctionTool function_tool | CustomTool custom_tool

definition function_definition_default :: function_definition where
  "function_definition_default = \<lparr>fd_name = [], fd_description = None, fd_parameters = [], fd_strict = None\<rparr>"

definition custom_definition_default :: custom_definition where
  "custom_definition_default = \<lparr>cd_name = [], cd_description = None, cd_format = None\<rparr>"

definition function_tool_new :: "function_definition \<Rightarrow> function_tool" where
  "function_tool_new f = \<lparr>ft_type = ''function'', ft_function = f\<rparr>"

definition function_tool_default :: function_tool where
  "function_tool_default = \<lparr>ft_type = ''function'', ft_function = function_definition_default\<rparr>"

definition custom_tool_new :: "custom_definition \<Rightarrow> custom_tool" where
  "custom_tool_new c = \<lparr>ct_type = ''custom'', ct_custom = c\<rparr>"

definition custom_tool_default :: custom_tool where
  "custom_tool_default = \<lparr>ct_type = ''tool'', ct_custom = custom_definition_default\<rparr>"

datatype role = User | Developer | Assistant | System | ToolRole

datatype content_type = CText | CImageUrl

record image_url =
  iu_url :: string
  iu_detail :: "string option"

record content_part =
  cp_type :: content_type
  cp_text :: "string option"
  cp_image_url :: "image_url option"
  cp_refusal :: "string option"

datatype content = Text string | Array "content_part list"

record fn_call =
  fn_name :: string
  fn_arguments :: string

record custom_call =
  cu_name :: string
  cu_input :: string

record tool_call =
  tl_index :: "nat option"
  tl_id :: string
  tl_type :: string
  tl_function :: "fn_call option"
  tl_custom :: "custom_call option"

record message =
  m_role :: role
  m_content :: "content option"
  m_name :: "string option"
  m_refusal :: "string option"
  m_tool_calls :: "tool_call list option"
  m_tool_call_id :: "string option"
  m_reasoning_content :: "string option"

definition message_default :: message where
  "message_default = \<lparr>m_role = User, m_content = None, m_name = None, m_refusal = None,
     m_tool_calls = None, m_tool_call_id = None, m_reasoning_content = None\<rparr>"

text \<open>\<^verbatim>\<open>From<String> for ContentPart\<close> and \<^verbatim>\<open>From<Vec<String>> for Content\<close>.\<close>

definition content_part_of_string :: "string \<Rightarrow> content_part" where
  "content_part_of_string s = \<lparr>cp_type = CText, cp_text = Some s, cp_image_url = None, cp_refusal = None\<rparr>"

definition content_of_strings :: "string list \<Rightarrow> content" where
  "content_of_strings xs = Array (map content_part_of_string xs)"

definition is_none_or :: "('a \<Rightarrow> bool) \<Rightarrow> 'a option \<Rightarrow> bool" where
  "is_none_or p x \<longleftrightarrow> (case x of None \<Rightarrow> True | Some y \<Rightarrow> p y)"

definition content_part_is_empty :: "content_part \<Rightarrow> bool" where
  "content_part_is_empty p = (case cp_type p of
     CText \<Rightarrow> is_none_or (\<lambda>t. t = []) (cp_text p)
   | CImageUrl \<Rightarrow> is_none_or (\<lambda>u. iu_url u = []) (cp_image_url p))"

fun content_is_empty :: "content \<Rightarrow> bool" where
  "content_is_empty (Text t) \<longleftrightarrow> t = []"
| "content_is_empty (Array parts) \<longleftrightarrow> parts = [] \<or> list_all content_part_is_empty parts"

fun find_map :: "('a \<Rightarrow> 'b option) \<Rightarrow> 'a list \<Rightarrow> 'b option" where
  "find_map f [] = None"
| "find_map f (x # xs) = (case f x of Some y \<Rightarrow> Some y | None \<Rightarrow> find_map f xs)"

definition message_text :: "message \<Rightarrow> string option" where
  "message_text m = (case m_content m of
     Some (Text t) \<Rightarrow> if t \<noteq> [] then Some t else None
   | Some (Array parts) \<Rightarrow>
       find_map (\<lambda>p. if cp_type p = CText then
                       (case cp_text p of Some t \<Rightarrow> if t \<noteq> [] then Some t else None | None \<Rightarrow> None)
                     else None) parts
   | None \<Rightarrow> None)"

definition has_content :: "message \<Rightarrow> bool" where
  "has_content m \<longleftrightarrow> (case m_content m of None \<Rightarrow> False | Some c \<Rightarrow> \<not> content_is_empty c)"

section \<open>Requests\<close>

record openai_detector_config =
  od_input :: detector_map
  od_output :: detector_map

record chat_completions_request =
  cr_detectors :: openai_detector_config
  cr_stream :: "bool option"
  cr_model :: string
  cr_messages :: "message list"
  cr_tools :: "tool list option"
  cr_extra :: "(string \<times> json) list"

definition chat_completions_request_validate :: "chat_completions_request \<Rightarrow> (validation_error, unit) res" where
  "chat_completions_request_validate r =
     (if cr_model r = [] then Err (Invalid ''`model` must not be empty'')
      else if cr_messages r = [] then Err (Invalid ''`messages` must not be empty'')
      else if od_input (cr_detectors r) \<noteq> [] then
        (case m_content (last (cr_messages r)) of
           Some (Array _) \<Rightarrow> Err (Invalid ''Detection on array is not supported'')
         | c \<Rightarrow> if is_none_or content_is_empty c
               then Err (Invalid ''if input detectors are provided, `content` must not be empty on last message'')
               else Ok ())
      else Ok ())"

record completions_request =
  pr_detectors :: openai_detector_config
  pr_prompt_masks :: "(nat \<times> nat) list option"
  pr_stream :: "bool option"
  pr_model :: string
  pr_prompt :: string
  pr_extra :: "(string \<times> json) list"

definition completions_request_validate :: "completions_request \<Rightarrow> (validation_error, unit) res" where
  "completions_request_validate r =
     (if pr_model r = [] then Err (Invalid ''`model` must not be empty'')
      else if od_input (pr_detectors r) \<noteq> [] \<and> pr_prompt r = []
      then Err (Invalid ''`prompt` must not be empty when input detectors are provided'')
      else Ok ())"

record tokenize_request =
  tr_model :: string
  tr_prompt :: "string option"
  tr_messages :: "message list option"
  tr_extra :: "(string \<times> json) list"

definition tokenize_request_validate :: "tokenize_request \<Rightarrow> (validation_error, unit) res" where
  "tokenize_request_validate r =
     (if tr_model r = [] then Err (Invalid ''`model` must not be empty'')
      else if tr_prompt r \<noteq> None \<and> tr_messages r \<noteq> None
      then Err (Invalid ''`prompt` and `messages` cannot be used at the same time'')
      else if tr_prompt r = None \<and> tr_messages r = None
      then Err (Invalid ''Either `prompt` or `messages` must be supplied'')
      else Ok ())"

record tokenize_response =
  tk_count :: u32
  tk_max_model_len :: u32
  tk_tokens :: "u32 list"

section \<open>Completions\<close>

record completion_token_details =
  ctd_audio_tokens :: u32
  ctd_reasoning_tokens :: u32

record prompt_token_details =
  ptd_audio_tokens :: u32
  ptd_cached_tokens :: u32

record usage =
  us_prompt_tokens :: u32
  us_total_tokens :: u32
  us_completion_tokens :: u32
  us_prompt_token_details :: "prompt_token_details option"
  us_completion_token_details :: "completion_token_details option"

definition usage_default :: usage where
  "usage_default = \<lparr>us_prompt_tokens = 0, us_total_tokens = 0, us_completion_tokens = 0,
     us_prompt_token_details = None, us_completion_token_details = None\<rparr>"

record logprob =
  lp_logprob :: f32
  lp_rank :: "int option"
  lp_decoded_token :: "string option"

record chat_completion_top_logprob =
  tlp_token :: string
  tlp_logprob :: f32
  tlp_bytes :: "nat list option"

record chat_completion_logprob =
  clp_token :: string
  clp_logprob :: f32
  clp_bytes :: "nat list option"
  clp_top_logprobs :: "chat_completion_top_logprob list option"

record chat_completion_logprobs =
  lps_content :: "chat_completion_logprob list"
  lps_refusal :: "chat_completion_logprob list"

record completion_logprobs =
  cl_tokens :: "string list"
  cl_token_logprobs :: "f32 list"
  cl_top_logprobs :: "(string, f32) hashmap list"
  cl_text_offset :: "u32 list"

datatype stop_reason = StopString string | StopInteger int

record completion_detection_warning =
  w_type :: detection_warning_reason
  w_message :: string

definition completion_detection_warning_new :: "detection_warning_reason \<Rightarrow> string \<Rightarrow> completion_detection_warning" where
  "completion_detection_warning_new t m = \<lparr>w_type = t, w_message = m\<rparr>"

record completion_input_detections =
  cid_message_index :: u32
  cid_results :: "detection list"

record completion_output_detections =
  cod_choice_index :: u32
  cod_results :: "detection list"

record completion_detections =
  cdet_input :: "completion_input_detections list"
  cdet_output :: "completion_output_detections list"

definition completion_detections_default :: completion_detections where
  "completion_detections_default = \<lparr>cdet_input = [], cdet_output = []\<rparr>"

record chat_completion_choice =
  cc_index :: u32
  cc_message :: message
  cc_logprobs :: "chat_completion_logprobs option"
  cc_finish_reason :: string
  cc_stop_reason :: "stop_reason option"

record chat_completion =
  ch_id :: string
  ch_object :: string
  ch_created :: int
  ch_model :: string
  ch_choices :: "chat_completion_choice list"
  ch_usage :: usage
  ch_prompt_logprobs :: "(string, logprob) hashmap option list option"
  ch_system_fingerprint :: "string option"
  ch_service_tier :: "string option"
  ch_detections :: "completion_detections option"
  ch_warnings :: "completion_detection_warning list"

definition chat_completion_default :: chat_completion where
  "chat_completion_default = \<lparr>ch_id = [], ch_object = [], ch_created = 0, ch_model = [], ch_choices = [],
     ch_usage = usage_default, ch_prompt_logprobs = None, ch_system_fingerprint = None, ch_service_tier = None,
     ch_detections = None, ch_warnings = []\<rparr>"

record chat_completion_delta =
  dl_role :: "role option"
  dl_content :: "string option"
  dl_refusal :: "string option"
  dl_tool_calls :: "tool_call list"

definition chat_completion_delta_default :: chat_completion_delta where
  "chat_completion_delta_default = \<lparr>dl_role = None, dl_content = None, dl_refusal = None, dl_tool_calls = []\<rparr>"

record chat_completion_chunk_choice =
  kc_index :: u32
  kc_delta :: chat_completion_delta
  kc_logprobs :: "chat_completion_logprobs option"
  kc_finish_reason :: "string option"
  kc_stop_reason :: "stop_reason option"

definition chat_completion_chunk_choice_default :: chat_completion_chunk_choice where
  "chat_completion_chunk_choice_default = \<lparr>kc_index = 0, kc_delta = chat_completion_delta_default,
     kc_logprobs = None, kc_finish_reason = None, kc_stop_reason = None\<rparr>"

record chat_completion_chunk =
  ck_id :: string
  ck_object :: string
  ck_created :: int
  ck_model :: string
  ck_system_fingerprint :: "string option"
  ck_choices :: "chat_completion_chunk_choice list"
  ck_service_tier :: "string option"
  ck_usage :: "usage option"
  ck_detections :: "completion_detections option"
  ck_warnings :: "completion_detection_warning list"

definition chat_completion_chunk_default :: chat_completion_chunk where
  "chat_completion_chunk_default = \<lparr>ck_id = [], ck_object = ''chat.completion.chunk'', ck_created = 0,
     ck_model = [], ck_system_fingerprint = None, ck_choices = [], ck_service_tier = None, ck_usage = None,
     ck_detections = None, ck_warnings = []\<rparr>"

record completion_choice =
  co_index :: u32
  co_text :: string
  co_logprobs :: "completion_logprobs option"
  co_finish_reason :: "string option"
  co_stop_reason :: "stop_reason option"
  co_prompt_logprobs :: "(string, logprob) hashmap option list option"

definition completion_choice_default :: completion_choice where
  "completion_choice_default = \<lparr>co_index = 0, co_text = [], co_logprobs = None, co_finish_reason = None,
     co_stop_reason = None, co_prompt_logprobs = None\<rparr>"

record completion =
  cm_id :: string
  cm_object :: string
  cm_created :: int
  cm_model :: string
  cm_choices :: "completion_choice list"
  cm_usage :: "usage option"
  cm_system_fingerprint :: "string option"
  cm_detections :: "completion_detections option"
  cm_warnings :: "completion_detection_warning list"

definition completion_default :: completion where
  "completion_default = \<lparr>cm_id = [], cm_object = ''text_completion'', cm_created = 0, cm_model = [],
     cm_choices = [], cm_usage = None, cm_system_fingerprint = None, cm_detections = None, cm_warnings = []\<rparr>"

text \<open>A streaming response is the sequence of messages of its channel; \<^verbatim>\<open>None\<close> marks the end of the stream.\<close>

datatype chat_completions_response =
    ChatUnary chat_completion
  | ChatStreaming "(error + chat_completion_chunk option) list"

datatype completions_response =
    CompletionUnary completion
  | CompletionStreaming "(error + completion option) list"

section \<open>Error responses\<close>

record error_response_v1 =
  e1_object :: string
  e1_message :: string
  e1_type :: string
  e1_param :: "string option"
  e1_code :: nat

record error_info =
  ei_message :: string
  ei_type :: string
  ei_param :: "string option"
  ei_code :: nat

datatype error_response = V1 error_response_v1 | V2 error_info

definition error_response_new_v1 :: "nat \<Rightarrow> string \<Rightarrow> string \<Rightarrow> string option \<Rightarrow> error_response" where
  "error_response_new_v1 code m t p =
     V1 \<lparr>e1_object = ''error'', e1_message = m, e1_type = t, e1_param = p, e1_code = code\<rparr>"

definition error_response_new_v2 :: "nat \<Rightarrow> string \<Rightarrow> string \<Rightarrow> string option \<Rightarrow> error_response" where
  "error_response_new_v2 code m t p = V2 \<lparr>ei_message = m, ei_type = t, ei_param = p, ei_code = code\<rparr>"

fun error_response_message :: "error_response \<Rightarrow> string" where
  "error_response_message (V1 e) = e1_message e"
| "error_response_message (V2 e) = ei_message e"

fun error_response_code :: "error_response \<Rightarrow> nat" where
  "error_response_code (V1 e) = e1_code e"
| "error_response_code (V2 e) = ei_code e"

text \<open>\<^verbatim>\<open>StatusCode::from_u16\<close> accepts 100 to 999; the conversion unwraps it.\<close>

definition status_code_from_u16 :: "nat \<Rightarrow> nat option" where
  "status_code_from_u16 n = (if 100 \<le> n \<and> n < 1000 then Some n else None)"

definition client_error_of_error_response :: "error_response \<Rightarrow> ('e, client_error) res" where
  "client_error_of_error_response r =
     res_map (\<lambda>c. Http c (error_response_message r)) (unwrap (status_code_from_u16 (error_response_code r)))"

section \<open>Chat messages\<close>

record chat_message =
  cmsg_index :: u32
  cmsg_role :: "role option"
  cmsg_text :: "string option"
  cmsg_refusal :: "string option"

definition request_messages :: "chat_completions_request \<Rightarrow> chat_message list" where
  "request_messages r = map (\<lambda>(index, m).
     \<lparr>cmsg_index = as_u32 index, cmsg_role = Some (m_role m), cmsg_text = message_text m,
      cmsg_refusal = m_refusal m\<rparr>) (List.enumerate 0 (cr_messages r))"

definition completion_messages :: "chat_completion \<Rightarrow> chat_message list" where
  "completion_messages c = map (\<lambda>ch.
     \<lparr>cmsg_index = cc_index ch, cmsg_role = Some (m_role (cc_message ch)),
      cmsg_text = message_text (cc_message ch), cmsg_refusal = m_refusal (cc_message ch)\<rparr>) (ch_choices c)"

definition chunk_messages :: "chat_completion_chunk \<Rightarrow> chat_message list" where
  "chunk_messages c = map (\<lambda>ch.
     \<lparr>cmsg_index = kc_index ch, cmsg_role = dl_role (kc_delta ch),
      cmsg_text = dl_content (kc_delta ch), cmsg_refusal = dl_refusal (kc_delta ch)\<rparr>) (ck_choices c)"

section \<open>Properties\<close>

lemma find_map_Some_iff:
  "find_map f xs = Some y \<longleftrightarrow> (\<exists>as x bs. xs = as @ x # bs \<and> f x = Some y \<and> (\<forall>a \<in> set as. f a = None))"
proof (induction xs)
  case (Cons x xs)
  show ?case
  proof (cases "f x")
    case None
    with Cons show ?thesis
      by (auto simp: Cons_eq_append_conv) (metis append_Cons set_ConsD, force)
  next
    case (Some z)
    then show ?thesis by (force simp: Cons_eq_append_conv)
  qed
qed simp

lemma find_map_None_iff: "find_map f xs = None \<longleftrightarrow> (\<forall>x \<in> set xs. f x = None)"
  by (induction xs) (auto split: option.splits)

lemma message_text_nonempty: "message_text m = Some t \<Longrightarrow> t \<noteq> []"
  by (auto simp: message_text_def find_map_Some_iff split: option.splits content.splits if_splits)

lemma message_text_has_content: "message_text m \<noteq> None \<Longrightarrow> has_content m"
  by (auto simp: message_text_def has_content_def find_map_Some_iff content_part_is_empty_def is_none_or_def
      split: option.splits content.splits if_splits)

lemma message_text_None_cases:
  "has_content m \<Longrightarrow> message_text m = None \<Longrightarrow>
   \<exists>parts p u. m_content m = Some (Array parts) \<and> p \<in> set parts \<and> cp_type p = CImageUrl
     \<and> cp_image_url p = Some u \<and> iu_url u \<noteq> []"
  by (auto simp: message_text_def has_content_def find_map_None_iff content_part_is_empty_def is_none_or_def
      list_all_iff split: option.splits content.splits if_splits content_type.splits)
     (metis content_type.exhaust option.inject)+

text \<open>
  A chat completions request with input detectors that passes validation has a last message with
  non-empty text content, so the text that input detection runs on exists: it is the content itself.
\<close>

theorem validated_chat_request_has_text:
  assumes "chat_completions_request_validate r = Ok ()" "od_input (cr_detectors r) \<noteq> []"
  shows "\<exists>t. t \<noteq> [] \<and> cr_messages r \<noteq> [] \<and> m_content (last (cr_messages r)) = Some (Text t)
     \<and> message_text (last (cr_messages r)) = Some t
     \<and> cmsg_text (last (request_messages r)) = Some t"
proof -
  from assms obtain t where t: "cr_messages r \<noteq> []" "m_content (last (cr_messages r)) = Some (Text t)" "t \<noteq> []"
    by (auto simp: chat_completions_request_validate_def is_none_or_def split: if_splits option.splits content.splits)
  have "List.enumerate 0 (cr_messages r) \<noteq> []" using t(1) by (metis length_enumerate length_0_conv)
  with t(1) have "cmsg_text (last (request_messages r)) = message_text (last (cr_messages r))"
    by (simp add: request_messages_def last_map last_conv_nth nth_enumerate_eq case_prod_unfold)
  with t show ?thesis by (simp add: message_text_def)
qed

theorem validated_chat_request_has_text_witness:
  "cmsg_text (last (request_messages
     \<lparr>cr_detectors = \<lparr>od_input = [(''d'', [])], od_output = []\<rparr>, cr_stream = None, cr_model = ''m'',
      cr_messages = [message_default\<lparr>m_content := Some (Text ''hi'')\<rparr>], cr_tools = None, cr_extra = []\<rparr>)) = Some ''hi''"
proof -
  let ?r = "\<lparr>cr_detectors = \<lparr>od_input = [(''d'', [])], od_output = []\<rparr>, cr_stream = None, cr_model = ''m'',
      cr_messages = [message_default\<lparr>m_content := Some (Text ''hi'')\<rparr>], cr_tools = None, cr_extra = []\<rparr>"
  have "chat_completions_request_validate ?r = Ok ()"
    by (simp add: chat_completions_request_validate_def is_none_or_def)
  from validated_chat_request_has_text [OF this] show ?thesis by simp
qed

text \<open>An error response with a code outside of the HTTP range cannot be converted.\<close>

lemma client_error_of_error_response_panics:
  "client_error_of_error_response r = Panic \<longleftrightarrow> error_response_code r < 100 \<or> 999 < error_response_code r"
  by (auto simp: client_error_of_error_response_def status_code_from_u16_def)

end
