(* ===== verification/Models.thy ===== *)
theory Models
  imports Openai
begin

text \<open>
  The request and response types of the guardrails endpoints (\<^verbatim>\<open>src/models.rs\<close>), the validation every request
  passes before it is handled, and the parameters of a detector.
\<close>

section \<open>Detector parameters\<close>

definition THRESHOLD_PARAM :: string where
  "THRESHOLD_PARAM = ''threshold''"

text \<open>\<^verbatim>\<open>BTreeMap::remove\<close> and \<^verbatim>\<open>get\<close>.\<close>

definition params_get :: "string \<Rightarrow> detector_params \<Rightarrow> json option" where
  "params_get k ps = map_of ps k"

definition params_remove :: "string \<Rightarrow> detector_params \<Rightarrow> json option \<times> detector_params" where
  "params_remove k ps = (map_of ps k, filter (\<lambda>e. fst e \<noteq> k) ps)"

definition pop_threshold :: "detector_params \<Rightarrow> f64 option \<times> detector_params" where
  "pop_threshold ps = (case params_remove THRESHOLD_PARAM ps of
     (v, ps') \<Rightarrow> (Option.bind v as_f64, ps'))"

fun validate_detector_params :: "detector_map \<Rightarrow> (validation_error, unit) res" where
  "validate_detector_params [] = Ok ()"
| "validate_detector_params ((model_id, params) # rest) =
     (case params_get ''threshold'' params of
        Some threshold \<Rightarrow>
          if \<not> is_number threshold
          then Err (Invalid (''`threshold` parameter specified for model `'' @ model_id @ ''` must be a number''))
          else validate_detector_params rest
      | None \<Rightarrow> validate_detector_params rest)"

section \<open>Guardrails generation requests\<close>

record guardrails_config_input =
  gi_models :: detector_map
  gi_masks :: "(nat \<times> nat) list option"

record guardrails_config_output =
  go_models :: detector_map

record guardrails_config =
  gc_input :: "guardrails_config_input option"
  gc_output :: "guardrails_config_output option"

definition guardrails_config_default :: guardrails_config where
  "guardrails_config_default = \<lparr>gc_input = None, gc_output = None\<rparr>"

definition input_masks :: "guardrails_config \<Rightarrow> (nat \<times> nat) list option" where
  "input_masks c = Option.bind (gc_input c) gi_masks"

definition input_detectors :: "guardrails_config \<Rightarrow> detector_map" where
  "input_detectors c = unwrap_or [] (map_option gi_models (gc_input c))"

definition output_detectors :: "guardrails_config \<Rightarrow> detector_map" where
  "output_detectors c = unwrap_or [] (map_option go_models (gc_output c))"

record exponential_decay_length_penalty =
  ed_start_index :: "u32 option"
  ed_decay_factor :: "f64 option"

record text_generation_parameters =
  tg_max_new_tokens :: "u32 option"
  tg_min_new_tokens :: "u32 option"
  tg_truncate_input_tokens :: "u32 option"
  tg_decoding_method :: "string option"
  tg_top_k :: "u32 option"
  tg_top_p :: "f64 option"
  tg_typical_p :: "f64 option"
  tg_temperature :: "f64 option"
  tg_repetition_penalty :: "f64 option"
  tg_max_time :: "f64 option"
  tg_exponential_decay_length_penalty :: "exponential_decay_length_penalty option"
  tg_stop_sequences :: "string list option"
  tg_seed :: "u32 option"
  tg_preserve_input_text :: "bool option"
  tg_input_tokens :: "bool option"
  tg_generated_tokens :: "bool option"
  tg_token_logprobs :: "bool option"
  tg_token_ranks :: "bool option"
  tg_include_stop_sequence :: "bool option"

record guardrails_http_request =
  gr_model_id :: string
  gr_inputs :: string
  gr_guardrail_config :: "guardrails_config option"
  gr_text_gen_parameters :: "text_generation_parameters option"

text \<open>\<^verbatim>\<open>inputs.len()\<close> is the number of bytes.\<close>

definition guardrails_http_request_validate :: "guardrails_http_request \<Rightarrow> (validation_error, unit) res" where
  "guardrails_http_request_validate r =
     (if gr_model_id r = [] then Err (Required ''model_id'')
      else if gr_inputs r = [] then Err (Required ''inputs'')
      else
        let len = length (gr_inputs r);
            masks = Option.bind (gr_guardrail_config r) (\<lambda>c. Option.bind (gc_input c) gi_masks)
        in
        if (case masks of
              Some ms \<Rightarrow> \<not> list_all (\<lambda>(start, end'). start \<le> len \<and> end' \<le> len \<and> start < end') ms
            | None \<Rightarrow> False)
        then Err (Invalid ''invalid masks'')
        else (case gr_guardrail_config r of
           None \<Rightarrow> Ok ()
         | Some config \<Rightarrow>
             res_bind (case gc_input config of
                         Some inp \<Rightarrow> validate_detector_params (gi_models inp) | None \<Rightarrow> Ok ()) (\<lambda>_.
             res_bind (case gc_output config of
                         Some outp \<Rightarrow> validate_detector_params (go_models outp) | None \<Rightarrow> Ok ()) (\<lambda>_.
             Ok ()))))"

section \<open>Results of the generation endpoints\<close>

datatype finish_reason = NotFinished | MaxTokens | EosToken | FCancelled | TimeLimit | StopSequence | TokenLimit | FError

definition UNSUITABLE_INPUT_MESSAGE :: string where
  "UNSUITABLE_INPUT_MESSAGE = ''Unsuitable input detected. Please check the detected entities on your input and try again with the unsuitable input removed.''"

definition UNSUITABLE_OUTPUT_MESSAGE :: string where
  "UNSUITABLE_OUTPUT_MESSAGE = ''Unsuitable output detected.''"

record detection_warning =
  dw_id :: "detection_warning_reason option"
  dw_message :: "string option"

definition unsuitable_input :: detection_warning where
  "unsuitable_input = \<lparr>dw_id = Some UnsuitableInput, dw_message = Some UNSUITABLE_INPUT_MESSAGE\<rparr>"

definition unsuitable_output :: detection_warning where
  "unsuitable_output = \<lparr>dw_id = Some UnsuitableOutput, dw_message = Some UNSUITABLE_OUTPUT_MESSAGE\<rparr>"

record generated_token =
  gt_text :: string
  gt_logprob :: "f64 option"
  gt_rank :: "u32 option"

record token_classification_results =
  tr_input :: "token_classification_result list option"
  tr_output :: "token_classification_result list option"

definition token_classification_results_default :: token_classification_results where
  "token_classification_results_default = \<lparr>tr_input = None, tr_output = None\<rparr>"

record classified_generated_text_result =
  cg_generated_text :: "string option"
  cg_token_classification_results :: token_classification_results
  cg_finish_reason :: "finish_reason option"
  cg_generated_token_count :: "u32 option"
  cg_seed :: "u32 option"
  cg_input_token_count :: u32
  cg_warnings :: "detection_warning list option"
  cg_tokens :: "generated_token list option"
  cg_input_tokens :: "generated_token list option"

definition classified_generated_text_result_default :: classified_generated_text_result where
  "classified_generated_text_result_default = \<lparr>cg_generated_text = None,
     cg_token_classification_results = token_classification_results_default, cg_finish_reason = None,
     cg_generated_token_count = None, cg_seed = None, cg_input_token_count = 0, cg_warnings = None,
     cg_tokens = None, cg_input_tokens = None\<rparr>"

record classified_generated_text_stream_result =
  cs_generated_text :: "string option"
  cs_token_classification_results :: token_classification_results
  cs_finish_reason :: "finish_reason option"
  cs_generated_token_count :: "u32 option"
  cs_seed :: "u32 option"
  cs_input_token_count :: u32
  cs_warnings :: "detection_warning list option"
  cs_tokens :: "generated_token list option"
  cs_input_tokens :: "generated_token list option"
  cs_processed_index :: "u32 option"
  cs_start_index :: "u32 option"

definition classified_generated_text_stream_result_default :: classified_generated_text_stream_result where
  "classified_generated_text_stream_result_default = \<lparr>cs_generated_text = None,
     cs_token_classification_results = token_classification_results_default, cs_finish_reason = None,
     cs_generated_token_count = None, cs_seed = None, cs_input_token_count = 0, cs_warnings = None,
     cs_tokens = None, cs_input_tokens = None, cs_processed_index = None, cs_start_index = None\<rparr>"

section \<open>Detection requests\<close>

record text_content_detection_request =
  tcr_content :: string
  tcr_detectors :: detector_map

definition text_content_detection_validate :: "text_content_detection_request \<Rightarrow> (validation_error, unit) res" where
  "text_content_detection_validate r =
     (if tcr_content r = [] then Err (Required ''content'')
      else if tcr_detectors r = [] then Err (Required ''detectors'')
      else validate_detector_params (tcr_detectors r))"

record generation_with_detection_request =
  gwd_model_id :: string
  gwd_prompt :: string
  gwd_detectors :: detector_map
  gwd_text_gen_parameters :: "text_generation_parameters option"

definition generation_with_detection_validate :: "generation_with_detection_request \<Rightarrow> (validation_error, unit) res" where
  "generation_with_detection_validate r =
     (if gwd_model_id r = [] then Err (Required ''model_id'')
      else if gwd_prompt r = [] then Err (Required ''prompt'')
      else if gwd_detectors r = [] then Err (Required ''detectors'')
      else validate_detector_params (gwd_detectors r))"

record generation_with_detection_result =
  gwr_generated_text :: string
  gwr_detections :: "detection_result list"
  gwr_input_token_count :: u32

text \<open>\<^verbatim>\<open>ContextType\<close> of \<^verbatim>\<open>clients/detector.rs\<close>\<close>

datatype context_type = Document | Url

record context_docs_request =
  cdr_detectors :: detector_map
  cdr_content :: string
  cdr_context_type :: context_type
  cdr_context :: "string list"

definition context_docs_validate :: "context_docs_request \<Rightarrow> (validation_error, unit) res" where
  "context_docs_validate r =
     (if cdr_detectors r = [] then Err (Required ''detectors'')
      else if cdr_content r = [] then Err (Required ''content'')
      else if cdr_context r = [] then Err (Required ''context'')
      else validate_detector_params (cdr_detectors r))"

record chat_detection_request =
  chr_detectors :: detector_map
  chr_messages :: "message list"
  chr_tools :: "tool list"

definition chat_detection_validate :: "chat_detection_request \<Rightarrow> (validation_error, unit) res" where
  "chat_detection_validate r =
     (if chr_detectors r = [] then Err (Required ''detectors'')
      else if chr_messages r = [] then Err (Required ''messages'')
      else Ok ())"

fun validate_content_type :: "content \<Rightarrow> (validation_error, unit) res" where
  "validate_content_type (Array parts) =
     (if list_all (\<lambda>p. cp_type p = CText) parts then Ok ()
      else Err (Invalid ''Only content of type text is allowed''))"
| "validate_content_type (Text _) = Ok ()"

fun validate_messages :: "message list \<Rightarrow> (validation_error, unit) res" where
  "validate_messages [] = Ok ()"
| "validate_messages (m # ms) =
     (case m_content m of
        Some c \<Rightarrow> res_bind (validate_content_type c) (\<lambda>_. validate_messages ms)
      | None \<Rightarrow> if m_tool_calls m = None then Err (Invalid ''Message content cannot be empty'')
                else validate_messages ms)"

definition validate_for_text :: "chat_detection_request \<Rightarrow> (validation_error, unit) res" where
  "validate_for_text r =
     res_bind (chat_detection_validate r) (\<lambda>_.
     res_bind (validate_messages (chr_messages r)) (\<lambda>_.
     res_bind (validate_detector_params (chr_detectors r)) (\<lambda>_. Ok ())))"

record detection_on_generated_request =
  dgr_prompt :: string
  dgr_generated_text :: string
  dgr_detectors :: detector_map

definition detection_on_generated_validate :: "detection_on_generated_request \<Rightarrow> (validation_error, unit) res" where
  "detection_on_generated_validate r =
     (if dgr_prompt r = [] then Err (Required ''prompt'')
      else if dgr_generated_text r = [] then Err (Required ''generated_text'')
      else if dgr_detectors r = [] then Err (Required ''detectors'')
      else validate_detector_params (dgr_detectors r))"

record streaming_content_request =
  scr_detectors :: "detector_map option"
  scr_content :: string

definition streaming_content_validate :: "streaming_content_request \<Rightarrow> (validation_error, unit) res" where
  "streaming_content_validate r =
     (if scr_content r = [] then Err (Invalid ''`content` cannot be empty'') else Ok ())"

record streaming_content_response =
  sc_detections :: "content_analysis_response list"
  sc_processed_index :: u32
  sc_start_index :: u32

section \<open>Properties\<close>

text \<open>A detector map is valid when each threshold parameter is a number.\<close>

definition thresholds_numeric :: "detector_map \<Rightarrow> bool" where
  "thresholds_numeric ds \<longleftrightarrow> (\<forall>(i, ps) \<in> set ds. \<forall>v. map_of ps ''threshold'' = Some v \<longrightarrow> is_number v)"

lemma validate_detector_params_iff: "validate_detector_params ds = Ok () \<longleftrightarrow> thresholds_numeric ds"
  by (induction ds rule: validate_detector_params.induct)
    (auto simp: thresholds_numeric_def params_get_def split: option.splits)

lemma validate_messages_iff:
  "validate_messages ms = Ok () \<longleftrightarrow> (\<forall>m \<in> set ms. case m_content m of
     None \<Rightarrow> m_tool_calls m \<noteq> None
   | Some (Text _) \<Rightarrow> True
   | Some (Array parts) \<Rightarrow> \<forall>p \<in> set parts. cp_type p = CText)"
proof (induction ms)
  case (Cons m ms)
  then show ?case by (cases "m_content m") (auto simp: list_all_iff split: content.splits)
qed simp

lemma as_f64_number: "is_number v \<longleftrightarrow> (\<exists>x. as_f64 v = Some x)"
  by (cases v) auto

text \<open>
  After validation the threshold of a detector is its number: \<open>pop_threshold\<close> returns a value exactly when the
  parameter was given, never passes the parameter on to the detector, and leaves the other parameters alone.
\<close>

theorem pop_threshold_correct:
  assumes "validate_detector_params ds = Ok ()" "(i, ps) \<in> set ds"
  shows "case pop_threshold ps of (t, ps') \<Rightarrow>
      (t = None \<longleftrightarrow> map_of ps ''threshold'' = None)
      \<and> (\<forall>v. map_of ps ''threshold'' = Some v \<longrightarrow> t = as_f64 v)
      \<and> map_of ps' = (map_of ps)(''threshold'' := None)"
proof -
  have m: "map_of (filter (\<lambda>e. fst e \<noteq> k) ps) = (map_of ps)(k := None)" for k
    by (induction ps) (auto simp: fun_eq_iff)
  from assms have "\<And>v. map_of ps ''threshold'' = Some v \<Longrightarrow> \<exists>x. as_f64 v = Some x"
    by (auto simp: validate_detector_params_iff thresholds_numeric_def as_f64_number)
  then show ?thesis
    by (auto simp: pop_threshold_def params_remove_def THRESHOLD_PARAM_def m split: option.splits)
       (metis bind.bind_lunit option.distinct(1) option.exhaust)
qed

theorem pop_threshold_correct_witness:
  "pop_threshold [(''a'', JInt 1), (''threshold'', JFloat (1/2))] = (Some (1/2), [(''a'', JInt 1)])"
  using pop_threshold_correct [of "[(''d'', [(''a'', JInt 1), (''threshold'', JFloat (1/2))])]" "''d''"
      "[(''a'', JInt 1), (''threshold'', JFloat (1/2))]"]
  by (simp add: params_get_def pop_threshold_def params_remove_def THRESHOLD_PARAM_def)

text \<open>
  A guardrails generation request passes validation exactly when its model and its inputs are given, each
  mask is a non-empty range within the bytes of the inputs, and the thresholds of all detectors are numbers.
\<close>

theorem guardrails_request_validate_iff:
  "guardrails_http_request_validate r = Ok () \<longleftrightarrow>
     gr_model_id r \<noteq> [] \<and> gr_inputs r \<noteq> []
     \<and> (case gr_guardrail_config r of None \<Rightarrow> True | Some c \<Rightarrow>
          (\<forall>(s, e) \<in> set (unwrap_or [] (input_masks c)). s < e \<and> e \<le> length (gr_inputs r))
          \<and> thresholds_numeric (input_detectors c) \<and> thresholds_numeric (output_detectors c))"
proof -
  have 1: "(case x of None \<Rightarrow> Ok () | Some y \<Rightarrow> validate_detector_params (f y)) = Ok ()
     \<longleftrightarrow> thresholds_numeric (unwrap_or [] (map_option f x))" for x and f :: "'x \<Rightarrow> detector_map"
    by (cases x) (auto simp: validate_detector_params_iff thresholds_numeric_def)
  have 2: "(case ms of None \<Rightarrow> False | Some ms \<Rightarrow> \<not> list_all (\<lambda>(s, e). s \<le> n \<and> e \<le> n \<and> s < e) ms)
     \<longleftrightarrow> \<not> (\<forall>(s, e) \<in> set (unwrap_or [] ms). s < e \<and> e \<le> n)" for ms :: "(nat \<times> nat) list option" and n
    by (cases ms) (fastforce simp: list_all_iff)+
  show ?thesis
    unfolding guardrails_http_request_validate_def Let_def 2
    by (cases "gr_guardrail_config r")
      (auto simp: 1 input_masks_def input_detectors_def output_detectors_def)
qed

theorem guardrails_request_validate_iff_witness:
  "guardrails_http_request_validate \<lparr>gr_model_id = ''m'', gr_inputs = ''abc'',
     gr_guardrail_config = Some \<lparr>gc_input = Some \<lparr>gi_models = [(''d'', [])], gi_masks = Some [(1, 3)]\<rparr>, gc_output = None\<rparr>,
     gr_text_gen_parameters = None\<rparr> = Ok ()"
  unfolding guardrails_request_validate_iff
  by (simp add: input_masks_def input_detectors_def output_detectors_def thresholds_numeric_def)

end
