(* ===== verification/Orch_Config.thy ===== *)
theory Orch_Config
  imports Orch_Types
begin

text \<open>
  The orchestrator configuration (\<^verbatim>\<open>src/config.rs\<close>) and the hostname check of \<^verbatim>\<open>src/clients.rs\<close>: what a
  loaded configuration looks like, the resolution of named TLS entries and the validation rules.
  Reading and parsing the YAML file is a parameter.
\<close>

named_theorems config_simps \<open>unfolding of the configuration checks\<close>

section \<open>Hostnames\<close>

text \<open>\<^verbatim>\<open>str::split(sep)\<close>: always at least one piece.\<close>

fun split_on :: "char \<Rightarrow> string \<Rightarrow> string list" where
  "split_on sep [] = [[]]"
| "split_on sep (c # cs) =
     (if c = sep then [] # split_on sep cs
      else (case split_on sep cs of [] \<Rightarrow> [[c]] | l # ls \<Rightarrow> (c # l) # ls))"

definition is_valid_char :: "char \<Rightarrow> bool" where
  "is_valid_char c \<longleftrightarrow>
     (let b = (of_char c :: nat) in
        (97 \<le> b \<and> b \<le> 122) \<or> (65 \<le> b \<and> b \<le> 90) \<or> (48 \<le> b \<and> b \<le> 57) \<or> c = CHR ''-'' \<or> c = CHR ''.'')"

definition starts_with_char :: "char \<Rightarrow> string \<Rightarrow> bool" where
  "starts_with_char c s \<longleftrightarrow> s \<noteq> [] \<and> hd s = c"

definition ends_with_char :: "char \<Rightarrow> string \<Rightarrow> bool" where
  "ends_with_char c s \<longleftrightarrow> s \<noteq> [] \<and> last s = c"

definition is_valid_hostname :: "string \<Rightarrow> bool" where
  "is_valid_hostname h \<longleftrightarrow>
     \<not> (list_ex (\<lambda>b. \<not> is_valid_char b) h
        \<or> list_ex (\<lambda>label. label = [] \<or> length label > 63
                     \<or> starts_with_char (CHR ''-'') label \<or> ends_with_char (CHR ''-'') label)
            (split_on (CHR ''.'') h)
        \<or> h = [] \<or> length h > 253)"

lemma split_on_nonempty [simp]: "split_on sep s \<noteq> []"
  by (induction s) (auto split: list.splits)

lemma split_on_append_sep: "split_on sep (xs @ sep # ys) = split_on sep xs @ split_on sep ys"
proof (induction xs)
  case (Cons c xs)
  then show ?case by (cases "split_on sep xs") auto
qed simp

lemma split_on_no_sep: "sep \<notin> set s \<Longrightarrow> split_on sep s = [s]"
  by (induction s) auto

lemma split_on_hd: "hd (split_on sep s) = takeWhile (\<lambda>c. c \<noteq> sep) s"
proof (induction s)
  case (Cons c s)
  then show ?case by (cases "split_on sep s") auto
qed simp

lemma split_on_snoc:
  "c \<noteq> sep \<Longrightarrow> split_on sep (s @ [c]) = butlast (split_on sep s) @ [last (split_on sep s) @ [c]]"
proof (induction s)
  case (Cons d s)
  then show ?case by (cases "split_on sep s") auto
qed simp

definition valid_label :: "string \<Rightarrow> bool" where
  "valid_label l \<longleftrightarrow> l \<noteq> [] \<and> length l \<le> 63 \<and> hd l \<noteq> CHR ''-'' \<and> last l \<noteq> CHR ''-''"

lemma valid_hostname_iff:
  "is_valid_hostname h \<longleftrightarrow> list_all is_valid_char h \<and> list_all valid_label (split_on (CHR ''.'') h)
     \<and> h \<noteq> [] \<and> length h \<le> 253"
  by (auto simp: is_valid_hostname_def list_ex_iff list_all_iff valid_label_def starts_with_char_def
      ends_with_char_def not_less)

lemma labels_start:
  assumes "list_all valid_label (split_on (CHR ''.'') s)"
  shows "s \<noteq> [] \<and> hd s \<noteq> CHR ''.'' \<and> hd s \<noteq> CHR ''-''"
proof -
  have "valid_label (hd (split_on (CHR ''.'') s))" using assms by (simp add: list_all_iff)
  then have "valid_label (takeWhile (\<lambda>c. c \<noteq> CHR ''.'') s)" by (simp only: split_on_hd)
  then show ?thesis by (cases s) (auto simp: valid_label_def split: if_splits)
qed

lemma labels_end:
  assumes "list_all valid_label (split_on (CHR ''.'') s)"
  shows "s \<noteq> [] \<and> last s \<noteq> CHR ''.'' \<and> last s \<noteq> CHR ''-''"
proof (cases s rule: rev_cases)
  case Nil
  then show ?thesis using assms by (simp add: valid_label_def)
next
  case (snoc t c)
  have v: "valid_label (last (split_on (CHR ''.'') s))" using assms by (simp add: list_all_iff)
  show ?thesis
  proof (cases "c = CHR ''.''")
    case True
    then show ?thesis using v snoc by (simp add: split_on_append_sep valid_label_def)
  next
    case False
    then show ?thesis using v snoc by (simp add: split_on_snoc valid_label_def)
  qed
qed

section \<open>Configuration records\<close>

record tls_config =
  tls_cert_path :: "string option"
  tls_key_path :: "string option"
  tls_client_ca_cert_path :: "string option"
  tls_insecure :: "bool option"

datatype tls = TlsName string | TlsConfig tls_config

record service_config =
  s_hostname :: string
  s_port :: "nat option"
  s_path_prefix :: "string option"
  s_request_timeout :: "nat option"
  s_tls :: "tls option"
  s_grpc_dns_probe_interval :: "nat option"
  s_resolution_strategy :: "string option"
  s_resolution_strategy_timeout :: "nat option"
  s_max_retries :: "nat option"
  s_http2_keep_alive_interval :: "nat option"
  s_keep_alive_timeout :: "nat option"
  s_api_token :: "string option"

definition service_config_new :: "string \<Rightarrow> nat \<Rightarrow> service_config" where
  "service_config_new hostname port =
     \<lparr>s_hostname = hostname, s_port = Some port, s_path_prefix = None, s_request_timeout = None,
      s_tls = None, s_grpc_dns_probe_interval = None, s_resolution_strategy = None,
      s_resolution_strategy_timeout = None, s_max_retries = None,
      s_http2_keep_alive_interval = None, s_keep_alive_timeout = None, s_api_token = None\<rparr>"

datatype generation_provider = Tgis | Nlp

record generation_config =
  g_provider :: generation_provider
  g_service :: service_config

record router_config =
  r_enabled :: bool
  r_hostname :: string
  r_port :: nat
  r_sla_seconds :: nat
  r_reply_type :: string
  r_supported_detectors :: "string list"

record openai_config =
  o_service :: service_config
  o_health_service :: "service_config option"

datatype chunker_type = Sentence | All

record chunker_config =
  ch_type :: chunker_type
  ch_service :: service_config

datatype detector_type = TextContents | TextGeneration | TextChat | TextContextDoc

record detector_config =
  dc_service :: service_config
  dc_health_service :: "service_config option"
  dc_chunker_id :: string
  dc_default_threshold :: f64
  dc_type :: detector_type
  dc_model_id :: "string option"

record orchestrator_config =
  generation :: "generation_config option"
  openai :: "openai_config option"
  chunkers :: "(string, chunker_config) hashmap option"
  detectors :: "(string, detector_config) hashmap"
  tls_configs :: "(string, tls_config) hashmap option"
  router :: "router_config option"
  passthrough_headers :: "string list"
  rewrite_forwarded_access_header :: bool
  detector_concurrent_requests :: nat
  chunker_concurrent_requests :: nat

definition orchestrator_config_default :: orchestrator_config where
  "orchestrator_config_default =
     \<lparr>generation = None, openai = None, chunkers = None, detectors = [], tls_configs = None,
      router = None, passthrough_headers = [], rewrite_forwarded_access_header = False,
      detector_concurrent_requests = 5, chunker_concurrent_requests = 5\<rparr>"

definition DEFAULT_CHUNKER_ID :: string where
  "DEFAULT_CHUNKER_ID = ''whole_doc_chunker''"

datatype config_error =
    FailedToReadConfigFile string
  | InvalidConfigFile
  | TlsConfigNotFound string string string
  | NoDetectorsConfigured
  | DetectorChunkerNotFound string string
  | InvalidGenerationProvider string
  | InvalidHostname string

section \<open>Lookups\<close>

definition get_chunker_id :: "orchestrator_config \<Rightarrow> string \<Rightarrow> string option" where
  "get_chunker_id cfg detector_id = map_option dc_chunker_id (hm_get (detectors cfg) detector_id)"

definition config_chunker :: "orchestrator_config \<Rightarrow> string \<Rightarrow> chunker_config option" where
  "config_chunker cfg chunker_id =
     (case chunkers cfg of Some cs \<Rightarrow> hm_get cs chunker_id | None \<Rightarrow> None)"

definition config_detector :: "orchestrator_config \<Rightarrow> string \<Rightarrow> detector_config option" where
  "config_detector cfg detector_id = hm_get (detectors cfg) detector_id"

section \<open>Named TLS entries\<close>

definition apply_named_tls_config ::
  "(string, tls_config) hashmap \<Rightarrow> service_config \<Rightarrow> (config_error, service_config) res" where
  "apply_named_tls_config tls_cfgs service =
     (case s_tls service of
        Some (TlsName name) \<Rightarrow>
          res_bind (ok_or (TlsConfigNotFound name (s_hostname service)
                             (show_nat (unwrap_or 0 (s_port service)))) (hm_get tls_cfgs name))
            (\<lambda>c. Ok (service\<lparr>s_tls := Some (TlsConfig c)\<rparr>))
      | _ \<Rightarrow> Ok service)"

text \<open>\<^verbatim>\<open>for x in map.values_mut() { f(x)?; }\<close>\<close>

definition update_values ::
  "('v \<Rightarrow> ('e, 'v) res) \<Rightarrow> ('k, 'v) hashmap \<Rightarrow> ('e, ('k, 'v) hashmap) res" where
  "update_values f m = collect_results (map (\<lambda>(k, v). res_map (Pair k) (f v)) m)"

definition update_option :: "('v \<Rightarrow> ('e, 'v) res) \<Rightarrow> 'v option \<Rightarrow> ('e, 'v option) res" where
  "update_option f x = (case x of None \<Rightarrow> Ok None | Some v \<Rightarrow> res_map Some (f v))"

definition apply_named_tls_configs :: "orchestrator_config \<Rightarrow> (config_error, orchestrator_config) res" where
  "apply_named_tls_configs cfg =
     (case tls_configs cfg of
        None \<Rightarrow> Ok cfg
      | Some tls_cfgs \<Rightarrow>
          res_bind (update_option (\<lambda>g. res_map (\<lambda>s. g\<lparr>g_service := s\<rparr>)
                      (apply_named_tls_config tls_cfgs (g_service g))) (generation cfg)) (\<lambda>gen.
          res_bind (update_option (\<lambda>o'. res_map (\<lambda>s. o'\<lparr>o_service := s\<rparr>)
                      (apply_named_tls_config tls_cfgs (o_service o'))) (openai cfg)) (\<lambda>oai.
          res_bind (update_option (update_values (\<lambda>c. res_map (\<lambda>s. c\<lparr>ch_service := s\<rparr>)
                      (apply_named_tls_config tls_cfgs (ch_service c)))) (chunkers cfg)) (\<lambda>chs.
          res_bind (update_values (\<lambda>d. res_map (\<lambda>s. d\<lparr>dc_service := s\<rparr>)
                      (apply_named_tls_config tls_cfgs (dc_service d))) (detectors cfg)) (\<lambda>dets.
          Ok (cfg\<lparr>generation := gen, openai := oai, chunkers := chs, detectors := dets\<rparr>))))))"

section \<open>Validation\<close>

definition validate_generation_config :: "orchestrator_config \<Rightarrow> (config_error, unit) res" where
  "validate_generation_config cfg =
     (case generation cfg of
        Some g \<Rightarrow> if \<not> is_valid_hostname (s_hostname (g_service g))
                  then Err (InvalidHostname ''`generation` has an invalid hostname'') else Ok ()
      | None \<Rightarrow> Ok ())"

definition validate_openai_configs :: "orchestrator_config \<Rightarrow> (config_error, unit) res" where
  "validate_openai_configs cfg =
     (case openai cfg of
        Some o' \<Rightarrow> if \<not> is_valid_hostname (s_hostname (o_service o'))
                  then Err (InvalidHostname ''`openai` has an invalid hostname'') else Ok ()
      | None \<Rightarrow> Ok ())"

fun validate_detector_entries ::
  "orchestrator_config \<Rightarrow> (string, detector_config) hashmap \<Rightarrow> (config_error, unit) res" where
  "validate_detector_entries cfg [] = Ok ()"
| "validate_detector_entries cfg ((detector_id, detector) # rest) =
     (if \<not> is_valid_hostname (s_hostname (dc_service detector))
      then Err (InvalidHostname (''detector `'' @ detector_id @ ''` has an invalid hostname''))
      else if \<not> (dc_chunker_id detector = DEFAULT_CHUNKER_ID
                 \<or> (case chunkers cfg of None \<Rightarrow> False
                    | Some cs \<Rightarrow> hm_get cs (dc_chunker_id detector) \<noteq> None))
      then Err (DetectorChunkerNotFound detector_id (dc_chunker_id detector))
      else validate_detector_entries cfg rest)"

definition validate_detector_configs :: "orchestrator_config \<Rightarrow> (config_error, unit) res" where
  "validate_detector_configs cfg = validate_detector_entries cfg (detectors cfg)"

fun validate_chunker_entries :: "(string, chunker_config) hashmap \<Rightarrow> (config_error, unit) res" where
  "validate_chunker_entries [] = Ok ()"
| "validate_chunker_entries ((chunker_id, chunker) # rest) =
     (if \<not> is_valid_hostname (s_hostname (ch_service chunker))
      then Err (InvalidHostname (''chunker `'' @ chunker_id @ ''` has an invalid hostname''))
      else validate_chunker_entries rest)"

definition validate_chunker_configs :: "orchestrator_config \<Rightarrow> (config_error, unit) res" where
  "validate_chunker_configs cfg =
     (case chunkers cfg of Some cs \<Rightarrow> validate_chunker_entries cs | None \<Rightarrow> Ok ())"

definition validate_config :: "orchestrator_config \<Rightarrow> (config_error, unit) res" where
  "validate_config cfg =
     (if detectors cfg = [] then Err NoDetectorsConfigured
      else res_bind (validate_generation_config cfg) (\<lambda>_.
           res_bind (validate_openai_configs cfg) (\<lambda>_.
           res_bind (validate_detector_configs cfg) (\<lambda>_.
           validate_chunker_configs cfg))))"

section \<open>Loading\<close>

text \<open>\<^verbatim>\<open>to_lowercase\<close> on header names, which are ASCII.\<close>

definition to_lowercase :: "string \<Rightarrow> string" where
  "to_lowercase s =
     map (\<lambda>c. let b = (of_char c :: nat) in if 65 \<le> b \<and> b \<le> 90 then char_of (b + 32) else c) s"

text \<open>
  \<open>read_file\<close> is the file system and \<open>parse\<close> the YAML deserializer; \<^verbatim>\<open>DEFAULT_ALLOWED_HEADERS\<close> is empty.
\<close>

definition load_config ::
  "(string \<Rightarrow> string option) \<Rightarrow> (string \<Rightarrow> orchestrator_config option) \<Rightarrow> string
     \<Rightarrow> (config_error, orchestrator_config) res" where
  "load_config read_file parse path =
     res_bind (ok_or (FailedToReadConfigFile path) (read_file path)) (\<lambda>yaml.
     res_bind (ok_or InvalidConfigFile (parse yaml)) (\<lambda>cfg.
     let cfg = cfg\<lparr>passthrough_headers := remdups (map to_lowercase (passthrough_headers cfg))\<rparr> in
     res_bind (apply_named_tls_configs cfg) (\<lambda>cfg.
     res_bind (validate_config cfg) (\<lambda>_. Ok cfg))))"

section \<open>Properties of the checks\<close>

lemma validate_detector_entries_iff:
  "validate_detector_entries cfg ds = Ok () \<longleftrightarrow>
     (\<forall>(i, d) \<in> set ds. is_valid_hostname (s_hostname (dc_service d)) \<and>
        (dc_chunker_id d = DEFAULT_CHUNKER_ID \<or> config_chunker cfg (dc_chunker_id d) \<noteq> None))"
  by (induction ds) (auto simp: config_chunker_def split: option.splits if_splits)

lemma validate_chunker_entries_iff:
  "validate_chunker_entries cs = Ok () \<longleftrightarrow>
     (\<forall>(i, c) \<in> set cs. is_valid_hostname (s_hostname (ch_service c)))"
  by (induction cs) (auto split: if_splits)

definition tls_resolved :: "service_config \<Rightarrow> bool" where
  "tls_resolved s \<longleftrightarrow> (case s_tls s of Some (TlsName _) \<Rightarrow> False | _ \<Rightarrow> True)"

lemma apply_named_tls_config_resolved:
  "apply_named_tls_config t s = Ok s' \<Longrightarrow> tls_resolved s'"
  by (auto simp: apply_named_tls_config_def tls_resolved_def split: option.splits tls.splits)

lemma update_values_Ok:
  assumes "update_values f m = Ok m'"
  shows "list_all2 (\<lambda>(k, v) (k', v'). k' = k \<and> f v = Ok v') m m'"
proof -
  from assms have "list_all2 (\<lambda>e e'. (case e of (k, v) \<Rightarrow> res_map (Pair k) (f v)) = Ok e') m m'"
    by (simp add: update_values_def collect_results_map_Ok_iff)
  then show ?thesis by (rule list_all2_mono) auto
qed

lemma update_values_set:
  "update_values f m = Ok m' \<Longrightarrow> (k, v') \<in> set m' \<Longrightarrow> \<exists>v. (k, v) \<in> set m \<and> f v = Ok v'"
  by (drule update_values_Ok) (auto simp: list_all2_conv_all_nth set_conv_nth split: prod.splits; metis prod.collapse)

lemma update_values_map:
  assumes "update_values f m = Ok m'" and "\<And>v v'. f v = Ok v' \<Longrightarrow> g v' = g v"
  shows "map (\<lambda>(k, v). (k, g v)) m' = map (\<lambda>(k, v). (k, g v)) m"
  using update_values_Ok [OF assms(1)] assms(2) by (induction rule: list_all2_induct) auto

lemma update_option_Some:
  "update_option f x = Ok x' \<Longrightarrow> x' = Some y \<Longrightarrow> \<exists>z. x = Some z \<and> f z = Ok y"
  by (auto simp: update_option_def split: option.splits)

text \<open>
  A valid hostname neither starts nor ends with a dot or a hyphen, and around every dot there
  is a non-empty label that does not start or end with a hyphen (the conditions RFC 1123 gives).
\<close>

theorem valid_hostname_labels:
  assumes "is_valid_hostname h"
  shows "hd h \<notin> {CHR ''.'', CHR ''-''} \<and> last h \<notin> {CHR ''.'', CHR ''-''}
     \<and> (\<forall>xs ys. h = xs @ CHR ''.'' # ys \<longrightarrow>
           xs \<noteq> [] \<and> ys \<noteq> [] \<and> last xs \<noteq> CHR ''-'' \<and> hd ys \<noteq> CHR ''.'' \<and> hd ys \<noteq> CHR ''-'')"
proof (intro conjI allI impI)
  from assms have l: "list_all valid_label (split_on (CHR ''.'') h)" by (simp add: valid_hostname_iff)
  show "hd h \<notin> {CHR ''.'', CHR ''-''}" using labels_start [OF l] by simp
  show "last h \<notin> {CHR ''.'', CHR ''-''}" using labels_end [OF l] by simp
  fix xs ys assume "h = xs @ CHR ''.'' # ys"
  with l have parts: "list_all valid_label (split_on (CHR ''.'') xs)" "list_all valid_label (split_on (CHR ''.'') ys)"
    by (simp_all add: split_on_append_sep)
  from labels_end [OF parts(1)] show "xs \<noteq> []" "last xs \<noteq> CHR ''-''" by simp_all
  from labels_start [OF parts(2)] show "ys \<noteq> []" "hd ys \<noteq> CHR ''.''" "hd ys \<noteq> CHR ''-''" by simp_all
qed

theorem valid_hostname_labels_witness:
  "is_valid_hostname ''a-b.c'' \<and> hd ''a-b.c'' \<notin> {CHR ''.'', CHR ''-''} \<and> hd ''c'' \<noteq> CHR ''-''"
proof -
  have v: "is_valid_hostname ''a-b.c''" by code_simp
  have "''a-b.c'' = ''a-b'' @ CHR ''.'' # ''c''" by simp
  with valid_hostname_labels [OF v] v show ?thesis by blast
qed

text \<open>
  Validation accepts a configuration exactly when it has a detector, every service hostname it
  checks is valid, and every detector's chunker is the whole-document chunker or a configured one.
\<close>

theorem validate_config_correct:
  "validate_config cfg = Ok () \<longleftrightarrow>
     detectors cfg \<noteq> []
     \<and> (case generation cfg of None \<Rightarrow> True | Some g \<Rightarrow> is_valid_hostname (s_hostname (g_service g)))
     \<and> (case openai cfg of None \<Rightarrow> True | Some p \<Rightarrow> is_valid_hostname (s_hostname (o_service p)))
     \<and> list_all (\<lambda>(i, d). is_valid_hostname (s_hostname (dc_service d)) \<and>
          (dc_chunker_id d = DEFAULT_CHUNKER_ID \<or> (\<exists>c. config_chunker cfg (dc_chunker_id d) = Some c))) (detectors cfg)
     \<and> (case chunkers cfg of None \<Rightarrow> True
        | Some cs \<Rightarrow> list_all (\<lambda>(i, c). is_valid_hostname (s_hostname (ch_service c))) cs)"
  by (auto simp: validate_config_def validate_generation_config_def validate_openai_configs_def
      validate_detector_configs_def validate_chunker_configs_def validate_detector_entries_iff
      validate_chunker_entries_iff list_all_iff split: option.splits)

text \<open>
  When TLS entries are configured, resolution either fails or leaves no service of the generation,
  OpenAI, chunker and detector clients with a TLS name: each has its TLS settings or none.
\<close>

theorem apply_named_tls_configs_resolves:
  assumes "apply_named_tls_configs cfg = Ok cfg'" and "tls_configs cfg \<noteq> None"
  shows "(\<forall>g. generation cfg' = Some g \<longrightarrow> tls_resolved (g_service g))
     \<and> (\<forall>p. openai cfg' = Some p \<longrightarrow> tls_resolved (o_service p))
     \<and> (\<forall>cs i c. chunkers cfg' = Some cs \<longrightarrow> (i, c) \<in> set cs \<longrightarrow> tls_resolved (ch_service c))
     \<and> (\<forall>i d. (i, d) \<in> set (detectors cfg') \<longrightarrow> tls_resolved (dc_service d))"
proof -
  from assms(2) obtain t where t: "tls_configs cfg = Some t" by blast
  from assms(1) obtain gen oai chs dets where parts:
      "update_option (\<lambda>g. res_map (\<lambda>s. g\<lparr>g_service := s\<rparr>) (apply_named_tls_config t (g_service g)))
         (generation cfg) = Ok gen"
      "update_option (\<lambda>p. res_map (\<lambda>s. p\<lparr>o_service := s\<rparr>) (apply_named_tls_config t (o_service p)))
         (openai cfg) = Ok oai"
      "update_option (update_values (\<lambda>c. res_map (\<lambda>s. c\<lparr>ch_service := s\<rparr>)
         (apply_named_tls_config t (ch_service c)))) (chunkers cfg) = Ok chs"
      "update_values (\<lambda>d. res_map (\<lambda>s. d\<lparr>dc_service := s\<rparr>)
         (apply_named_tls_config t (dc_service d))) (detectors cfg) = Ok dets"
    and cfg': "cfg' = cfg\<lparr>generation := gen, openai := oai, chunkers := chs, detectors := dets\<rparr>"
    unfolding apply_named_tls_configs_def by (auto simp: t)
  note resolved = apply_named_tls_config_resolved
  have "tls_resolved (g_service g)" if "gen = Some g" for g
    using update_option_Some [OF parts(1) that] by (auto intro: resolved)
  moreover have "tls_resolved (o_service p)" if "oai = Some p" for p
    using update_option_Some [OF parts(2) that] by (auto intro: resolved)
  moreover have "tls_resolved (ch_service c)" if "chs = Some cs" "(i, c) \<in> set cs" for cs i c
  proof -
    from update_option_Some [OF parts(3) that(1)] obtain z where
      "update_values (\<lambda>c. res_map (\<lambda>s. c\<lparr>ch_service := s\<rparr>) (apply_named_tls_config t (ch_service c))) z = Ok cs"
      by blast
    from update_values_set [OF this that(2)] show ?thesis by (auto intro: resolved)
  qed
  moreover have "tls_resolved (dc_service d)" if "(i, d) \<in> set dets" for i d
    using update_values_set [OF parts(4) that] by (auto intro: resolved)
  ultimately show ?thesis by (auto simp: cfg')
qed

text \<open>A configuration with one detector whose service and health service name the TLS entry \<^verbatim>\<open>t\<close>.\<close>

definition tls_example_service :: service_config where
  "tls_example_service = (service_config_new ''host'' 80)\<lparr>s_tls := Some (TlsName ''t'')\<rparr>"

definition tls_example_config :: orchestrator_config where
  "tls_example_config = orchestrator_config_default\<lparr>
     detectors := [(''d'', \<lparr>dc_service = tls_example_service, dc_health_service = Some tls_example_service,
       dc_chunker_id = ''whole_doc_chunker'', dc_default_threshold = 0, dc_type = TextContents,
       dc_model_id = None\<rparr>)],
     tls_configs := Some [(''t'', \<lparr>tls_cert_path = None, tls_key_path = None,
       tls_client_ca_cert_path = None, tls_insecure = None\<rparr>)]\<rparr>"

lemmas tls_example_defs = tls_example_config_def tls_example_service_def orchestrator_config_default_def
  service_config_new_def apply_named_tls_configs_def apply_named_tls_config_def update_option_def
  update_values_def

theorem apply_named_tls_configs_resolves_witness:
  "\<exists>cfg'. apply_named_tls_configs tls_example_config = Ok cfg'
     \<and> (\<forall>(i, d) \<in> set (detectors cfg'). tls_resolved (dc_service d)) \<and> detectors cfg' \<noteq> []"
proof -
  obtain cfg' where ok: "apply_named_tls_configs tls_example_config = Ok cfg'" and ne: "detectors cfg' \<noteq> []"
    by (simp add: tls_example_defs)
  have "tls_configs tls_example_config \<noteq> None" by (simp add: tls_example_defs)
  from apply_named_tls_configs_resolves [OF ok this] ok ne show ?thesis by auto
qed

text \<open>
  The resolution step does not touch health services: a health service that names a TLS entry
  still names it afterwards.
\<close>

theorem health_services_keep_tls_names:
  assumes "apply_named_tls_configs cfg = Ok cfg'"
  shows "map_option o_health_service (openai cfg') = map_option o_health_service (openai cfg)
     \<and> map (\<lambda>(i, d). (i, dc_health_service d)) (detectors cfg') =
        map (\<lambda>(i, d). (i, dc_health_service d)) (detectors cfg)"
proof (cases "tls_configs cfg")
  case None
  with assms show ?thesis by (simp add: apply_named_tls_configs_def)
next
  case (Some t)
  with assms show ?thesis
    by (auto simp: apply_named_tls_configs_def update_option_def split: option.splits
        intro!: update_values_map)
qed

theorem health_services_keep_tls_names_witness:
  "\<exists>cfg'. apply_named_tls_configs tls_example_config = Ok cfg'
     \<and> map (\<lambda>(i, d). (i, dc_health_service d)) (detectors cfg') = [(''d'', Some tls_example_service)]"
proof -
  obtain cfg' where ok: "apply_named_tls_configs tls_example_config = Ok cfg'"
    by (simp add: tls_example_defs)
  from health_services_keep_tls_names [OF this] ok show ?thesis
    by (auto simp: tls_example_config_def orchestrator_config_default_def)
qed

end
