(* ===== verification/Common_Utils.thy ===== *)
theory Common_Utils
  imports Models Orch_Config
begin

text \<open>
  The helpers of \<^verbatim>\<open>src/orchestrator/common/utils.rs\<close>: slicing text by codepoints, applying masks, looking up the
  chunkers of detectors, validating the requested detectors, and the two groupings the completions
  handlers use. Arithmetic on \<^verbatim>\<open>usize\<close> is that of the release build, which wraps.
\<close>

section \<open>Orders of concurrent work\<close>

text \<open>
  The order in which concurrent requests complete, and the order in which a hash map is traversed, is not
  determined by the program. An \<open>order\<close> gives for \<open>n\<close> items the sequence of their positions; the
  definitions take it as an argument, and a legal one lists each position once.
\<close>

type_synonym order = "nat \<Rightarrow> nat list"

definition order_ok :: "order \<Rightarrow> bool" where
  "order_ok ord \<longleftrightarrow> (\<forall>n. mset (ord n) = mset [0..<n])"

definition reorder :: "order \<Rightarrow> 'a list \<Rightarrow> 'a list" where
  "reorder ord xs = map ((!) xs) (ord (length xs))"

definition in_order :: order where
  "in_order n = [0..<n]"

lemma order_ok_in_order [simp]: "order_ok in_order"
  by (simp add: order_ok_def in_order_def)

lemma order_ok_rev: "order_ok (\<lambda>n. rev [0..<n])"
  by (simp add: order_ok_def)

lemma reorder_in_order [simp]: "reorder in_order xs = xs"
  by (simp add: reorder_def in_order_def map_nth)

lemma mset_reorder: "order_ok ord \<Longrightarrow> mset (reorder ord xs) = mset xs"
proof -
  assume o: "order_ok ord"
  have "mset (reorder ord xs) = image_mset ((!) xs) (mset (ord (length xs)))" by (simp add: reorder_def)
  also have "mset (ord (length xs)) = mset [0..<length xs]" using o by (simp only: order_ok_def)
  also have "image_mset ((!) xs) (mset [0..<length xs]) = mset (map ((!) xs) [0..<length xs])" by (simp only: mset_map)
  also have "\<dots> = mset xs" by (simp only: map_nth)
  finally show ?thesis .
qed

lemma reorder_Nil: "order_ok ord \<Longrightarrow> reorder ord [] = []"
  using mset_reorder [of ord "[]"] by simp

lemma set_reorder: "order_ok ord \<Longrightarrow> set (reorder ord xs) = set xs"
  by (metis mset_reorder set_mset_mset)

lemma reorder_single: "order_ok ord \<Longrightarrow> reorder ord [x] = [x]"
  using mset_reorder [of ord "[x]"] by simp

lemma reorder_map: "order_ok ord \<Longrightarrow> reorder ord (map f xs) = map f (reorder ord xs)"
proof -
  assume "order_ok ord"
  then have "set (ord (length xs)) = {0..<length xs}" by (metis order_ok_def set_mset_mset set_upt)
  then show ?thesis by (auto simp: reorder_def)
qed

text \<open>\<^verbatim>\<open>buffer_unordered(n).try_collect()\<close>: results arrive in completion order, the first error ends the collection.\<close>

definition try_collect_unordered :: "order \<Rightarrow> ('e, 'a) res list \<Rightarrow> ('e, 'a list) res" where
  "try_collect_unordered ord rs = collect_results (reorder ord rs)"

fun un_ok :: "('e, 'a) res \<Rightarrow> 'a" where
  "un_ok (Ok x) = x"

lemma try_collect_unordered_Ok:
  assumes "order_ok ord" "try_collect_unordered ord rs = Ok xs"
  shows "\<exists>ys. rs = map Ok ys \<and> mset xs = mset ys"
proof -
  have "reorder ord rs = map Ok xs" using assms(2) by (simp add: try_collect_unordered_def collect_results_Ok_iff)
  then have m: "mset rs = image_mset Ok (mset xs)" using mset_reorder [OF assms(1), of rs] by simp
  have "\<forall>r \<in> set rs. \<exists>x. r = Ok x" using m by (metis imageE set_image_mset set_mset_mset)
  then obtain ys where "rs = map Ok ys" using collect_results_no_Err [of rs] by (auto simp: collect_results_Ok_iff)
  moreover have "mset xs = image_mset un_ok (mset rs)" by (simp add: m multiset.map_comp comp_def)
  then have "mset xs = mset ys" by (simp add: \<open>rs = map Ok ys\<close> multiset.map_comp comp_def)
  ultimately show ?thesis by blast
qed

lemma try_collect_unordered_all_Ok:
  assumes "order_ok ord"
  shows "\<exists>ys. try_collect_unordered ord (map Ok xs) = Ok ys \<and> mset ys = mset xs"
  using mset_reorder [OF assms, of xs]
  by (simp add: try_collect_unordered_def reorder_map [OF assms])

lemma try_collect_unordered_fails:
  assumes "order_ok ord" "\<forall>r \<in> set rs. r \<noteq> Panic" "Err e \<in> set rs"
  shows "\<exists>e. try_collect_unordered ord rs = Err e \<and> Err e \<in> set rs"
proof (cases "try_collect_unordered ord rs")
  case (Ok xs)
  from try_collect_unordered_Ok [OF assms(1) this] obtain ys where "rs = map Ok ys" by blast
  with assms(3) show ?thesis by auto
next
  case (Err e')
  then have "Err e' \<in> set (reorder ord rs)" unfolding try_collect_unordered_def by (rule collect_results_Err_in)
  then have "Err e' \<in> set rs" by (simp only: set_reorder [OF assms(1)])
  with Err show ?thesis by simp
next
  case Panic
  have "collect_results ss = Panic \<Longrightarrow> Panic \<in> set ss" for ss :: "('a, 'b) res list"
  proof (induction ss)
    case (Cons s ss)
    then show ?case by (cases s; cases "collect_results ss") auto
  qed simp
  with Panic have "Panic \<in> set (reorder ord rs)" by (auto simp: try_collect_unordered_def)
  with assms(2) show ?thesis using set_reorder [OF assms(1), of rs] by auto
qed

section \<open>Text\<close>

definition usize_add :: "nat \<Rightarrow> nat \<Rightarrow> nat" where
  "usize_add a b = (a + b) mod 2 ^ 64"

definition usize_wrapping_sub :: "nat \<Rightarrow> nat \<Rightarrow> nat" where
  "usize_wrapping_sub a b = (if b \<le> a then a - b else a + 2 ^ 64 - b)"

lemma usize_add_small [simp]: "a + b < 2 ^ 64 \<Longrightarrow> usize_add a b = a + b"
  by (simp add: usize_add_def)

definition slice_codepoints :: "string \<Rightarrow> nat \<Rightarrow> nat \<Rightarrow> string" where
  "slice_codepoints text start end' =
     (let len = usize_wrapping_sub end' start in concat (take len (drop start (chars text))))"

definition apply_masks :: "string \<Rightarrow> (nat \<times> nat) list option \<Rightarrow> (nat \<times> string) list" where
  "apply_masks text masks =
     (case masks of
        None \<Rightarrow> [(0, text)]
      | Some [] \<Rightarrow> [(0, text)]
      | Some ms \<Rightarrow> map (\<lambda>(start, end'). (start, slice_codepoints text start end')) ms)"

text \<open>A Rust string is valid UTF-8: it does not start inside of a codepoint.\<close>

definition utf8_ok :: "string \<Rightarrow> bool" where
  "utf8_ok s \<longleftrightarrow> (s \<noteq> [] \<longrightarrow> \<not> is_continuation (hd s))"

lemma utf8_ok_dropWhile: "utf8_ok (dropWhile is_continuation cs)"
  by (simp add: utf8_ok_def hd_dropWhile)

definition codepoint :: "string \<Rightarrow> bool" where
  "codepoint c \<longleftrightarrow> c \<noteq> [] \<and> \<not> is_continuation (hd c) \<and> (\<forall>b \<in> set (tl c). is_continuation b)"

lemma chars_codepoints: "utf8_ok s \<Longrightarrow> c \<in> set (chars s) \<Longrightarrow> codepoint c"
proof (induction s rule: chars.induct)
  case (2 b cs)
  then consider "c = b # takeWhile is_continuation cs" | "c \<in> set (chars (dropWhile is_continuation cs))"
    by (auto simp: chars.simps(2))
  then show ?case
  proof cases
    case 1
    then show ?thesis using 2(2) by (auto simp: codepoint_def utf8_ok_def dest: set_takeWhileD)
  next
    case 2
    then show ?thesis using "2.IH" utf8_ok_dropWhile by blast
  qed
qed simp

declare chars.simps(2) [simp del]

lemma chars_concat: "\<forall>c \<in> set cs. codepoint c \<Longrightarrow> chars (concat cs) = cs"
proof (induction cs)
  case (Cons c cs)
  obtain b bs where c: "c = b # bs" "\<forall>x \<in> set bs. is_continuation x" using Cons.prems by (cases c) (auto simp: codepoint_def)
  have "utf8_ok (concat cs)" using Cons.prems by (cases cs) (auto simp: utf8_ok_def codepoint_def)
  then have "takeWhile is_continuation (concat cs) = [] \<and> dropWhile is_continuation (concat cs) = concat cs"
    unfolding utf8_ok_def by (cases "concat cs") (simp_all del: concat_eq_Nil_conv)
  with c Cons.IH Cons.prems show ?case by (simp add: chars.simps(2) takeWhile_append2 dropWhile_append2)
qed simp

lemma chars_slice:
  assumes "utf8_ok text" "start \<le> end'"
  shows "chars (slice_codepoints text start end') = take (end' - start) (drop start (chars text))"
proof -
  have "\<forall>c \<in> set (take (end' - start) (drop start (chars text))). codepoint c"
    using chars_codepoints [OF assms(1)] by (meson in_set_dropD in_set_takeD)
  from chars_concat [OF this] assms(2) show ?thesis by (simp add: slice_codepoints_def usize_wrapping_sub_def)
qed

section \<open>Detectors\<close>

definition get_chunker_ids :: "orchestrator_config \<Rightarrow> detector_map \<Rightarrow> (error, string list) res" where
  "get_chunker_ids cfg ds =
     collect_results (map (\<lambda>(detector_id, _). ok_or (DetectorNotFound detector_id) (get_chunker_id cfg detector_id)) ds)"

fun validate_detectors ::
  "detector_map \<Rightarrow> (string, detector_config) hashmap \<Rightarrow> detector_type list \<Rightarrow> bool \<Rightarrow> (error, unit) res" where
  "validate_detectors [] cfgs types whole_doc = Ok ()"
| "validate_detectors ((detector_id, params) # ds) cfgs types whole_doc =
     (case hm_get cfgs detector_id of
        Some cfg \<Rightarrow>
          if dc_type cfg \<notin> set types
          then Err (Validation (''detector `'' @ detector_id @ ''` is not supported by this endpoint''))
          else if \<not> whole_doc \<and> dc_chunker_id cfg = DEFAULT_CHUNKER_ID
          then Err (Validation (''detector `'' @ detector_id @ ''` uses chunker `whole_doc_chunker`, which is not supported by this endpoint''))
          else validate_detectors ds cfgs types whole_doc
      | None \<Rightarrow> Err (DetectorNotFound detector_id))"

text \<open>\<^verbatim>\<open>entry(k)\<close> of a hash map: apply \<open>f\<close> to the value where occupied, else insert \<open>v\<close>.\<close>

fun hm_entry :: "'k \<Rightarrow> 'v \<Rightarrow> ('v \<Rightarrow> 'v) \<Rightarrow> ('k, 'v) hashmap \<Rightarrow> ('k, 'v) hashmap" where
  "hm_entry k v f [] = [(k, v)]"
| "hm_entry k v f ((k', v') # m) = (if k = k' then (k', f v') # m else (k', v') # hm_entry k v f m)"

lemma hm_get_entry: "hm_get (hm_entry k v f m) =
  (hm_get m)(k \<mapsto> (case hm_get m k of Some w \<Rightarrow> f w | None \<Rightarrow> v))"
  by (induction m) (auto simp: fun_eq_iff)

lemma hm_keys_entry: "fst ` set (hm_entry k v f m) = insert k (fst ` set m)"
proof (induction m)
  case (Cons e m)
  then show ?case by (cases e) (auto split: if_splits)
qed simp

lemma hm_wf_entry: "hm_wf m \<Longrightarrow> hm_wf (hm_entry k v f m)"
proof (induction m)
  case (Cons e m)
  then show ?case using hm_keys_entry [of k v f m] by (cases e) (auto simp: hm_wf_def)
qed (simp add: hm_wf_def)

fun group_detectors_from ::
  "orchestrator_config \<Rightarrow> detector_map \<Rightarrow> (detector_type, detector_map) hashmap
     \<Rightarrow> (error, (detector_type, detector_map) hashmap) res" where
  "group_detectors_from cfg [] groups = Ok groups"
| "group_detectors_from cfg ((detector_id, params) # ds) groups =
     res_bind (unwrap (config_detector cfg detector_id)) (\<lambda>d.
       group_detectors_from cfg ds
         (hm_entry (dc_type d) [(detector_id, params)] (hm_insert detector_id params) groups))"

definition group_detectors_by_type ::
  "orchestrator_config \<Rightarrow> detector_map \<Rightarrow> (error, (detector_type, detector_map) hashmap) res" where
  "group_detectors_by_type cfg ds = group_detectors_from cfg ds []"

definition group_detections_by_choice ::
  "(u32 \<times> detector_type \<times> detection list) list \<Rightarrow> (u32, detection list) hashmap" where
  "group_detections_by_choice xs = fold (\<lambda>(choice_index, _, ds) m.
     if ds = [] then m else hm_entry choice_index ds (\<lambda>old. old @ ds) m) xs []"

section \<open>Properties\<close>

lemma validate_detectors_iff:
  "validate_detectors ds cfgs types whole_doc = Ok () \<longleftrightarrow>
     (\<forall>(i, ps) \<in> set ds. \<exists>c. hm_get cfgs i = Some c \<and> dc_type c \<in> set types
        \<and> (whole_doc \<or> dc_chunker_id c \<noteq> DEFAULT_CHUNKER_ID))"
  by (induction ds cfgs types whole_doc rule: validate_detectors.induct) (auto split: option.splits)

lemma validate_detectors_cases:
  "validate_detectors ds cfgs types whole_doc = Ok () \<or> (\<exists>e. validate_detectors ds cfgs types whole_doc = Err e
     \<and> ((\<exists>i. e = DetectorNotFound i) \<or> (\<exists>m. e = Validation m)))"
  by (induction ds cfgs types whole_doc rule: validate_detectors.induct) (auto split: option.splits)

lemma validate_detectors_append:
  "validate_detectors (ds @ ds') cfgs types w = Ok () \<longleftrightarrow>
     validate_detectors ds cfgs types w = Ok () \<and> validate_detectors ds' cfgs types w = Ok ()"
  by (auto simp: validate_detectors_iff)

lemma get_chunker_ids_Ok:
  assumes "get_chunker_ids cfg ds = Ok cs" "(i, ps) \<in> set ds"
  shows "\<exists>d. config_detector cfg i = Some d \<and> dc_chunker_id d \<in> set cs"
proof -
  from assms(1) have "list_all2 (\<lambda>(i, _) c. get_chunker_id cfg i = Some c) ds cs"
    by (auto simp: get_chunker_ids_def collect_results_map_Ok_iff case_prod_unfold)
  with assms(2) obtain c where "c \<in> set cs" "get_chunker_id cfg i = Some c"
    by (auto simp: list_all2_conv_all_nth in_set_conv_nth case_prod_unfold) (metis fst_conv)
  then show ?thesis by (auto simp: get_chunker_id_def config_detector_def)
qed

lemma get_chunker_ids_validated:
  "validate_detectors ds (detectors cfg) types w = Ok () \<Longrightarrow>
   get_chunker_ids cfg ds = Ok (map (\<lambda>(i, _). dc_chunker_id (the (hm_get (detectors cfg) i))) ds)"
  by (auto simp: get_chunker_ids_def collect_results_map_Ok_iff validate_detectors_iff get_chunker_id_def
      list_all2_conv_all_nth all_set_conv_all_nth split: prod.splits) (metis option.sel)

text \<open>The detectors of one type, and the detections of one choice.\<close>

lemma group_detectors_from_Ok:
  assumes "group_detectors_from cfg ds g = Ok g'" "hm_wf ds" "\<forall>t m. hm_get g t = Some m \<longrightarrow> fst ` set m \<inter> fst ` set ds = {}"
  shows "\<forall>t i. (case hm_get g' t of None \<Rightarrow> None | Some m \<Rightarrow> hm_get m i) =
    (case hm_get ds i of
       Some ps \<Rightarrow> (if map_option dc_type (config_detector cfg i) = Some t then Some ps
                   else (case hm_get g t of None \<Rightarrow> None | Some m \<Rightarrow> hm_get m i))
     | None \<Rightarrow> (case hm_get g t of None \<Rightarrow> None | Some m \<Rightarrow> hm_get m i))"
  using assms
proof (induction cfg ds g arbitrary: g' rule: group_detectors_from.induct)
  case (2 cfg i0 ps0 ds g)
  then obtain d where d: "config_detector cfg i0 = Some d"
    and g': "group_detectors_from cfg ds (hm_entry (dc_type d) [(i0, ps0)] (hm_insert i0 ps0) g) = Ok g'" by auto
  let ?g = "hm_entry (dc_type d) [(i0, ps0)] (hm_insert i0 ps0) g"
  have ins: "fst ` set (hm_insert i0 ps0 m) = insert i0 (fst ` set m)" for m
    by (metis dom_map_of_conv_image_fst hm_get_insert dom_fun_upd option.distinct(1))
  have i0: "i0 \<notin> fst ` set ds" "hm_wf ds" using 2(3) by (auto simp: hm_wf_def)
  have "\<forall>t m. hm_get ?g t = Some m \<longrightarrow> fst ` set m \<inter> fst ` set ds = {}"
    using 2(4) i0 by (auto simp: hm_get_entry ins split: if_splits option.splits)
  note IH = 2(1) [OF g' i0(2) this]
  have "hm_get ds i0 = None" using i0 by (simp add: map_of_eq_None_iff)
  moreover have "hm_get m i0 = None" if "hm_get g t = Some m" for t m
    using 2(4) that by (force simp: map_of_eq_None_iff)
  ultimately show ?case
    unfolding IH [rule_format] using d
    by (auto simp: hm_get_entry split: option.splits)
qed simp

lemma group_detectors_by_type_get:
  assumes "group_detectors_by_type cfg ds = Ok g" "hm_wf ds"
  shows "(case hm_get g t of None \<Rightarrow> None | Some m \<Rightarrow> hm_get m i) =
    (if map_option dc_type (config_detector cfg i) = Some t then hm_get ds i else None)"
  using group_detectors_from_Ok [of cfg ds "[]" g] assms
  by (auto simp: group_detectors_by_type_def split: option.splits)

definition choice_detections :: "u32 \<Rightarrow> (u32 \<times> detector_type \<times> detection list) list \<Rightarrow> detection list" where
  "choice_detections i xs = concat [ds. (j, t, ds) \<leftarrow> xs, j = i]"

lemma group_detections_by_choice_get:
  "hm_get (group_detections_by_choice xs) i =
     (let ds = choice_detections i xs in if ds = [] then None else Some ds)"
proof -
  have "hm_get (fold (\<lambda>(j, _, ds) m. if ds = [] then m else hm_entry j ds (\<lambda>old. old @ ds) m) xs m) i =
      (let ds = choice_detections i xs in case hm_get m i of
          None \<Rightarrow> (if ds = [] then None else Some ds) | Some old \<Rightarrow> Some (old @ ds))" for m
  proof (induction xs arbitrary: m)
    case (Cons x xs)
    obtain j t ds where x: "x = (j, t, ds)" by (cases x)
    have "choice_detections i (x # xs) = (if j = i then ds else []) @ choice_detections i xs"
      by (simp add: choice_detections_def x)
    then show ?case by (simp add: Cons.IH x hm_get_entry Let_def split: option.splits)
  qed (simp add: choice_detections_def split: option.splits)
  from this [of "[]"] show ?thesis by (simp add: group_detections_by_choice_def)
qed

lemma group_detections_by_choice_wf: "hm_wf (group_detections_by_choice xs)"
proof -
  have "hm_wf m \<Longrightarrow> hm_wf (fold (\<lambda>(j, _, ds) m. if ds = [] then m else hm_entry j ds (\<lambda>old. old @ ds) m) xs m)" for m
    by (induction xs arbitrary: m) (auto simp: hm_wf_entry)
  then show ?thesis by (simp add: group_detections_by_choice_def)
qed

declare validate_detectors.simps(2) [simp del]

end
