(* ===== verification/Tasks.thy ===== *)
theory Tasks
  imports Common_Utils "HOL-Library.Option_ord"
begin

text \<open>
  The request helpers (\<^verbatim>\<open>src/orchestrator/common/client.rs\<close>) and the detection tasks
  (\<^verbatim>\<open>src/orchestrator/common/tasks.rs\<close>): chunking of the inputs, detection by every requested detector,
  thresholds, and the order of the results.
\<close>

section \<open>Context and services\<close>

text \<open>
  A client of the client map (\<^verbatim>\<open>src/clients.rs\<close>); \<^verbatim>\<open>ClientMap::get::<V>\<close> returns a client only if it has the
  type asked for.
\<close>

datatype client = ChunkerClient | DetectorClient | GenerationClient | OpenAiClient

type_synonym client_map = "(string, client) hashmap"

definition get_client :: "client \<Rightarrow> client_map \<Rightarrow> string \<Rightarrow> client option" where
  "get_client v m key = (case hm_get m key of Some c \<Rightarrow> if c = v then Some c else None | None \<Rightarrow> None)"

record orch_context =
  ctx_config :: orchestrator_config
  ctx_clients :: client_map

text \<open>HTTP headers, in order; \<^verbatim>\<open>append\<close> keeps the values already there.\<close>

type_synonym headers = "(string \<times> string) list"

definition headers_append :: "string \<Rightarrow> string \<Rightarrow> headers \<Rightarrow> headers" where
  "headers_append k v hs = hs @ [(k, v)]"

text \<open>
  The services the orchestrator calls: for each client method, what the service answers to a
  request. The services are parameters of the model.
  The chunker's bidirectional stream answers the sequence of its requests; the flag says that the request stream
  broke instead of ending.
\<close>

record services =
  sv_tokenization_task :: "string \<Rightarrow> string \<Rightarrow> client_error + pb_token list"
  sv_text_contents :: "string \<Rightarrow> string list \<Rightarrow> detector_params \<Rightarrow> headers
    \<Rightarrow> client_error + content_analysis_response list list"
  sv_text_generation :: "string \<Rightarrow> string \<Rightarrow> string \<Rightarrow> detector_params \<Rightarrow> headers \<Rightarrow> client_error + detection_result list"
  sv_text_chat :: "string \<Rightarrow> message list \<Rightarrow> tool list \<Rightarrow> detector_params \<Rightarrow> headers \<Rightarrow> client_error + detection_result list"
  sv_text_context_doc :: "string \<Rightarrow> string \<Rightarrow> context_type \<Rightarrow> string list \<Rightarrow> detector_params \<Rightarrow> headers
    \<Rightarrow> client_error + detection_result list"
  sv_chat_completions :: "chat_completions_request \<Rightarrow> headers \<Rightarrow> client_error + chat_completions_response"
  sv_completions :: "completions_request \<Rightarrow> headers \<Rightarrow> client_error + completions_response"
  sv_openai_tokenize :: "tokenize_request \<Rightarrow> headers \<Rightarrow> client_error + tokenize_response"
  sv_tokenize :: "string \<Rightarrow> string \<Rightarrow> headers \<Rightarrow> client_error + (u32 \<times> string list)"
  sv_generate :: "string \<Rightarrow> string \<Rightarrow> text_generation_parameters option \<Rightarrow> headers
    \<Rightarrow> client_error + classified_generated_text_result"
  sv_generate_stream :: "string \<Rightarrow> string \<Rightarrow> text_generation_parameters option \<Rightarrow> headers
    \<Rightarrow> client_error + (client_error + classified_generated_text_stream_result) list"
  sv_bidi_tokenization :: "string \<Rightarrow> (string \<times> int) list \<Rightarrow> bool
    \<Rightarrow> client_error + (client_error + pb_stream_result) list"

fun of_sum :: "('c \<Rightarrow> 'e) \<Rightarrow> 'c + 'a \<Rightarrow> ('e, 'a) res" where
  "of_sum f (Inl c) = Err (f c)"
| "of_sum f (Inr x) = Ok x"

lemma of_sum_Ok_iff [simp]: "of_sum f x = Ok y \<longleftrightarrow> x = Inr y"
  by (cases x) auto

lemma of_sum_not_Panic [simp]: "of_sum f x \<noteq> Panic"
  by (cases x) auto

section \<open>Requests\<close>

definition chunk_request :: "services \<Rightarrow> string \<Rightarrow> string \<Rightarrow> (error, chunk list) res" where
  "chunk_request sv chunker_id text =
     res_map chunks_of_tokenization_results
       (of_sum (ChunkerRequestFailed chunker_id) (sv_tokenization_task sv chunker_id text))"

definition located :: "string \<Rightarrow> bool \<Rightarrow> chunk \<Rightarrow> content_analysis_response \<Rightarrow> detection" where
  "located detector_id apply_chunk_offset c r =
     (let d = (detection_of_content r)\<lparr>d_detector_id := Some detector_id\<rparr> in
      if apply_chunk_offset
      then d\<lparr>d_start := map_option (\<lambda>s. usize_add s (c_start c)) (d_start d),
             d_end := map_option (\<lambda>e. usize_add e (c_start c)) (d_end d)\<rparr>
      else d)"

definition detect_text_contents ::
  "services \<Rightarrow> headers \<Rightarrow> string \<Rightarrow> detector_params \<Rightarrow> chunk list \<Rightarrow> bool \<Rightarrow> (error, detection list) res" where
  "detect_text_contents sv hs detector_id params cs apply_chunk_offset =
     (let contents = map c_text cs in
      if contents = [] then Ok []
      else res_bind (of_sum (DetectorRequestFailed detector_id) (sv_text_contents sv detector_id contents params hs))
        (\<lambda>response. Ok (concat (map (\<lambda>(c, ds). map (located detector_id apply_chunk_offset c) ds) (zip cs response)))))"

definition attributed :: "string \<Rightarrow> detection_result \<Rightarrow> detection" where
  "attributed detector_id r = (detection_of_result r)\<lparr>d_detector_id := Some detector_id\<rparr>"

definition detect_text_generation ::
  "services \<Rightarrow> headers \<Rightarrow> string \<Rightarrow> detector_params \<Rightarrow> string \<Rightarrow> string \<Rightarrow> (error, detection list) res" where
  "detect_text_generation sv hs detector_id params prompt generated_text =
     res_map (map (attributed detector_id))
       (of_sum (DetectorRequestFailed detector_id) (sv_text_generation sv detector_id prompt generated_text params hs))"

definition detect_text_chat ::
  "services \<Rightarrow> headers \<Rightarrow> string \<Rightarrow> detector_params \<Rightarrow> message list \<Rightarrow> tool list \<Rightarrow> (error, detection list) res" where
  "detect_text_chat sv hs detector_id params messages tools =
     res_map (map (attributed detector_id))
       (of_sum (DetectorRequestFailed detector_id) (sv_text_chat sv detector_id messages tools params hs))"

definition detect_text_context ::
  "services \<Rightarrow> headers \<Rightarrow> string \<Rightarrow> detector_params \<Rightarrow> string \<Rightarrow> context_type \<Rightarrow> string list
     \<Rightarrow> (error, detection list) res" where
  "detect_text_context sv hs detector_id params content context_type context =
     res_map (map (attributed detector_id))
       (of_sum (DetectorRequestFailed detector_id)
          (sv_text_context_doc sv detector_id content context_type context params hs))"

definition json_headers :: "headers \<Rightarrow> headers" where
  "json_headers hs = headers_append ''content-type'' ''application/json'' hs"

definition chat_completion_call ::
  "services \<Rightarrow> headers \<Rightarrow> chat_completions_request \<Rightarrow> (error, chat_completions_response) res" where
  "chat_completion_call sv hs request =
     of_sum (ChatCompletionRequestFailed (cr_model request)) (sv_chat_completions sv request (json_headers hs))"

text \<open>Streams are numbered by \<^verbatim>\<open>enumerate()\<close>; a unary answer to a stream request is \<^verbatim>\<open>unimplemented!()\<close>.\<close>

definition chat_completion_stream ::
  "services \<Rightarrow> headers \<Rightarrow> chat_completions_request
     \<Rightarrow> (error, (nat \<times> (error + chat_completion_chunk option)) list) res" where
  "chat_completion_stream sv hs request =
     res_bind (of_sum (ChatCompletionRequestFailed (cr_model request)) (sv_chat_completions sv request (json_headers hs)))
       (\<lambda>response. case response of ChatStreaming rx \<Rightarrow> Ok (List.enumerate 0 rx) | ChatUnary _ \<Rightarrow> Panic)"

definition completion_call ::
  "services \<Rightarrow> headers \<Rightarrow> completions_request \<Rightarrow> (error, completions_response) res" where
  "completion_call sv hs request =
     of_sum (CompletionRequestFailed (pr_model request)) (sv_completions sv request (json_headers hs))"

definition completion_stream ::
  "services \<Rightarrow> headers \<Rightarrow> completions_request \<Rightarrow> (error, (nat \<times> (error + completion option)) list) res" where
  "completion_stream sv hs request =
     res_bind (of_sum (CompletionRequestFailed (pr_model request)) (sv_completions sv request (json_headers hs)))
       (\<lambda>response. case response of CompletionStreaming rx \<Rightarrow> Ok (List.enumerate 0 rx) | CompletionUnary _ \<Rightarrow> Panic)"

definition tokenize_openai :: "services \<Rightarrow> headers \<Rightarrow> tokenize_request \<Rightarrow> (error, tokenize_response) res" where
  "tokenize_openai sv hs request =
     of_sum (TokenizeRequestFailed (tr_model request)) (sv_openai_tokenize sv request (json_headers hs))"

definition tokenize :: "services \<Rightarrow> headers \<Rightarrow> string \<Rightarrow> string \<Rightarrow> (error, u32 \<times> string list) res" where
  "tokenize sv hs model_id text = of_sum (TokenizeRequestFailed model_id) (sv_tokenize sv model_id text hs)"

definition generate ::
  "services \<Rightarrow> headers \<Rightarrow> string \<Rightarrow> string \<Rightarrow> text_generation_parameters option
     \<Rightarrow> (error, classified_generated_text_result) res" where
  "generate sv hs model_id text params =
     of_sum (GenerateRequestFailed model_id) (sv_generate sv model_id text params hs)"

definition generate_stream ::
  "services \<Rightarrow> headers \<Rightarrow> string \<Rightarrow> string \<Rightarrow> text_generation_parameters option
     \<Rightarrow> (error, (nat \<times> (error + classified_generated_text_stream_result)) list) res" where
  "generate_stream sv hs model_id text params =
     res_map (\<lambda>msgs. List.enumerate 0 (map (map_sum (GenerateRequestFailed model_id) id) msgs))
       (of_sum (GenerateRequestFailed model_id) (sv_generate_stream sv model_id text params hs))"

section \<open>Tasks\<close>

text \<open>A spawned task that panics is reported as an error when it is joined; \<open>msg\<close> is the panic message.\<close>

fun join :: "string \<Rightarrow> (error, 'a) res \<Rightarrow> (error, 'a) res" where
  "join msg (Ok x) = Ok x"
| "join msg (Err e) = Err e"
| "join msg Panic = Err (Other (''task panicked: '' @ msg))"

definition whole_doc_chunk :: "nat \<Rightarrow> string \<Rightarrow> chunk list" where
  "whole_doc_chunk offset text =
     [chunk_default\<lparr>c_start := offset, c_end := usize_add (length (chars text)) offset, c_text := text\<rparr>]"

definition shift_chunk :: "nat \<Rightarrow> chunk \<Rightarrow> chunk" where
  "shift_chunk offset c = c\<lparr>c_start := usize_add (c_start c) offset, c_end := usize_add (c_end c) offset\<rparr>"

definition chunk_input ::
  "services \<Rightarrow> orch_context \<Rightarrow> string \<Rightarrow> nat \<times> string \<Rightarrow> (error, chunk list) res" where
  "chunk_input sv ctx chunker_id = (\<lambda>(offset, text).
     if chunker_id = DEFAULT_CHUNKER_ID then Ok (whole_doc_chunk offset text)
     else res_bind (ok_or (ChunkerNotFound chunker_id) (get_client ChunkerClient (ctx_clients ctx) chunker_id)) (\<lambda>_.
       res_map (map (shift_chunk offset)) (chunk_request sv chunker_id text)))"

text \<open>\<open>ord c\<close> is the order in which the requests of chunker \<open>c\<close> complete.\<close>

definition chunks ::
  "services \<Rightarrow> orch_context \<Rightarrow> (string \<Rightarrow> order) \<Rightarrow> string list \<Rightarrow> (nat \<times> string) list
     \<Rightarrow> (error, (string, chunk list) hashmap) res" where
  "chunks sv ctx ord chunker_ids inputs =
     (if inputs = [] then Ok []
      else res_map hm_collect (collect_results (map (\<lambda>chunker_id.
        join [] (res_map (\<lambda>css. (chunker_id, concat css))
          (try_collect_unordered (ord chunker_id) (map (chunk_input sv ctx chunker_id) inputs)))) chunker_ids)))"

text \<open>The threshold of a detector: the request's parameter, else the configured default.\<close>

definition take_threshold ::
  "orch_context \<Rightarrow> string \<Rightarrow> detector_params \<Rightarrow> (error, f64 \<times> detector_params) res" where
  "take_threshold ctx detector_id params =
     res_map (\<lambda>cfg. case pop_threshold params of (t, ps) \<Rightarrow> (unwrap_or (dc_default_threshold cfg) t, ps))
       (unwrap (config_detector (ctx_config ctx) detector_id))"

definition detector_request ::
  "orch_context \<Rightarrow> string \<Rightarrow> detector_params \<Rightarrow> (detector_params \<Rightarrow> (error, detection list) res)
     \<Rightarrow> (error, detection list) res" where
  "detector_request ctx detector_id params send =
     res_bind (take_threshold ctx detector_id params) (\<lambda>(threshold, ps).
     res_bind (unwrap (get_client DetectorClient (ctx_clients ctx) detector_id)) (\<lambda>_.
     res_map (filter (\<lambda>d. threshold \<le> d_score d)) (send ps)))"

definition text_contents_detections ::
  "services \<Rightarrow> orch_context \<Rightarrow> (string \<Rightarrow> order) \<Rightarrow> order \<Rightarrow> headers \<Rightarrow> detector_map \<Rightarrow> (nat \<times> string) list
     \<Rightarrow> (error, detection list) res" where
  "text_contents_detections sv ctx cord dord hs ds inputs =
     res_bind (get_chunker_ids (ctx_config ctx) ds) (\<lambda>chunker_ids.
     res_bind (chunks sv ctx cord chunker_ids inputs) (\<lambda>chunk_map.
     res_bind (collect_results (map (\<lambda>(detector_id, params).
         res_bind (ok_or (DetectorNotFound detector_id) (config_detector (ctx_config ctx) detector_id)) (\<lambda>cfg.
         res_map (\<lambda>cs. (detector_id, params, cs)) (unwrap (hm_get chunk_map (dc_chunker_id cfg))))) ds)) (\<lambda>reqs.
     res_map (\<lambda>results. sort_key d_start (concat results))
       (try_collect_unordered dord (map (\<lambda>(detector_id, params, cs).
          detector_request ctx detector_id params (\<lambda>ps. detect_text_contents sv hs detector_id ps cs True)) reqs)))))"

definition text_generation_detections ::
  "services \<Rightarrow> orch_context \<Rightarrow> order \<Rightarrow> headers \<Rightarrow> detector_map \<Rightarrow> string \<Rightarrow> string \<Rightarrow> (error, detection list) res" where
  "text_generation_detections sv ctx dord hs ds prompt generated_text =
     res_map concat (try_collect_unordered dord (map (\<lambda>(detector_id, params).
       detector_request ctx detector_id params (\<lambda>ps. detect_text_generation sv hs detector_id ps prompt generated_text)) ds))"

definition text_chat_detections ::
  "services \<Rightarrow> orch_context \<Rightarrow> order \<Rightarrow> headers \<Rightarrow> detector_map \<Rightarrow> message list \<Rightarrow> tool list
     \<Rightarrow> (error, detection list) res" where
  "text_chat_detections sv ctx dord hs ds messages tools =
     res_map concat (try_collect_unordered dord (map (\<lambda>(detector_id, params).
       detector_request ctx detector_id params (\<lambda>ps. detect_text_chat sv hs detector_id ps messages tools)) ds))"

definition text_context_detections ::
  "services \<Rightarrow> orch_context \<Rightarrow> order \<Rightarrow> headers \<Rightarrow> detector_map \<Rightarrow> string \<Rightarrow> context_type \<Rightarrow> string list
     \<Rightarrow> (error, detection list) res" where
  "text_context_detections sv ctx dord hs ds content context_type context =
     res_map concat (try_collect_unordered dord (map (\<lambda>(detector_id, params).
       detector_request ctx detector_id params (\<lambda>ps. detect_text_context sv hs detector_id ps content context_type context)) ds))"

section \<open>Results of the tasks\<close>

text \<open>Every configured detector has a client.\<close>

definition ctx_ok :: "orch_context \<Rightarrow> bool" where
  "ctx_ok ctx \<longleftrightarrow> (\<forall>i d. config_detector (ctx_config ctx) i = Some d \<longrightarrow>
     get_client DetectorClient (ctx_clients ctx) i \<noteq> None)"

text \<open>The threshold that applies to a detector.\<close>

definition threshold_of :: "orch_context \<Rightarrow> string \<Rightarrow> detector_params \<Rightarrow> f64" where
  "threshold_of ctx i ps = (case fst (pop_threshold ps) of
     Some t \<Rightarrow> t
   | None \<Rightarrow> (case config_detector (ctx_config ctx) i of Some d \<Rightarrow> dc_default_threshold d | None \<Rightarrow> 0))"

lemma detector_request_Ok:
  "detector_request ctx i ps send = Ok r \<longleftrightarrow>
     config_detector (ctx_config ctx) i \<noteq> None \<and> get_client DetectorClient (ctx_clients ctx) i \<noteq> None
     \<and> (\<exists>ds. send (snd (pop_threshold ps)) = Ok ds \<and> r = filter (\<lambda>d. threshold_of ctx i ps \<le> d_score d) ds)"
  by (cases "pop_threshold ps"; cases "config_detector (ctx_config ctx) i")
    (auto simp: detector_request_def take_threshold_def threshold_of_def split: option.splits)

lemma res_map_Panic_iff [simp]: "res_map f r = Panic \<longleftrightarrow> r = Panic"
  by (cases r) auto

lemma detector_request_not_Panic:
  assumes "ctx_ok ctx" "config_detector (ctx_config ctx) i \<noteq> None" "\<And>ps. send ps \<noteq> Panic"
  shows "detector_request ctx i ps send \<noteq> Panic"
proof -
  obtain d where d: "config_detector (ctx_config ctx) i = Some d" using assms(2) by blast
  then obtain c where "get_client DetectorClient (ctx_clients ctx) i = Some c" using assms(1) by (auto simp: ctx_ok_def)
  with d assms(3) show ?thesis
    by (simp add: detector_request_def take_threshold_def case_prod_unfold)
qed

lemma collect_results_not_Panic: "Panic \<notin> set rs \<Longrightarrow> collect_results rs \<noteq> Panic"
proof (induction rs)
  case (Cons r rs)
  then show ?case by (cases r; cases "collect_results rs") auto
qed simp

lemma try_collect_unordered_not_Panic:
  "order_ok ord \<Longrightarrow> Panic \<notin> set rs \<Longrightarrow> try_collect_unordered ord rs \<noteq> Panic"
  by (simp add: try_collect_unordered_def collect_results_not_Panic set_reorder)

lemma res_bind_Panic_iff: "res_bind r f = Panic \<longleftrightarrow> r = Panic \<or> (\<exists>x. r = Ok x \<and> f x = Panic)"
  by (cases r) auto

lemma join_not_Panic [simp]: "join msg r \<noteq> Panic"
  by (cases r) auto

lemma join_Ok_iff [simp]: "join msg r = Ok x \<longleftrightarrow> r = Ok x"
  by (cases r) auto

lemma chunks_not_Panic: "chunks sv ctx ord cs inputs \<noteq> Panic"
  by (auto simp: chunks_def intro!: collect_results_not_Panic) (metis join_not_Panic)

lemma chunks_Ok:
  assumes "chunks sv ctx ord ids inputs = Ok m" "inputs \<noteq> []" "c \<in> set ids"
  shows "\<exists>css. try_collect_unordered (ord c) (map (chunk_input sv ctx c) inputs) = Ok css
     \<and> hm_get m c = Some (concat css)"
proof -
  let ?f = "\<lambda>c. res_map (\<lambda>css. (c, concat css)) (try_collect_unordered (ord c) (map (chunk_input sv ctx c) inputs))"
  obtain es where es: "collect_results (map (\<lambda>c. join [] (?f c)) ids) = Ok es" and m: "m = hm_collect es"
    using assms(1,2) by (auto simp: chunks_def)
  then have all: "list_all2 (\<lambda>c e. ?f c = Ok e) ids es" by (simp add: collect_results_map_Ok_iff)
  have val: "(c', v) \<in> set es \<Longrightarrow> ?f c' = Ok (c', v)" for c' v
    using all by (auto simp: list_all2_conv_all_nth in_set_conv_nth)
  obtain k where k: "k < length ids" "ids ! k = c" using assms(3) by (metis in_set_conv_nth)
  then have "es ! k \<in> set es" "?f c = Ok (es ! k)"
    using list_all2_nthD [OF all k(1)] list_all2_lengthD [OF all] by auto
  then obtain css where css: "try_collect_unordered (ord c) (map (chunk_input sv ctx c) inputs) = Ok css"
    and mem: "(c, concat css) \<in> set es" by auto
  have "map_of (rev es) c = Some (concat css)"
  proof -
    have "c \<in> fst ` set (rev es)" using mem by force
    then obtain v where v: "map_of (rev es) c = Some v" by (metis map_of_eq_None_iff not_None_eq)
    then have "(c, v) \<in> set es" by (metis map_of_SomeD set_rev)
    with val [of c v] css v show ?thesis by auto
  qed
  with css show ?thesis by (simp add: m hm_get_collect)
qed

text \<open>What one detector contributes.\<close>

definition contents_of_detector ::
  "services \<Rightarrow> orch_context \<Rightarrow> headers \<Rightarrow> (string, chunk list) hashmap \<Rightarrow> string \<times> detector_params
     \<Rightarrow> (error, detection list) res" where
  "contents_of_detector sv ctx hs cm = (\<lambda>(i, ps).
     case config_detector (ctx_config ctx) i of
       Some d \<Rightarrow> detector_request ctx i ps (\<lambda>ps. detect_text_contents sv hs i ps (the (hm_get cm (dc_chunker_id d))) True)
     | None \<Rightarrow> Err (DetectorNotFound i))"

lemma text_contents_detections_eq:
  assumes "get_chunker_ids (ctx_config ctx) ds = Ok ids" "chunks sv ctx cord ids inputs = Ok cm" "inputs \<noteq> []"
  shows "text_contents_detections sv ctx cord dord hs ds inputs =
     res_map (\<lambda>rs. sort_key d_start (concat rs)) (try_collect_unordered dord (map (contents_of_detector sv ctx hs cm) ds))"
proof -
  let ?get = "\<lambda>(i, ps). (i, ps, the (hm_get cm (dc_chunker_id (the (config_detector (ctx_config ctx) i)))))"
  have each: "\<exists>d cs. config_detector (ctx_config ctx) i = Some d \<and> hm_get cm (dc_chunker_id d) = Some cs"
    if "(i, ps) \<in> set ds" for i ps
    using get_chunker_ids_Ok [OF assms(1) that] chunks_Ok [OF assms(2,3)] by blast
  have "collect_results (map (\<lambda>(i, ps).
         res_bind (ok_or (DetectorNotFound i) (config_detector (ctx_config ctx) i)) (\<lambda>cfg.
         res_map (\<lambda>cs. (i, ps, cs)) (unwrap (hm_get cm (dc_chunker_id cfg))))) ds) = Ok (map ?get ds)"
    unfolding collect_results_map_Ok_iff list_all2_map2 by (rule list.rel_refl_strong) (use each in fastforce)
  moreover have "map (\<lambda>(i, ps, cs). detector_request ctx i ps (\<lambda>ps. detect_text_contents sv hs i ps cs True)) (map ?get ds)
      = map (contents_of_detector sv ctx hs cm) ds"
    using each by (force simp: contents_of_detector_def)
  ultimately show ?thesis unfolding text_contents_detections_def by (simp only: assms(1,2) res_bind.simps)
qed


lemma detect_text_contents_not_Panic: "detect_text_contents sv hs i ps cs b \<noteq> Panic"
  by (simp add: detect_text_contents_def Let_def res_bind_Panic_iff)

lemma contents_of_detector_not_Panic:
  assumes "ctx_ok ctx"
  shows "contents_of_detector sv ctx hs cm x \<noteq> Panic"
proof (cases x)
  case (Pair i ps)
  show ?thesis
  proof (cases "config_detector (ctx_config ctx) i")
    case (Some d)
    then show ?thesis
      using detector_request_not_Panic [OF assms] by (simp add: Pair contents_of_detector_def detect_text_contents_not_Panic)
  qed (simp add: Pair contents_of_detector_def)
qed

lemma text_contents_detections_not_Panic:
  assumes "ctx_ok ctx" "order_ok dord" "inputs \<noteq> []"
  shows "text_contents_detections sv ctx cord dord hs ds inputs \<noteq> Panic"
proof (cases "get_chunker_ids (ctx_config ctx) ds")
  case (Ok ids)
  show ?thesis
  proof (cases "chunks sv ctx cord ids inputs")
    case (Ok cm)
    have "Panic \<notin> set (map (contents_of_detector sv ctx hs cm) ds)"
      using contents_of_detector_not_Panic [OF assms(1), of sv hs cm] by (metis (no_types) ex_map_conv)
    with text_contents_detections_eq [OF \<open>get_chunker_ids _ _ = _\<close> Ok assms(3)] assms(2) show ?thesis
      by (simp add: try_collect_unordered_not_Panic)
  next
    case Panic
    then show ?thesis using chunks_not_Panic by blast
  qed (simp add: text_contents_detections_def Ok)
next
  case Panic
  moreover have "get_chunker_ids (ctx_config ctx) ds \<noteq> Panic"
    unfolding get_chunker_ids_def
    by (rule collect_results_not_Panic) (force elim: ok_or.elims [OF sym])
  ultimately show ?thesis by simp
qed (simp add: text_contents_detections_def)

lemma detect_text_contents_detector:
  "detect_text_contents sv hs i ps cs b = Ok ds \<Longrightarrow> d \<in> set ds \<Longrightarrow> d_detector_id d = Some i \<and> has_span d"
  by (auto simp: detect_text_contents_def Let_def located_def detection_of_content_def has_span_def split: if_splits)

lemma contents_of_detector_Ok:
  assumes "contents_of_detector sv ctx hs cm (i, ps) = Ok ds" "d \<in> set ds"
  shows "d_detector_id d = Some i \<and> threshold_of ctx i ps \<le> d_score d \<and> has_span d"
  using assms detect_text_contents_detector [of sv hs i]
  by (auto simp: contents_of_detector_def detector_request_Ok split: option.splits)


section \<open>A concrete deployment\<close>

text \<open>
  Detectors \<open>d\<close> (contents), \<open>g\<close> (generations) and \<open>c\<close> (chats), all of which object to the text \<open>bad\<close>
  and use no chunker; the model answers every prompt with \<open>out\<close>.
\<close>

definition ex_detector :: "detector_type \<Rightarrow> detector_config" where
  "ex_detector t = \<lparr>dc_service = service_config_new ''localhost'' 8080, dc_health_service = None,
     dc_chunker_id = DEFAULT_CHUNKER_ID, dc_default_threshold = 1 / 2, dc_type = t, dc_model_id = None\<rparr>"

definition ex_ctx :: orch_context where
  "ex_ctx = \<lparr>ctx_config = orchestrator_config_default\<lparr>detectors :=
       [(''d'', ex_detector TextContents), (''g'', ex_detector TextGeneration), (''c'', ex_detector TextChat)]\<rparr>,
     ctx_clients = [(''d'', DetectorClient), (''g'', DetectorClient), (''c'', DetectorClient),
       (''generation'', GenerationClient), (''openai'', OpenAiClient)]\<rparr>"

definition ex_content :: content_analysis_response where
  "ex_content = \<lparr>ca_start = 0, ca_end = 3, ca_text = ''bad'', ca_detection = ''x'', ca_detection_type = ''y'',
     ca_detector_id = None, ca_score = 1, ca_evidence = None, ca_metadata = []\<rparr>"

definition ex_result :: detection_result where
  "ex_result = \<lparr>dr_detection_type = ''y'', dr_detection = ''x'', dr_detector_id = None, dr_score = 1,
     dr_evidence = None, dr_metadata = []\<rparr>"

definition ex_services :: services where
  "ex_services = \<lparr>
     sv_tokenization_task = (\<lambda>_ text. Inr [\<lparr>tok_start = 0, tok_end = int (length text), tok_text = text\<rparr>]),
     sv_text_contents = (\<lambda>_ contents _ _. Inr (map (\<lambda>t. if t = ''bad'' then [ex_content] else []) contents)),
     sv_text_generation = (\<lambda>_ _ t _ _. Inr (if t = ''bad'' then [ex_result] else [])),
     sv_text_chat = (\<lambda>_ ms _ _ _. Inr (if m_content (last ms) = Some (Text ''bad'') then [ex_result] else [])),
     sv_text_context_doc = (\<lambda>_ t _ _ _ _. Inr (if t = ''bad'' then [ex_result] else [])),
     sv_chat_completions = (\<lambda>r _. Inr (ChatUnary (chat_completion_default\<lparr>ch_choices := [\<lparr>cc_index = 0,
        cc_message = message_default\<lparr>m_content := Some (Text ''out'')\<rparr>, cc_logprobs = None,
        cc_finish_reason = ''stop'', cc_stop_reason = None\<rparr>]\<rparr>))),
     sv_completions = (\<lambda>r _. Inr (CompletionUnary (completion_default\<lparr>cm_choices :=
        [completion_choice_default\<lparr>co_text := ''out''\<rparr>]\<rparr>))),
     sv_openai_tokenize = (\<lambda>_ _. Inr \<lparr>tk_count = 1, tk_max_model_len = 10, tk_tokens = [7]\<rparr>),
     sv_tokenize = (\<lambda>_ _ _. Inr (1, [''bad''])),
     sv_generate = (\<lambda>_ _ _ _. Inr (classified_generated_text_result_default\<lparr>cg_generated_text := Some ''out''\<rparr>)),
     sv_generate_stream = (\<lambda>_ _ _ _. Inr []),
     sv_bidi_tokenization = (\<lambda>_ reqs _. Inr (map (\<lambda>(t, i). Inr \<lparr>sr_results = [\<lparr>tok_start = i, tok_end = i + 1, tok_text = t\<rparr>],
        sr_processed_index = i + 1, sr_start_index = i, sr_input_start_index = i, sr_input_end_index = i\<rparr>) reqs))\<rparr>"

lemma ex_ctx_detectors:
  "config_detector (ctx_config ex_ctx) ''d'' = Some (ex_detector TextContents)"
  "config_detector (ctx_config ex_ctx) ''g'' = Some (ex_detector TextGeneration)"
  "config_detector (ctx_config ex_ctx) ''c'' = Some (ex_detector TextChat)"
  "get_client DetectorClient (ctx_clients ex_ctx) ''d'' = Some DetectorClient"
  "get_client DetectorClient (ctx_clients ex_ctx) ''g'' = Some DetectorClient"
  "get_client DetectorClient (ctx_clients ex_ctx) ''c'' = Some DetectorClient"
  "get_client GenerationClient (ctx_clients ex_ctx) ''generation'' = Some GenerationClient"
  "get_client OpenAiClient (ctx_clients ex_ctx) ''openai'' = Some OpenAiClient"
  by (simp_all add: ex_ctx_def config_detector_def orchestrator_config_default_def get_client_def)

lemma ex_ctx_ok: "ctx_ok ex_ctx"
  by (auto simp: ctx_ok_def ex_ctx_def config_detector_def orchestrator_config_default_def get_client_def split: if_splits)

definition ex_detection :: detection where
  "ex_detection = located ''d'' True (hd (whole_doc_chunk 0 ''bad'')) ex_content"

lemma ex_contents_detections:
  "order_ok dord \<Longrightarrow> order_ok cord \<Longrightarrow>
   text_contents_detections ex_services ex_ctx (\<lambda>_. cord) dord [] [(''d'', [])] [(0, ''bad'')] = Ok [ex_detection]"
  "order_ok dord \<Longrightarrow> order_ok cord \<Longrightarrow>
   text_contents_detections ex_services ex_ctx (\<lambda>_. cord) dord [] [(''d'', [])] [(0, ''out'')] = Ok []"
  by (simp_all add: text_contents_detections_def get_chunker_ids_def get_chunker_id_def chunks_def ex_ctx_detectors
      config_detector_def [symmetric] ex_detector_def chunk_input_def try_collect_unordered_def reorder_single
      hm_collect_def hm_insert_def detector_request_def take_threshold_def pop_threshold_def params_remove_def
      detect_text_contents_def ex_services_def whole_doc_chunk_def chars.simps(2) is_continuation_def ex_detection_def
      ex_content_def located_def detection_of_content_def)




end
