(* ===== verification/Unary_Handlers.thy ===== *)
theory Unary_Handlers
  imports Tasks
begin

text \<open>
  The handlers of the detection endpoints and of generation with guardrails
  (\<^verbatim>\<open>src/orchestrator/handlers/\<close>: \<^verbatim>\<open>text_content_detection.rs\<close>, \<^verbatim>\<open>detection_on_generation.rs\<close>, \<^verbatim>\<open>context_docs_detection.rs\<close>,
  \<^verbatim>\<open>chat_detection.rs\<close>, \<^verbatim>\<open>generation_with_detection.rs\<close>, \<^verbatim>\<open>classification_with_gen.rs\<close>). A handler is a function of
  the services, the context, the orders in which concurrent requests complete, the headers and the request.
\<close>

text \<open>The completion orders of one detection task: the requests of each chunker, and those of the detectors.\<close>

record sched =
  sc_chunk :: "string \<Rightarrow> order"
  sc_detect :: order

definition sched_ok :: "sched \<Rightarrow> bool" where
  "sched_ok s \<longleftrightarrow> (\<forall>c. order_ok (sc_chunk s c)) \<and> order_ok (sc_detect s)"

definition ex_sched :: sched where
  "ex_sched = \<lparr>sc_chunk = (\<lambda>_. in_order), sc_detect = (\<lambda>n. rev [0..<n])\<rparr>"

lemma ex_sched_ok: "sched_ok ex_sched"
  by (simp add: sched_ok_def ex_sched_def order_ok_rev)

definition contents_detections ::
  "services \<Rightarrow> orch_context \<Rightarrow> sched \<Rightarrow> headers \<Rightarrow> detector_map \<Rightarrow> (nat \<times> string) list \<Rightarrow> (error, detection list) res" where
  "contents_detections sv ctx s hs ds inputs =
     text_contents_detections sv ctx (sc_chunk s) (sc_detect s) hs ds inputs"

section \<open>Detection endpoints\<close>

definition handle_text_content_detection ::
  "services \<Rightarrow> orch_context \<Rightarrow> sched \<Rightarrow> headers \<Rightarrow> text_content_detection_request
     \<Rightarrow> (error, content_analysis_response list) res" where
  "handle_text_content_detection sv ctx s hs task =
     res_bind (validate_detectors (tcr_detectors task) (detectors (ctx_config ctx)) [TextContents] True) (\<lambda>_.
     res_bind (contents_detections sv ctx s hs (tcr_detectors task) [(0, tcr_content task)]) (\<lambda>ds.
     collect_results (map content_of_detection ds)))"

definition handle_detection_on_generation ::
  "services \<Rightarrow> orch_context \<Rightarrow> sched \<Rightarrow> headers \<Rightarrow> detection_on_generated_request
     \<Rightarrow> (error, detection_result list) res" where
  "handle_detection_on_generation sv ctx s hs task =
     res_bind (validate_detectors (dgr_detectors task) (detectors (ctx_config ctx)) [TextGeneration] True) (\<lambda>_.
     res_bind (text_generation_detections sv ctx (sc_detect s) hs (dgr_detectors task) (dgr_prompt task)
         (dgr_generated_text task)) (\<lambda>ds.
     Ok (map result_of_detection ds)))"

definition handle_context_docs_detection ::
  "services \<Rightarrow> orch_context \<Rightarrow> sched \<Rightarrow> headers \<Rightarrow> context_docs_request \<Rightarrow> (error, detection_result list) res" where
  "handle_context_docs_detection sv ctx s hs task =
     res_bind (validate_detectors (cdr_detectors task) (detectors (ctx_config ctx)) [TextContextDoc] True) (\<lambda>_.
     res_bind (text_context_detections sv ctx (sc_detect s) hs (cdr_detectors task) (cdr_content task)
         (cdr_context_type task) (cdr_context task)) (\<lambda>ds.
     Ok (map result_of_detection ds)))"

definition handle_chat_detection ::
  "services \<Rightarrow> orch_context \<Rightarrow> sched \<Rightarrow> headers \<Rightarrow> chat_detection_request \<Rightarrow> (error, detection_result list) res" where
  "handle_chat_detection sv ctx s hs task =
     res_bind (validate_detectors (chr_detectors task) (detectors (ctx_config ctx)) [TextChat] True) (\<lambda>_.
     res_bind (text_chat_detections sv ctx (sc_detect s) hs (chr_detectors task) (chr_messages task)
         (chr_tools task)) (\<lambda>ds.
     Ok (map result_of_detection ds)))"

definition handle_generation_with_detection ::
  "services \<Rightarrow> orch_context \<Rightarrow> sched \<Rightarrow> headers \<Rightarrow> generation_with_detection_request
     \<Rightarrow> (error, generation_with_detection_result) res" where
  "handle_generation_with_detection sv ctx s hs task =
     res_bind (validate_detectors (gwd_detectors task) (detectors (ctx_config ctx)) [TextGeneration] True) (\<lambda>_.
     res_bind (unwrap (get_client GenerationClient (ctx_clients ctx) ''generation'')) (\<lambda>_.
     res_bind (generate sv hs (gwd_model_id task) (gwd_prompt task) (gwd_text_gen_parameters task)) (\<lambda>gen.
     let generated_text = unwrap_or [] (cg_generated_text gen) in
     res_bind (text_generation_detections sv ctx (sc_detect s) hs (gwd_detectors task) (gwd_prompt task) generated_text) (\<lambda>ds.
     Ok \<lparr>gwr_generated_text = generated_text, gwr_detections = map result_of_detection ds,
         gwr_input_token_count = cg_input_token_count gen\<rparr>))))"

section \<open>Generation with guardrails\<close>

record classification_with_gen_task =
  cw_model_id :: string
  cw_inputs :: string
  cw_guardrails_config :: guardrails_config
  cw_text_gen_parameters :: "text_generation_parameters option"

definition classification_with_gen_task_new :: "guardrails_http_request \<Rightarrow> classification_with_gen_task" where
  "classification_with_gen_task_new r =
     \<lparr>cw_model_id = gr_model_id r, cw_inputs = gr_inputs r,
      cw_guardrails_config = unwrap_or guardrails_config_default (gr_guardrail_config r),
      cw_text_gen_parameters = gr_text_gen_parameters r\<rparr>"

definition cg_handle_input_detection ::
  "services \<Rightarrow> orch_context \<Rightarrow> sched \<Rightarrow> headers \<Rightarrow> classification_with_gen_task \<Rightarrow> detector_map
     \<Rightarrow> (error, classified_generated_text_result option) res" where
  "cg_handle_input_detection sv ctx s hs task ds =
     (let inputs = apply_masks (cw_inputs task) (input_masks (cw_guardrails_config task)) in
      res_bind (contents_detections sv ctx s hs ds inputs) (\<lambda>dets.
      if dets \<noteq> [] then
        res_bind (unwrap (get_client GenerationClient (ctx_clients ctx) ''generation'')) (\<lambda>_.
        res_bind (tokenize sv hs (cw_model_id task) (cw_inputs task)) (\<lambda>(token_count, _).
        res_map (\<lambda>results. Some (classified_generated_text_result_default
            \<lparr>cg_input_token_count := token_count,
             cg_token_classification_results := \<lparr>tr_input = Some results, tr_output = None\<rparr>,
             cg_warnings := Some [unsuitable_input]\<rparr>))
          (collect_results (map token_class_of_detection dets))))
      else Ok None))"

definition cg_handle_output_detection ::
  "services \<Rightarrow> orch_context \<Rightarrow> sched \<Rightarrow> headers \<Rightarrow> classification_with_gen_task \<Rightarrow> detector_map
     \<Rightarrow> classified_generated_text_result \<Rightarrow> (error, classified_generated_text_result) res" where
  "cg_handle_output_detection sv ctx s hs task ds gen =
     (let generated_text = unwrap_or [] (cg_generated_text gen) in
      res_bind (contents_detections sv ctx s hs ds [(0, generated_text)]) (\<lambda>dets.
      if dets \<noteq> [] then
        res_map (\<lambda>results. gen\<lparr>cg_token_classification_results :=
             (cg_token_classification_results gen)\<lparr>tr_output := Some results\<rparr>,
           cg_warnings := Some [unsuitable_output]\<rparr>)
          (collect_results (map token_class_of_detection dets))
      else Ok gen))"

definition handle_classification_with_gen ::
  "services \<Rightarrow> orch_context \<Rightarrow> sched \<Rightarrow> sched \<Rightarrow> headers \<Rightarrow> classification_with_gen_task
     \<Rightarrow> (error, classified_generated_text_result) res" where
  "handle_classification_with_gen sv ctx s1 s2 hs task =
     (let ids = input_detectors (cw_guardrails_config task);
          ods = output_detectors (cw_guardrails_config task) in
      res_bind (validate_detectors (ids @ ods) (detectors (ctx_config ctx)) [TextContents] True) (\<lambda>_.
      res_bind (if ids \<noteq> [] then cg_handle_input_detection sv ctx s1 hs task ids else Ok None) (\<lambda>r.
      case r of
        Some response \<Rightarrow> Ok response
      | None \<Rightarrow>
          res_bind (unwrap (get_client GenerationClient (ctx_clients ctx) ''generation'')) (\<lambda>_.
          res_bind (generate sv hs (cw_model_id task) (cw_inputs task) (cw_text_gen_parameters task)) (\<lambda>gen.
          if ods \<noteq> [] then cg_handle_output_detection sv ctx s2 hs task ods gen else Ok gen)))))"

section \<open>Lemmas\<close>

text \<open>Contents detection uses the chunkers and the contents detectors only.\<close>

lemma contents_detections_indep:
  assumes "sv_tokenization_task sv' = sv_tokenization_task sv" "sv_text_contents sv' = sv_text_contents sv"
  shows "contents_detections sv' = contents_detections sv"
proof -
  have "chunk_input sv' = chunk_input sv" "detect_text_contents sv' = detect_text_contents sv"
    by (simp_all add: fun_eq_iff chunk_input_def chunk_request_def detect_text_contents_def assms)
  then show ?thesis by (intro ext) (simp only: contents_detections_def text_contents_detections_def chunks_def)
qed

lemma contents_detections_upd [simp]:
  "contents_detections (sv\<lparr>sv_generate := g\<rparr>) = contents_detections sv"
  "contents_detections (sv\<lparr>sv_generate_stream := gs\<rparr>) = contents_detections sv"
  "contents_detections (sv\<lparr>sv_chat_completions := cc\<rparr>) = contents_detections sv"
  "contents_detections (sv\<lparr>sv_completions := co\<rparr>) = contents_detections sv"
  by (rule contents_detections_indep; simp)+

lemma contents_detections_not_Panic:
  "ctx_ok ctx \<Longrightarrow> sched_ok s \<Longrightarrow> inputs \<noteq> [] \<Longrightarrow> contents_detections sv ctx s hs ds inputs \<noteq> Panic"
  by (simp add: contents_detections_def sched_ok_def text_contents_detections_not_Panic)

lemma contents_detections_span:
  assumes "contents_detections sv ctx s hs ds inputs = Ok dets" "sched_ok s" "d \<in> set dets"
  shows "has_span d"
proof (cases "inputs = []")
  case True
  have "ds = []"
    using assms(1) by (cases ds) (auto simp: contents_detections_def text_contents_detections_def chunks_def True)
  with assms show ?thesis
    by (auto simp: contents_detections_def text_contents_detections_def get_chunker_ids_def chunks_def True sched_ok_def
        try_collect_unordered_def reorder_Nil)
next
  case False
  with assms have "text_contents_detections sv ctx (sc_chunk s) (sc_detect s) hs ds inputs = Ok dets" "order_ok (sc_detect s)"
    by (simp_all add: contents_detections_def sched_ok_def)
  note ok = this
  obtain ids cm xs where "get_chunker_ids (ctx_config ctx) ds = Ok ids" "chunks sv ctx (sc_chunk s) ids inputs = Ok cm"
    using ok(1) by (auto simp: text_contents_detections_def)
  from text_contents_detections_eq [OF this False] ok obtain xs where
    xs: "try_collect_unordered (sc_detect s) (map (contents_of_detector sv ctx hs cm) ds) = Ok xs"
    and dets: "dets = sort_key d_start (concat xs)" by auto
  from try_collect_unordered_Ok [OF ok(2) xs] obtain rs where
    rs: "map (contents_of_detector sv ctx hs cm) ds = map Ok rs" "mset xs = mset rs" by blast
  have "d \<in> set (concat rs)" using assms(3) mset_concat_perm [OF rs(2)] dets by (metis set_mset_mset set_sort)
  then obtain r where r: "d \<in> set r" "r \<in> set rs" by auto
  then have "Ok r \<in> set (map (contents_of_detector sv ctx hs cm) ds)" unfolding rs(1) by simp
  then obtain i ps where "contents_of_detector sv ctx hs cm (i, ps) = Ok r" by auto
  with contents_of_detector_Ok r(1) show ?thesis by blast
qed

lemma collect_content_of_detection:
  assumes "\<And>d. d \<in> set ds \<Longrightarrow> has_span d"
  shows "\<exists>rs. collect_results (map content_of_detection ds) = (Ok rs :: (error, _) res)
     \<and> map detection_of_content rs = ds"
proof -
  have "\<exists>rs. collect_results (map content_of_detection ds) = (Ok rs :: (error, _) res)"
    using assms content_of_detection_ok_iff by (intro collect_results_no_Err) force
  then obtain rs where rs: "collect_results (map content_of_detection ds) = (Ok rs :: (error, _) res)" ..
  then have "list_all2 (\<lambda>d r. content_of_detection d = (Ok r :: (error, _) res)) ds rs"
    by (simp add: collect_results_map_Ok_iff)
  then have "map detection_of_content rs = ds"
    by (induction rule: list_all2_induct) (simp_all add: content_of_detection_inverse)
  with rs show ?thesis by blast
qed

lemma token_class_of_detection_Ok: "has_span d \<Longrightarrow> \<exists>r. token_class_of_detection d = Ok r"
  by (auto simp: token_class_of_detection_def has_span_def)

lemma collect_token_class:
  "(\<And>d. d \<in> set ds \<Longrightarrow> has_span d) \<Longrightarrow> \<exists>rs. collect_results (map token_class_of_detection ds) = Ok rs \<and> length rs = length ds"
proof -
  assume "\<And>d. d \<in> set ds \<Longrightarrow> has_span d"
  then have "\<exists>rs. collect_results (map token_class_of_detection ds) = Ok rs"
    using token_class_of_detection_Ok by (intro collect_results_no_Err) force
  then show ?thesis by (metis collect_results_Ok_iff length_map)
qed

lemma apply_masks_not_Nil [simp]: "apply_masks text masks \<noteq> []"
  by (auto simp: apply_masks_def split: option.splits list.splits)

section \<open>Properties\<close>

text \<open>
  Whatever the services answer, the contents detection handler does not panic, and its answer carries the detections of
  the task, converted without loss: it fails only with an error value.
\<close>

theorem text_content_detection_total:
  assumes "ctx_ok ctx" "sched_ok s"
  shows "(\<exists>e. handle_text_content_detection sv ctx s hs task = Err e)
     \<or> (\<exists>rs dets. handle_text_content_detection sv ctx s hs task = Ok rs
          \<and> contents_detections sv ctx s hs (tcr_detectors task) [(0, tcr_content task)] = Ok dets
          \<and> map detection_of_content rs = dets)"
proof (cases "validate_detectors (tcr_detectors task) (detectors (ctx_config ctx)) [TextContents] True")
  case (Ok u)
  show ?thesis
  proof (cases "contents_detections sv ctx s hs (tcr_detectors task) [(0, tcr_content task)]")
    case (Ok dets)
    from collect_content_of_detection [OF contents_detections_span [OF Ok assms(2)]]
    show ?thesis using \<open>validate_detectors _ _ _ _ = _\<close> Ok by (auto simp: handle_text_content_detection_def)
  next
    case Panic
    then show ?thesis using contents_detections_not_Panic [OF assms] by blast
  qed (simp add: handle_text_content_detection_def Ok)
next
  case Panic
  then show ?thesis
    using validate_detectors_cases [of "tcr_detectors task" "detectors (ctx_config ctx)" "[TextContents]" True] by auto
qed (simp add: handle_text_content_detection_def)

theorem text_content_detection_total_witness:
  "\<exists>rs. handle_text_content_detection ex_services ex_ctx ex_sched []
     \<lparr>tcr_content = ''bad'', tcr_detectors = [(''d'', [])]\<rparr> = Ok rs \<and> map detection_of_content rs = [ex_detection]"
proof -
  let ?task = "\<lparr>tcr_content = ''bad'', tcr_detectors = [(''d'', [])]\<rparr>"
  have c: "contents_detections ex_services ex_ctx ex_sched [] [(''d'', [])] [(0, ''bad'')] = Ok [ex_detection]"
    using ex_contents_detections(1) [OF order_ok_rev order_ok_in_order] by (simp add: contents_detections_def ex_sched_def)
  have "validate_detectors [(''d'', [])] (detectors (ctx_config ex_ctx)) [TextContents] True = Ok ()"
    by (simp add: ex_ctx_def orchestrator_config_default_def ex_detector_def validate_detectors.simps)
  then have "\<nexists>e. handle_text_content_detection ex_services ex_ctx ex_sched [] ?task = Err e"
    using contents_detections_span [OF c ex_sched_ok] c
    by (auto simp: handle_text_content_detection_def content_of_detection_def has_span_def)
  with text_content_detection_total [OF ex_ctx_ok ex_sched_ok, of ex_services "[]" ?task] c show ?thesis by auto
qed


definition ex_task :: "string \<Rightarrow> classification_with_gen_task" where
  "ex_task text = \<lparr>cw_model_id = ''m'', cw_inputs = text,
     cw_guardrails_config = \<lparr>gc_input = Some \<lparr>gi_models = [(''d'', [])], gi_masks = None\<rparr>,
       gc_output = Some \<lparr>go_models = [(''d'', [])]\<rparr>\<rparr>, cw_text_gen_parameters = None\<rparr>"

lemma ex_sched_detections:
  "contents_detections ex_services ex_ctx ex_sched [] [(''d'', [])] [(0, ''bad'')] = Ok [ex_detection]"
  "contents_detections ex_services ex_ctx ex_sched [] [(''d'', [])] [(0, ''out'')] = Ok []"
  using ex_contents_detections [OF order_ok_rev order_ok_in_order] by (simp_all add: contents_detections_def ex_sched_def)

lemma ex_task_detectors:
  "input_detectors (cw_guardrails_config (ex_task t)) = [(''d'', [])]"
  "output_detectors (cw_guardrails_config (ex_task t)) = [(''d'', [])]"
  "apply_masks (cw_inputs (ex_task t)) (input_masks (cw_guardrails_config (ex_task t))) = [(0, t)]"
  by (simp_all add: ex_task_def input_detectors_def output_detectors_def input_masks_def apply_masks_def)

lemma ex_validate: "validate_detectors [(''d'', []), (''d'', [])] (detectors (ctx_config ex_ctx)) [TextContents] True = Ok ()"
  by (simp add: ex_ctx_def orchestrator_config_default_def ex_detector_def validate_detectors.simps)

lemma ex_tokenize: "sv_tokenize ex_services m t h = Inr (1, [''bad''])"
  by (simp add: ex_services_def)


text \<open>
  C19. Where input detection finds nothing, the model's answer is returned with its text unchanged, and it
  carries the warning about unsuitable output, with the output detections, exactly when output detection finds
  something.
\<close>

theorem classification_with_gen_checks_output:
  assumes "sched_ok s2"
    and "handle_classification_with_gen sv ctx s1 s2 hs task = Ok r"
    and "input_detectors (cw_guardrails_config task) = [] \<or>
         contents_detections sv ctx s1 hs (input_detectors (cw_guardrails_config task))
           (apply_masks (cw_inputs task) (input_masks (cw_guardrails_config task))) = Ok []"
    and "output_detectors (cw_guardrails_config task) \<noteq> []"
  shows "\<exists>gen dets. sv_generate sv (cw_model_id task) (cw_inputs task) (cw_text_gen_parameters task) hs = Inr gen
     \<and> contents_detections sv ctx s2 hs (output_detectors (cw_guardrails_config task))
          [(0, unwrap_or [] (cg_generated_text gen))] = Ok dets
     \<and> cg_generated_text r = cg_generated_text gen
     \<and> (if dets = [] then r = gen
        else cg_warnings r = Some [unsuitable_output]
          \<and> (\<exists>rs. tr_output (cg_token_classification_results r) = Some rs \<and> length rs = length dets))"
proof -
  obtain gen where gen: "sv_generate sv (cw_model_id task) (cw_inputs task) (cw_text_gen_parameters task) hs = Inr gen"
    and out: "cg_handle_output_detection sv ctx s2 hs task (output_detectors (cw_guardrails_config task)) gen = Ok r"
    using assms(2-4)
    by (auto simp: handle_classification_with_gen_def cg_handle_input_detection_def Let_def generate_def
        split: if_splits option.splits)
  from out obtain dets where dets: "contents_detections sv ctx s2 hs (output_detectors (cw_guardrails_config task))
          [(0, unwrap_or [] (cg_generated_text gen))] = Ok dets" by (auto simp: cg_handle_output_detection_def Let_def)
  have "\<exists>rs. collect_results (map token_class_of_detection dets) = (Ok rs :: (error, _) res) \<and> length rs = length dets"
    by (rule collect_token_class) (rule contents_detections_span [OF dets assms(1)])
  with gen out dets show ?thesis by (auto simp: cg_handle_output_detection_def Let_def split: if_splits)
qed

theorem classification_with_gen_checks_output_witness:
  "handle_classification_with_gen ex_services ex_ctx ex_sched ex_sched [] (ex_task ''out'') =
     Ok (classified_generated_text_result_default\<lparr>cg_generated_text := Some ''out''\<rparr>)"
proof -
  let ?gen = "classified_generated_text_result_default\<lparr>cg_generated_text := Some ''out''\<rparr>"
  have g: "sv_generate ex_services m t p h = Inr ?gen" for m t p h by (simp add: ex_services_def)
  have "\<exists>r. handle_classification_with_gen ex_services ex_ctx ex_sched ex_sched [] (ex_task ''out'') = Ok r"
    by (simp add: handle_classification_with_gen_def ex_task_detectors ex_validate cg_handle_input_detection_def
        cg_handle_output_detection_def ex_sched_detections ex_ctx_detectors generate_def g)
  then obtain r where r: "handle_classification_with_gen ex_services ex_ctx ex_sched ex_sched [] (ex_task ''out'') = Ok r" ..
  from classification_with_gen_checks_output [OF ex_sched_ok r] r show ?thesis
    by (simp add: ex_task_detectors ex_sched_detections g)
qed

end
