(* ===== verification/Completions_Unary.thy ===== *)
theory Completions_Unary
  imports Unary_Handlers
begin

text \<open>
  The unary handlers of the chat completions and completions endpoints
  (\<^verbatim>\<open>src/orchestrator/handlers/chat_completions_detection/unary.rs\<close> and \<^verbatim>\<open>completions_detection/unary.rs\<close>): input
  detection before the model is called, one detection task per choice and detector type on the
  model's answer, and the answer with its detections and warnings.
\<close>

section \<open>Joining the detection tasks\<close>

text \<open>
  Every task is spawned, so a panic of one is reported as an error (\<open>try_join_all\<close> on the join handles) before
  the errors the tasks return are looked at.
\<close>

type_synonym task_result = "u32 \<times> detector_type \<times> (error, detection list) res"

definition join_tasks :: "task_result list \<Rightarrow> (error, (u32 \<times> detector_type \<times> detection list) list) res" where
  "join_tasks ts =
     (if list_ex (\<lambda>(_, _, r). r = Panic) ts then Err (Other ''task panicked: '')
      else collect_results (map (\<lambda>(i, t, r). res_map (\<lambda>ds. (i, t, ds)) r) ts))"

definition unsuitable_output_found :: "(u32 \<times> detector_type \<times> detection list) list \<Rightarrow> bool" where
  "unsuitable_output_found xs \<longleftrightarrow> list_ex (\<lambda>(_, t, ds). t = TextContents \<and> ds \<noteq> []) xs"

definition output_detections ::
  "order \<Rightarrow> (u32 \<times> detector_type \<times> detection list) list \<Rightarrow> completion_output_detections list" where
  "output_detections hord xs =
     map (\<lambda>(i, ds). \<lparr>cod_choice_index = i, cod_results = ds\<rparr>) (reorder hord (group_detections_by_choice xs))"

definition unsuitable_output_warning :: completion_detection_warning where
  "unsuitable_output_warning = completion_detection_warning_new UnsuitableOutput UNSUITABLE_OUTPUT_MESSAGE"

definition unsuitable_input_warning :: completion_detection_warning where
  "unsuitable_input_warning = completion_detection_warning_new UnsuitableInput UNSUITABLE_INPUT_MESSAGE"

section \<open>Chat completions\<close>

definition tokenize_prompt_request :: "string \<Rightarrow> string \<Rightarrow> tokenize_request" where
  "tokenize_prompt_request model prompt = \<lparr>tr_model = model, tr_prompt = Some prompt, tr_messages = None, tr_extra = []\<rparr>"

text \<open>\<open>uuid\<close> and \<open>now\<close> are the fresh identifier and the time the response is stamped with.\<close>

definition chat_handle_input_detection ::
  "services \<Rightarrow> orch_context \<Rightarrow> sched \<Rightarrow> string \<Rightarrow> int \<Rightarrow> headers \<Rightarrow> chat_completions_request \<Rightarrow> detector_map
     \<Rightarrow> (error, chat_completion option) res" where
  "chat_handle_input_detection sv ctx s uuid now hs request ds =
     (if request_messages request = [] then Err (Validation ''No messages provided'')
      else
        let message = last (request_messages request) in
        if cmsg_role message \<notin> {Some User, Some Assistant, Some System}
        then Err (Validation ''Last message role must be user, assistant, or system'')
        else
          let input_text = unwrap_or [] (cmsg_text message) in
          res_bind (contents_detections sv ctx s hs ds [(0, input_text)]) (\<lambda>dets.
          if dets \<noteq> [] then
            res_bind (unwrap (get_client OpenAiClient (ctx_clients ctx) ''openai'')) (\<lambda>_.
            res_bind (tokenize_openai sv hs (tokenize_prompt_request (cr_model request) input_text)) (\<lambda>t.
            Ok (Some (chat_completion_default\<lparr>ch_id := uuid, ch_model := cr_model request, ch_created := now,
                 ch_detections := Some (completion_detections_default\<lparr>cdet_input :=
                   [\<lparr>cid_message_index = cmsg_index message, cid_results = dets\<rparr>]\<rparr>),
                 ch_warnings := [unsuitable_input_warning],
                 ch_usage := usage_default\<lparr>us_prompt_tokens := tk_count t\<rparr>\<rparr>))))
          else Ok None))"

fun spawn_chat_tasks ::
  "services \<Rightarrow> orch_context \<Rightarrow> (detector_type \<Rightarrow> sched) \<Rightarrow> headers \<Rightarrow> message list \<Rightarrow> tool list \<Rightarrow> chat_completion_choice
     \<Rightarrow> (detector_type, detector_map) hashmap \<Rightarrow> (error, task_result list) res" where
  "spawn_chat_tasks sv ctx sc hs messages tools choice [] = Ok []"
| "spawn_chat_tasks sv ctx sc hs messages tools choice ((t, ds) # groups) =
     (case t of
        TextContents \<Rightarrow>
          (case message_text (cc_message choice) of
             Some text \<Rightarrow> res_map ((#) (cc_index choice, t, contents_detections sv ctx (sc t) hs ds [(0, text)]))
                (spawn_chat_tasks sv ctx sc hs messages tools choice groups)
           | None \<Rightarrow> spawn_chat_tasks sv ctx sc hs messages tools choice groups)
      | TextChat \<Rightarrow> res_map ((#) (cc_index choice, t,
            text_chat_detections sv ctx (sc_detect (sc t)) hs ds (messages @ [cc_message choice]) tools))
          (spawn_chat_tasks sv ctx sc hs messages tools choice groups)
      | _ \<Rightarrow> Panic)"

definition no_content_message :: "u32 \<Rightarrow> string" where
  "no_content_message i = ''Choice of index '' @ show_nat (unat i) @ '' has no content''"

definition chat_empty_warnings :: "chat_completion \<Rightarrow> completion_detection_warning list" where
  "chat_empty_warnings c = map (\<lambda>ch. completion_detection_warning_new EmptyOutput (no_content_message (cc_index ch)))
     (filter (\<lambda>ch. \<not> has_content (cc_message ch)) (ch_choices c))"

text \<open>\<open>sc k t\<close> schedules the task of the \<open>k\<close>-th choice and detector type \<open>t\<close>; \<open>gord\<close> and \<open>hord\<close> are the orders in which
  the hash maps of detectors and of detections are traversed.\<close>

definition chat_handle_output_detection ::
  "services \<Rightarrow> orch_context \<Rightarrow> (nat \<Rightarrow> detector_type \<Rightarrow> sched) \<Rightarrow> order \<Rightarrow> order \<Rightarrow> headers
     \<Rightarrow> chat_completions_request \<Rightarrow> detector_map \<Rightarrow> chat_completion \<Rightarrow> (error, chat_completion) res" where
  "chat_handle_output_detection sv ctx sc gord hord hs request ds completion =
     res_bind (group_detectors_by_type (ctx_config ctx) ds) (\<lambda>groups.
     let tools = unwrap_or [] (cr_tools request) in
     res_bind (collect_results (map (\<lambda>(k, choice).
         spawn_chat_tasks sv ctx (sc k) hs (cr_messages request) tools choice (reorder gord groups))
         (List.enumerate 0 (ch_choices completion)))) (\<lambda>tasks.
     let completion = completion\<lparr>ch_warnings := ch_warnings completion @ chat_empty_warnings completion\<rparr> in
     res_bind (join_tasks (concat tasks)) (\<lambda>dets.
     if dets \<noteq> [] then
       let completion = (if unsuitable_output_found dets
             then completion\<lparr>ch_warnings := ch_warnings completion @ [unsuitable_output_warning]\<rparr> else completion);
           output = output_detections hord dets
       in Ok (if output \<noteq> []
              then completion\<lparr>ch_detections := Some (completion_detections_default\<lparr>cdet_output := output\<rparr>)\<rparr>
              else completion)
     else Ok completion)))"

record unary_env =
  ue_input :: sched
  ue_output :: "nat \<Rightarrow> detector_type \<Rightarrow> sched"
  ue_groups :: order
  ue_choices :: order
  ue_uuid :: string
  ue_now :: int

definition chat_handle_unary ::
  "services \<Rightarrow> orch_context \<Rightarrow> unary_env \<Rightarrow> headers \<Rightarrow> chat_completions_request \<Rightarrow> (error, chat_completions_response) res" where
  "chat_handle_unary sv ctx env hs request =
     (let ids = od_input (cr_detectors request); ods = od_output (cr_detectors request) in
      res_bind (validate_detectors ids (detectors (ctx_config ctx)) [TextContents] True) (\<lambda>_.
      res_bind (validate_detectors ods (detectors (ctx_config ctx)) [TextContents, TextChat] True) (\<lambda>_.
      res_bind (if ids \<noteq> [] then chat_handle_input_detection sv ctx (ue_input env) (ue_uuid env) (ue_now env) hs request ids
                else Ok None) (\<lambda>r.
      case r of
        Some completion \<Rightarrow> Ok (ChatUnary completion)
      | None \<Rightarrow>
          res_bind (unwrap (get_client OpenAiClient (ctx_clients ctx) ''openai'')) (\<lambda>_.
          res_bind (chat_completion_call sv hs request) (\<lambda>response.
          case response of
            ChatStreaming _ \<Rightarrow> Panic
          | ChatUnary completion \<Rightarrow>
              if ods \<noteq> []
              then res_map ChatUnary (chat_handle_output_detection sv ctx (ue_output env) (ue_groups env) (ue_choices env)
                     hs request ods completion)
              else Ok (ChatUnary completion)))))))"

section \<open>Completions\<close>

definition completion_handle_input_detection ::
  "services \<Rightarrow> orch_context \<Rightarrow> sched \<Rightarrow> string \<Rightarrow> int \<Rightarrow> headers \<Rightarrow> completions_request \<Rightarrow> detector_map
     \<Rightarrow> (error, completion option) res" where
  "completion_handle_input_detection sv ctx s uuid now hs request ds =
     res_bind (contents_detections sv ctx s hs ds (apply_masks (pr_prompt request) (pr_prompt_masks request))) (\<lambda>dets.
     if dets \<noteq> [] then
       res_bind (unwrap (get_client OpenAiClient (ctx_clients ctx) ''openai'')) (\<lambda>_.
       res_bind (tokenize_openai sv hs (tokenize_prompt_request (pr_model request) (pr_prompt request))) (\<lambda>t.
       Ok (Some (completion_default\<lparr>cm_id := uuid, cm_created := now, cm_model := pr_model request,
            cm_detections := Some (completion_detections_default\<lparr>cdet_input :=
              [\<lparr>cid_message_index = 0, cid_results = dets\<rparr>]\<rparr>),
            cm_warnings := [unsuitable_input_warning],
            cm_usage := Some (usage_default\<lparr>us_prompt_tokens := tk_count t\<rparr>)\<rparr>))))
     else Ok None)"

fun spawn_completion_tasks ::
  "services \<Rightarrow> orch_context \<Rightarrow> (detector_type \<Rightarrow> sched) \<Rightarrow> headers \<Rightarrow> string \<Rightarrow> completion_choice
     \<Rightarrow> (detector_type, detector_map) hashmap \<Rightarrow> (error, task_result list) res" where
  "spawn_completion_tasks sv ctx sc hs prompt choice [] = Ok []"
| "spawn_completion_tasks sv ctx sc hs prompt choice ((t, ds) # groups) =
     (case t of
        TextContents \<Rightarrow> res_map ((#) (co_index choice, t, contents_detections sv ctx (sc t) hs ds [(0, co_text choice)]))
          (spawn_completion_tasks sv ctx sc hs prompt choice groups)
      | TextGeneration \<Rightarrow> res_map ((#) (co_index choice, t,
            text_generation_detections sv ctx (sc_detect (sc t)) hs ds prompt (co_text choice)))
          (spawn_completion_tasks sv ctx sc hs prompt choice groups)
      | _ \<Rightarrow> Panic)"

definition completion_empty_warnings :: "completion \<Rightarrow> completion_detection_warning list" where
  "completion_empty_warnings c = map (\<lambda>ch. completion_detection_warning_new EmptyOutput
       (no_content_message (co_index ch) @ ''. Output detection was not executed''))
     (filter (\<lambda>ch. co_text ch = []) (cm_choices c))"

definition completion_handle_output_detection ::
  "services \<Rightarrow> orch_context \<Rightarrow> (nat \<Rightarrow> detector_type \<Rightarrow> sched) \<Rightarrow> order \<Rightarrow> order \<Rightarrow> headers
     \<Rightarrow> completions_request \<Rightarrow> detector_map \<Rightarrow> completion \<Rightarrow> (error, completion) res" where
  "completion_handle_output_detection sv ctx sc gord hord hs request ds completion =
     res_bind (group_detectors_by_type (ctx_config ctx) ds) (\<lambda>groups.
     res_bind (collect_results (map (\<lambda>(k, choice).
         if co_text choice = [] then Ok []
         else spawn_completion_tasks sv ctx (sc k) hs (pr_prompt request) choice (reorder gord groups))
         (List.enumerate 0 (cm_choices completion)))) (\<lambda>tasks.
     let completion = completion\<lparr>cm_warnings := cm_warnings completion @ completion_empty_warnings completion\<rparr> in
     res_bind (join_tasks (concat tasks)) (\<lambda>dets.
     if dets \<noteq> [] then
       let completion = (if unsuitable_output_found dets
             then completion\<lparr>cm_warnings := cm_warnings completion @ [unsuitable_output_warning]\<rparr> else completion);
           output = output_detections hord dets
       in Ok (if output \<noteq> []
              then completion\<lparr>cm_detections := Some (completion_detections_default\<lparr>cdet_output := output\<rparr>)\<rparr>
              else completion)
     else Ok completion)))"

definition completion_handle_unary ::
  "services \<Rightarrow> orch_context \<Rightarrow> unary_env \<Rightarrow> headers \<Rightarrow> completions_request \<Rightarrow> (error, completions_response) res" where
  "completion_handle_unary sv ctx env hs request =
     (let ids = od_input (pr_detectors request); ods = od_output (pr_detectors request) in
      res_bind (validate_detectors ids (detectors (ctx_config ctx)) [TextContents] True) (\<lambda>_.
      res_bind (validate_detectors ods (detectors (ctx_config ctx)) [TextContents, TextGeneration] True) (\<lambda>_.
      res_bind (if ids \<noteq> [] then completion_handle_input_detection sv ctx (ue_input env) (ue_uuid env) (ue_now env) hs request ids
                else Ok None) (\<lambda>r.
      case r of
        Some completion \<Rightarrow> Ok (CompletionUnary completion)
      | None \<Rightarrow>
          res_bind (unwrap (get_client OpenAiClient (ctx_clients ctx) ''openai'')) (\<lambda>_.
          res_bind (completion_call sv hs request) (\<lambda>response.
          case response of
            CompletionStreaming _ \<Rightarrow> Panic
          | CompletionUnary completion \<Rightarrow>
              if ods \<noteq> []
              then res_map CompletionUnary (completion_handle_output_detection sv ctx (ue_output env) (ue_groups env)
                     (ue_choices env) hs request ods completion)
              else Ok (CompletionUnary completion)))))))"

section \<open>Lemmas\<close>

lemma spawn_chat_tasks_no_Panic:
  "\<forall>(t, ds) \<in> set groups. t \<in> {TextContents, TextChat} \<Longrightarrow>
   \<exists>ts. spawn_chat_tasks sv ctx sc hs messages tools choice groups = Ok ts"
  by (induction groups rule: spawn_chat_tasks.induct)
    (auto split: detector_type.splits option.splits)

lemma join_tasks_Ok:
  "join_tasks ts = Ok xs \<longleftrightarrow> ts = map (\<lambda>(i, t, ds). (i, t, Ok ds)) xs"
proof
  assume "join_tasks ts = Ok xs"
  then have "list_all2 (\<lambda>(i, t, r) y. res_map (\<lambda>ds. (i, t, ds)) r = Ok y) ts xs"
    by (auto simp: join_tasks_def collect_results_map_Ok_iff case_prod_unfold split: if_splits)
  then show "ts = map (\<lambda>(i, t, ds). (i, t, Ok ds)) xs"
    by (induction rule: list_all2_induct) auto
next
  assume "ts = map (\<lambda>(i, t, ds). (i, t, Ok ds)) xs"
  then show "join_tasks ts = Ok xs"
    by (auto simp: join_tasks_def list_ex_iff collect_results_Ok_iff case_prod_unfold comp_def)
qed

lemma output_detections_props:
  assumes "order_ok hord"
  shows "distinct (map cod_choice_index (output_detections hord xs))"
    and "o' \<in> set (output_detections hord xs) \<longleftrightarrow>
      cod_results o' = choice_detections (cod_choice_index o') xs \<and> cod_results o' \<noteq> []"
proof -
  let ?m = "group_detections_by_choice xs"
  have "mset (map fst (reorder hord ?m)) = mset (map fst ?m)" by (simp add: mset_reorder [OF assms])
  then have "distinct (map fst (reorder hord ?m))"
    using group_detections_by_choice_wf [of xs] by (metis hm_wf_def mset_eq_imp_distinct_iff)
  then show "distinct (map cod_choice_index (output_detections hord xs))"
    by (simp add: output_detections_def comp_def case_prod_unfold)
  have mem: "(i, ds) \<in> set ?m \<longleftrightarrow> ds = choice_detections i xs \<and> ds \<noteq> []" for i ds
    using group_detections_by_choice_wf [of xs] group_detections_by_choice_get [of xs i]
    by (auto simp: hm_wf_def Let_def split: if_splits)
       (metis map_of_is_SomeI option.distinct(1) option.inject map_of_SomeD)+
  have "o' \<in> set (output_detections hord xs) \<longleftrightarrow> (cod_choice_index o', cod_results o') \<in> set ?m"
    by (cases o') (force simp: output_detections_def set_reorder [OF assms] image_iff)
  with mem show "o' \<in> set (output_detections hord xs) \<longleftrightarrow>
      cod_results o' = choice_detections (cod_choice_index o') xs \<and> cod_results o' \<noteq> []" by blast
qed

text \<open>Each choice with detections has one entry, which holds all of its detections; no other entry exists.\<close>

definition grouped_by_choice ::
  "completion_output_detections list \<Rightarrow> (u32 \<times> detector_type \<times> detection list) list \<Rightarrow> bool" where
  "grouped_by_choice output dets \<longleftrightarrow> distinct (map cod_choice_index output)
     \<and> (\<forall>o' \<in> set output. cod_results o' = choice_detections (cod_choice_index o') dets \<and> cod_results o' \<noteq> [])
     \<and> (\<forall>i. choice_detections i dets \<noteq> [] \<longrightarrow> (\<exists>o' \<in> set output. cod_choice_index o' = i))"

lemma output_detections_grouped:
  assumes "order_ok hord"
  shows "grouped_by_choice (output_detections hord dets) dets"
proof -
  note props = output_detections_props [OF assms]
  have "choice_detections i dets \<noteq> [] \<Longrightarrow> \<exists>o' \<in> set (output_detections hord dets). cod_choice_index o' = i" for i
    using props(2) [of "\<lparr>cod_choice_index = i, cod_results = choice_detections i dets\<rparr>" dets] by force
  with props show ?thesis unfolding grouped_by_choice_def by blast
qed

lemma output_detections_Nil:
  "order_ok hord \<Longrightarrow> output_detections hord [] = []" "\<not> unsuitable_output_found []"
  by (simp_all add: output_detections_def group_detections_by_choice_def reorder_Nil unsuitable_output_found_def)

lemma spawn_chat_tasks_mem:
  assumes "spawn_chat_tasks sv ctx sc hs messages tools choice groups = Ok ts" "(t, dm) \<in> set groups"
  shows "(t = TextContents \<or> t = TextChat)
    \<and> (t = TextContents \<longrightarrow> (\<forall>text. message_text (cc_message choice) = Some text \<longrightarrow>
         (cc_index choice, t, contents_detections sv ctx (sc t) hs dm [(0, text)]) \<in> set ts))
    \<and> (t = TextChat \<longrightarrow> (cc_index choice, t,
         text_chat_detections sv ctx (sc_detect (sc t)) hs dm (messages @ [cc_message choice]) tools) \<in> set ts)"
  using assms
proof (induction sv ctx sc hs messages tools choice groups arbitrary: ts rule: spawn_chat_tasks.induct)
  case (2 sv ctx sc hs messages tools choice t' ds' groups)
  then show ?case by (cases t') (auto split: option.splits)
qed simp

lemma spawn_completion_tasks_mem:
  assumes "spawn_completion_tasks sv ctx sc hs prompt choice groups = Ok ts" "(t, dm) \<in> set groups"
  shows "(t = TextContents \<or> t = TextGeneration)
    \<and> (t = TextContents \<longrightarrow>
         (co_index choice, t, contents_detections sv ctx (sc t) hs dm [(0, co_text choice)]) \<in> set ts)
    \<and> (t = TextGeneration \<longrightarrow> (co_index choice, t,
         text_generation_detections sv ctx (sc_detect (sc t)) hs dm prompt (co_text choice)) \<in> set ts)"
  using assms
proof (induction sv ctx sc hs prompt choice groups arbitrary: ts rule: spawn_completion_tasks.induct)
  case (2 sv ctx sc hs prompt choice t' ds' groups)
  then show ?case by (cases t') auto
qed simp

lemma collect_enumerate_nth:
  assumes "collect_results (map (\<lambda>(k, x). f k x) (List.enumerate 0 xs)) = Ok yss" "k < length xs"
  shows "\<exists>ys. ys \<in> set yss \<and> f k (xs ! k) = Ok ys"
proof -
  have "list_all2 (\<lambda>p ys. (case p of (k, x) \<Rightarrow> f k x) = Ok ys) (List.enumerate 0 xs) yss"
    using assms(1) by (simp add: collect_results_map_Ok_iff)
  from list_all2_nthD [OF this, of k] list_all2_lengthD [OF this] assms(2) show ?thesis
    by (auto simp: nth_enumerate_eq)
qed

lemma join_tasks_mem_aux:
  "(i, t, r) \<in> set (map (\<lambda>(i, t, ds). (i, t, Ok ds)) xs) \<Longrightarrow> \<exists>ds. r = Ok ds \<and> (i, t, ds) \<in> set xs"
  by auto

lemma join_tasks_mem:
  "join_tasks (concat tss) = Ok xs \<Longrightarrow> ts \<in> set tss \<Longrightarrow> (i, t, r) \<in> set ts \<Longrightarrow> \<exists>ds. r = Ok ds \<and> (i, t, ds) \<in> set xs"
  unfolding join_tasks_Ok by (metis (mono_tags, lifting) UN_I set_concat join_tasks_mem_aux)

section \<open>Properties\<close>


definition ex_request :: "string \<Rightarrow> chat_completions_request" where
  "ex_request text = \<lparr>cr_detectors = \<lparr>od_input = [(''d'', [])], od_output = [(''d'', [])]\<rparr>, cr_stream = None,
     cr_model = ''m'', cr_messages = [message_default\<lparr>m_content := Some (Text text)\<rparr>], cr_tools = None, cr_extra = []\<rparr>"

definition ex_env :: unary_env where
  "ex_env = \<lparr>ue_input = ex_sched, ue_output = (\<lambda>_ _. ex_sched), ue_groups = in_order, ue_choices = in_order,
     ue_uuid = ''id'', ue_now = 0\<rparr>"

lemma ex_validate_one:
  "validate_detectors [(''d'', [])] (detectors (ctx_config ex_ctx)) [TextContents] True = Ok ()"
  "validate_detectors [(''d'', [])] (detectors (ctx_config ex_ctx)) [TextContents, TextChat] True = Ok ()"
  "validate_detectors [(''d'', [])] (detectors (ctx_config ex_ctx)) [TextContents, TextGeneration] True = Ok ()"
  by (simp_all add: ex_ctx_def orchestrator_config_default_def ex_detector_def validate_detectors.simps)



definition ex_completions_request :: "string \<Rightarrow> completions_request" where
  "ex_completions_request text = \<lparr>pr_detectors = \<lparr>od_input = [(''d'', [])], od_output = [(''d'', [])]\<rparr>,
     pr_prompt_masks = None, pr_stream = None, pr_model = ''m'', pr_prompt = text, pr_extra = []\<rparr>"


text \<open>
  C5. The model's chat completion is returned only after every detection task on it has succeeded: the contents
  detectors on the text of every choice, the chat detectors on the conversation with every choice. The
  choices are returned as they are; each choice with detections has exactly one entry that holds all of them; the
  warning about unsuitable output is added exactly when a contents detector found something, and every choice
  without content is reported.
\<close>

theorem chat_unary_output:
  assumes "chat_handle_output_detection sv ctx sc gord hord hs request ds c = Ok r" "order_ok gord" "order_ok hord"
  shows "\<exists>groups dets. group_detectors_by_type (ctx_config ctx) ds = Ok groups
     \<and> (\<forall>k < length (ch_choices c). \<forall>(t, dm) \<in> set groups. case t of
          TextContents \<Rightarrow> \<forall>text. message_text (cc_message (ch_choices c ! k)) = Some text \<longrightarrow>
            (\<exists>dl. contents_detections sv ctx (sc k t) hs dm [(0, text)] = Ok dl
               \<and> (cc_index (ch_choices c ! k), t, dl) \<in> set dets)
        | TextChat \<Rightarrow> \<exists>dl. text_chat_detections sv ctx (sc_detect (sc k t)) hs dm
              (cr_messages request @ [cc_message (ch_choices c ! k)]) (unwrap_or [] (cr_tools request)) = Ok dl
            \<and> (cc_index (ch_choices c ! k), t, dl) \<in> set dets
        | _ \<Rightarrow> False)
     \<and> ch_choices r = ch_choices c
     \<and> ch_warnings r = ch_warnings c @ chat_empty_warnings c
          @ (if unsuitable_output_found dets then [unsuitable_output_warning] else [])
     \<and> (let output = output_detections hord dets in
          grouped_by_choice output dets
          \<and> ch_detections r = (if output = [] then ch_detections c else Some \<lparr>cdet_input = [], cdet_output = output\<rparr>))"
proof -
  from assms(1) obtain groups tss dets where g: "group_detectors_by_type (ctx_config ctx) ds = Ok groups"
    and tss: "collect_results (map (\<lambda>(k, choice). spawn_chat_tasks sv ctx (sc k) hs (cr_messages request)
         (unwrap_or [] (cr_tools request)) choice (reorder gord groups)) (List.enumerate 0 (ch_choices c))) = Ok tss"
    and dets: "join_tasks (concat tss) = Ok dets"
    by (auto simp: chat_handle_output_detection_def Let_def)
  have tasks: "case t of
          TextContents \<Rightarrow> \<forall>text. message_text (cc_message (ch_choices c ! k)) = Some text \<longrightarrow>
            (\<exists>dl. contents_detections sv ctx (sc k t) hs dm [(0, text)] = Ok dl
               \<and> (cc_index (ch_choices c ! k), t, dl) \<in> set dets)
        | TextChat \<Rightarrow> \<exists>dl. text_chat_detections sv ctx (sc_detect (sc k t)) hs dm
              (cr_messages request @ [cc_message (ch_choices c ! k)]) (unwrap_or [] (cr_tools request)) = Ok dl
            \<and> (cc_index (ch_choices c ! k), t, dl) \<in> set dets
        | _ \<Rightarrow> False" if k: "k < length (ch_choices c)" and m: "(t, dm) \<in> set groups" for k t dm
  proof -
    from collect_enumerate_nth [OF tss k] obtain ts where ts: "ts \<in> set tss" and sp: "spawn_chat_tasks sv ctx (sc k) hs
      (cr_messages request) (unwrap_or [] (cr_tools request)) (ch_choices c ! k) (reorder gord groups) = Ok ts" by blast
    have "(t, dm) \<in> set (reorder gord groups)" by (simp add: m set_reorder [OF assms(2)])
    from spawn_chat_tasks_mem [OF sp this] join_tasks_mem [OF dets ts] show ?thesis by (cases t) auto
  qed
  have r: "ch_choices r = ch_choices c \<and> ch_warnings r = ch_warnings c @ chat_empty_warnings c
        @ (if unsuitable_output_found dets then [unsuitable_output_warning] else [])
      \<and> ch_detections r = (if output_detections hord dets = [] then ch_detections c
          else Some \<lparr>cdet_input = [], cdet_output = output_detections hord dets\<rparr>)"
    using assms(1) g tss dets output_detections_Nil(1) [OF assms(3)] output_detections_Nil(2)
    by (cases "dets = []"; cases "unsuitable_output_found dets"; cases "output_detections hord dets = []")
      (auto simp: chat_handle_output_detection_def Let_def completion_detections_default_def)
  show ?thesis unfolding Let_def
    by (intro exI [of _ groups] exI [of _ dets] conjI g r [THEN conjunct1] r [THEN conjunct2, THEN conjunct1]
        r [THEN conjunct2, THEN conjunct2] output_detections_grouped [OF assms(3)]) (use tasks in blast)
qed

theorem chat_unary_output_witness:
  "\<exists>r. chat_handle_output_detection ex_services ex_ctx (\<lambda>_ _. ex_sched) in_order in_order [] (ex_request ''out'') [(''d'', [])]
         (chat_completion_default\<lparr>ch_choices := [\<lparr>cc_index = 0, cc_message = message_default\<lparr>m_content := Some (Text ''bad'')\<rparr>,
            cc_logprobs = None, cc_finish_reason = ''stop'', cc_stop_reason = None\<rparr>]\<rparr>) = Ok r
     \<and> ch_warnings r = [unsuitable_output_warning]
     \<and> ch_detections r = Some \<lparr>cdet_input = [], cdet_output = [\<lparr>cod_choice_index = 0, cod_results = [ex_detection]\<rparr>]\<rparr>"
proof -
  let ?c = "chat_completion_default\<lparr>ch_choices := [\<lparr>cc_index = 0, cc_message = message_default\<lparr>m_content := Some (Text ''bad'')\<rparr>,
            cc_logprobs = None, cc_finish_reason = ''stop'', cc_stop_reason = None\<rparr>]\<rparr>"
  have d: "config_detector (ctx_config ex_ctx) ''d'' = Some (ex_detector TextContents)" "dc_type (ex_detector t) = t" for t
    by (simp_all add: ex_ctx_detectors ex_detector_def)
  have "\<exists>r. chat_handle_output_detection ex_services ex_ctx (\<lambda>_ _. ex_sched) in_order in_order [] (ex_request ''out'') [(''d'', [])] ?c = Ok r
     \<and> ch_warnings r = [unsuitable_output_warning]
     \<and> ch_detections r = Some \<lparr>cdet_input = [], cdet_output = [\<lparr>cod_choice_index = 0, cod_results = [ex_detection]\<rparr>]\<rparr>"
    by (simp add: chat_handle_output_detection_def group_detectors_by_type_def d message_text_def ex_sched_detections
        join_tasks_def unsuitable_output_found_def output_detections_def group_detections_by_choice_def
        chat_empty_warnings_def has_content_def chat_completion_default_def completion_detections_default_def)
  then obtain r where r: "chat_handle_output_detection ex_services ex_ctx (\<lambda>_ _. ex_sched) in_order in_order [] (ex_request ''out'') [(''d'', [])] ?c = Ok r"
     "ch_warnings r = [unsuitable_output_warning]"
     "ch_detections r = Some \<lparr>cdet_input = [], cdet_output = [\<lparr>cod_choice_index = 0, cod_results = [ex_detection]\<rparr>]\<rparr>" by blast
  from chat_unary_output [OF r(1) order_ok_in_order order_ok_in_order] r show ?thesis by auto
qed

text \<open>
  C6. The same for completions: contents detectors and generation detectors succeed on every choice with text,
  choices without text are reported and not examined, and the detections of each choice are kept together.
\<close>

theorem completion_unary_output:
  assumes "completion_handle_output_detection sv ctx sc gord hord hs request ds c = Ok r" "order_ok gord" "order_ok hord"
  shows "\<exists>groups dets. group_detectors_by_type (ctx_config ctx) ds = Ok groups
     \<and> (\<forall>k < length (cm_choices c). \<forall>(t, dm) \<in> set groups. co_text (cm_choices c ! k) \<noteq> [] \<longrightarrow> (case t of
          TextContents \<Rightarrow> \<exists>dl. contents_detections sv ctx (sc k t) hs dm [(0, co_text (cm_choices c ! k))] = Ok dl
               \<and> (co_index (cm_choices c ! k), t, dl) \<in> set dets
        | TextGeneration \<Rightarrow> \<exists>dl. text_generation_detections sv ctx (sc_detect (sc k t)) hs dm (pr_prompt request)
              (co_text (cm_choices c ! k)) = Ok dl
            \<and> (co_index (cm_choices c ! k), t, dl) \<in> set dets
        | _ \<Rightarrow> False))
     \<and> cm_choices r = cm_choices c
     \<and> cm_warnings r = cm_warnings c @ completion_empty_warnings c
          @ (if unsuitable_output_found dets then [unsuitable_output_warning] else [])
     \<and> (let output = output_detections hord dets in
          grouped_by_choice output dets
          \<and> cm_detections r = (if output = [] then cm_detections c else Some \<lparr>cdet_input = [], cdet_output = output\<rparr>))"
proof -
  from assms(1) obtain groups tss dets where g: "group_detectors_by_type (ctx_config ctx) ds = Ok groups"
    and tss: "collect_results (map (\<lambda>(k, choice). if co_text choice = [] then Ok []
         else spawn_completion_tasks sv ctx (sc k) hs (pr_prompt request) choice (reorder gord groups))
         (List.enumerate 0 (cm_choices c))) = Ok tss"
    and dets: "join_tasks (concat tss) = Ok dets"
    by (auto simp: completion_handle_output_detection_def Let_def)
  have tasks: "case t of
          TextContents \<Rightarrow> \<exists>dl. contents_detections sv ctx (sc k t) hs dm [(0, co_text (cm_choices c ! k))] = Ok dl
               \<and> (co_index (cm_choices c ! k), t, dl) \<in> set dets
        | TextGeneration \<Rightarrow> \<exists>dl. text_generation_detections sv ctx (sc_detect (sc k t)) hs dm (pr_prompt request)
              (co_text (cm_choices c ! k)) = Ok dl
            \<and> (co_index (cm_choices c ! k), t, dl) \<in> set dets
        | _ \<Rightarrow> False"
    if k: "k < length (cm_choices c)" and m: "(t, dm) \<in> set groups" and ne: "co_text (cm_choices c ! k) \<noteq> []" for k t dm
  proof -
    from collect_enumerate_nth [OF tss k] ne obtain ts where ts: "ts \<in> set tss" and sp: "spawn_completion_tasks sv ctx (sc k) hs
      (pr_prompt request) (cm_choices c ! k) (reorder gord groups) = Ok ts" by auto
    have "(t, dm) \<in> set (reorder gord groups)" by (simp add: m set_reorder [OF assms(2)])
    from spawn_completion_tasks_mem [OF sp this] join_tasks_mem [OF dets ts] show ?thesis by (cases t) auto
  qed
  have r: "cm_choices r = cm_choices c \<and> cm_warnings r = cm_warnings c @ completion_empty_warnings c
        @ (if unsuitable_output_found dets then [unsuitable_output_warning] else [])
      \<and> cm_detections r = (if output_detections hord dets = [] then cm_detections c
          else Some \<lparr>cdet_input = [], cdet_output = output_detections hord dets\<rparr>)"
    using assms(1) g tss dets output_detections_Nil(1) [OF assms(3)] output_detections_Nil(2)
    by (cases "dets = []"; cases "unsuitable_output_found dets"; cases "output_detections hord dets = []")
      (auto simp: completion_handle_output_detection_def Let_def completion_detections_default_def)
  show ?thesis unfolding Let_def
    by (intro exI [of _ groups] exI [of _ dets] conjI g r [THEN conjunct1] r [THEN conjunct2, THEN conjunct1]
        r [THEN conjunct2, THEN conjunct2] output_detections_grouped [OF assms(3)]) (use tasks in blast)
qed

theorem completion_unary_output_witness:
  "\<exists>r. completion_handle_output_detection ex_services ex_ctx (\<lambda>_ _. ex_sched) in_order in_order []
         (ex_completions_request ''out'') [(''d'', [])]
         (completion_default\<lparr>cm_choices := [completion_choice_default\<lparr>co_text := ''bad''\<rparr>, completion_choice_default\<lparr>co_index := 1\<rparr>]\<rparr>) = Ok r
     \<and> length (cm_warnings r) = 2
     \<and> cm_detections r = Some \<lparr>cdet_input = [], cdet_output = [\<lparr>cod_choice_index = 0, cod_results = [ex_detection]\<rparr>]\<rparr>"
proof -
  let ?c = "completion_default\<lparr>cm_choices := [completion_choice_default\<lparr>co_text := ''bad''\<rparr>, completion_choice_default\<lparr>co_index := 1\<rparr>]\<rparr>"
  have d: "config_detector (ctx_config ex_ctx) ''d'' = Some (ex_detector TextContents)" "dc_type (ex_detector t) = t" for t
    by (simp_all add: ex_ctx_detectors ex_detector_def)
  have "\<exists>r. completion_handle_output_detection ex_services ex_ctx (\<lambda>_ _. ex_sched) in_order in_order []
       (ex_completions_request ''out'') [(''d'', [])] ?c = Ok r
     \<and> cm_detections r = Some \<lparr>cdet_input = [], cdet_output = [\<lparr>cod_choice_index = 0, cod_results = [ex_detection]\<rparr>]\<rparr>
     \<and> length (cm_warnings r) = 2"
    by (simp add: completion_handle_output_detection_def group_detectors_by_type_def d ex_sched_detections
        join_tasks_def unsuitable_output_found_def output_detections_def group_detections_by_choice_def
        completion_empty_warnings_def completion_default_def completion_choice_default_def completion_detections_default_def)
  then obtain r where r: "completion_handle_output_detection ex_services ex_ctx (\<lambda>_ _. ex_sched) in_order in_order []
       (ex_completions_request ''out'') [(''d'', [])] ?c = Ok r"
     "cm_detections r = Some \<lparr>cdet_input = [], cdet_output = [\<lparr>cod_choice_index = 0, cod_results = [ex_detection]\<rparr>]\<rparr>"
     "length (cm_warnings r) = 2" by blast
  from completion_unary_output [OF r(1) order_ok_in_order order_ok_in_order] r show ?thesis by auto
qed

end
