(* ===== verification/Completion_State.thy ===== *)
theory Completion_State
  imports Completions_Unary
begin

text \<open>
  The state of a streaming completions task (\<^verbatim>\<open>src/orchestrator/types/completion_state.rs\<close>), the channels
  the streaming handlers send on, and what consuming a completions stream does to both. The interface
  \<open>chunk_log\<close> is the contract the chat and the text completions streams share.
\<close>

section \<open>Channels\<close>

text \<open>
  The sending side of a \<^verbatim>\<open>tokio::sync::mpsc\<close> channel: what the receiver has accepted, and after how many
  messages the receiver goes away (\<open>None\<close>: it stays). A send on a closed channel fails and leaves nothing behind.
  Waiting for capacity only delays the sender and is not modelled.
\<close>

record 'm tx =
  tx_sent :: "'m list"
  tx_limit :: "nat option"

definition tx_new :: "nat option \<Rightarrow> 'm tx" where
  "tx_new limit = \<lparr>tx_sent = [], tx_limit = limit\<rparr>"

definition tx_closed :: "'m tx \<Rightarrow> bool" where
  "tx_closed tx = (case tx_limit tx of None \<Rightarrow> False | Some n \<Rightarrow> n \<le> length (tx_sent tx))"

definition tx_send :: "'m \<Rightarrow> 'm tx \<Rightarrow> 'm tx" where
  "tx_send m tx = (if tx_closed tx then tx else tx\<lparr>tx_sent := tx_sent tx @ [m]\<rparr>)"

definition tx_sends :: "'m list \<Rightarrow> 'm tx \<Rightarrow> 'm tx" where
  "tx_sends ms tx = fold tx_send ms tx"

lemma tx_limit_send [simp]: "tx_limit (tx_send m tx) = tx_limit tx"
  by (simp add: tx_send_def)

lemma tx_limit_sends [simp]: "tx_limit (tx_sends ms tx) = tx_limit tx"
  by (induction ms arbitrary: tx) (simp_all add: tx_sends_def)

lemma tx_closed_open [simp]: "tx_limit tx = None \<Longrightarrow> \<not> tx_closed tx"
  by (simp add: tx_closed_def)

lemma tx_sent_send [simp]: "tx_limit tx = None \<Longrightarrow> tx_sent (tx_send m tx) = tx_sent tx @ [m]"
  by (simp add: tx_send_def)

lemma tx_sent_sends [simp]: "tx_limit tx = None \<Longrightarrow> tx_sent (tx_sends ms tx) = tx_sent tx @ ms"
proof (induction ms arbitrary: tx)
  case (Cons m ms)
  then show ?case using Cons.IH [of "tx_send m tx"] by (simp add: tx_sends_def)
qed (simp add: tx_sends_def)

lemma tx_send_prefix: "\<exists>ms'. tx_sent (tx_send m tx) = tx_sent tx @ ms' \<and> set ms' \<subseteq> {m}"
  by (simp add: tx_send_def)

lemma tx_closed_send: "tx_closed tx \<Longrightarrow> tx_send m tx = tx"
  by (simp add: tx_send_def)

section \<open>Completion state\<close>

record completion_metadata =
  md_id :: string
  md_created :: int
  md_model :: string

text \<open>\<^verbatim>\<open>OnceLock\<close> is an option that is set once; \<^verbatim>\<open>DashMap\<close> is a hash map.\<close>

record 'c completion_state =
  cs_metadata :: "completion_metadata option"
  cs_completions :: "(u32, (nat, 'c) btree) hashmap"
  cs_usage :: "usage option"

definition completion_state_new :: "'c completion_state" where
  "completion_state_new = \<lparr>cs_metadata = None, cs_completions = [], cs_usage = None\<rparr>"

text \<open>\<^verbatim>\<open>OnceLock::set\<close>: a value that is there stays.\<close>

definition once_set :: "'a \<Rightarrow> 'a option \<Rightarrow> 'a option" where
  "once_set x o' = (case o' of None \<Rightarrow> Some x | Some y \<Rightarrow> Some y)"

definition set_metadata :: "string \<Rightarrow> int \<Rightarrow> string \<Rightarrow> 'c completion_state \<Rightarrow> 'c completion_state" where
  "set_metadata i created model st =
     st\<lparr>cs_metadata := once_set \<lparr>md_id = i, md_created = created, md_model = model\<rparr> (cs_metadata st)\<rparr>"

definition set_usage :: "usage \<Rightarrow> 'c completion_state \<Rightarrow> 'c completion_state" where
  "set_usage u st = st\<lparr>cs_usage := once_set u (cs_usage st)\<rparr>"

definition insert_completion :: "u32 \<Rightarrow> nat \<Rightarrow> 'c \<Rightarrow> 'c completion_state \<Rightarrow> 'c completion_state" where
  "insert_completion choice_index message_index completion st =
     st\<lparr>cs_completions := hm_entry choice_index [(message_index, completion)]
        (bt_insert message_index completion) (cs_completions st)\<rparr>"

definition cs_id :: "'c completion_state \<Rightarrow> string option" where
  "cs_id st = map_option md_id (cs_metadata st)"

definition cs_created :: "'c completion_state \<Rightarrow> int option" where
  "cs_created st = map_option md_created (cs_metadata st)"

definition cs_model :: "'c completion_state \<Rightarrow> string option" where
  "cs_model st = map_option md_model (cs_metadata st)"

text \<open>The chunks of a choice; well-formed states have no empty entry, so no entry and no chunks are the same.\<close>

definition choice_chunks :: "'c completion_state \<Rightarrow> u32 \<Rightarrow> (nat, 'c) btree" where
  "choice_chunks st i = (case hm_get (cs_completions st) i of None \<Rightarrow> [] | Some m \<Rightarrow> m)"

definition cs_wf :: "'c completion_state \<Rightarrow> bool" where
  "cs_wf st \<longleftrightarrow> hm_wf (cs_completions st)
     \<and> (\<forall>(i, m) \<in> set (cs_completions st). bt_wf id m \<and> m \<noteq> [])"

lemma once_set_simps [simp]: "once_set x None = Some x" "once_set x (Some y) = Some y"
  by (simp_all add: once_set_def)

lemma once_set_not_None [simp]: "once_set x o' \<noteq> None"
  by (simp add: once_set_def split: option.splits)

lemma once_set_twice [simp]: "once_set x (once_set y o') = once_set y o'"
  by (simp add: once_set_def split: option.splits)

lemma hm_entry_set:
  "hm_wf m \<Longrightarrow> set (hm_entry k v f m) =
     {(k', w). (k', w) \<in> set m \<and> k' \<noteq> k} \<union> {(k, case hm_get m k of None \<Rightarrow> v | Some w \<Rightarrow> f w)}"
proof (induction m)
  case (Cons e m)
  obtain k' w where e: "e = (k', w)" by (cases e)
  with Cons.prems have "k' \<notin> fst ` set m" "hm_wf m" by (auto simp: hm_wf_def)
  with Cons.IH e show ?case by (force split: option.splits)
qed simp

lemma bt_insert_not_Nil [simp]: "bt_insert k v m \<noteq> []"
  by (cases m) (auto simp: bt_insert_def split: if_splits)

lemma cs_wf_new [simp]: "cs_wf completion_state_new"
  by (simp add: cs_wf_def completion_state_new_def)

lemma cs_wf_entry: "cs_wf st \<Longrightarrow> hm_get (cs_completions st) i = Some m \<Longrightarrow> bt_wf id m \<and> m \<noteq> []"
  by (auto simp: cs_wf_def dest!: map_of_SomeD)

lemma cs_wf_insert [simp]: "cs_wf st \<Longrightarrow> cs_wf (insert_completion i mi c st)"
  unfolding cs_wf_def insert_completion_def
  by (auto simp: hm_wf_entry hm_entry_set bt_insert_wf split: option.splits dest!: map_of_SomeD)

lemma cs_wf_set [simp]: "cs_wf (set_metadata i c m st) = cs_wf st" "cs_wf (set_usage u st) = cs_wf st"
  by (simp_all add: cs_wf_def set_metadata_def set_usage_def)

lemma choice_chunks_set [simp]:
  "choice_chunks (set_metadata i c m st) = choice_chunks st" "choice_chunks (set_usage u st) = choice_chunks st"
  by (simp_all add: choice_chunks_def set_metadata_def set_usage_def fun_eq_iff)

lemma choice_chunks_new [simp]: "choice_chunks completion_state_new i = []"
  by (simp add: choice_chunks_def completion_state_new_def)

lemma choice_chunks_insert:
  "choice_chunks (insert_completion i mi c st) j =
     (if j = i then bt_insert mi c (choice_chunks st i) else choice_chunks st j)"
  by (auto simp: choice_chunks_def insert_completion_def hm_get_entry bt_insert_def split: option.splits)

lemma choice_chunks_wf: "cs_wf st \<Longrightarrow> bt_wf id (choice_chunks st i)"
  by (auto simp: choice_chunks_def split: option.splits dest: cs_wf_entry)

lemma hm_get_choice_chunks:
  "cs_wf st \<Longrightarrow> hm_get (cs_completions st) i = (if choice_chunks st i = [] then None else Some (choice_chunks st i))"
  by (auto simp: choice_chunks_def split: option.splits dest: cs_wf_entry)

text \<open>Messages are numbered in the order they arrive, so an insertion adds at the end.\<close>

lemma bt_insert_last: "\<forall>(k', w) \<in> set m. k' < k \<Longrightarrow> bt_insert k v m = m @ [(k, v)]"
  by (induction m) (auto simp: bt_insert_def)

section \<open>Consuming a stream\<close>

text \<open>The messages of a stream that carry a completion, with their indices.\<close>

definition delivered :: "(nat \<times> (error + 'c option)) list \<Rightarrow> (nat \<times> 'c) list" where
  "delivered msgs = [(i, c). (i, Inr (Some c)) \<leftarrow> msgs]"

lemma delivered_simps [simp]:
  "delivered [] = []" "delivered ((i, Inl e) # msgs) = delivered msgs"
  "delivered ((i, Inr None) # msgs) = delivered msgs"
  "delivered ((i, Inr (Some c)) # msgs) = (i, c) # delivered msgs"
  "delivered (xs @ ys) = delivered xs @ delivered ys"
  by (simp_all add: delivered_def)

lemma delivered_indices: "set (map fst (delivered msgs)) \<subseteq> set (map fst msgs)"
  by (force simp: delivered_def)

lemma sorted_delivered: "sorted_wrt (<) (map fst msgs) \<Longrightarrow> sorted_wrt (<) (map fst (delivered msgs))"
proof (induction msgs)
  case (Cons m msgs)
  have "\<forall>x \<in> set (map fst (delivered msgs)). fst m < x"
    using Cons.prems delivered_indices [of msgs] by force
  moreover have "sorted_wrt (<) (map fst (delivered msgs))" using Cons by simp
  ultimately show ?case by (cases m rule: prod.exhaust; cases "snd m"; cases "projr (snd m)") auto
qed simp

lemma sorted_enumerate: "sorted_wrt (<) (map fst (List.enumerate n xs))"
  by (simp add: sorted_wrt_upt)

text \<open>
  What the consumer of a stream keeps: the optional state, the optional input channels of the detection pipeline
  (one per choice) and the optional response channel.
\<close>

type_synonym input_msg = "error + nat \<times> string"

record 'c stream_process =
  sp_state :: "'c completion_state option"
  sp_inputs :: "(u32, input_msg tx) hashmap option"
  sp_response :: "(error + 'c option) tx option"

definition with_state ::
  "('c completion_state \<Rightarrow> 'c completion_state) \<Rightarrow> 'c stream_process \<Rightarrow> 'c stream_process" where
  "with_state f p = p\<lparr>sp_state := map_option f (sp_state p)\<rparr>"

definition send_input :: "u32 \<Rightarrow> input_msg \<Rightarrow> 'c stream_process \<Rightarrow> 'c stream_process" where
  "send_input i m p = p\<lparr>sp_inputs := map_option (map (\<lambda>(j, tx). (j, if j = i then tx_send m tx else tx))) (sp_inputs p)\<rparr>"

definition has_input :: "u32 \<Rightarrow> 'c stream_process \<Rightarrow> bool" where
  "has_input i p = (case sp_inputs p of None \<Rightarrow> False | Some txs \<Rightarrow> hm_get txs i \<noteq> None)"

definition send_error :: "error \<Rightarrow> 'c stream_process \<Rightarrow> 'c stream_process" where
  "send_error e p = p\<lparr>sp_response := map_option (tx_send (Inl e)) (sp_response p),
     sp_inputs := map_option (map (\<lambda>(j, tx). (j, tx_send (Inl e) tx))) (sp_inputs p)\<rparr>"

definition response_closed :: "'c stream_process \<Rightarrow> bool" where
  "response_closed p = (case sp_response p of None \<Rightarrow> False | Some tx \<Rightarrow> tx_closed tx)"

definition forward :: "'c \<Rightarrow> 'c stream_process \<Rightarrow> 'c stream_process" where
  "forward c p = p\<lparr>sp_response := map_option (tx_send (Inr (Some c))) (sp_response p)\<rparr>"

definition response_open :: "'c stream_process \<Rightarrow> bool" where
  "response_open p \<longleftrightarrow> (case sp_response p of None \<Rightarrow> True | Some tx \<Rightarrow> tx_limit tx = None)"

definition inputs_open :: "'c stream_process \<Rightarrow> bool" where
  "inputs_open p \<longleftrightarrow> (case sp_inputs p of None \<Rightarrow> True | Some txs \<Rightarrow> (\<forall>(i, tx) \<in> set txs. tx_limit tx = None))"

lemmas process_defs = with_state_def send_input_def send_error_def forward_def

lemma process_frame [simp]:
  "sp_inputs (with_state f p) = sp_inputs p" "sp_response (with_state f p) = sp_response p"
  "sp_state (send_input i m p) = sp_state p" "sp_response (send_input i m p) = sp_response p"
  "sp_state (send_error e p) = sp_state p"
  "sp_state (forward c p) = sp_state p" "sp_inputs (forward c p) = sp_inputs p"
  "sp_state (with_state f p) = map_option f (sp_state p)"
  by (simp_all add: process_defs)

lemma response_open_frame [simp]:
  "response_open (with_state f p) = response_open p" "response_open (send_input i m p) = response_open p"
  "response_open (send_error e p) = response_open p" "response_open (forward c p) = response_open p"
  by (simp_all add: response_open_def process_defs split: option.splits)

lemma response_open_not_closed: "response_open p \<Longrightarrow> \<not> response_closed p"
  by (auto simp: response_open_def response_closed_def split: option.splits)

lemma hm_get_map_key: "hm_get (map (\<lambda>(j, x). (j, f j x)) m) i = map_option (f i) (hm_get m i)"
  by (induction m) auto

lemma has_input_frame [simp]:
  "has_input i (with_state f p) = has_input i p" "has_input i (send_error e p) = has_input i p"
  "has_input i (forward c p) = has_input i p" "has_input i (send_input j m p) = has_input i p"
  by (auto simp: has_input_def process_defs hm_get_map_key split: option.splits)

text \<open>What a choice's input channel has received.\<close>

definition input_sent :: "'c stream_process \<Rightarrow> u32 \<Rightarrow> input_msg list" where
  "input_sent p i = (case sp_inputs p of None \<Rightarrow> [] | Some txs \<Rightarrow>
     (case hm_get txs i of None \<Rightarrow> [] | Some tx \<Rightarrow> tx_sent tx))"

lemma inputs_open_frame [simp]:
  "inputs_open (with_state f p) = inputs_open p" "inputs_open (send_error e p) = inputs_open p"
  "inputs_open (forward c p) = inputs_open p" "inputs_open (send_input j m p) = inputs_open p"
  by (auto simp: inputs_open_def process_defs split: option.splits if_splits)

lemma inputs_open_get: "inputs_open p \<Longrightarrow> sp_inputs p = Some txs \<Longrightarrow> hm_get txs i = Some tx \<Longrightarrow> tx_limit tx = None"
  by (auto simp: inputs_open_def dest!: map_of_SomeD)

lemma input_sent_frame [simp]:
  "input_sent (with_state f p) = input_sent p" "input_sent (forward c p) = input_sent p"
  by (simp_all add: input_sent_def fun_eq_iff)

lemma input_sent_send_input:
  "inputs_open p \<Longrightarrow> input_sent (send_input j m p) i = input_sent p i @ (if i = j \<and> has_input i p then [m] else [])"
  by (auto simp: input_sent_def send_input_def has_input_def hm_get_map_key split: option.splits dest: inputs_open_get)

lemma input_sent_send_error:
  "inputs_open p \<Longrightarrow> input_sent (send_error e p) i = input_sent p i @ (if has_input i p then [Inl e] else [])"
  by (auto simp: input_sent_def send_error_def has_input_def hm_get_map_key split: option.splits dest: inputs_open_get)

section \<open>The contract of the two consumers\<close>

text \<open>
  \<open>choice_of\<close> reads the index and the text of a message's first choice. Consuming a message stores it under
  that index and sends its text, if there is some, to the input channel of that index. \<open>base\<close> is the part of
  the consumer's state that both consumers have.
\<close>

definition of_choice :: "('c \<Rightarrow> (u32 \<times> string) option) \<Rightarrow> u32 \<Rightarrow> (nat \<times> 'c) list \<Rightarrow> (nat \<times> 'c) list" where
  "of_choice choice_of i msgs = filter (\<lambda>(mi, c). map_option fst (choice_of c) = Some i) msgs"

definition texts_of_choice :: "('c \<Rightarrow> (u32 \<times> string) option) \<Rightarrow> u32 \<Rightarrow> (nat \<times> 'c) list \<Rightarrow> (nat \<times> string) list" where
  "texts_of_choice choice_of i msgs = [(mi, t). (mi, c) \<leftarrow> msgs, (j, t) \<leftarrow> (case choice_of c of None \<Rightarrow> [] | Some x \<Rightarrow> [x]),
     j = i \<and> t \<noteq> []]"

lemma of_choice_simps [simp]:
  "of_choice ch i [] = []"
  "of_choice ch i ((mi, c) # msgs) = (if map_option fst (ch c) = Some i then [(mi, c)] else []) @ of_choice ch i msgs"
  "of_choice ch i (xs @ ys) = of_choice ch i xs @ of_choice ch i ys"
  by (simp_all add: of_choice_def)

lemma texts_of_choice_simps [simp]:
  "texts_of_choice ch i [] = []"
  "texts_of_choice ch i ((mi, c) # msgs) =
     (case ch c of Some (j, t) \<Rightarrow> if j = i \<and> t \<noteq> [] then [(mi, t)] else [] | None \<Rightarrow> []) @ texts_of_choice ch i msgs"
  by (auto simp: texts_of_choice_def split: option.splits)

locale chunk_log =
  fixes choice_of :: "'c \<Rightarrow> (u32 \<times> string) option"
    and step :: "nat \<Rightarrow> 'c \<Rightarrow> 's \<Rightarrow> 's"
    and base :: "'s \<Rightarrow> 'c stream_process"
  assumes step_state: "sp_state (base s) = Some st \<Longrightarrow> \<exists>st'. sp_state (base (step mi c s)) = Some st'
        \<and> (cs_wf st \<longrightarrow> cs_wf st')
        \<and> (\<forall>i. choice_chunks st' i = (if map_option fst (choice_of c) = Some i
              then bt_insert mi c (choice_chunks st i) else choice_chunks st i))"
    and step_no_state: "sp_state (base s) = None \<Longrightarrow> sp_state (base (step mi c s)) = None"
    and step_open: "inputs_open (base (step mi c s)) = inputs_open (base s)"
    and step_has: "has_input i (base (step mi c s)) = has_input i (base s)"
    and step_sent: "inputs_open (base s) \<Longrightarrow> input_sent (base (step mi c s)) i = input_sent (base s) i @
        (case choice_of c of Some (j, t) \<Rightarrow> if i = j \<and> t \<noteq> [] \<and> has_input i (base s) then [Inr (mi, t)] else [] | None \<Rightarrow> [])"
    and step_response: "sp_response (base (step mi c s)) = sp_response (base s)"
begin

definition run :: "(nat \<times> 'c) list \<Rightarrow> 's \<Rightarrow> 's" where
  "run msgs s = fold (\<lambda>(mi, c). step mi c) msgs s"

lemma run_simps [simp]: "run [] s = s" "run ((mi, c) # msgs) s = run msgs (step mi c s)"
  by (simp_all add: run_def)

lemma run_frame [simp]:
  "inputs_open (base (run msgs s)) = inputs_open (base s)" "has_input i (base (run msgs s)) = has_input i (base s)"
  "sp_response (base (run msgs s)) = sp_response (base s)"
  by (induction msgs arbitrary: s) (auto simp: run_def step_open step_has step_response)

text \<open>The log of a choice is the subsequence of its messages; the state stays well formed.\<close>

lemma run_state:
  assumes "sp_state (base s) = Some st" "cs_wf st" "sorted_wrt (<) (map fst msgs)"
    "\<forall>i. \<forall>(k, w) \<in> set (choice_chunks st i). \<forall>(mi, c) \<in> set msgs. k < mi"
  shows "\<exists>st'. sp_state (base (run msgs s)) = Some st' \<and> cs_wf st'
     \<and> (\<forall>i. choice_chunks st' i = choice_chunks st i @ of_choice choice_of i msgs)"
  using assms
proof (induction msgs arbitrary: s st)
  case (Cons m msgs)
  obtain mi c where m: "m = (mi, c)" by (cases m)
  obtain st1 where st1: "sp_state (base (step mi c s)) = Some st1" "cs_wf st1"
    and ch: "\<forall>i. choice_chunks st1 i = (if map_option fst (choice_of c) = Some i
              then bt_insert mi c (choice_chunks st i) else choice_chunks st i)"
    using step_state [OF Cons.prems(1)] Cons.prems(2) by blast
  have ins: "bt_insert mi c (choice_chunks st i) = choice_chunks st i @ [(mi, c)]" for i
    using Cons.prems(4) m by (intro bt_insert_last) force
  have "\<forall>i. \<forall>(k, w) \<in> set (choice_chunks st1 i). \<forall>(mj, c) \<in> set msgs. k < mj"
    using Cons.prems(3,4) m ch ins by (fastforce split: if_splits)
  moreover have "sorted_wrt (<) (map fst msgs)" using Cons.prems(3) by simp
  ultimately obtain st' where "sp_state (base (run msgs (step mi c s))) = Some st'" "cs_wf st'"
    "\<forall>i. choice_chunks st' i = choice_chunks st1 i @ of_choice choice_of i msgs"
    using Cons.IH [OF st1] by blast
  with m ch ins show ?case by auto
qed auto

lemma run_state_new:
  assumes "sp_state (base s) = Some completion_state_new" "sorted_wrt (<) (map fst msgs)"
  shows "\<exists>st'. sp_state (base (run msgs s)) = Some st' \<and> cs_wf st'
     \<and> (\<forall>i. choice_chunks st' i = of_choice choice_of i msgs)"
  using run_state [OF assms(1) cs_wf_new assms(2)] by simp

text \<open>The input channel of a choice receives exactly the non-empty texts of that choice, in order.\<close>

lemma run_inputs:
  assumes "inputs_open (base s)" "has_input i (base s)"
  shows "input_sent (base (run msgs s)) i = input_sent (base s) i @ map Inr (texts_of_choice choice_of i msgs)"
  using assms
proof (induction msgs arbitrary: s)
  case (Cons m msgs)
  obtain mi c where m: "m = (mi, c)" by (cases m)
  from Cons.IH [of "step mi c s"] Cons.prems show ?case
    by (auto simp: m step_open step_has step_sent split: option.splits)
qed simp

end

end
