(* ===== verification/Batcher.thy ===== *)
theory Batcher
  imports Orch_Types "HOL-Library.Product_Lexorder"
begin

text \<open>
  The detection batchers (\<^verbatim>\<open>src/orchestrator/types/detection_batcher.rs\<close> and the two implementations in
  \<^verbatim>\<open>detection_batcher/\<close>): the interface as a locale with the laws its clients rely on, the lemmas that
  follow from the laws, and the interpretation on each implementation.
\<close>

text \<open>\<^verbatim>\<open>type Batch = (u32, Chunk, Vec<Detection>)\<close>\<close>

type_synonym batch = "u32 \<times> chunk \<times> detection list"

section \<open>The interface\<close>

text \<open>
  \<open>view\<close> is the abstract state: for every key with detections, the detection lists pushed for it, in
  order of arrival. \<open>n\<close> is the number of lists that makes a key complete.
\<close>

locale detection_batcher =
  fixes push :: "u32 \<Rightarrow> chunk \<Rightarrow> detection list \<Rightarrow> 's \<Rightarrow> 's"
    and pop_batch :: "'s \<Rightarrow> batch option \<times> 's"
    and is_empty :: "'s \<Rightarrow> bool"
    and inv :: "'s \<Rightarrow> bool"
    and n :: "'s \<Rightarrow> nat"
    and view :: "'s \<Rightarrow> 'o::linorder \<rightharpoonup> detection list list"
    and bkey :: "u32 \<Rightarrow> chunk \<Rightarrow> 'o"
  assumes inv_push: "inv s \<Longrightarrow> inv (push i c ds s)"
    and n_push: "n (push i c ds s) = n s"
    and view_push: "inv s \<Longrightarrow> view (push i c ds s) =
          (view s)(bkey i c \<mapsto> (case view s (bkey i c) of None \<Rightarrow> [ds] | Some v \<Rightarrow> v @ [ds]))"
    and pop_Some: "inv s \<Longrightarrow> pop_batch s = (Some (i, c, ds), s') \<Longrightarrow>
          inv s' \<and> n s' = n s
          \<and> (\<exists>v. view s (bkey i c) = Some v \<and> length v = n s \<and> ds = concat v)
          \<and> view s' = (view s)(bkey i c := None)
          \<and> (\<forall>k \<in> dom (view s). bkey i c \<le> k)"
    and pop_None: "inv s \<Longrightarrow> pop_batch s = (None, s') \<Longrightarrow>
          s' = s \<and> (\<forall>k v. view s k = Some v \<longrightarrow> (\<forall>k' \<in> dom (view s). k \<le> k') \<longrightarrow> length v \<noteq> n s)"
    and is_empty_iff: "inv s \<Longrightarrow> is_empty s \<longleftrightarrow> view s = Map.empty"
    and finite_view: "inv s \<Longrightarrow> finite (dom (view s))"
begin

definition lists_for :: "'o \<Rightarrow> batch list \<Rightarrow> detection list list" where
  "lists_for k xs = map (\<lambda>(i, c, ds). ds) (filter (\<lambda>(i, c, ds). bkey i c = k) xs)"

definition push_all :: "batch list \<Rightarrow> 's \<Rightarrow> 's" where
  "push_all xs s = fold (\<lambda>(i, c, ds). push i c ds) xs s"

abbreviation view_lists :: "'s \<Rightarrow> 'o \<Rightarrow> detection list list" where
  "view_lists s k \<equiv> (case view s k of None \<Rightarrow> [] | Some v \<Rightarrow> v)"

lemma lists_for_simps [simp]:
  "lists_for k [] = []"
  "lists_for k ((i, c, ds) # xs) = (if bkey i c = k then ds # lists_for k xs else lists_for k xs)"
  "lists_for k (xs @ ys) = lists_for k xs @ lists_for k ys"
  by (simp_all add: lists_for_def)

lemma view_lists_push:
  "inv s \<Longrightarrow> view_lists (push i c ds s) k = view_lists s k @ lists_for k [(i, c, ds)]"
  by (auto simp: view_push split: option.splits)

lemma push_all_inv: "inv s \<Longrightarrow> inv (push_all xs s)"
  by (induction xs arbitrary: s) (auto simp: push_all_def inv_push)

lemma view_lists_push_all: "inv s \<Longrightarrow> view_lists (push_all xs s) k = view_lists s k @ lists_for k xs"
proof (induction xs arbitrary: s)
  case (Cons x xs)
  obtain i c ds where x: "x = (i, c, ds)" by (cases x)
  have "push_all (x # xs) s = push_all xs (push i c ds s)" by (simp add: push_all_def x)
  with Cons.IH [OF inv_push [OF Cons.prems]] show ?case
    by (simp add: view_lists_push [OF Cons.prems] x)
qed (simp add: push_all_def)

lemma push_all_n: "n (push_all xs s) = n s"
  by (induction xs arbitrary: s) (auto simp: push_all_def n_push)

lemma dom_push_all: "inv s \<Longrightarrow> dom (view (push_all xs s)) = dom (view s) \<union> (\<lambda>(i, c, ds). bkey i c) ` set xs"
proof (induction xs arbitrary: s)
  case (Cons x xs)
  obtain i c ds where x: "x = (i, c, ds)" by (cases x)
  have "push_all (x # xs) s = push_all xs (push i c ds s)" by (simp add: push_all_def x)
  with Cons.IH [OF inv_push [OF Cons.prems]] show ?case by (auto simp: view_push [OF Cons.prems] x)
qed (simp add: push_all_def)

lemma pop_view_lists:
  assumes "inv s" "pop_batch s = (Some (i, c, ds), s')"
  shows "length (view_lists s (bkey i c)) = n s \<and> ds = concat (view_lists s (bkey i c))
     \<and> view_lists s' (bkey i c) = [] \<and> (\<forall>k. k \<noteq> bkey i c \<longrightarrow> view_lists s' k = view_lists s k)"
proof -
  from pop_Some [OF assms] obtain v where v: "view s (bkey i c) = Some v" "length v = n s" "ds = concat v"
    and s': "view s' = (view s)(bkey i c := None)" by blast
  show ?thesis by (simp add: v(1,2,3) s')
qed

text \<open>A pop after a sequence of pushes to an empty batcher.\<close>

lemma pop_after_pushes:
  assumes "inv s" "view s = Map.empty"
  shows "case pop_batch (push_all xs s) of
      (Some (i, c, ds), s') \<Rightarrow>
        length (lists_for (bkey i c) xs) = n s \<and> ds = concat (lists_for (bkey i c) xs)
        \<and> (\<forall>(i', c', ds') \<in> set xs. bkey i c \<le> bkey i' c')
        \<and> (\<forall>k. view_lists s' k = (if k = bkey i c then [] else lists_for k xs))
    | (None, s') \<Rightarrow> s' = push_all xs s
        \<and> (\<forall>(i, c, ds) \<in> set xs. (\<forall>(i', c', ds') \<in> set xs. bkey i c \<le> bkey i' c') \<longrightarrow>
             length (lists_for (bkey i c) xs) \<noteq> n s)"
proof -
  let ?t = "push_all xs s"
  have t: "inv ?t" "n ?t = n s" and dom: "dom (view ?t) = (\<lambda>(i, c, ds). bkey i c) ` set xs"
    and vl: "\<And>k. view_lists ?t k = lists_for k xs"
    using push_all_inv push_all_n dom_push_all [OF assms(1)] view_lists_push_all [OF assms(1)] assms by auto
  obtain b s' where p: "pop_batch ?t = (b, s')" by (cases "pop_batch ?t")
  show ?thesis
  proof (cases b)
    case None
    have "length (lists_for (bkey i c) xs) \<noteq> n s"
      if x: "(i, c, ds) \<in> set xs" and least: "\<forall>(i', c', ds') \<in> set xs. bkey i c \<le> bkey i' c'" for i c ds
    proof -
      from x dom have "bkey i c \<in> dom (view ?t)" by force
      then obtain v where v: "view ?t (bkey i c) = Some v" by blast
      have "\<forall>k' \<in> dom (view ?t). bkey i c \<le> k'" using least dom by auto
      with pop_None [OF t(1)] p None v t have "length v \<noteq> n s" by metis
      with v vl [of "bkey i c"] show ?thesis by simp
    qed
    moreover have "s' = ?t" using pop_None [OF t(1)] p None by blast
    ultimately show ?thesis using p None by auto
  next
    case (Some x)
    obtain i c ds where x: "x = (i, c, ds)" by (cases x)
    with p Some have p': "pop_batch ?t = (Some (i, c, ds), s')" by simp
    have least: "\<forall>k \<in> dom (view ?t). bkey i c \<le> k" using pop_Some [OF t(1) p'] by blast
    note vs = pop_view_lists [OF t(1) p', unfolded vl t(2)]
    have "\<forall>(i', c', ds') \<in> set xs. bkey i c \<le> bkey i' c'" using least dom by auto
    then show ?thesis using vs unfolding p' by simp
  qed
qed

lemma pop_increasing:
  assumes "inv s" "pop_batch s = (Some (i, c, ds), s')" "pop_batch s' = (Some (i2, c2, ds2), s2)"
  shows "bkey i c < bkey i2 c2"
proof -
  from pop_Some [OF assms(1,2)] have s': "inv s'" "view s' = (view s)(bkey i c := None)"
    and least: "\<forall>k \<in> dom (view s). bkey i c \<le> k" by auto
  from pop_Some [OF s'(1) assms(3)] have "bkey i2 c2 \<in> dom (view s')" by auto
  with s'(2) least have "bkey i2 c2 \<noteq> bkey i c" "bkey i c \<le> bkey i2 c2" by auto
  then show ?thesis by simp
qed

text \<open>A state whose least key is complete pops a batch.\<close>

lemma pop_ready:
  assumes "inv s" and k: "view s k = Some v" "length v = n s" "\<forall>k' \<in> dom (view s). k \<le> k'"
  shows "\<exists>i c s'. pop_batch s = (Some (i, c, concat v), s') \<and> bkey i c = k"
proof -
  obtain b s' where p: "pop_batch s = (b, s')" by (cases "pop_batch s")
  show ?thesis
  proof (cases b)
    case None
    with pop_None [OF assms(1)] p k show ?thesis by blast
  next
    case (Some x)
    obtain i c ds where x: "x = (i, c, ds)" by (cases x)
    with p Some have p': "pop_batch s = (Some (i, c, ds), s')" by simp
    from pop_Some [OF assms(1) p'] obtain v' where v': "view s (bkey i c) = Some v'" "ds = concat v'"
      and le: "\<forall>k \<in> dom (view s). bkey i c \<le> k" by blast
    from k v' have "bkey i c \<in> dom (view s)" "k \<in> dom (view s)" by auto
    with k(3) le have "bkey i c = k" by (meson antisym)
    with p' v' k show ?thesis by auto
  qed
qed

lemma least_key:
  assumes "inv s" "view s \<noteq> Map.empty"
  obtains k v where "view s k = Some v" "\<forall>k' \<in> dom (view s). k \<le> k'"
proof -
  have "dom (view s) \<noteq> {}" using assms(2) by simp
  with finite_view [OF assms(1)] have "Min (dom (view s)) \<in> dom (view s)"
    "\<forall>k' \<in> dom (view s). Min (dom (view s)) \<le> k'" by auto
  then show thesis using that by blast
qed

end

section \<open>The max-processed-index batcher\<close>

record max_processed_index_batcher =
  mp_n_detectors :: nat
  mp_state :: "(chunk, detection list list) btree"

definition mp_new :: "nat \<Rightarrow> max_processed_index_batcher" where
  "mp_new n_detectors = \<lparr>mp_n_detectors = n_detectors, mp_state = []\<rparr>"

definition mp_push ::
  "u32 \<Rightarrow> chunk \<Rightarrow> detection list \<Rightarrow> max_processed_index_batcher \<Rightarrow> max_processed_index_batcher" where
  "mp_push input_id c ds b =
     b\<lparr>mp_state := bt_entry chunk_key c [ds] (\<lambda>v. v @ [ds]) (mp_state b)\<rparr>"

definition mp_pop_batch ::
  "max_processed_index_batcher \<Rightarrow> batch option \<times> max_processed_index_batcher" where
  "mp_pop_batch b =
     (case bt_pop_first (mp_state b) of
        Some ((c, v), rest) \<Rightarrow>
          if length v = mp_n_detectors b then (Some (0, c, concat v), b\<lparr>mp_state := rest\<rparr>)
          else (None, b)
      | None \<Rightarrow> (None, b))"

definition mp_is_empty :: "max_processed_index_batcher \<Rightarrow> bool" where
  "mp_is_empty b \<longleftrightarrow> mp_state b = []"

definition mp_inv :: "max_processed_index_batcher \<Rightarrow> bool" where
  "mp_inv b \<longleftrightarrow> bt_wf chunk_key (mp_state b)"

definition mp_view :: "max_processed_index_batcher \<Rightarrow> chunk_pos \<rightharpoonup> detection list list" where
  "mp_view b = bt_lookup chunk_key (mp_state b)"

interpretation mp_map: ordered_map "[]" "bt_entry chunk_key" bt_pop_first "bt_lookup chunk_key" chunk_key "bt_wf chunk_key"
  by (rule btree_ordered_map)

lemma btree_least:
  assumes "bt_wf kf m" "bt_lookup kf m x = Some w" "\<forall>k' \<in> dom (bt_lookup kf m). x \<le> k'"
  shows "\<exists>k rest. m = (k, w) # rest \<and> x = kf k"
proof (cases m)
  case Nil
  with assms(2) show ?thesis by simp
next
  case (Cons e rest)
  obtain k v where e: "e = (k, v)" by (cases e)
  from assms(2) have "x \<in> dom (bt_lookup kf m)" by (rule domI)
  with assms(1) Cons e have "kf k \<le> x" by auto
  moreover from assms(3) Cons e have "x \<le> kf k" by auto
  ultimately have "x = kf k" by simp
  with assms(2) Cons e show ?thesis by simp
qed

lemma mp_pop_cases:
  "mp_pop_batch b = (Some (i, c, ds), b') \<longleftrightarrow>
     (\<exists>v rest. mp_state b = (c, v) # rest \<and> length v = mp_n_detectors b \<and> i = 0 \<and> ds = concat v
        \<and> b' = b\<lparr>mp_state := rest\<rparr>)"
  "mp_pop_batch b = (None, b') \<longleftrightarrow>
     b' = b \<and> (case mp_state b of [] \<Rightarrow> True | (c, v) # rest \<Rightarrow> length v \<noteq> mp_n_detectors b)"
  subgoal by (cases "mp_state b") (auto simp: mp_pop_batch_def split: if_splits)
  subgoal by (cases "mp_state b") (auto simp: mp_pop_batch_def split: if_splits)
  done

interpretation mp: detection_batcher mp_push mp_pop_batch mp_is_empty mp_inv mp_n_detectors mp_view "\<lambda>i. chunk_key"
proof (unfold_locales, goal_cases)
  case (4 s i c ds s')
  then obtain v rest where s: "mp_state s = (c, v) # rest" "length v = mp_n_detectors s" "ds = concat v"
    and s': "s' = s\<lparr>mp_state := rest\<rparr>" by (auto simp: mp_pop_cases)
  have "bt_pop_first (mp_state s) = Some ((c, v), rest)" by (simp add: s)
  with mp_map.pop_Some [of "mp_state s" c v rest] 4 s s' show ?case by (auto simp: mp_inv_def mp_view_def)
next
  case (5 s s')
  then show ?case
    by (auto simp: mp_pop_cases mp_inv_def mp_view_def simp del: dom_bt_lookup dest!: btree_least)
qed (auto simp: mp_inv_def mp_view_def mp_push_def mp_is_empty_def bt_wf_entry bt_lookup_entry
       split: option.splits, metis bt_lookup_simps(2) map_upd_nonempty mp_is_empty_def neq_Nil_conv surj_pair)

section \<open>The completion batcher\<close>

text \<open>Keys are chunk and choice index, compared in this order.\<close>

record completion_batcher =
  cb_n_detectors :: nat
  cb_state :: "(chunk \<times> u32, detection list list) btree"

definition choice_key :: "chunk \<times> u32 \<Rightarrow> chunk_pos \<times> u32" where
  "choice_key k = (chunk_key (fst k), snd k)"

definition cb_new :: "nat \<Rightarrow> completion_batcher" where
  "cb_new n_detectors = \<lparr>cb_n_detectors = n_detectors, cb_state = []\<rparr>"

definition cb_push :: "u32 \<Rightarrow> chunk \<Rightarrow> detection list \<Rightarrow> completion_batcher \<Rightarrow> completion_batcher" where
  "cb_push choice_index c ds b =
     b\<lparr>cb_state := bt_entry choice_key (c, choice_index) [ds] (\<lambda>v. v @ [ds]) (cb_state b)\<rparr>"

definition cb_pop_batch :: "completion_batcher \<Rightarrow> batch option \<times> completion_batcher" where
  "cb_pop_batch b =
     (case bt_pop_first (cb_state b) of
        Some (((c, choice_index), v), rest) \<Rightarrow>
          if length v = cb_n_detectors b then (Some (choice_index, c, concat v), b\<lparr>cb_state := rest\<rparr>)
          else (None, b)
      | None \<Rightarrow> (None, b))"

definition cb_is_empty :: "completion_batcher \<Rightarrow> bool" where
  "cb_is_empty b \<longleftrightarrow> cb_state b = []"

definition cb_inv :: "completion_batcher \<Rightarrow> bool" where
  "cb_inv b \<longleftrightarrow> bt_wf choice_key (cb_state b)"

definition cb_view :: "completion_batcher \<Rightarrow> chunk_pos \<times> u32 \<rightharpoonup> detection list list" where
  "cb_view b = bt_lookup choice_key (cb_state b)"

interpretation cb_map: ordered_map "[]" "bt_entry choice_key" bt_pop_first "bt_lookup choice_key" choice_key "bt_wf choice_key"
  by (rule btree_ordered_map)

lemma cb_pop_cases:
  "cb_pop_batch b = (Some (i, c, ds), b') \<longleftrightarrow>
     (\<exists>v rest. cb_state b = ((c, i), v) # rest \<and> length v = cb_n_detectors b \<and> ds = concat v
        \<and> b' = b\<lparr>cb_state := rest\<rparr>)"
  "cb_pop_batch b = (None, b') \<longleftrightarrow>
     b' = b \<and> (case cb_state b of [] \<Rightarrow> True | (k, v) # rest \<Rightarrow> length v \<noteq> cb_n_detectors b)"
  subgoal by (cases "cb_state b") (auto simp: cb_pop_batch_def split: if_splits)
  subgoal by (cases "cb_state b") (auto simp: cb_pop_batch_def split: if_splits)
  done

interpretation cb: detection_batcher cb_push cb_pop_batch cb_is_empty cb_inv cb_n_detectors cb_view "\<lambda>i c. choice_key (c, i)"
proof (unfold_locales, goal_cases)
  case (4 s i c ds s')
  then obtain v rest where s: "cb_state s = ((c, i), v) # rest" "length v = cb_n_detectors s" "ds = concat v"
    and s': "s' = s\<lparr>cb_state := rest\<rparr>" by (auto simp: cb_pop_cases)
  have "bt_pop_first (cb_state s) = Some (((c, i), v), rest)" by (simp add: s)
  with cb_map.pop_Some [of "cb_state s" "(c, i)" v rest] 4 s s' show ?case by (auto simp: cb_inv_def cb_view_def)
next
  case (5 s s')
  then show ?case
    by (auto simp: cb_pop_cases cb_inv_def cb_view_def simp del: dom_bt_lookup dest!: btree_least)
qed (auto simp: cb_inv_def cb_view_def cb_push_def cb_is_empty_def bt_wf_entry bt_lookup_entry
       split: option.splits, metis bt_lookup_simps(2) map_upd_nonempty cb_is_empty_def neq_Nil_conv surj_pair)

section \<open>Properties\<close>

text \<open>The detection lists that a list of batches carries for one chunk, or for one chunk of a choice.\<close>

definition chunk_lists :: "chunk_pos \<Rightarrow> batch list \<Rightarrow> detection list list" where
  "chunk_lists k xs = map (\<lambda>(i, c, ds). ds) (filter (\<lambda>(i, c, ds). chunk_key c = k) xs)"

definition choice_lists :: "chunk_pos \<times> u32 \<Rightarrow> batch list \<Rightarrow> detection list list" where
  "choice_lists k xs = map (\<lambda>(i, c, ds). ds) (filter (\<lambda>(i, c, ds). choice_key (c, i) = k) xs)"

lemma choice_lists_eq: "cb.lists_for = choice_lists" and chunk_lists_eq: "mp.lists_for = chunk_lists"
  by (simp_all add: fun_eq_iff cb.lists_for_def choice_lists_def mp.lists_for_def chunk_lists_def)

lemma new_batchers [simp]:
  "mp_inv (mp_new n)" "mp_view (mp_new n) = Map.empty" "mp_n_detectors (mp_new n) = n"
  "cb_inv (cb_new n)" "cb_view (cb_new n) = Map.empty" "cb_n_detectors (cb_new n) = n"
  by (simp_all add: mp_inv_def mp_new_def mp_view_def cb_inv_def cb_new_def cb_view_def)

text \<open>
  After any sequence of pushes to a new batcher of \<open>n\<close> detectors, a pop returns the first chunk if
  all detectors have delivered for it, with their lists concatenated in the order of arrival, and forgets this
  chunk only; it returns nothing and changes nothing if the first chunk is incomplete, even if
  a later one is complete.
\<close>

theorem max_processed_batcher_pop:
  "case mp_pop_batch (fold (\<lambda>(i, c, ds). mp_push i c ds) xs (mp_new n)) of
     (Some (i, c, ds), b) \<Rightarrow>
       length (chunk_lists (chunk_key c) xs) = n \<and> ds = concat (chunk_lists (chunk_key c) xs)
       \<and> (\<forall>(i', c', ds') \<in> set xs. chunk_key c \<le> chunk_key c')
       \<and> (\<forall>k. (case mp_view b k of None \<Rightarrow> [] | Some v \<Rightarrow> v) = (if k = chunk_key c then [] else chunk_lists k xs))
   | (None, b) \<Rightarrow> b = fold (\<lambda>(i, c, ds). mp_push i c ds) xs (mp_new n)
       \<and> (\<forall>(i, c, ds) \<in> set xs. (\<forall>(i', c', ds') \<in> set xs. chunk_key c \<le> chunk_key c') \<longrightarrow>
            length (chunk_lists (chunk_key c) xs) \<noteq> n)"
  by (rule mp.pop_after_pushes [OF new_batchers(1,2), unfolded mp.push_all_def chunk_lists_eq new_batchers(3)])

theorem max_processed_batcher_pop_witness:
  "length (chunk_lists (chunk_key chunk_default) [(0, chunk_default, []), (0, chunk_default, [])]) = 2"
  using max_processed_batcher_pop [of "[(0, chunk_default, []), (0, chunk_default, [])]" 2]
  by (simp add: mp_push_def mp_new_def mp_pop_batch_def)

text \<open>
  The same for the batcher of the completions endpoints, which keeps the choices of a completion
  apart: keys are ordered by chunk and then by choice index, and a pop answers for the first pair.
\<close>

theorem completion_batcher_pop:
  "case cb_pop_batch (fold (\<lambda>(i, c, ds). cb_push i c ds) xs (cb_new n)) of
     (Some (i, c, ds), b) \<Rightarrow>
       length (choice_lists (choice_key (c, i)) xs) = n \<and> ds = concat (choice_lists (choice_key (c, i)) xs)
       \<and> (\<forall>(i', c', ds') \<in> set xs. choice_key (c, i) \<le> choice_key (c', i'))
       \<and> (\<forall>k. (case cb_view b k of None \<Rightarrow> [] | Some v \<Rightarrow> v) =
            (if k = choice_key (c, i) then [] else choice_lists k xs))
   | (None, b) \<Rightarrow> b = fold (\<lambda>(i, c, ds). cb_push i c ds) xs (cb_new n)
       \<and> (\<forall>(i, c, ds) \<in> set xs. (\<forall>(i', c', ds') \<in> set xs. choice_key (c, i) \<le> choice_key (c', i')) \<longrightarrow>
            length (choice_lists (choice_key (c, i)) xs) \<noteq> n)"
  by (rule cb.pop_after_pushes [OF new_batchers(4,5), unfolded cb.push_all_def choice_lists_eq new_batchers(6)])

theorem completion_batcher_pop_witness:
  "length (choice_lists (choice_key (chunk_default, 1)) [(1, chunk_default, []), (2, chunk_default, [])]) = 1"
  using completion_batcher_pop [of "[(1, chunk_default, []), (2, chunk_default, [])]" 1]
  by (simp add: cb_push_def cb_new_def cb_pop_batch_def choice_key_def)

end
