(* ===== verification/Batch_Stream.thy ===== *)
theory Batch_Stream
  imports Batcher "HOL-Library.Sublist"
begin

text \<open>
  The detection batch stream (\<^verbatim>\<open>src/orchestrator/types/detection_batch_stream.rs\<close>). A task merges the
  detection streams, pushes what they deliver to a batcher that an actor owns, and forwards the
  batches it pops. The task and the actor run concurrently and talk over a mailbox, so the
  multi-stream case is a step relation over both; the single-stream case is a function.
\<close>

type_synonym item = "error + batch"

section \<open>A single stream: forwarding\<close>

fun forward_stream :: "item list \<Rightarrow> item list" where
  "forward_stream [] = []"
| "forward_stream (Inr b # msgs) = Inr b # forward_stream msgs"
| "forward_stream (Inl e # msgs) = [Inl e]"

section \<open>Several streams: the select loop and the batcher actor\<close>

text \<open>The batcher the actor owns, as its three operations.\<close>

record 's batcher_ops =
  bo_push :: "u32 \<Rightarrow> chunk \<Rightarrow> detection list \<Rightarrow> 's \<Rightarrow> 's"
  bo_pop :: "'s \<Rightarrow> batch option \<times> 's"
  bo_is_empty :: "'s \<Rightarrow> bool"

text \<open>
  Messages to the actor. The response channel of a request is identified by the round (the iteration of the
  select loop) that made the request: once the loop has moved on, the receiving end is dropped.
\<close>

datatype actor_msg = MPush u32 chunk "detection list" | MPop nat | MIsEmpty nat

text \<open>
  \<open>future\<close> and \<open>ready\<close> are what the merged streams will still deliver and what has arrived; the streams
  have ended when both are empty. \<open>waiting\<close>: the requests of this round have been sent. \<open>pop_resp\<close> and
  \<open>empty_resp\<close> are the actor's answers to this round. \<open>out\<close> is what was sent to the batch channel.
\<close>

record 's bs_state =
  future :: "item list"
  ready :: "item list"
  completed :: bool
  round :: nat
  waiting :: bool
  pop_resp :: "batch option option"
  empty_resp :: "bool option"
  mailbox :: "actor_msg list"
  batcher :: 's
  out :: "item list"
  halted :: bool

definition bs_init :: "item list \<Rightarrow> 's \<Rightarrow> 's bs_state" where
  "bs_init items b = \<lparr>future = items, ready = [], completed = False, round = 0, waiting = False,
     pop_resp = None, empty_resp = None, mailbox = [], batcher = b, out = [], halted = False\<rparr>"

text \<open>The select block finished: its remaining futures, with their response channels, are dropped.\<close>

definition next_round :: "'s bs_state \<Rightarrow> 's bs_state" where
  "next_round s = s\<lparr>round := Suc (round s), waiting := False, pop_resp := None, empty_resp := None\<rparr>"

text \<open>The first branch of the biased select is not ready: disabled, or the streams are silent but open.\<close>

definition stream_pending :: "'s bs_state \<Rightarrow> bool" where
  "stream_pending s \<longleftrightarrow> completed s \<or> (ready s = [] \<and> future s \<noteq> [])"

inductive bs_step :: "'s batcher_ops \<Rightarrow> 's bs_state \<Rightarrow> 's bs_state \<Rightarrow> bool" for ops where
  arrive: "future s = e # es \<Longrightarrow> bs_step ops s (s\<lparr>future := es, ready := ready s @ [e]\<rparr>)"
| recv_push: "\<not> halted s \<Longrightarrow> \<not> completed s \<Longrightarrow> ready s = Inr (i, c, ds) # es \<Longrightarrow>
    bs_step ops s (next_round (s\<lparr>ready := es, mailbox := mailbox s @ [MPush i c ds]\<rparr>))"
| recv_error: "\<not> halted s \<Longrightarrow> \<not> completed s \<Longrightarrow> ready s = Inl e # es \<Longrightarrow>
    bs_step ops s (s\<lparr>ready := es, out := out s @ [Inl e], halted := True\<rparr>)"
| recv_closed: "\<not> halted s \<Longrightarrow> \<not> completed s \<Longrightarrow> ready s = [] \<Longrightarrow> future s = [] \<Longrightarrow>
    bs_step ops s (next_round (s\<lparr>completed := True\<rparr>))"
| request: "\<not> halted s \<Longrightarrow> \<not> waiting s \<Longrightarrow> stream_pending s \<Longrightarrow>
    bs_step ops s (s\<lparr>waiting := True, mailbox := mailbox s @ MPop (round s) #
      (if completed s then [MIsEmpty (round s)] else [])\<rparr>)"
| actor_push: "mailbox s = MPush i c ds # ms \<Longrightarrow>
    bs_step ops s (s\<lparr>mailbox := ms, batcher := bo_push ops i c ds (batcher s)\<rparr>)"
| actor_pop: "mailbox s = MPop r # ms \<Longrightarrow> bo_pop ops (batcher s) = (b, t) \<Longrightarrow>
    bs_step ops s (s\<lparr>mailbox := ms, batcher := t,
      pop_resp := (if waiting s \<and> r = round s then Some b else pop_resp s)\<rparr>)"
| actor_is_empty: "mailbox s = MIsEmpty r # ms \<Longrightarrow>
    bs_step ops s (s\<lparr>mailbox := ms,
      empty_resp := (if waiting s \<and> r = round s then Some (bo_is_empty ops (batcher s)) else empty_resp s)\<rparr>)"
| take_batch: "\<not> halted s \<Longrightarrow> waiting s \<Longrightarrow> stream_pending s \<Longrightarrow> pop_resp s = Some (Some b) \<Longrightarrow>
    bs_step ops s (next_round (s\<lparr>out := out s @ [Inr b]\<rparr>))"
| take_empty: "\<not> halted s \<Longrightarrow> waiting s \<Longrightarrow> completed s \<Longrightarrow> (\<forall>b. pop_resp s \<noteq> Some (Some b)) \<Longrightarrow>
    empty_resp s = Some e \<Longrightarrow>
    bs_step ops s (if e then s\<lparr>halted := True\<rparr> else next_round s)"

definition bs_reach :: "'s batcher_ops \<Rightarrow> 's bs_state \<Rightarrow> 's bs_state \<Rightarrow> bool" where
  "bs_reach ops = (bs_step ops)\<^sup>*\<^sup>*"

text \<open>The batches among a list of items, the pushes waiting in a mailbox, and an answered batch.\<close>

definition batches_of :: "item list \<Rightarrow> batch list" where
  "batches_of xs = [b. Inr b \<leftarrow> xs]"

fun mail_pushes :: "actor_msg list \<Rightarrow> batch list" where
  "mail_pushes [] = []"
| "mail_pushes (MPush i c ds # ms) = (i, c, ds) # mail_pushes ms"
| "mail_pushes (_ # ms) = mail_pushes ms"

definition answered :: "'s bs_state \<Rightarrow> batch list" where
  "answered s = (case pop_resp s of Some (Some b) \<Rightarrow> [b] | _ \<Rightarrow> [])"

lemma batches_of_simps [simp]:
  "batches_of [] = []" "batches_of (Inr b # xs) = b # batches_of xs"
  "batches_of (Inl e # xs) = batches_of xs"
  "batches_of (xs @ ys) = batches_of xs @ batches_of ys"
  by (simp_all add: batches_of_def)

lemma mail_pushes_append [simp]: "mail_pushes (xs @ ys) = mail_pushes xs @ mail_pushes ys"
  by (induction xs rule: mail_pushes.induct) auto

lemma subseq_snoc: "subseq xs ys \<Longrightarrow> subseq xs (ys @ [y])" "subseq xs ys \<Longrightarrow> subseq (xs @ [y]) (ys @ [y])"
  by (auto intro: list_emb_append2 list_emb_append_mono)

lemma subseq_imp_distinct: "subseq xs ys \<Longrightarrow> distinct ys \<Longrightarrow> distinct xs"
  by (metis distinct_nthsI subseq_conv_nths)

lemma subseq_appendD1: "subseq (xs @ zs) ys \<Longrightarrow> subseq xs ys"
  by (rule subseq_order.trans [of xs "xs @ zs"]) auto

definition is_push :: "actor_msg \<Rightarrow> bool" where
  "is_push m \<longleftrightarrow> (case m of MPush _ _ _ \<Rightarrow> True | _ \<Rightarrow> False)"

lemma is_push_simps [simp]: "is_push (MPush i c ds)" "\<not> is_push (MPop r)" "\<not> is_push (MIsEmpty r)"
  by (simp_all add: is_push_def)

lemma mail_pushes_empty: "(\<forall>m \<in> set ms. \<not> is_push m) \<Longrightarrow> mail_pushes ms = []"
  by (induction ms rule: mail_pushes.induct) auto

text \<open>
  Once the streams have ended, the mailbox holds pushes, then emptiness requests of earlier rounds, then
  what is unanswered of the current round.
\<close>

definition current_requests :: "'s bs_state \<Rightarrow> actor_msg list" where
  "current_requests s = (if \<not> waiting s then []
     else if pop_resp s = None then [MPop (round s), MIsEmpty (round s)]
     else if empty_resp s = None then [MIsEmpty (round s)] else [])"

definition fifo :: "'s bs_state \<Rightarrow> bool" where
  "fifo s \<longleftrightarrow> (\<exists>ps st. mailbox s = ps @ st @ current_requests s
       \<and> (\<forall>m \<in> set ps. is_push m) \<and> (\<forall>m \<in> set st. \<exists>r < round s. m = MIsEmpty r))
     \<and> (pop_resp s = None \<longrightarrow> empty_resp s = None) \<and> (\<not> waiting s \<longrightarrow> pop_resp s = None)"

lemma fifoI:
  "mailbox s = ps @ st @ current_requests s \<Longrightarrow> \<forall>m \<in> set ps. is_push m \<Longrightarrow>
   \<forall>m \<in> set st. \<exists>r < round s. m = MIsEmpty r \<Longrightarrow> pop_resp s = None \<longrightarrow> empty_resp s = None \<Longrightarrow>
   \<not> waiting s \<longrightarrow> pop_resp s = None \<Longrightarrow> fifo s"
  unfolding fifo_def by blast

lemma fifo_pop:
  assumes "fifo s" "mailbox s = MPop r # ms"
  shows "waiting s \<and> r = round s \<and> pop_resp s = None \<and> empty_resp s = None \<and> ms = [MIsEmpty (round s)]"
proof -
  from assms obtain ps st where m: "MPop r # ms = ps @ st @ current_requests s"
    and ps: "\<forall>m \<in> set ps. is_push m" and st: "\<forall>m \<in> set st. \<exists>r < round s. m = MIsEmpty r"
    and n: "pop_resp s = None \<longrightarrow> empty_resp s = None" by (auto simp: fifo_def)
  have "ps = []" using m ps by (cases ps) auto
  moreover have "st = []" using m st \<open>ps = []\<close> by (cases st) auto
  ultimately show ?thesis using m n by (auto simp: current_requests_def split: if_splits)
qed

lemma fifo_is_empty:
  assumes "fifo s" "mailbox s = MIsEmpty r # ms"
  shows "(\<forall>m \<in> set ms. \<not> is_push m)
     \<and> (r < round s \<and> fifo (s\<lparr>mailbox := ms\<rparr>)
        \<or> r = round s \<and> ms = [] \<and> waiting s \<and> pop_resp s \<noteq> None)"
proof -
  from assms obtain ps st where m: "MIsEmpty r # ms = ps @ st @ current_requests s"
    and ps: "\<forall>m \<in> set ps. is_push m" and st: "\<forall>m \<in> set st. \<exists>r < round s. m = MIsEmpty r"
    by (auto simp: fifo_def)
  have nil: "ps = []" using m ps by (cases ps) auto
  show ?thesis
  proof (cases st)
    case Nil
    with m nil show ?thesis by (auto simp: current_requests_def split: if_splits)
  next
    case (Cons x st')
    then have r: "r < round s" and ms: "ms = st' @ current_requests s" using m nil st by auto
    have "fifo (s\<lparr>mailbox := ms\<rparr>)"
      using assms(1) ms st Cons by (intro fifoI [where ps = "[]" and st = st']) (auto simp: fifo_def current_requests_def)
    moreover have "\<forall>m \<in> set ms. \<not> is_push m" using ms st Cons by (auto simp: current_requests_def)
    ultimately show ?thesis using r by blast
  qed
qed

lemma fifo_step: "bs_step ops s t \<Longrightarrow> completed s \<Longrightarrow> fifo s \<Longrightarrow> fifo t"
proof (induction rule: bs_step.induct)
  case (request s)
  then obtain ps st where "mailbox s = ps @ st" "\<forall>m \<in> set ps. is_push m"
    "\<forall>m \<in> set st. \<exists>r < round s. m = MIsEmpty r" "pop_resp s = None" "empty_resp s = None"
    by (auto simp: fifo_def current_requests_def)
  with request show ?case by (intro fifoI [where ps = ps and st = st]) (auto simp: current_requests_def)
next
  case (actor_push s i c ds ms)
  then obtain ps st where m: "MPush i c ds # ms = ps @ st @ current_requests s" "\<forall>m \<in> set ps. is_push m"
    and st: "\<forall>m \<in> set st. \<exists>r < round s. m = MIsEmpty r" by (auto simp: fifo_def)
  have "ps \<noteq> []" using m st by (cases st) (auto simp: current_requests_def split: if_splits)
  then obtain p ps' where "ps = p # ps'" by (cases ps) auto
  with m st actor_push show ?case
    by (intro fifoI [where ps = ps' and st = st]) (auto simp: fifo_def current_requests_def)
next
  case (actor_pop s r ms b t)
  from fifo_pop [OF actor_pop(4,1)] show ?case
    by (intro fifoI [where ps = "[]" and st = "[]"]) (auto simp: current_requests_def)
next
  case (actor_is_empty s r ms)
  from fifo_is_empty [OF actor_is_empty(3,1)] show ?case
  proof (elim conjE disjE)
    assume "r = round s" "ms = []" "waiting s" "pop_resp s \<noteq> None"
    then show ?thesis by (intro fifoI [where ps = "[]" and st = "[]"]) (auto simp: current_requests_def)
  qed simp
next
  case (take_batch s b)
  then obtain ps st where "mailbox s = ps @ st @ current_requests s" "\<forall>m \<in> set ps. is_push m"
    "\<forall>m \<in> set st. \<exists>r < round s. m = MIsEmpty r" by (auto simp: fifo_def)
  with take_batch show ?case
    by (intro fifoI [where ps = ps and st = "st @ current_requests s"]) (auto simp: current_requests_def next_round_def)
next
  case (take_empty s e)
  then obtain ps st where "mailbox s = ps @ st" "\<forall>m \<in> set ps. is_push m"
    "\<forall>m \<in> set st. \<exists>r < round s. m = MIsEmpty r" "pop_resp s \<noteq> None" by (auto simp: fifo_def current_requests_def)
  with take_empty show ?case
    by (intro fifoI [where ps = ps and st = st]) (auto simp: current_requests_def next_round_def)
next
  case (arrive s e es)
  have "current_requests (s\<lparr>future := es, ready := ready s @ [e]\<rparr>) = current_requests s"
    by (simp add: current_requests_def)
  with arrive show ?case by (simp add: fifo_def)
qed simp_all

text \<open>No push follows an emptiness request.\<close>

fun pushes_first :: "actor_msg list \<Rightarrow> bool" where
  "pushes_first [] \<longleftrightarrow> True"
| "pushes_first (MIsEmpty r # ms) \<longleftrightarrow> mail_pushes ms = []"
| "pushes_first (_ # ms) \<longleftrightarrow> pushes_first ms"

lemma pushes_first_append1: "pushes_first ms \<Longrightarrow> mail_pushes ms' = [] \<Longrightarrow> pushes_first (ms @ ms')"
proof (induction ms rule: pushes_first.induct)
  case 1
  then show ?case by (induction ms' rule: pushes_first.induct) auto
qed auto

lemma pushes_first_append2: "\<forall>r. MIsEmpty r \<notin> set ms \<Longrightarrow> pushes_first ms' \<Longrightarrow> pushes_first (ms @ ms')"
  by (induction ms rule: pushes_first.induct) auto

lemma pushes_first_tail: "mail_pushes ms = [] \<Longrightarrow> pushes_first ms"
  using pushes_first_append1 [of "[]" ms] by simp

section \<open>Executing the steps\<close>

text \<open>The step relation as a function of the action taken: which component moves next.\<close>

datatype bs_action = Arrive | Recv | Request | Actor | Take

definition bs_do :: "'s batcher_ops \<Rightarrow> bs_action \<Rightarrow> 's bs_state \<Rightarrow> 's bs_state option" where
  "bs_do ops a s = (case a of
     Arrive \<Rightarrow> (case future s of e # es \<Rightarrow> Some (s\<lparr>future := es, ready := ready s @ [e]\<rparr>) | [] \<Rightarrow> None)
   | Recv \<Rightarrow> if halted s \<or> completed s then None else (case ready s of
         Inr (i, c, ds) # es \<Rightarrow> Some (next_round (s\<lparr>ready := es, mailbox := mailbox s @ [MPush i c ds]\<rparr>))
       | Inl e # es \<Rightarrow> Some (s\<lparr>ready := es, out := out s @ [Inl e], halted := True\<rparr>)
       | [] \<Rightarrow> if future s = [] then Some (next_round (s\<lparr>completed := True\<rparr>)) else None)
   | Request \<Rightarrow> if halted s \<or> waiting s \<or> \<not> stream_pending s then None
       else Some (s\<lparr>waiting := True, mailbox := mailbox s @ MPop (round s) #
         (if completed s then [MIsEmpty (round s)] else [])\<rparr>)
   | Actor \<Rightarrow> (case mailbox s of
         [] \<Rightarrow> None
       | MPush i c ds # ms \<Rightarrow> Some (s\<lparr>mailbox := ms, batcher := bo_push ops i c ds (batcher s)\<rparr>)
       | MPop r # ms \<Rightarrow> (case bo_pop ops (batcher s) of (b, t) \<Rightarrow> Some (s\<lparr>mailbox := ms, batcher := t,
           pop_resp := (if waiting s \<and> r = round s then Some b else pop_resp s)\<rparr>))
       | MIsEmpty r # ms \<Rightarrow> Some (s\<lparr>mailbox := ms, empty_resp :=
           (if waiting s \<and> r = round s then Some (bo_is_empty ops (batcher s)) else empty_resp s)\<rparr>))
   | Take \<Rightarrow> if halted s \<or> \<not> waiting s \<or> \<not> stream_pending s then None else (case pop_resp s of
         Some (Some b) \<Rightarrow> Some (next_round (s\<lparr>out := out s @ [Inr b]\<rparr>))
       | _ \<Rightarrow> if \<not> completed s then None else (case empty_resp s of
           Some e \<Rightarrow> Some (if e then s\<lparr>halted := True\<rparr> else next_round s) | None \<Rightarrow> None)))"

lemma bs_do_step:
  assumes "bs_do ops a s = Some t"
  shows "bs_step ops s t"
proof (cases a)
  case Arrive
  with assms show ?thesis by (auto simp: bs_do_def split: list.splits intro: bs_step.arrive)
next
  case Recv
  with assms show ?thesis
    by (auto simp: bs_do_def split: list.splits if_splits sum.splits
        intro: bs_step.recv_push bs_step.recv_error bs_step.recv_closed)
next
  case Request
  with assms have "\<not> halted s" "\<not> waiting s" "stream_pending s"
    "t = s\<lparr>waiting := True, mailbox := mailbox s @ MPop (round s) #
      (if completed s then [MIsEmpty (round s)] else [])\<rparr>" by (simp_all add: bs_do_def split: if_splits)
  then show ?thesis using bs_step.request by blast
next
  case Actor
  then obtain m ms where m: "mailbox s = m # ms" using assms by (cases "mailbox s") (auto simp: bs_do_def)
  obtain b u where "bo_pop ops (batcher s) = (b, u)" by (cases "bo_pop ops (batcher s)")
  with assms Actor m bs_step.actor_push [of s _ _ _ ms ops] bs_step.actor_pop [of s _ ms ops b u]
    bs_step.actor_is_empty [of s _ ms ops] show ?thesis
    by (cases m) (simp_all add: bs_do_def del: if_split)
next
  case Take
  then have *: "\<not> halted s" "waiting s" "stream_pending s" using assms by (auto simp: bs_do_def split: if_splits)
  show ?thesis
  proof (cases "\<exists>b. pop_resp s = Some (Some b)")
    case True
    with * Take assms show ?thesis by (auto simp: bs_do_def intro: bs_step.take_batch)
  next
    case False
    with * Take assms obtain e where "completed s" "empty_resp s = Some e"
      "t = (if e then s\<lparr>halted := True\<rparr> else next_round s)"
      by (auto simp: bs_do_def split: option.splits if_splits)
    with * False bs_step.take_empty [of s e ops] show ?thesis by auto
  qed
qed

lemma bs_step_do: "bs_step ops s t \<Longrightarrow> \<exists>a. bs_do ops a s = Some t"
proof (induction rule: bs_step.induct)
  case (arrive s e es)
  then show ?case by (intro exI [of _ Arrive]) (simp add: bs_do_def)
next
  case (take_batch s b)
  then show ?case by (intro exI [of _ Take]) (simp add: bs_do_def)
next
  case (take_empty s e)
  then show ?case
    by (intro exI [of _ Take]) (auto simp: bs_do_def stream_pending_def split: option.splits)
next
  case (request s)
  then show ?case by (intro exI [of _ Request]) (simp add: bs_do_def)
qed (rule exI [of _ Recv] exI [of _ Actor], simp add: bs_do_def; fail)+

fun bs_run :: "'s batcher_ops \<Rightarrow> bs_action list \<Rightarrow> 's bs_state \<Rightarrow> 's bs_state option" where
  "bs_run ops [] s = Some s"
| "bs_run ops (a # as) s = (case bs_do ops a s of Some t \<Rightarrow> bs_run ops as t | None \<Rightarrow> None)"

lemma bs_run_reach: "bs_run ops as s = Some t \<Longrightarrow> bs_reach ops s t"
proof (induction as arbitrary: s)
  case (Cons a as)
  then obtain u where "bs_do ops a s = Some u" "bs_run ops as u = Some t" by (auto split: option.splits)
  with Cons.IH [of u] bs_do_step [of ops a s u] show ?case by (auto simp: bs_reach_def)
qed (simp add: bs_reach_def)

section \<open>Safety of every interleaving\<close>

context detection_batcher
begin

definition the_ops :: "'s batcher_ops" where
  "the_ops = \<lparr>bo_push = push, bo_pop = pop_batch, bo_is_empty = is_empty\<rparr>"

text \<open>
  \<open>hist\<close> lists every pop the actor has made, with the detection lists it took: what was received for a
  key is what was popped for it, what the batcher holds and what waits in the mailbox, in this order.
\<close>

definition popped_for :: "'o \<Rightarrow> (batch \<times> detection list list) list \<Rightarrow> detection list list" where
  "popped_for k hist = concat [v. ((i, c, ds), v) \<leftarrow> hist, bkey i c = k]"

definition hist_ok :: "nat \<Rightarrow> (batch \<times> detection list list) list \<Rightarrow> bool" where
  "hist_ok N hist \<longleftrightarrow> (\<forall>(b, v) \<in> set hist. length v = N \<and> snd (snd b) = concat v)"

definition conserved :: "item list \<Rightarrow> nat \<Rightarrow> 's bs_state \<Rightarrow> (batch \<times> detection list list) list \<Rightarrow> bool" where
  "conserved items N s hist \<longleftrightarrow>
     (\<exists>pre. items = pre @ ready s @ future s
        \<and> (\<forall>k. lists_for k (batches_of pre) =
             popped_for k hist @ view_lists (batcher s) k @ lists_for k (mail_pushes (mailbox s))))
     \<and> inv (batcher s) \<and> n (batcher s) = N \<and> hist_ok N hist
     \<and> subseq (batches_of (out s) @ answered s) (map fst hist)"

lemma popped_for_simps [simp]:
  "popped_for k [] = []"
  "popped_for k (h @ [((i, c, ds), v)]) = popped_for k h @ (if bkey i c = k then v else [])"
  by (simp_all add: popped_for_def)

lemma hist_ok_simps [simp]:
  "hist_ok N []" "hist_ok N (h @ [(b, v)]) \<longleftrightarrow> hist_ok N h \<and> length v = N \<and> snd (snd b) = concat v"
  by (auto simp: hist_ok_def)

lemma conserved_init: "inv b \<Longrightarrow> view b = Map.empty \<Longrightarrow> conserved items (n b) (bs_init items b) []"
  by (auto simp: conserved_def bs_init_def answered_def)

lemma conserved_pop:
  assumes "conserved items N s hist" "mailbox s = MPop r # ms" "pop_batch (batcher s) = (b, t)"
  shows "\<exists>hist'. conserved items N (s\<lparr>mailbox := ms, batcher := t,
      pop_resp := (if waiting s \<and> r = round s then Some b else pop_resp s)\<rparr>) hist'"
proof (cases b)
  case None
  have inv: "inv (batcher s)" using assms(1) by (simp add: conserved_def)
  from pop_None [OF inv] assms(3) None have "t = batcher s" by blast
  with assms None have "conserved items N (s\<lparr>mailbox := ms, batcher := t,
      pop_resp := (if waiting s \<and> r = round s then Some b else pop_resp s)\<rparr>) hist"
    by (auto simp: conserved_def answered_def dest: subseq_appendD1)
  then show ?thesis by blast
next
  case (Some x)
  obtain i c ds where x: "x = (i, c, ds)" by (cases x)
  have inv: "inv (batcher s)" "n (batcher s) = N" using assms(1) by (simp_all add: conserved_def)
  have p: "pop_batch (batcher s) = (Some (i, c, ds), t)" using assms(3) Some x by simp
  note t = pop_Some [OF inv(1) p] and vl = pop_view_lists [OF inv(1) p]
  let ?v = "view_lists (batcher s) (bkey i c)"
  let ?hist = "hist @ [((i, c, ds), ?v)]"
  have "popped_for k hist @ view_lists (batcher s) k = popped_for k ?hist @ view_lists t k" for k
    using vl by (cases "k = bkey i c") auto
  with assms t vl inv Some x have "conserved items N (s\<lparr>mailbox := ms, batcher := t,
      pop_resp := (if waiting s \<and> r = round s then Some b else pop_resp s)\<rparr>) ?hist"
    by (auto simp: conserved_def answered_def append_assoc [symmetric] simp del: append_assoc
        intro: subseq_snoc dest: subseq_appendD1 split: option.splits)
  then show ?thesis by blast
qed

lemma conserved_step:
  assumes "bs_step the_ops s t" "conserved items N s hist"
  shows "\<exists>hist'. conserved items N t hist'"
  using assms
proof (induction rule: bs_step.induct)
  case (arrive s e es)
  then show ?case by (auto simp: conserved_def answered_def)
next
  case (recv_push s i c ds es)
  then obtain pre where pre: "items = pre @ Inr (i, c, ds) # es @ future s"
      "\<forall>k. lists_for k (batches_of pre) =
         popped_for k hist @ view_lists (batcher s) k @ lists_for k (mail_pushes (mailbox s))"
    by (auto simp: conserved_def)
  then have "items = (pre @ [Inr (i, c, ds)]) @ es @ future s" by simp
  with recv_push pre show ?case
    by (auto simp: conserved_def answered_def next_round_def dest: subseq_appendD1
        intro!: exI [of _ hist] exI [of _ "pre @ [Inr (i, c, ds)]"])
next
  case (recv_error s e es)
  then obtain pre where pre: "items = pre @ Inl e # es @ future s"
      "\<forall>k. lists_for k (batches_of pre) =
         popped_for k hist @ view_lists (batcher s) k @ lists_for k (mail_pushes (mailbox s))"
    by (auto simp: conserved_def)
  with recv_error show ?case
    by (auto simp: conserved_def answered_def intro!: exI [of _ hist] exI [of _ "pre @ [Inl e]"])
next
  case (actor_push s i c ds ms)
  then show ?case
    by (auto simp: conserved_def answered_def the_ops_def view_lists_push inv_push n_push
        intro!: exI [of _ hist])
next
  case (actor_pop s r ms b t)
  then show ?case using conserved_pop by (simp add: the_ops_def)
next
  case (take_batch s b)
  then show ?case by (auto simp: conserved_def answered_def next_round_def intro!: exI [of _ hist])
qed (auto simp: conserved_def answered_def next_round_def dest: subseq_appendD1 intro!: exI [of _ hist])

lemma conserved_reach:
  assumes "bs_reach the_ops (bs_init items b) s" "inv b" "view b = Map.empty"
  shows "\<exists>hist. conserved items (n b) s hist"
  using assms(1) unfolding bs_reach_def
proof (induction rule: rtranclp_induct)
  case base
  then show ?case using conserved_init assms(2,3) by blast
next
  case (step s t)
  then show ?case using conserved_step by blast
qed

text \<open>Where no key occurs more than \<open>N\<close> times in the input, the history has each key at most once.\<close>

lemma popped_for_length:
  "hist_ok N hist \<Longrightarrow>
   length (popped_for k hist) = N * length (filter (\<lambda>((i, c, ds), v). bkey i c = k) hist)"
  by (induction hist) (auto simp: popped_for_def hist_ok_def)

lemma popped_for_split:
  "popped_for k (h1 @ ((i, c, ds), v) # h2) = popped_for k h1 @ (if bkey i c = k then v else []) @ popped_for k h2"
  by (simp add: popped_for_def)

lemma popped_for_absent:
  "k \<notin> set (map (\<lambda>((i, c, ds), v). bkey i c) h) \<Longrightarrow> popped_for k h = []"
  by (induction h) (auto simp: popped_for_def)

lemma hist_keys_distinct:
  "(\<And>k. length (filter (\<lambda>((i, c, ds), v). bkey i c = k) hist) \<le> 1) \<Longrightarrow>
   distinct (map (\<lambda>((i, c, ds), v). bkey i c) hist)"
proof (induction hist)
  case (Cons h hist)
  obtain i c ds v where h: "h = ((i, c, ds), v)" by (cases h) auto
  have "filter (\<lambda>((i', c', ds), v). bkey i' c' = bkey i c) hist = []"
    using Cons.prems [of "bkey i c"] h by simp
  then have "bkey i c \<notin> set (map (\<lambda>((i, c, ds), v). bkey i c) hist)"
    by (auto simp: filter_empty_conv)
  moreover have "length (filter (\<lambda>((i, c, ds), v). bkey i c = k) hist) \<le> 1" for k
    using Cons.prems [of k] by (auto split: if_splits)
  ultimately show ?case using Cons.IH h by simp
qed simp

lemma popped_for_unique:
  assumes "distinct (map (\<lambda>((i, c, ds), v). bkey i c) hist)" "((i, c, ds), v) \<in> set hist"
  shows "popped_for (bkey i c) hist = v"
proof -
  obtain h1 h2 where h: "hist = h1 @ ((i, c, ds), v) # h2" using assms(2) by (meson split_list)
  have "popped_for (bkey i c) h1 = []" "popped_for (bkey i c) h2 = []"
    using assms(1) by (auto simp: h intro!: popped_for_absent)
  then show ?thesis by (simp add: h popped_for_split)
qed

lemma safety:
  assumes "bs_reach the_ops (bs_init items b) s" "inv b" "view b = Map.empty" "0 < n b"
    and bound: "\<And>k. length (lists_for k (batches_of items)) \<le> n b"
  shows "distinct (map (\<lambda>(i, c, ds). bkey i c) (batches_of (out s)))
     \<and> (\<forall>(i, c, ds) \<in> set (batches_of (out s)).
          length (lists_for (bkey i c) (batches_of items)) = n b
          \<and> ds = concat (lists_for (bkey i c) (batches_of items)))"
proof -
  obtain hist where c: "conserved items (n b) s hist" using conserved_reach assms(1-3) by blast
  then obtain pre where items: "items = pre @ ready s @ future s" and ok: "hist_ok (n b) hist"
    and lists: "\<And>k. lists_for k (batches_of pre) =
         popped_for k hist @ view_lists (batcher s) k @ lists_for k (mail_pushes (mailbox s))"
    and sub: "subseq (batches_of (out s) @ answered s) (map fst hist)" by (auto simp: conserved_def)
  have "length (popped_for k hist) \<le> n b" for k using bound [of k] lists [of k] by (simp add: items)
  then have dist: "distinct (map (\<lambda>((i, c, ds), v). bkey i c) hist)"
    using popped_for_length [OF ok] assms(4) by (intro hist_keys_distinct) simp
  have sub': "subseq (batches_of (out s)) (map fst hist)" using sub by (rule subseq_appendD1)
  then have "subseq (map (\<lambda>(i, c, ds). bkey i c) (batches_of (out s)))
      (map (\<lambda>(i, c, ds). bkey i c) (map fst hist))" by (rule subseq_map)
  then have d: "distinct (map (\<lambda>(i, c, ds). bkey i c) (batches_of (out s)))"
    using dist subseq_imp_distinct by (force simp: comp_def case_prod_unfold)
  have "length (lists_for (bkey i c) (batches_of items)) = n b
      \<and> ds = concat (lists_for (bkey i c) (batches_of items))"
    if mem: "(i, c, ds) \<in> set (batches_of (out s))" for i c ds
  proof -
    have "set (batches_of (out s)) \<subseteq> set (map fst hist)" using sub' by (metis subseq_conv_nths set_nths_subset)
    with mem obtain v where v: "((i, c, ds), v) \<in> set hist" by auto
    with ok have lv: "length v = n b" "ds = concat v" by (auto simp: hist_ok_def)
    obtain rest where "lists_for (bkey i c) (batches_of items) = v @ rest"
      using lists [of "bkey i c"] popped_for_unique [OF dist v] by (simp add: items)
    with bound [of "bkey i c"] lv show ?thesis by simp
  qed
  with d show ?thesis by auto
qed

subsection \<open>An incomplete chunk keeps the task running for ever\<close>

definition patient :: "'s bs_state \<Rightarrow> bool" where
  "patient s \<longleftrightarrow> \<not> halted s \<and> empty_resp s \<noteq> Some True \<and> (\<forall>x \<in> set (ready s @ future s). \<not> isl x)
     \<and> (completed s \<longrightarrow> ready s = [] \<and> future s = [])
     \<and> (\<not> completed s \<longrightarrow> (\<forall>r. MIsEmpty r \<notin> set (mailbox s))) \<and> pushes_first (mailbox s)"

text \<open>A key with fewer lists than the batcher waits for stays in the batcher once the streams have ended.\<close>

lemma incomplete_not_empty:
  assumes c: "conserved items N s hist" and ended: "ready s = []" "future s = []"
    and mail: "mail_pushes (mailbox s) = []"
    and k: "lists_for k (batches_of items) \<noteq> []" "length (lists_for k (batches_of items)) < N"
  shows "\<not> is_empty (batcher s)"
proof -
  from c ended have l: "lists_for k (batches_of items) = popped_for k hist @ view_lists (batcher s) k"
    and ok: "hist_ok N hist" and inv: "inv (batcher s)" by (auto simp: conserved_def mail)
  from k(2) l have "length (popped_for k hist) < N" by simp
  then have "length (filter (\<lambda>((i, c, ds), v). bkey i c = k) hist) = 0"
    unfolding popped_for_length [OF ok] by (cases "length (filter (\<lambda>((i, c, ds), v). bkey i c = k) hist)") simp_all
  then have "popped_for k hist = []" using popped_for_length [OF ok, of k] by simp
  with l k(1) have "view (batcher s) k \<noteq> None" by (cases "view (batcher s) k") auto
  then show ?thesis using is_empty_iff [OF inv] by auto
qed

lemma patient_step:
  assumes st: "bs_step the_ops s t" and p: "patient s" and c: "conserved items N s hist"
    and k: "lists_for k (batches_of items) \<noteq> []" "length (lists_for k (batches_of items)) < N"
  shows "patient t"
  using st
proof (cases rule: bs_step.cases)
  case (recv_push i c ds es)
  then show ?thesis using p by (auto simp: patient_def next_round_def intro!: pushes_first_append2)
next
  case request
  then show ?thesis using p by (auto simp: patient_def intro!: pushes_first_append1)
next
  case (actor_is_empty r ms)
  with p have "completed s" "mail_pushes (mailbox s) = []" by (auto simp: patient_def)
  with incomplete_not_empty [OF c _ _ _ k] p have "\<not> is_empty (batcher s)" by (simp add: patient_def)
  with actor_is_empty p show ?thesis by (auto simp: patient_def the_ops_def intro: pushes_first_tail)
next
  case (actor_push i c ds ms)
  then show ?thesis using p by (auto simp: patient_def)
next
  case (take_empty e)
  then show ?thesis using p by (auto simp: patient_def next_round_def)
qed (use p in \<open>auto simp: patient_def next_round_def\<close>)

lemma incomplete_never_halts:
  assumes "bs_reach the_ops (bs_init items b) s" "inv b" "view b = Map.empty" "\<forall>x \<in> set items. \<not> isl x"
    and k: "lists_for k (batches_of items) \<noteq> []" "length (lists_for k (batches_of items)) < n b"
  shows "\<not> halted s"
proof -
  from assms(1) have "patient s" unfolding bs_reach_def
  proof (induction rule: rtranclp_induct)
    case base
    show ?case using assms(4) by (simp add: patient_def bs_init_def)
  next
    case (step s t)
    then obtain hist where "conserved items (n b) s hist"
      using conserved_reach [of items b s] assms(2,3) by (auto simp: bs_reach_def)
    with step patient_step k show ?case by blast
  qed
  then show ?thesis by (simp add: patient_def)
qed

subsection \<open>What arrives before the first request is delivered\<close>

text \<open>
  \<open>totals k\<close> is what the streams carry for \<open>k\<close>. When every item is ready before the loop first polls, the
  biased select receives all of them before it makes a request (\<open>filling\<close>), and from then on every
  pop answers the round that waits for it (\<open>draining\<close>).
\<close>

definition held :: "'s bs_state \<Rightarrow> 'o \<Rightarrow> detection list list" where
  "held s k = view_lists (batcher s) k @ lists_for k (mail_pushes (mailbox s))"

definition filling :: "('o \<Rightarrow> detection list list) \<Rightarrow> 's bs_state \<Rightarrow> bool" where
  "filling totals s \<longleftrightarrow>
     \<not> completed s \<and> \<not> halted s \<and> future s = [] \<and> \<not> waiting s \<and> pop_resp s = None \<and> empty_resp s = None
     \<and> inv (batcher s) \<and> out s = [] \<and> (\<forall>m \<in> set (mailbox s). is_push m)
     \<and> (\<forall>x \<in> set (ready s). \<not> isl x)
     \<and> (\<forall>k. held s k @ lists_for k (batches_of (ready s)) = totals k)"

definition delivering :: "('o \<Rightarrow> detection list list) \<Rightarrow> 's bs_state \<Rightarrow> bool" where
  "delivering totals s \<longleftrightarrow> (\<forall>k. held s k = totals k \<or>
     (held s k = [] \<and> (\<exists>i c. bkey i c = k \<and> (i, c, concat (totals k)) \<in> set (batches_of (out s) @ answered s))))"

definition draining :: "('o \<Rightarrow> detection list list) \<Rightarrow> 's bs_state \<Rightarrow> bool" where
  "draining totals s \<longleftrightarrow>
     completed s \<and> future s = [] \<and> inv (batcher s) \<and> fifo s \<and> 0 < n (batcher s)
     \<and> (empty_resp s = Some True \<longrightarrow> (\<forall>k. held s k = []))
     \<and> (halted s \<longrightarrow> (\<forall>k. held s k = []) \<and> answered s = [])
     \<and> delivering totals s"

lemma delivering_cong:
  "held t = held s \<Longrightarrow> set (batches_of (out s) @ answered s) \<subseteq> set (batches_of (out t) @ answered t) \<Longrightarrow>
   delivering totals s \<Longrightarrow> delivering totals t"
  unfolding delivering_def by (simp only:) blast

lemma draining_pop:
  assumes d: "draining totals s" and m: "mailbox s = MPop r # ms"
    and p: "pop_batch (batcher s) = (Some (i, c, ds), t)"
    and s': "s' = s\<lparr>mailbox := ms, batcher := t, pop_resp := Some (Some (i, c, ds))\<rparr>"
  shows "delivering totals s' \<and> \<not> halted s \<and> empty_resp s = None \<and> inv t \<and> n t = n (batcher s)"
proof -
  from d have inv: "inv (batcher s)" and dl: "delivering totals s" and f: "fifo s" and pos: "0 < n (batcher s)"
    by (simp_all add: draining_def)
  note w = fifo_pop [OF f m] and vl = pop_view_lists [OF inv p] and t = pop_Some [OF inv p]
  have hk: "held s = view_lists (batcher s)" "held s' = view_lists t"
    using w by (simp_all add: fun_eq_iff held_def m s')
  have a: "answered s = []" "answered s' = [(i, c, ds)]" "out s' = out s" using w by (simp_all add: answered_def s')
  from vl pos have ne: "held s (bkey i c) \<noteq> []" by (auto simp: hk)
  have "delivering totals s'" unfolding delivering_def
  proof
    fix k
    show "held s' k = totals k \<or> (held s' k = [] \<and>
        (\<exists>i c. bkey i c = k \<and> (i, c, concat (totals k)) \<in> set (batches_of (out s') @ answered s')))"
    proof (cases "k = bkey i c")
      case True
      have "totals k = held s k" using dl ne True unfolding delivering_def by metis
      then have "concat (totals k) = ds" using vl True by (simp add: hk)
      moreover have "held s' k = []" using vl True by (simp add: hk)
      ultimately show ?thesis using a True by auto
    next
      case False
      then have "held s' k = held s k" using vl by (simp add: hk)
      moreover have "set (batches_of (out s) @ answered s) \<subseteq> set (batches_of (out s') @ answered s')"
        using a by auto
      ultimately show ?thesis using dl unfolding delivering_def by (simp only:) blast
    qed
  qed
  with d ne w t show ?thesis by (auto simp: draining_def)
qed

lemma held_actor_push:
  assumes "inv (batcher s)" "mailbox s = MPush i c ds # ms"
  shows "held (s\<lparr>mailbox := ms, batcher := push i c ds (batcher s)\<rparr>) = held s"
  using view_lists_push [OF assms(1)] by (simp add: fun_eq_iff held_def assms(2))

lemma drainingI:
  "draining totals s \<Longrightarrow> fifo t \<Longrightarrow> completed t \<Longrightarrow> future t = [] \<Longrightarrow> inv (batcher t) \<Longrightarrow>
   n (batcher t) = n (batcher s) \<Longrightarrow> held t = held s \<Longrightarrow>
   set (batches_of (out s) @ answered s) \<subseteq> set (batches_of (out t) @ answered t) \<Longrightarrow>
   (empty_resp t = Some True \<Longrightarrow> \<forall>k. held s k = []) \<Longrightarrow>
   (halted t \<Longrightarrow> (\<forall>k. held s k = []) \<and> answered t = []) \<Longrightarrow> draining totals t"
  unfolding draining_def using delivering_cong [of t s totals] by simp

lemma draining_step: "bs_step the_ops s t \<Longrightarrow> draining totals s \<Longrightarrow> draining totals t"
proof -
  assume st: "bs_step the_ops s t" and d: "draining totals s"
  from d have f: "fifo t" "fifo s" using fifo_step [OF st] by (auto simp: draining_def)
  from st d f(1) show ?thesis
  proof (cases rule: bs_step.cases)
    case request
    then show ?thesis using d f by (intro drainingI [OF d]) (auto simp: draining_def held_def answered_def)
  next
    case (actor_push i c ds ms)
    from d have i: "inv (batcher s)" by (simp add: draining_def)
    from actor_push d f i show ?thesis
      by (intro drainingI [OF d]) (auto simp: draining_def the_ops_def inv_push n_push answered_def held_actor_push)
  next
    case (actor_pop r ms b u)
    note w = fifo_pop [OF f(2) actor_pop(2)]
    from actor_pop have p: "pop_batch (batcher s) = (b, u)" by (simp add: the_ops_def)
    show ?thesis
    proof (cases b)
      case None
      with pop_None p d have "u = batcher s" by (auto simp: draining_def)
      with actor_pop None w d f show ?thesis
        by (intro drainingI [OF d]) (auto simp: draining_def held_def answered_def)
    next
      case (Some x)
      obtain i c ds where x: "x = (i, c, ds)" by (cases x)
      from actor_pop w Some x have t: "t = s\<lparr>mailbox := ms, batcher := u, pop_resp := Some (Some (i, c, ds))\<rparr>" by simp
      from draining_pop [OF d actor_pop(2) _ t] p Some x d f t show ?thesis by (simp add: draining_def)
    qed
  next
    case (actor_is_empty r ms)
    then have mp: "mail_pushes ms = []" "inv (batcher s)"
      using fifo_is_empty [OF f(2)] d by (auto simp: mail_pushes_empty draining_def)
    from mp have h: "held t = held s" by (simp add: actor_is_empty fun_eq_iff held_def)
    have e: "is_empty (batcher s) \<Longrightarrow> \<forall>k. held s k = []"
      using is_empty_iff [OF mp(2)] mp(1) by (simp add: held_def actor_is_empty)
    from actor_is_empty h d f show ?thesis
      by (intro drainingI [OF d]) (auto simp: draining_def answered_def the_ops_def intro!: e split: if_splits)
  next
    case (take_batch b)
    then show ?thesis using d f
      by (intro drainingI [OF d]) (auto simp: draining_def held_def fun_eq_iff answered_def next_round_def)
  next
    case (take_empty e)
    then have a: "answered s = []" by (auto simp: answered_def split: option.splits)
    have h: "held t = held s" by (auto simp: take_empty fun_eq_iff held_def next_round_def)
    from take_empty a h d f show ?thesis
      by (intro drainingI [OF d]) (auto simp: draining_def answered_def next_round_def split: if_splits)
  qed (use d f in \<open>auto simp: draining_def\<close>)
qed

lemma filling_step:
  assumes "bs_step the_ops s t" "filling totals s" "0 < n (batcher s)"
  shows "(filling totals t \<or> draining totals t) \<and> n (batcher t) = n (batcher s)"
  using assms
proof (cases rule: bs_step.cases)
  case (recv_push i c ds es)
  have "held t k @ lists_for k (batches_of (ready t)) = held s k @ lists_for k (batches_of (ready s))" for k
    by (simp add: recv_push held_def next_round_def)
  with recv_push assms show ?thesis by (simp add: filling_def next_round_def)
next
  case recv_closed
  have "current_requests t = []" using recv_closed by (simp add: current_requests_def next_round_def)
  then have "fifo t" using recv_closed assms
    by (intro fifoI [where ps = "mailbox s" and st = "[]"]) (auto simp: filling_def next_round_def)
  with recv_closed assms show ?thesis
    by (auto simp: filling_def draining_def delivering_def held_def next_round_def answered_def)
next
  case (actor_push i c ds ms)
  then show ?thesis using assms held_actor_push [OF _ actor_push(2)]
    by (auto simp: filling_def the_ops_def inv_push n_push)
qed (use assms in \<open>auto simp: filling_def stream_pending_def\<close>)

lemma ready_delivered:
  assumes r: "bs_reach the_ops ((bs_init [] b)\<lparr>ready := items\<rparr>) t" and "inv b" "view b = Map.empty" "0 < n b"
    and "\<forall>x \<in> set items. \<not> isl x" and "halted t" "lists_for k (batches_of items) \<noteq> []"
  shows "\<exists>i c. bkey i c = k \<and> (i, c, concat (lists_for k (batches_of items))) \<in> set (batches_of (out t))"
proof -
  let ?T = "\<lambda>k. lists_for k (batches_of items)"
  from r have "(filling ?T t \<or> draining ?T t) \<and> 0 < n (batcher t)" unfolding bs_reach_def
  proof (induction rule: rtranclp_induct)
    case base
    show ?case using assms(2-5) by (simp add: filling_def bs_init_def held_def)
  next
    case (step s u)
    then show ?case using filling_step [OF step(2)] draining_step [OF step(2)] by (auto simp: draining_def)
  qed
  then have d: "draining ?T t" using assms(6) by (auto simp: filling_def)
  with assms(6,7) show ?thesis unfolding draining_def delivering_def by (metis append_Nil2)
qed

end

section \<open>Properties of the batch streams\<close>

definition mp_ops :: "max_processed_index_batcher batcher_ops" where
  "mp_ops = \<lparr>bo_push = mp_push, bo_pop = mp_pop_batch, bo_is_empty = mp_is_empty\<rparr>"

definition cb_ops :: "completion_batcher batcher_ops" where
  "cb_ops = \<lparr>bo_push = cb_push, bo_pop = cb_pop_batch, bo_is_empty = cb_is_empty\<rparr>"

lemma mp_ops_eq: "mp.the_ops = mp_ops" and cb_ops_eq: "cb.the_ops = cb_ops"
  by (simp_all add: mp.the_ops_def cb.the_ops_def mp_ops_def cb_ops_def)

text \<open>Two chunks and the detections of two detectors for each.\<close>

definition ex_chunk :: "nat \<Rightarrow> chunk" where
  "ex_chunk i = chunk_default\<lparr>input_start_index := i, input_end_index := i, c_start := i, c_end := Suc i\<rparr>"

definition ex_items :: "item list" where
  "ex_items = [Inr (0, ex_chunk 0, []), Inr (0, ex_chunk 0, []), Inr (0, ex_chunk 1, []), Inr (0, ex_chunk 1, [])]"

text \<open>All detections are received before the actor is asked: both chunks come out.\<close>

definition ex_calm :: "bs_action list" where
  "ex_calm = [Recv, Recv, Recv, Recv, Recv, Actor, Actor, Actor, Actor, Request, Actor, Take, Actor,
     Request, Actor, Actor, Take, Request, Actor, Actor, Take]"

text \<open>
  The actor pops the first chunk for a request, but before the task takes the answer the next detection
  arrives: the biased select receives it and drops the answer.
\<close>

definition ex_race :: "bs_action list" where
  "ex_race = [Arrive, Arrive, Recv, Recv, Request, Actor, Actor, Actor, Arrive, Recv, Arrive, Recv, Recv,
     Actor, Actor, Request, Actor, Take, Actor, Request, Actor, Actor, Take]"

lemmas ex_simps = ex_items_def ex_chunk_def chunk_default_def bs_init_def bs_do_def next_round_def
  stream_pending_def cb_ops_def mp_ops_def cb_new_def mp_new_def cb_push_def mp_push_def cb_pop_batch_def
  mp_pop_batch_def cb_is_empty_def mp_is_empty_def choice_key_def chunk_key_def

lemma ex_calm_run:
  "\<exists>s. bs_run cb_ops ex_calm ((bs_init [] (cb_new 2))\<lparr>ready := ex_items\<rparr>) = Some s \<and> halted s
     \<and> out s = [Inr (0, ex_chunk 0, []), Inr (0, ex_chunk 1, [])]"
  by (simp add: ex_calm_def ex_simps)

lemma ex_race_run:
  "\<exists>s. bs_run cb_ops ex_race (bs_init ex_items (cb_new 2)) = Some s \<and> halted s
     \<and> out s = [Inr (0, ex_chunk 1, [])]"
  by (simp add: ex_race_def ex_simps)

lemma ex_lists:
  "choice_lists k (batches_of ex_items) =
     (if k = choice_key (ex_chunk 0, 0) \<or> k = choice_key (ex_chunk 1, 0) then [[], []] else [])"
  "chunk_lists k' (batches_of ex_items) =
     (if k' = chunk_key (ex_chunk 0) \<or> k' = chunk_key (ex_chunk 1) then [[], []] else [])"
  by (auto simp: choice_lists_def chunk_lists_def ex_items_def ex_chunk_def choice_key_def chunk_key_def)

text \<open>
  C7. In every interleaving of the task, the batcher actor and the detection streams of a completions
  request, a batch that is sent is the whole result for its chunk and choice: every detector has delivered its
  list for it, the batch carries all of these lists in the order of arrival, and no chunk of a choice is sent twice.
\<close>

theorem completion_stream_safety:
  assumes "bs_reach cb_ops (bs_init items (cb_new n)) s" "0 < n"
    and "\<forall>k. length (choice_lists k (batches_of items)) \<le> n"
  shows "distinct (map (\<lambda>(i, c, ds). choice_key (c, i)) (batches_of (out s)))
     \<and> (\<forall>(i, c, ds) \<in> set (batches_of (out s)).
          length (choice_lists (choice_key (c, i)) (batches_of items)) = n
          \<and> ds = concat (choice_lists (choice_key (c, i)) (batches_of items)))"
  using cb.safety [of items "cb_new n" s] assms by (simp add: cb_ops_eq choice_lists_eq)

theorem completion_stream_safety_witness:
  "\<exists>s. bs_reach cb_ops (bs_init ex_items (cb_new 2)) s \<and> batches_of (out s) = [(0, ex_chunk 1, [])]
     \<and> length (choice_lists (choice_key (ex_chunk 1, 0)) (batches_of ex_items)) = 2"
proof -
  obtain s where s: "bs_reach cb_ops (bs_init ex_items (cb_new 2)) s" "out s = [Inr (0, ex_chunk 1, [])]"
    using ex_race_run bs_run_reach by blast
  have "\<forall>k. length (choice_lists k (batches_of ex_items)) \<le> 2" by (simp add: ex_lists)
  from completion_stream_safety [OF s(1) _ this] s show ?thesis by (intro exI [of _ s]) simp
qed

text \<open>
  C8. The same for the batch stream of the detection endpoints, whose batcher orders by chunk alone: a
  batch that is sent is the concatenation of the lists of all detectors for its chunk, and no
  chunk is sent twice, whatever the interleaving.
\<close>

theorem max_processed_stream_safety:
  assumes "bs_reach mp_ops (bs_init items (mp_new n)) s" "0 < n"
    and "\<forall>k. length (chunk_lists k (batches_of items)) \<le> n"
  shows "distinct (map (\<lambda>(i, c, ds). chunk_key c) (batches_of (out s)))
     \<and> (\<forall>(i, c, ds) \<in> set (batches_of (out s)).
          length (chunk_lists (chunk_key c) (batches_of items)) = n
          \<and> ds = concat (chunk_lists (chunk_key c) (batches_of items)))"
  using mp.safety [of items "mp_new n" s] assms by (simp add: mp_ops_eq chunk_lists_eq)

lemma ex_race_run_mp:
  "\<exists>s. bs_run mp_ops ex_race (bs_init ex_items (mp_new 2)) = Some s \<and> halted s
     \<and> out s = [Inr (0, ex_chunk 1, [])]"
  by (simp add: ex_race_def ex_simps)

theorem max_processed_stream_safety_witness:
  "\<exists>s. bs_reach mp_ops (bs_init ex_items (mp_new 2)) s \<and> batches_of (out s) = [(0, ex_chunk 1, [])]
     \<and> length (chunk_lists (chunk_key (ex_chunk 1)) (batches_of ex_items)) = 2"
proof -
  obtain s where s: "bs_reach mp_ops (bs_init ex_items (mp_new 2)) s" "out s = [Inr (0, ex_chunk 1, [])]"
    using ex_race_run_mp bs_run_reach by blast
  have "\<forall>k. length (chunk_lists k (batches_of ex_items)) \<le> 2" by (simp add: ex_lists)
  from max_processed_stream_safety [OF s(1) _ this] s show ?thesis by (intro exI [of _ s]) simp
qed



text \<open>
  C10. In general a batch can be lost: there is a run of the task, with both detectors delivering both chunks
  and without any error, that ends having sent the second chunk only. The batch of the first chunk was
  popped for a request whose answer the biased select drops.
\<close>

theorem completion_stream_batch_lost:
  "\<exists>s. bs_reach cb_ops (bs_init ex_items (cb_new 2)) s \<and> halted s \<and> future s = [] \<and> ready s = []
     \<and> (\<forall>k. length (choice_lists k (batches_of ex_items)) \<in> {0, 2})
     \<and> length (choice_lists (choice_key (ex_chunk 0, 0)) (batches_of ex_items)) = 2
     \<and> out s = [Inr (0, ex_chunk 1, [])] \<and> choice_key (ex_chunk 1, 0) \<noteq> choice_key (ex_chunk 0, 0)"
proof -
  have "\<exists>s. bs_run cb_ops ex_race (bs_init ex_items (cb_new 2)) = Some s \<and> halted s \<and> future s = []
     \<and> ready s = [] \<and> out s = [Inr (0, ex_chunk 1, [])]"
    by (simp add: ex_race_def ex_simps)
  then obtain s where s: "bs_reach cb_ops (bs_init ex_items (cb_new 2)) s" "halted s" "future s = []" "ready s = []"
    "out s = [Inr (0, ex_chunk 1, [])]" using bs_run_reach by blast
  then show ?thesis by (intro exI [of _ s]) (simp add: ex_lists choice_key_def chunk_key_def ex_chunk_def)
qed

text \<open>
  C11. A chunk of a choice that some, but not all, detectors deliver keeps the task alive for ever: no
  reachable state has left the loop, because the batcher never becomes empty.
\<close>

theorem completion_stream_incomplete_never_halts:
  assumes "bs_reach cb_ops (bs_init items (cb_new n)) s" "\<forall>x \<in> set items. \<not> isl x"
    and "choice_lists k (batches_of items) \<noteq> []" "length (choice_lists k (batches_of items)) < n"
  shows "\<not> halted s"
  using cb.incomplete_never_halts [of items "cb_new n" s k] assms by (simp add: cb_ops_eq choice_lists_eq)

theorem completion_stream_incomplete_never_halts_witness:
  "\<exists>s. bs_run cb_ops ex_race (bs_init ex_items (cb_new 3)) = None
     \<and> bs_run cb_ops (take 14 ex_race) (bs_init ex_items (cb_new 3)) = Some s \<and> completed s \<and> \<not> halted s"
proof -
  obtain s where s: "bs_run cb_ops (take 14 ex_race) (bs_init ex_items (cb_new 3)) = Some s" "completed s"
    "bs_run cb_ops ex_race (bs_init ex_items (cb_new 3)) = None"
    by (simp add: ex_race_def ex_simps)
  have "\<forall>x \<in> set ex_items. \<not> isl x" by (simp add: ex_items_def)
  from completion_stream_incomplete_never_halts [OF bs_run_reach [OF s(1)] this, of "choice_key (ex_chunk 0, 0)"] s
  show ?thesis by (auto simp: ex_lists)
qed

text \<open>
  A request with one detector skips the batcher: the batches are forwarded as they are, up to and including
  the first error, after which nothing is sent.
\<close>

theorem forward_stream_prefix:
  "forward_stream msgs =
     takeWhile (\<lambda>m. \<not> isl m) msgs @ take 1 (dropWhile (\<lambda>m. \<not> isl m) msgs)"
  by (induction msgs rule: forward_stream.induct) simp_all

end
