(* ===== verification/Stream_Tasks.thy ===== *)
theory Stream_Tasks
  imports Completion_State Batch_Stream
begin

text \<open>
  The streaming side of \<^verbatim>\<open>src/orchestrator/common/tasks.rs\<close> and \<^verbatim>\<open>common/client.rs\<close>: chunk streams, their
  fan-out to the detectors, and the detection streams of a choice; and what a detection batch stream delivers for
  them. A stream is the list of the messages it carries until it ends.
\<close>

section \<open>Broadcast channels\<close>

text \<open>
  A receiver of a broadcast channel sees what is sent after it subscribed. One that falls too far behind
  gets an error (\<open>Lagged\<close>) in place of the messages it missed. Both are properties of a run.
\<close>

record rx_run =
  rx_subscribed :: nat
  rx_lag :: "nat option"

datatype 'a received = Received 'a | Lagged

definition broadcast_recv :: "rx_run \<Rightarrow> 'a list \<Rightarrow> 'a received list" where
  "broadcast_recv rx msgs =
     (let seen = drop (rx_subscribed rx) msgs in
      case rx_lag rx of
        None \<Rightarrow> map Received seen
      | Some n \<Rightarrow> if n < length seen then map Received (take n seen) @ [Lagged] else map Received seen)"

definition rx_prompt :: rx_run where
  "rx_prompt = \<lparr>rx_subscribed = 0, rx_lag = None\<rparr>"

lemma broadcast_recv_prompt [simp]: "broadcast_recv rx_prompt msgs = map Received msgs"
  by (simp add: broadcast_recv_def rx_prompt_def)

section \<open>Chunk streams\<close>

text \<open>\<^verbatim>\<open>index as i64\<close>.\<close>

definition usize_as_i64 :: "nat \<Rightarrow> int" where
  "usize_as_i64 n = (let m = int n mod 2 ^ 64 in if m < 2 ^ 63 then m else m - 2 ^ 64)"

text \<open>The requests of a chunk stream; the closure unwraps, so an error or a lag breaks the request stream.\<close>

fun chunk_stream_requests :: "input_msg received list \<Rightarrow> (string \<times> int) list \<times> bool" where
  "chunk_stream_requests [] = ([], False)"
| "chunk_stream_requests (Received (Inr (index, text)) # ms) =
     (case chunk_stream_requests ms of (reqs, broken) \<Rightarrow> ((text, usize_as_i64 index) # reqs, broken))"
| "chunk_stream_requests (Received (Inl e) # ms) = ([], True)"
| "chunk_stream_requests (Lagged # ms) = ([], True)"

definition chunk_stream ::
  "services \<Rightarrow> string \<Rightarrow> input_msg received list \<Rightarrow> (error, (error + chunk) list) res" where
  "chunk_stream sv chunker_id input_rx =
     (case chunk_stream_requests input_rx of (reqs, broken) \<Rightarrow>
        res_map (map (map_sum (ChunkerRequestFailed chunker_id) chunk_of_stream_result))
          (of_sum (ChunkerRequestFailed chunker_id) (sv_bidi_tokenization sv chunker_id reqs broken)))"

text \<open>
  The loop collects until an error message arrives; the end of the channel and a lag are errors of \<^verbatim>\<open>recv()\<close>
  itself, which is unwrapped: the task panics (\<open>None\<close>) and its output channel closes without a chunk.
\<close>

fun collect_inputs :: "input_msg received list \<Rightarrow> (nat \<times> string) list option" where
  "collect_inputs [] = None"
| "collect_inputs (Received (Inr input) # ms) = map_option ((#) input) (collect_inputs ms)"
| "collect_inputs (Received (Inl e) # ms) = Some []"
| "collect_inputs (Lagged # ms) = None"

definition whole_doc_chunk_stream :: "input_msg received list \<Rightarrow> (error + chunk) list" where
  "whole_doc_chunk_stream input_rx =
     (case collect_inputs input_rx of
        None \<Rightarrow> []
      | Some inputs \<Rightarrow>
          let text = concat (map snd inputs) in
          [Inr \<lparr>input_start_index = 0, input_end_index = (if inputs = [] then 0 else fst (last inputs)),
                c_start = 0, c_end = length (chars text), c_text = text\<rparr>])"

text \<open>\<open>rxs k\<close> is the run of the input receiver of the \<open>k\<close>-th chunker.\<close>

definition chunk_streams ::
  "services \<Rightarrow> orch_context \<Rightarrow> (nat \<Rightarrow> rx_run) \<Rightarrow> string list \<Rightarrow> input_msg list
     \<Rightarrow> (error, (string, (error + chunk) list) hashmap) res" where
  "chunk_streams sv ctx rxs ids inputs =
     res_map hm_collect (collect_results (map (\<lambda>(k, chunker_id).
       res_map (Pair chunker_id)
         (if chunker_id = DEFAULT_CHUNKER_ID then Ok (whole_doc_chunk_stream (broadcast_recv (rxs k) inputs))
          else res_bind (ok_or (ChunkerNotFound chunker_id) (get_client ChunkerClient (ctx_clients ctx) chunker_id))
            (\<lambda>_. chunk_stream sv chunker_id (broadcast_recv (rxs k) inputs)))) (List.enumerate 0 ids)))"

section \<open>Detection streams\<close>

fun detection_task ::
  "services \<Rightarrow> orch_context \<Rightarrow> headers \<Rightarrow> string \<Rightarrow> detector_params \<Rightarrow> f64 \<Rightarrow> u32 \<Rightarrow> (error + chunk) received list
     \<Rightarrow> item list" where
  "detection_task sv ctx hs detector_id params threshold input_id [] = []"
| "detection_task sv ctx hs detector_id params threshold input_id (Lagged # ms) = []"
| "detection_task sv ctx hs detector_id params threshold input_id (Received (Inl e) # ms) =
     Inl e # detection_task sv ctx hs detector_id params threshold input_id ms"
| "detection_task sv ctx hs detector_id params threshold input_id (Received (Inr c) # ms) =
     (case get_client DetectorClient (ctx_clients ctx) detector_id of
        None \<Rightarrow> []
      | Some _ \<Rightarrow>
          (case detect_text_contents sv hs detector_id params [c] False of
             Ok ds \<Rightarrow> [Inr (input_id, c, filter (\<lambda>d. threshold \<le> d_score d) ds)]
           | Err e \<Rightarrow> [Inl e]
           | Panic \<Rightarrow> [])
          @ detection_task sv ctx hs detector_id params threshold input_id ms)"

text \<open>\<open>dxs k\<close> is the run of the chunk receiver of the \<open>k\<close>-th detector.\<close>

definition text_contents_detection_streams ::
  "services \<Rightarrow> orch_context \<Rightarrow> (nat \<Rightarrow> rx_run) \<Rightarrow> (nat \<Rightarrow> rx_run) \<Rightarrow> headers \<Rightarrow> detector_map \<Rightarrow> u32 \<Rightarrow> input_msg list
     \<Rightarrow> (error, item list list) res" where
  "text_contents_detection_streams sv ctx rxs dxs hs ds input_id inputs =
     res_bind (get_chunker_ids (ctx_config ctx) ds) (\<lambda>ids.
     res_bind (chunk_streams sv ctx rxs ids inputs) (\<lambda>chunk_stream_map.
     collect_results (map (\<lambda>(k, detector_id, params).
       res_bind (take_threshold ctx detector_id params) (\<lambda>(threshold, ps).
       res_bind (unwrap (get_chunker_id (ctx_config ctx) detector_id)) (\<lambda>chunker_id.
       res_map (\<lambda>cs. detection_task sv ctx hs detector_id ps threshold input_id (broadcast_recv (dxs k) cs))
         (unwrap (hm_get chunk_stream_map chunker_id))))) (List.enumerate 0 ds))))"

section \<open>The detection batch stream\<close>

text \<open>\<^verbatim>\<open>select_all\<close>: the merged stream is an interleaving of the streams.\<close>

inductive merged :: "'a list list \<Rightarrow> 'a list \<Rightarrow> bool" where
  merged_done: "\<forall>xs \<in> set xss. xs = [] \<Longrightarrow> merged xss []"
| merged_step: "k < length xss \<Longrightarrow> xss ! k = x # xs \<Longrightarrow> merged (xss[k := xs]) ys \<Longrightarrow> merged xss (x # ys)"

text \<open>\<open>batch_stream_sends ops b streams sent\<close>: at some moment of some run the batch channel has received \<open>sent\<close>.\<close>

definition batch_stream_sends :: "'s batcher_ops \<Rightarrow> 's \<Rightarrow> item list list \<Rightarrow> item list \<Rightarrow> bool" where
  "batch_stream_sends ops b streams sent \<longleftrightarrow>
     (if length streams = 1 then prefix sent (forward_stream (hd streams))
      else \<exists>items s. merged streams items \<and> bs_reach ops (bs_init items b) s \<and> prefix sent (out s))"

lemma merged_mset: "merged xss ys \<Longrightarrow> mset ys = mset (concat xss)"
proof (induction rule: merged.induct)
  case (merged_done xss)
  then have "concat xss = []" by simp
  then show ?case by simp
next
  case (merged_step k xss x xs ys)
  then have "xss = take k xss @ (x # xs) # drop (Suc k) xss" "xss[k := xs] = take k xss @ xs # drop (Suc k) xss"
    by (metis id_take_nth_drop, metis upd_conv_take_nth_drop)
  then have "mset (concat xss) = add_mset x (mset (concat (xss[k := xs])))"
    by (metis (no_types, lifting) concat.simps(2) concat_append mset_append append_Cons mset.simps(2) union_mset_add_mset_right)
  with merged_step.IH show ?case by simp
qed

lemma merged_two: "merged [[x], [y]] [x, y]"
proof -
  have "merged [[], []] []" by (rule merged_done) simp
  then have "merged [[], [y]] [y]" by (intro merged_step [of 1 _ y "[]"]) simp_all
  then show ?thesis by (intro merged_step [of 0 _ x "[]"]) simp_all
qed

lemma merged_concat: "\<exists>ys. merged xss ys"
proof (induction "length (concat xss)" arbitrary: xss)
  case 0
  then show ?case by (intro exI [of _ "[]"] merged_done) auto
next
  case (Suc n)
  then have "concat xss \<noteq> []" by (metis length_0_conv nat.distinct(1))
  then obtain xs where "xs \<in> set xss" "xs \<noteq> []" by auto
  then obtain k x xs where k: "k < length xss" "xss ! k = x # xs" by (metis in_set_conv_nth neq_Nil_conv)
  have "xss = take k xss @ (x # xs) # drop (Suc k) xss" "xss[k := xs] = take k xss @ xs # drop (Suc k) xss"
    using k by (metis id_take_nth_drop, metis upd_conv_take_nth_drop)
  then have "length (concat xss) = Suc (length (concat (xss[k := xs])))"
    by (metis (no_types, lifting) concat.simps(2) concat_append length_append length_Cons append_Cons add_Suc_right)
  with Suc obtain ys where "merged (xss[k := xs]) ys" by auto
  with k show ?case by (blast intro: merged_step)
qed

lemma batches_of_mset: "mset xs = mset ys \<Longrightarrow> mset (batches_of xs) = mset (batches_of ys)"
proof -
  have "mset (batches_of zs) = image_mset projr (filter_mset (\<lambda>x. \<not> isl x) (mset zs))" for zs
  proof (induction zs)
    case (Cons z zs)
    then show ?case by (cases z) auto
  qed simp
  then show "mset xs = mset ys \<Longrightarrow> mset (batches_of xs) = mset (batches_of ys)" by simp
qed

lemma batches_of_concat: "batches_of (concat xss) = concat (map batches_of xss)"
  by (induction xss) auto

lemma forward_stream_set: "set (forward_stream msgs) \<subseteq> set msgs"
  by (induction msgs rule: forward_stream.induct) auto

lemma prefix_batches: "prefix xs ys \<Longrightarrow> set (batches_of xs) \<subseteq> set (batches_of ys)"
  by (auto simp: prefix_def)

section \<open>Lemmas\<close>

text \<open>What a detection stream reports on: chunks of its chunk stream, examined by its detector.\<close>

lemma detection_task_mem:
  assumes "Inr (i, c, dl) \<in> set (detection_task sv ctx hs d ps t input_id ms)"
  shows "i = input_id \<and> Received (Inr c) \<in> set ms \<and> (\<exists>raw. detect_text_contents sv hs d ps [c] False = Ok raw
     \<and> dl = filter (\<lambda>x. t \<le> d_score x) raw)"
  using assms
proof (induction sv ctx hs d ps t input_id ms rule: detection_task.induct)
  case (4 sv ctx hs d ps t input_id c' ms)
  then show ?case
    by (cases "get_client DetectorClient (ctx_clients ctx) d"; cases "detect_text_contents sv hs d ps [c'] False") auto
qed auto

lemma take_threshold_Ok:
  "take_threshold ctx d ps = Ok (t, ps') \<longleftrightarrow>
     config_detector (ctx_config ctx) d \<noteq> None \<and> t = threshold_of ctx d ps \<and> ps' = snd (pop_threshold ps)"
  by (cases "pop_threshold ps"; cases "fst (pop_threshold ps)"; cases "config_detector (ctx_config ctx) d")
    (auto simp: take_threshold_def threshold_of_def)

definition detector_stream ::
  "services \<Rightarrow> orch_context \<Rightarrow> headers \<Rightarrow> u32 \<Rightarrow> string \<times> detector_params \<Rightarrow> (error + chunk) received list \<Rightarrow> item list" where
  "detector_stream sv ctx hs i = (\<lambda>(d, ps). detection_task sv ctx hs d (snd (pop_threshold ps)) (threshold_of ctx d ps) i)"

lemma detection_streams_all2:
  assumes "text_contents_detection_streams sv ctx rxs dxs hs ds i inputs = Ok ss"
  shows "list_all2 (\<lambda>e s. \<exists>ms. s = detector_stream sv ctx hs i e ms) ds ss"
proof -
  from assms obtain m where "list_all2 (\<lambda>x s. (\<lambda>(k, detector_id, params).
       res_bind (take_threshold ctx detector_id params) (\<lambda>(threshold, ps).
       res_bind (unwrap (get_chunker_id (ctx_config ctx) detector_id)) (\<lambda>chunker_id.
       res_map (\<lambda>cs. detection_task sv ctx hs detector_id ps threshold i (broadcast_recv (dxs k) cs))
         (unwrap (hm_get m chunker_id))))) x = Ok s) (List.enumerate 0 ds) ss"
    unfolding text_contents_detection_streams_def res_bind_Ok_iff collect_results_map_Ok_iff by blast
  then have "list_all2 (\<lambda>(k, d, ps) s. \<exists>ms. s = detector_stream sv ctx hs i (d, ps) ms) (List.enumerate 0 ds) ss"
    by (rule list_all2_mono) (auto simp: take_threshold_Ok detector_stream_def)
  then have l: "length ds = length ss"
    and "\<forall>k < length ds. \<exists>ms. ss ! k = detector_stream sv ctx hs i (ds ! k) ms"
    by (auto simp: list_all2_conv_all_nth nth_enumerate_eq split: prod.splits)
  then show ?thesis by (simp add: list_all2_conv_all_nth)
qed

text \<open>How many lists a stream has for a chunk of a choice; merging keeps the numbers.\<close>

definition n_lists :: "chunk_pos \<times> u32 \<Rightarrow> item list \<Rightarrow> nat" where
  "n_lists k s = length (choice_lists k (batches_of s))"

lemma n_lists_simps [simp]:
  "n_lists k [] = 0" "n_lists k (xs @ ys) = n_lists k xs + n_lists k ys"
  by (simp_all add: n_lists_def choice_lists_def)

lemma n_lists_concat: "n_lists k (concat xss) = sum_list (map (n_lists k) xss)"
  by (induction xss) auto

lemma choice_lists_mset: "mset xs = mset ys \<Longrightarrow> mset (choice_lists k xs) = mset (choice_lists k ys)"
  by (simp add: choice_lists_def)

lemma choice_lists_concat: "choice_lists k (concat xss) = concat (map (choice_lists k) xss)"
  by (induction xss) (simp_all add: choice_lists_def)

lemma n_lists_merged:
  assumes "merged xss items"
  shows "n_lists k items = sum_list (map (n_lists k) xss)"
    and "set (choice_lists k (batches_of items)) = (\<Union>s \<in> set xss. set (choice_lists k (batches_of s)))"
proof -
  have m: "mset (choice_lists k (batches_of items)) = mset (choice_lists k (batches_of (concat xss)))"
    by (intro choice_lists_mset batches_of_mset merged_mset assms)
  then show "n_lists k items = sum_list (map (n_lists k) xss)"
    unfolding n_lists_concat [symmetric] n_lists_def by (metis size_mset)
  have "set (choice_lists k (batches_of items)) = set (choice_lists k (batches_of (concat xss)))"
    using m by (metis set_mset_mset)
  then show "set (choice_lists k (batches_of items)) = (\<Union>s \<in> set xss. set (choice_lists k (batches_of s)))"
    by (simp add: batches_of_concat choice_lists_concat)
qed

text \<open>A stream of choice \<open>i\<close> that reports on each position once.\<close>

definition stream_of :: "u32 \<Rightarrow> item list \<Rightarrow> bool" where
  "stream_of i s \<longleftrightarrow> (\<forall>(j, c, dl) \<in> set (batches_of s). j = i)
     \<and> distinct (map (\<lambda>(j, c, dl). chunk_key c) (batches_of s))"

lemma n_lists_stream_of:
  assumes "stream_of i s"
  shows "n_lists (p, j) s \<le> (if j = i then 1 else 0)"
proof -
  have "length (filter (\<lambda>(j', c, dl). choice_key (c, j') = (p, j)) bs) \<le> (if j = i then 1 else 0)"
    if "\<forall>(j, c, dl) \<in> set bs. j = i" "distinct (map (\<lambda>(j, c, dl). chunk_key c) bs)" for bs :: "batch list"
    using that
  proof (induction bs)
    case (Cons b bs)
    obtain j' c dl where b: "b = (j', c, dl)" by (cases b)
    have "chunk_key c = p \<Longrightarrow> filter (\<lambda>(j', c, dl). choice_key (c, j') = (p, j)) bs = []"
      using Cons.prems(2) b by (force simp: filter_empty_conv choice_key_def)
    with Cons b show ?case by (auto simp: choice_key_def)
  qed simp
  with assms show ?thesis by (simp add: n_lists_def choice_lists_def stream_of_def)
qed

lemma sum_list_le_length: "\<forall>x \<in> set xs. g x \<le> (1::nat) \<Longrightarrow> sum_list (map g xs) \<le> length xs"
  by (induction xs) auto

lemma sum_list_all_ones:
  "(\<forall>x \<in> set xs. f x \<le> (1::nat)) \<Longrightarrow> sum_list (map f xs) = length xs \<Longrightarrow> \<forall>x \<in> set xs. f x = 1"
proof (induction xs)
  case (Cons x xs)
  have "sum_list (map f xs) \<le> length xs" "f x \<le> 1" using Cons.prems(1) sum_list_le_length [of xs f] by simp_all
  with Cons.prems(2) have "f x = 1" "sum_list (map f xs) = length xs" by simp_all
  with Cons show ?case by simp
qed simp

lemma sum_list_choices:
  assumes "distinct is" "\<And>i. i \<in> set is \<Longrightarrow> \<forall>s \<in> set (f i). g s \<le> (if i = j then 1 else (0::nat))"
  shows "sum_list (map g (concat (map f is))) = (if j \<in> set is then sum_list (map g (f j)) else 0)"
  using assms
proof (induction "is")
  case (Cons i "is")
  have "i \<noteq> j \<Longrightarrow> sum_list (map g (f i)) = 0" using Cons.prems(2) [of i] by (auto simp: sum_list_eq_0_iff)
  with Cons show ?case by auto
qed simp

text \<open>A batch that is sent holds one list from every stream of its choice.\<close>

lemma batch_from_all_streams:
  assumes sent: "batch_stream_sends cb_ops (cb_new n) (concat (map streams choices)) sent"
    and choices: "distinct choices" "\<And>i. i \<in> set choices \<Longrightarrow> length (streams i) = n \<and> (\<forall>s \<in> set (streams i). stream_of i s)"
    and n: "0 < n" and mem: "Inr (i, c, dets) \<in> set sent"
  shows "i \<in> set choices \<and> (\<forall>s \<in> set (streams i). \<exists>c' dl. (i, c', dl) \<in> set (batches_of s)
     \<and> chunk_key c' = chunk_key c \<and> set dl \<subseteq> set dets)
     \<and> (\<forall>x \<in> set dets. \<exists>s \<in> set (streams i). \<exists>c' dl. (i, c', dl) \<in> set (batches_of s)
          \<and> chunk_key c' = chunk_key c \<and> x \<in> set dl)"
proof (cases "length (concat (map streams choices)) = 1")
  case True
  then obtain s where s: "concat (map streams choices) = [s]" by (cases "concat (map streams choices)") auto
  have "set (concat (map streams choices)) = {s}" unfolding s by simp
  then have un: "(\<Union>j \<in> set choices. set (streams j)) = {s}" by simp
  then obtain j where j: "j \<in> set choices" "s \<in> set (streams j)" by blast
  have sj: "\<forall>s' \<in> set (streams j). s' = s" using un j(1) by blast
  have "Inr (i, c, dets) \<in> set s"
    using sent mem s forward_stream_set [of s] by (auto simp: batch_stream_sends_def dest!: set_mono_prefix)
  then have b: "(i, c, dets) \<in> set (batches_of s)" by (force simp: batches_of_def)
  then have "i = j" using choices(2) [OF j(1)] j(2) by (auto simp: stream_of_def)
  note i = j [folded this] sj [folded this]
  show ?thesis
    by (intro conjI ballI i(1))
      (use b i(3) in \<open>force intro!: exI [of _ c] exI [of _ dets]\<close>,
       use b i(2) in \<open>force intro!: bexI [of _ s] exI [of _ c] exI [of _ dets]\<close>)
next
  case False
  let ?ss = "concat (map streams choices)"
  obtain items s where items: "merged ?ss items" "bs_reach cb_ops (bs_init items (cb_new n)) s" "prefix sent (out s)"
    using sent False by (auto simp: batch_stream_sends_def)
  have le: "n_lists (p, j) s \<le> (if i = j then 1 else 0)" if "i \<in> set choices" "s \<in> set (streams i)" for p j i s
    using n_lists_stream_of [of i s p j] choices(2) [OF that(1)] that(2) by (auto split: if_splits)
  have total: "n_lists (p, j) items = (if j \<in> set choices then sum_list (map (n_lists (p, j)) (streams j)) else 0)" for p j
    unfolding n_lists_merged(1) [OF items(1)] by (rule sum_list_choices [OF choices(1)]) (use le in blast)
  have bound: "n_lists k items \<le> n" for k
  proof (cases k)
    case (Pair p j)
    have "j \<in> set choices \<Longrightarrow> sum_list (map (n_lists (p, j)) (streams j)) \<le> n"
      using sum_list_le_length [of "streams j" "n_lists (p, j)"] le [of j _ p j] choices(2) [of j] by simp
    with Pair total [of p j] show ?thesis by simp
  qed
  let ?k = "choice_key (c, i)"
  have k: "?k = (chunk_key c, i)" by (simp add: choice_key_def)
  have "(i, c, dets) \<in> set (batches_of (out s))" using prefix_batches [OF items(3)] mem by (force simp: batches_of_def)
  with cb.safety [of items "cb_new n" s] items(2) n bound
  have full: "n_lists ?k items = n" and dets: "dets = concat (choice_lists ?k (batches_of items))"
    by (auto simp: cb_ops_eq choice_lists_eq n_lists_def)
  then have i: "i \<in> set choices" using n total k by (metis less_numeral_extra(3))
  then have "\<forall>s \<in> set (streams i). n_lists ?k s = 1"
    using full total [of "chunk_key c" i] choices(2) [OF i] le [OF i, of _ "chunk_key c" i] k
    by (intro sum_list_all_ones) auto
  moreover have lists: "set (choice_lists ?k (batches_of items)) = (\<Union>s \<in> set (streams i). set (choice_lists ?k (batches_of s)))"
  proof -
    have "set (choice_lists ?k (batches_of s)) = {}" if "j \<in> set choices" "s \<in> set (streams j)" "j \<noteq> i" for j s
      using le [OF that(1,2), of "chunk_key c" i] that(3) by (auto simp: n_lists_def k)
    with i show ?thesis unfolding n_lists_merged(2) [OF items(1)] by fastforce
  qed
  moreover have in_lists: "dl \<in> set (choice_lists ?k bs) \<longleftrightarrow> (\<exists>c'. (i, c', dl) \<in> set bs \<and> chunk_key c' = chunk_key c)" for dl bs
    by (force simp: choice_lists_def choice_key_def)
  ultimately have "\<forall>s \<in> set (streams i). \<exists>dl \<in> set (choice_lists ?k (batches_of s)). set dl \<subseteq> set dets"
    unfolding dets by (fastforce simp: n_lists_def length_Suc_conv)
  then have "\<forall>s \<in> set (streams i). \<exists>c' dl. (i, c', dl) \<in> set (batches_of s)
     \<and> chunk_key c' = chunk_key c \<and> set dl \<subseteq> set dets" unfolding in_lists Bex_def by meson
  moreover have "\<exists>s \<in> set (streams i). \<exists>c' dl. (i, c', dl) \<in> set (batches_of s)
          \<and> chunk_key c' = chunk_key c \<and> x \<in> set dl" if "x \<in> set dets" for x
  proof -
    from that obtain dl where dl: "dl \<in> set (choice_lists ?k (batches_of items))" "x \<in> set dl" unfolding dets by auto
    then obtain s where "s \<in> set (streams i)" "dl \<in> set (choice_lists ?k (batches_of s))" unfolding lists by blast
    with dl(2) show ?thesis unfolding in_lists by meson
  qed
  ultimately show ?thesis using i by simp
qed

section \<open>Properties\<close>

text \<open>
  C26. No part of a generated text is released before every detector has examined it: in every run of the detection
  pipeline of a completions request, a batch that comes out for a chunk of a choice contains, for every
  requested detector, the detections of that detector on that chunk which reach its threshold, and nothing
  else. The hypothesis on \<open>streams\<close> is that no chunker reports a position twice.
\<close>

theorem streamed_batch_checked_by_all:
  assumes "\<forall>i \<in> set choices. text_contents_detection_streams sv ctx (rxs i) (dxs i) hs ds i (inputs i) = Ok (streams i)"
    and "distinct choices" "\<forall>i \<in> set choices. \<forall>s \<in> set (streams i). distinct (map (\<lambda>(j, c, dl). chunk_key c) (batches_of s))"
    and "batch_stream_sends cb_ops (cb_new (length ds)) (concat (map streams choices)) sent"
    and "Inr (i, c, dets) \<in> set sent" "ds \<noteq> []"
  shows "i \<in> set choices
     \<and> (\<forall>(d, ps) \<in> set ds. \<exists>c' raw. chunk_key c' = chunk_key c
          \<and> detect_text_contents sv hs d (snd (pop_threshold ps)) [c'] False = Ok raw
          \<and> set (filter (\<lambda>x. threshold_of ctx d ps \<le> d_score x) raw) \<subseteq> set dets)
     \<and> (\<forall>x \<in> set dets. \<exists>(d, ps) \<in> set ds. \<exists>c' raw. chunk_key c' = chunk_key c
          \<and> detect_text_contents sv hs d (snd (pop_threshold ps)) [c'] False = Ok raw
          \<and> x \<in> set raw \<and> threshold_of ctx d ps \<le> d_score x)"
proof -
  have all2: "list_all2 (\<lambda>e s. \<exists>ms. s = detector_stream sv ctx hs j e ms) ds (streams j)" if "j \<in> set choices" for j
    using detection_streams_all2 assms(1) that by blast
  have from_task: "j' = j \<and> (\<exists>raw. detect_text_contents sv hs d (snd (pop_threshold ps)) [c'] False = Ok raw
      \<and> dl = filter (\<lambda>x. threshold_of ctx d ps \<le> d_score x) raw)"
    if "(j', c', dl) \<in> set (batches_of (detector_stream sv ctx hs j (d, ps) ms))" for j j' c' dl d ps ms
    using that detection_task_mem [of j' c' dl sv ctx hs d] by (auto simp: detector_stream_def batches_of_def)
  have of: "length (streams j) = length ds \<and> (\<forall>s \<in> set (streams j). stream_of j s)" if j: "j \<in> set choices" for j
  proof -
    have "\<forall>s \<in> set (streams j). \<exists>d ps ms. s = detector_stream sv ctx hs j (d, ps) ms"
      using all2 [OF j] by (auto simp: list_all2_conv_all_nth in_set_conv_nth) (metis prod.exhaust)
    then have "\<forall>s \<in> set (streams j). stream_of j s" using assms(3) j from_task by (fastforce simp: stream_of_def)
    with list_all2_lengthD [OF all2 [OF j]] show ?thesis by simp
  qed
  note b = batch_from_all_streams [OF assms(4,2) of _ assms(5)]
  have i: "i \<in> set choices" using b assms(6) by simp
  have in_stream: "\<exists>s ms. s \<in> set (streams i) \<and> s = detector_stream sv ctx hs i e ms" if "e \<in> set ds" for e
    using all2 [OF i] that by (fastforce simp: list_all2_conv_all_nth in_set_conv_nth)
  have of_stream: "\<exists>d ps ms. (d, ps) \<in> set ds \<and> s = detector_stream sv ctx hs i (d, ps) ms" if "s \<in> set (streams i)" for s
    using all2 [OF i] that by (auto simp: list_all2_conv_all_nth in_set_conv_nth) (metis prod.exhaust)
  have "\<exists>c' raw. chunk_key c' = chunk_key c \<and> detect_text_contents sv hs d (snd (pop_threshold ps)) [c'] False = Ok raw
      \<and> set (filter (\<lambda>x. threshold_of ctx d ps \<le> d_score x) raw) \<subseteq> set dets" if e: "(d, ps) \<in> set ds" for d ps
  proof -
    from in_stream [OF e] obtain ms where s: "detector_stream sv ctx hs i (d, ps) ms \<in> set (streams i)" by blast
    with b assms(6) obtain c' dl where "(i, c', dl) \<in> set (batches_of (detector_stream sv ctx hs i (d, ps) ms))"
      "chunk_key c' = chunk_key c" "set dl \<subseteq> set dets" by blast
    with from_task [OF this(1)] show ?thesis by blast
  qed
  moreover have "\<exists>(d, ps) \<in> set ds. \<exists>c' raw. chunk_key c' = chunk_key c
          \<and> detect_text_contents sv hs d (snd (pop_threshold ps)) [c'] False = Ok raw
          \<and> x \<in> set raw \<and> threshold_of ctx d ps \<le> d_score x" if x: "x \<in> set dets" for x
  proof -
    from b x assms(6) obtain s c' dl where s: "s \<in> set (streams i)" "(i, c', dl) \<in> set (batches_of s)"
      "chunk_key c' = chunk_key c" "x \<in> set dl" by blast
    from of_stream [OF s(1)] obtain d ps ms where d: "(d, ps) \<in> set ds" "s = detector_stream sv ctx hs i (d, ps) ms" by blast
    from from_task [OF s(2) [unfolded d(2)]] s(3,4) d(1) show ?thesis by (intro bexI [of _ "(d, ps)"]) auto
  qed
  ultimately show ?thesis using i by blast
qed

text \<open>
  A deployment with two contents detectors \<open>d\<close> and \<open>e\<close> on the chunker \<open>s\<close>, which makes one chunk of every
  message.
\<close>

definition ex_stream_ctx :: orch_context where
  "ex_stream_ctx = \<lparr>ctx_config = orchestrator_config_default\<lparr>detectors :=
       [(''d'', (ex_detector TextContents)\<lparr>dc_chunker_id := ''s''\<rparr>), (''e'', (ex_detector TextContents)\<lparr>dc_chunker_id := ''s''\<rparr>)]\<rparr>,
     ctx_clients = [(''d'', DetectorClient), (''e'', DetectorClient), (''s'', ChunkerClient), (''openai'', OpenAiClient)]\<rparr>"

definition ex_stream_chunk :: "nat \<Rightarrow> string \<Rightarrow> chunk" where
  "ex_stream_chunk i t = \<lparr>input_start_index = i, input_end_index = i, c_start = i, c_end = Suc i, c_text = t\<rparr>"

definition ex_stream_detection :: "string \<Rightarrow> detection" where
  "ex_stream_detection d = (detection_of_content ex_content)\<lparr>d_detector_id := Some d\<rparr>"

lemma ex_stream_ctx_get [simp]:
  "hm_get (detectors (ctx_config ex_stream_ctx)) ''d'' = Some ((ex_detector TextContents)\<lparr>dc_chunker_id := ''s''\<rparr>)"
  "hm_get (detectors (ctx_config ex_stream_ctx)) ''e'' = Some ((ex_detector TextContents)\<lparr>dc_chunker_id := ''s''\<rparr>)"
  "get_client DetectorClient (ctx_clients ex_stream_ctx) ''d'' = Some DetectorClient"
  "get_client DetectorClient (ctx_clients ex_stream_ctx) ''e'' = Some DetectorClient"
  "get_client ChunkerClient (ctx_clients ex_stream_ctx) ''s'' = Some ChunkerClient"
  "get_client OpenAiClient (ctx_clients ex_stream_ctx) ''openai'' = Some OpenAiClient"
  by (simp_all add: ex_stream_ctx_def orchestrator_config_default_def get_client_def)

lemma ex_stream_detect:
  "detect_text_contents ex_services [] d [] [ex_stream_chunk i ''bad''] False = Ok [ex_stream_detection d]"
  "detect_text_contents ex_services [] d [] [ex_stream_chunk i ''out''] False = Ok []"
  by (simp_all add: detect_text_contents_def ex_services_def ex_stream_chunk_def located_def ex_stream_detection_def)

lemma ex_stream_streams:
  "text_contents_detection_streams ex_services ex_stream_ctx (\<lambda>_. rx_prompt) (\<lambda>_. rx_prompt) [] [(''d'', []), (''e'', [])] 0
     [Inr (0, ''bad'')] = Ok [[Inr (0, ex_stream_chunk 0 ''bad'', [ex_stream_detection ''d''])],
       [Inr (0, ex_stream_chunk 0 ''bad'', [ex_stream_detection ''e''])]]"
proof -
  have ids: "get_chunker_ids (ctx_config ex_stream_ctx) [(''d'', []), (''e'', [])] = Ok [''s'', ''s'']"
    by (simp add: get_chunker_ids_def get_chunker_id_def)
  have c: "chunk_stream ex_services ''s'' [Received (Inr (0, ''bad''))] = Ok [Inr (ex_stream_chunk 0 ''bad'')]"
    by (simp add: chunk_stream_def ex_services_def chunk_of_stream_result_def as_usize_def usize_as_i64_def ex_stream_chunk_def)
  have cs: "chunk_streams ex_services ex_stream_ctx (\<lambda>_. rx_prompt) [''s'', ''s''] [Inr (0, ''bad'')]
      = Ok [(''s'', [Inr (ex_stream_chunk 0 ''bad'')])]"
    by (simp add: chunk_streams_def DEFAULT_CHUNKER_ID_def c hm_collect_def hm_insert_def)
  have "d_score (ex_stream_detection d) = 1" for d by (simp add: ex_stream_detection_def ex_content_def detection_of_content_def)
  then show ?thesis
    by (simp add: text_contents_detection_streams_def ids cs take_threshold_def config_detector_def pop_threshold_def
        params_remove_def get_chunker_id_def ex_stream_detect ex_detector_def)
qed

definition ex_stream_run :: "bs_action list" where
  "ex_stream_run = [Arrive, Arrive, Recv, Recv, Recv, Actor, Actor, Request, Actor, Take]"

theorem streamed_batch_checked_by_all_witness:
  "batch_stream_sends cb_ops (cb_new 2)
     [[Inr (0, ex_stream_chunk 0 ''bad'', [ex_stream_detection ''d''])], [Inr (0, ex_stream_chunk 0 ''bad'', [ex_stream_detection ''e''])]]
     [Inr (0, ex_stream_chunk 0 ''bad'', [ex_stream_detection ''d'', ex_stream_detection ''e''])]
   \<and> (\<exists>c' raw. chunk_key c' = chunk_key (ex_stream_chunk 0 ''bad'')
       \<and> detect_text_contents ex_services [] ''e'' (snd (pop_threshold [])) [c'] False = Ok raw
       \<and> set (filter (\<lambda>x. threshold_of ex_stream_ctx ''e'' [] \<le> d_score x) raw)
           \<subseteq> {ex_stream_detection ''d'', ex_stream_detection ''e''})"
proof -
  let ?d = "[Inr (0, ex_stream_chunk 0 ''bad'', [ex_stream_detection ''d''])] :: item list"
  let ?e = "[Inr (0, ex_stream_chunk 0 ''bad'', [ex_stream_detection ''e''])] :: item list"
  let ?out = "[Inr (0, ex_stream_chunk 0 ''bad'', [ex_stream_detection ''d'', ex_stream_detection ''e''])] :: item list"
  have m: "merged [?d, ?e] (?d @ ?e)"
    using merged_two by simp
  have "\<exists>s. bs_run cb_ops ex_stream_run (bs_init (?d @ ?e) (cb_new 2)) = Some s \<and> out s = ?out"
    by (simp add: ex_stream_run_def ex_simps)
  then have sent: "batch_stream_sends cb_ops (cb_new 2) [?d, ?e] ?out"
    unfolding batch_stream_sends_def using m bs_run_reach by fastforce
  have "\<exists>c' raw. chunk_key c' = chunk_key (ex_stream_chunk 0 ''bad'')
       \<and> detect_text_contents ex_services [] ''e'' (snd (pop_threshold [])) [c'] False = Ok raw
       \<and> set (filter (\<lambda>x. threshold_of ex_stream_ctx ''e'' [] \<le> d_score x) raw)
           \<subseteq> {ex_stream_detection ''d'', ex_stream_detection ''e''}"
    using streamed_batch_checked_by_all [of "[0]" ex_services ex_stream_ctx "\<lambda>_ _. rx_prompt" "\<lambda>_ _. rx_prompt" "[]"
        "[(''d'', []), (''e'', [])]" "\<lambda>_. [Inr (0, ''bad'')]" "\<lambda>_. [?d, ?e]" ?out 0 "ex_stream_chunk 0 ''bad''"
        "[ex_stream_detection ''d'', ex_stream_detection ''e'']"] sent
    by (simp add: ex_stream_streams numeral_2_eq_2)
  with sent show ?thesis by blast
qed

text \<open>
  A stream that ends normally gives the whole-document chunker no chunk: the task waits for an error message to
  stop collecting, and the end of the channel makes it panic. So a detector without a chunker never reports on a
  stream without errors.
\<close>

theorem whole_doc_chunk_stream_empty:
  "whole_doc_chunk_stream (map (\<lambda>x. Received (Inr x)) inputs) = []
   \<and> whole_doc_chunk_stream (map (\<lambda>x. Received (Inr x)) inputs @ [Received (Inl e)]) =
       [Inr \<lparr>input_start_index = 0, input_end_index = (if inputs = [] then 0 else fst (last inputs)), c_start = 0,
          c_end = length (chars (concat (map snd inputs))), c_text = concat (map snd inputs)\<rparr>]"
proof -
  have "collect_inputs (map (\<lambda>x. Received (Inr x)) inputs) = None"
    "collect_inputs (map (\<lambda>x. Received (Inr x)) inputs @ [Received (Inl e)]) = Some inputs"
    by (induction inputs) simp_all
  then show ?thesis by (simp add: whole_doc_chunk_stream_def Let_def)
qed

end
