(* ===== verification/Chat_Streaming.thy ===== *)
theory Chat_Streaming
  imports Stream_Tasks
begin

text \<open>
  The streaming handler of the chat completions endpoint
  (\<^verbatim>\<open>src/orchestrator/handlers/chat_completions_detection/streaming.rs\<close>): consuming the model's stream, building
  responses from detection batches, whole-document detection at the end, and the task that sends all of it to the
  client.
\<close>

section \<open>Merging chunks\<close>

definition chat_merge_logprobs :: "chat_completion_chunk list \<Rightarrow> chat_completion_logprobs option" where
  "chat_merge_logprobs cs =
     (let (content, refusal) = fold (\<lambda>c (content, refusal).
          (case ck_choices c of
             choice # _ \<Rightarrow> (case kc_logprobs choice of
                 Some l \<Rightarrow> (content @ lps_content l, refusal @ lps_refusal l)
               | None \<Rightarrow> (content, refusal))
           | [] \<Rightarrow> (content, refusal))) cs ([], []) in
      if content \<noteq> [] \<or> refusal \<noteq> [] then Some \<lparr>lps_content = content, lps_refusal = refusal\<rparr> else None)"

definition tool_call_default :: "nat \<Rightarrow> tool_call" where
  "tool_call_default index = \<lparr>tl_index = Some index, tl_id = [], tl_type = [], tl_function = None, tl_custom = None\<rparr>"

text \<open>Updates the entry of a tool call with a chunk of it.\<close>

definition apply_tool_call_chunk :: "tool_call \<Rightarrow> tool_call \<Rightarrow> tool_call" where
  "apply_tool_call_chunk tc entry =
     (let entry = (if tl_id tc \<noteq> [] then entry\<lparr>tl_id := tl_id tc\<rparr> else entry);
          entry = (case tl_function tc of None \<Rightarrow> entry | Some fn \<Rightarrow>
            let f = unwrap_or \<lparr>fn_name = [], fn_arguments = []\<rparr> (tl_function entry);
                entry = (if fn_name fn \<noteq> [] then entry\<lparr>tl_type := ''function''\<rparr> else entry);
                f = (if fn_name fn \<noteq> [] then f\<lparr>fn_name := fn_name fn\<rparr> else f);
                f = (if fn_arguments fn \<noteq> [] then f\<lparr>fn_arguments := fn_arguments f @ fn_arguments fn\<rparr> else f)
            in entry\<lparr>tl_function := Some f\<rparr>)
      in (case tl_custom tc of None \<Rightarrow> entry | Some cu \<Rightarrow>
            let c = unwrap_or \<lparr>cu_name = [], cu_input = []\<rparr> (tl_custom entry);
                entry = (if cu_name cu \<noteq> [] then entry\<lparr>tl_type := ''custom''\<rparr> else entry);
                c = (if cu_name cu \<noteq> [] then c\<lparr>cu_name := cu_name cu\<rparr> else c);
                c = (if cu_input cu \<noteq> [] then c\<lparr>cu_input := cu_input c @ cu_input cu\<rparr> else c)
            in entry\<lparr>tl_custom := Some c\<rparr>))"

fun merge_tool_chunks :: "tool_call list \<Rightarrow> (nat, tool_call) hashmap \<Rightarrow> (error, (nat, tool_call) hashmap) res" where
  "merge_tool_chunks [] m = Ok m"
| "merge_tool_chunks (tc # tcs) m =
     res_bind (unwrap (tl_index tc)) (\<lambda>index.
       merge_tool_chunks tcs (hm_entry index (apply_tool_call_chunk tc (tool_call_default index))
         (apply_tool_call_chunk tc) m))"

definition first_tool_calls :: "chat_completion_chunk \<Rightarrow> tool_call list" where
  "first_tool_calls c = (case ck_choices c of choice # _ \<Rightarrow> dl_tool_calls (kc_delta choice) | [] \<Rightarrow> [])"

text \<open>\<open>ord\<close> is the traversal order of the hash map the calls are collected in.\<close>

definition merge_tool_calls :: "order \<Rightarrow> chat_completion_chunk list \<Rightarrow> (error, tool_call list option) res" where
  "merge_tool_calls ord cs =
     res_map (\<lambda>m. let calls = map snd (reorder ord m) in if calls \<noteq> [] then Some calls else None)
       (merge_tool_chunks (concat (map first_tool_calls cs)) [])"

definition merge_content :: "chat_completion_chunk list \<Rightarrow> content option" where
  "merge_content cs =
     (let content_text = concat [t. c \<leftarrow> cs, choice \<leftarrow> take 1 (ck_choices c),
          t \<leftarrow> (case dl_content (kc_delta choice) of Some t \<Rightarrow> [t] | None \<Rightarrow> [])] in
      if content_text \<noteq> [] then Some (Text content_text) else None)"

section \<open>Consuming the model's stream\<close>

type_synonym chat_msg = "error + chat_completion_chunk option"
type_synonym chat_process = "chat_completion_chunk stream_process"
type_synonym chat_state = "chat_completion_chunk completion_state"

definition chat_record :: "nat \<Rightarrow> chat_completion_chunk \<Rightarrow> chat_process \<Rightarrow> chat_process" where
  "chat_record message_index c p =
     (if ck_usage c \<noteq> None \<and> ck_choices c = [] then with_state (set_usage (the (ck_usage c))) p
      else
        let p = (if message_index = 0 then with_state (set_metadata (ck_id c) (ck_created c) (ck_model c)) p else p) in
        case ck_choices c of
          choice # _ \<Rightarrow>
            let choice_text = unwrap_or [] (dl_content (kc_delta choice));
                p = with_state (insert_completion (kc_index choice) message_index c) p
            in if has_input (kc_index choice) p \<and> choice_text \<noteq> []
               then send_input (kc_index choice) (Inr (message_index, choice_text)) p else p
        | [] \<Rightarrow> p)"

fun process_chat_completion_stream :: "(nat \<times> chat_msg) list \<Rightarrow> chat_process \<Rightarrow> chat_process" where
  "process_chat_completion_stream [] p = p"
| "process_chat_completion_stream ((message_index, Inr (Some c)) # msgs) p =
     (if response_closed p then p
      else process_chat_completion_stream msgs (chat_record message_index c (forward c p)))"
| "process_chat_completion_stream ((message_index, Inr None) # msgs) p = process_chat_completion_stream msgs p"
| "process_chat_completion_stream ((message_index, Inl e) # msgs) p =
     process_chat_completion_stream msgs (send_error e p)"

section \<open>Responses from detection batches\<close>

text \<open>\<^verbatim>\<open>choices[0]\<close> panics on a chunk without choices.\<close>

definition update_first_choice ::
  "(chat_completion_chunk_choice \<Rightarrow> chat_completion_chunk_choice) \<Rightarrow> chat_completion_chunk
     \<Rightarrow> (error, chat_completion_chunk) res" where
  "update_first_choice f c = (case ck_choices c of
     choice # choices \<Rightarrow> Ok (c\<lparr>ck_choices := f choice # choices\<rparr>) | [] \<Rightarrow> Panic)"

text \<open>
  \<open>st\<close> is the state when the wait for the choice's entry ends; an entry that is missing then has not come
  within the timeout.
\<close>

definition chat_output_detection_response ::
  "chat_state \<Rightarrow> u32 \<Rightarrow> chunk \<Rightarrow> detection list \<Rightarrow> (error, chat_completion_chunk) res" where
  "chat_output_detection_response st choice_index chunk dets =
     (case hm_get (cs_completions st) choice_index of
        None \<Rightarrow> Err (Other (''completion entry for choice_index '' @ show_nat (unat choice_index) @
          '' not ready after 30s timeout''))
      | Some m \<Rightarrow>
          res_bind (bt_range (input_start_index chunk) (input_end_index chunk) m) (\<lambda>range.
          let cs = map snd range in
          if cs = [] then Err (Other ''no chat completions found for chunk'')
          else
            res_map (\<lambda>c.
              let c = (if dets \<noteq> [] then c\<lparr>ck_warnings := [unsuitable_output_warning]\<rparr> else c) in
              c\<lparr>ck_detections := Some (completion_detections_default\<lparr>cdet_output :=
                 [\<lparr>cod_choice_index = choice_index, cod_results = dets\<rparr>]\<rparr>)\<rparr>)
            (update_first_choice (\<lambda>choice. choice\<lparr>
                kc_delta := (kc_delta choice)\<lparr>dl_role := Some Assistant, dl_content := Some (c_text chunk)\<rparr>,
                kc_logprobs := chat_merge_logprobs cs\<rparr>) (last cs))))"

text \<open>The last chunk of a choice, if it has a finish reason and comes right after the chunks of the batch.\<close>

definition chat_finish_chunk ::
  "(nat, chat_completion_chunk) btree \<Rightarrow> nat \<Rightarrow> chat_completion_chunk option" where
  "chat_finish_chunk m input_end =
     (if 2 \<le> length m \<and> fst (m ! (length m - 2)) = input_end then
        (let c = snd (last m) in
         case ck_choices c of
           choice # choices \<Rightarrow>
             if kc_finish_reason choice \<noteq> None
             then Some (c\<lparr>ck_choices := choice\<lparr>kc_delta := (kc_delta choice)\<lparr>dl_role := Some Assistant\<rparr>\<rparr> # choices\<rparr>)
             else None
         | [] \<Rightarrow> None)
      else None)"

text \<open>
  Each batch comes with the states the two reads of its processing see. The result is the channel and whether the
  task is still running; a panic ends it.
\<close>

type_synonym 'm task_end = "'m tx \<times> bool"

fun chat_process_detection_batch_stream :: "(item \<times> chat_state \<times> chat_state) list \<Rightarrow> chat_msg tx \<Rightarrow> chat_msg task_end" where
  "chat_process_detection_batch_stream [] tx = (tx, True)"
| "chat_process_detection_batch_stream ((Inl e, _, _) # items) tx = (tx_sends [Inl e, Inr None] tx, True)"
| "chat_process_detection_batch_stream ((Inr (choice_index, chunk, dets), st1, st2) # items) tx =
     (case chat_output_detection_response st1 choice_index chunk dets of
        Panic \<Rightarrow> (tx, False)
      | Err e \<Rightarrow> (tx_sends [Inl e, Inr None] tx, True)
      | Ok c \<Rightarrow>
          if tx_closed tx then (tx, True)
          else
            let tx = tx_send (Inr (Some c)) tx in
            case hm_get (cs_completions st2) choice_index of
              None \<Rightarrow> (tx, True)
            | Some m \<Rightarrow> chat_process_detection_batch_stream items
                (case chat_finish_chunk m (input_end_index chunk) of
                   Some c \<Rightarrow> tx_send (Inr (Some c)) tx | None \<Rightarrow> tx))"

section \<open>Whole-document detection\<close>

fun spawn_whole_doc_chat_tasks ::
  "services \<Rightarrow> orch_context \<Rightarrow> (detector_type \<Rightarrow> sched) \<Rightarrow> headers \<Rightarrow> message list \<Rightarrow> tool list \<Rightarrow> u32 \<times> message
     \<Rightarrow> (detector_type, detector_map) hashmap \<Rightarrow> (error, task_result list) res" where
  "spawn_whole_doc_chat_tasks sv ctx sc hs messages tools choice [] = Ok []"
| "spawn_whole_doc_chat_tasks sv ctx sc hs messages tools (choice_index, m) ((t, ds) # groups) =
     (case t of
        TextContents \<Rightarrow>
          (case message_text m of
             Some text \<Rightarrow> res_map ((#) (choice_index, t, contents_detections sv ctx (sc t) hs ds [(0, text)]))
                (spawn_whole_doc_chat_tasks sv ctx sc hs messages tools (choice_index, m) groups)
           | None \<Rightarrow> spawn_whole_doc_chat_tasks sv ctx sc hs messages tools (choice_index, m) groups)
      | TextChat \<Rightarrow> res_map ((#) (choice_index, t,
            text_chat_detections sv ctx (sc_detect (sc t)) hs ds (messages @ [m]) tools))
          (spawn_whole_doc_chat_tasks sv ctx sc hs messages tools (choice_index, m) groups)
      | _ \<Rightarrow> Panic)"

text \<open>
  The environment of a streaming task: the orders and schedules of its concurrent parts, the batches the
  detection batch stream delivers with the number of the model's messages that have been consumed at the two reads
  of each, and that number when the final message is built.
\<close>

record stream_env =
  se_uuid :: string
  se_now :: int
  se_input :: sched
  se_output :: "nat \<Rightarrow> detector_type \<Rightarrow> sched"
  se_groups :: order
  se_choices :: order
  se_tools :: order
  se_channels :: order
  se_rx :: "u32 \<Rightarrow> nat \<Rightarrow> rx_run"
  se_dx :: "u32 \<Rightarrow> nat \<Rightarrow> rx_run"
  se_batches :: "(item \<times> nat \<times> nat) list"
  se_final :: nat

definition chat_whole_doc_messages :: "order \<Rightarrow> (u32, (nat, chat_completion_chunk) btree) hashmap
    \<Rightarrow> (error, (u32 \<times> message) list) res" where
  "chat_whole_doc_messages tord entries =
     collect_results (map (\<lambda>(choice_index, m).
       let cs = map snd m in
       res_map (\<lambda>tool_calls. (choice_index,
          message_default\<lparr>m_role := Assistant, m_content := merge_content cs, m_tool_calls := tool_calls\<rparr>))
         (merge_tool_calls tord cs)) entries)"

definition chat_handle_whole_doc_detection ::
  "services \<Rightarrow> orch_context \<Rightarrow> stream_env \<Rightarrow> headers \<Rightarrow> chat_completions_request \<Rightarrow> detector_map \<Rightarrow> chat_state
     \<Rightarrow> (error, completion_detections \<times> completion_detection_warning list) res" where
  "chat_handle_whole_doc_detection sv ctx env hs request ds st =
     res_bind (group_detectors_by_type (ctx_config ctx) ds) (\<lambda>groups.
     let tools = unwrap_or [] (cr_tools request) in
     res_bind (chat_whole_doc_messages (se_tools env) (reorder (se_choices env) (cs_completions st))) (\<lambda>choices.
     let warnings = map (\<lambda>(i, m). completion_detection_warning_new EmptyOutput (no_content_message i))
           (filter (\<lambda>(i, m). \<not> has_content m) choices) in
     res_bind (collect_results (map (\<lambda>(k, choice).
         spawn_whole_doc_chat_tasks sv ctx (se_output env k) hs (cr_messages request) tools choice
           (reorder (se_groups env) groups)) (List.enumerate 0 choices))) (\<lambda>tasks.
     res_bind (join_tasks (concat tasks)) (\<lambda>dets.
     let warnings = warnings @ (if unsuitable_output_found dets then [unsuitable_output_warning] else []);
         output = map (\<lambda>(i, _, ds). \<lparr>cod_choice_index = i, cod_results = ds\<rparr>) dets
     in Ok (completion_detections_default\<lparr>cdet_output := output\<rparr>, warnings)))))"

section \<open>The handler\<close>

definition chat_stream_handle_input_detection ::
  "services \<Rightarrow> orch_context \<Rightarrow> sched \<Rightarrow> string \<Rightarrow> int \<Rightarrow> headers \<Rightarrow> chat_completions_request \<Rightarrow> detector_map
     \<Rightarrow> (error, chat_completion_chunk option) res" where
  "chat_stream_handle_input_detection sv ctx s uuid now hs request ds =
     (if request_messages request = [] then Err (Validation ''No messages provided'')
      else
        let message = last (request_messages request) in
        if cmsg_role message \<notin> {Some User, Some Assistant, Some System}
        then Err (Validation ''Last message role must be user, assistant, or system'')
        else
          let input_text = unwrap_or [] (cmsg_text message) in
          res_bind (contents_detections sv ctx s hs ds [(0, input_text)]) (\<lambda>dets.
          if dets \<noteq> [] then
            res_bind (unwrap (get_client OpenAiClient (ctx_clients ctx) ''openai'')) (\<lambda>_.
            res_bind (tokenize_openai sv hs (tokenize_prompt_request (cr_model request) input_text)) (\<lambda>t.
            Ok (Some (chat_completion_chunk_default\<lparr>ck_id := uuid, ck_model := cr_model request, ck_created := now,
                 ck_detections := Some (completion_detections_default\<lparr>cdet_input :=
                   [\<lparr>cid_message_index = cmsg_index message, cid_results = dets\<rparr>]\<rparr>),
                 ck_warnings := [unsuitable_input_warning],
                 ck_usage := Some (usage_default\<lparr>us_prompt_tokens := tk_count t\<rparr>)\<rparr>))))
          else Ok None))"

text \<open>A detector that examines chunks of the generated text; the others examine the whole text at the end.\<close>

definition is_chunk_detector :: "detector_config \<Rightarrow> bool" where
  "is_chunk_detector cfg \<longleftrightarrow> dc_type cfg = TextContents \<and> dc_chunker_id cfg \<noteq> ''whole_doc_chunker''"

definition partition_detectors :: "orch_context \<Rightarrow> detector_map \<Rightarrow> (error, detector_map \<times> detector_map) res" where
  "partition_detectors ctx ds =
     res_map (\<lambda>cfgs. (map fst (filter (\<lambda>(d, cfg). is_chunk_detector cfg) (zip ds cfgs)),
                       map fst (filter (\<lambda>(d, cfg). \<not> is_chunk_detector cfg) (zip ds cfgs))))
       (collect_results (map (\<lambda>(detector_id, _). unwrap (config_detector (ctx_config ctx) detector_id)) ds))"

text \<open>
  The number of choices: \<^verbatim>\<open>n\<close> of the request, reinterpreted as \<^verbatim>\<open>usize\<close>. Reserving a hash map multiplies the capacity
  by eight and panics when that overflows.
\<close>

definition n_choices :: "(string \<times> json) list \<Rightarrow> (error, nat) res" where
  "n_choices extra =
     (let n = as_usize (unwrap_or 1 (Option.bind (map_of extra ''n'') as_i64)) in
      if 2 ^ 61 \<le> n then Panic else Ok n)"

definition choice_channels :: "nat \<Rightarrow> (u32, input_msg tx) hashmap" where
  "choice_channels n = hm_collect (map (\<lambda>i. (as_u32 i, tx_new None)) [0..<n])"

text \<open>The detection streams of every choice; a failure is reported to the client and the loop goes on.\<close>

fun open_detection_streams ::
  "(u32 \<Rightarrow> (error, item list list) res) \<Rightarrow> u32 list \<Rightarrow> (error + 'c option) tx \<Rightarrow> (error, item list list \<times> (error + 'c option) tx) res" where
  "open_detection_streams open_stream [] tx = Ok ([], tx)"
| "open_detection_streams open_stream (i # is) tx =
     (case open_stream i of
        Ok streams \<Rightarrow> res_map (\<lambda>(rest, tx). (streams @ rest, tx)) (open_detection_streams open_stream is tx)
      | Err e \<Rightarrow> open_detection_streams open_stream is (tx_send (Inl e) tx)
      | Panic \<Rightarrow> Panic)"

text \<open>The state the detection side sees after the model's first \<open>k\<close> messages.\<close>

definition chat_consumer :: "nat \<Rightarrow> chat_process" where
  "chat_consumer n = \<lparr>sp_state = Some completion_state_new, sp_inputs = Some (choice_channels n), sp_response = None\<rparr>"

definition chat_state_after :: "nat \<Rightarrow> (nat \<times> chat_msg) list \<Rightarrow> nat \<Rightarrow> chat_state" where
  "chat_state_after n msgs k = the (sp_state (process_chat_completion_stream (take k msgs) (chat_consumer n)))"

definition chat_inputs :: "nat \<Rightarrow> (nat \<times> chat_msg) list \<Rightarrow> u32 \<Rightarrow> input_msg list" where
  "chat_inputs n msgs = input_sent (process_chat_completion_stream msgs (chat_consumer n))"

definition chat_final_message ::
  "services \<Rightarrow> orch_context \<Rightarrow> stream_env \<Rightarrow> headers \<Rightarrow> chat_completions_request \<Rightarrow> detector_map \<Rightarrow> chat_state
     \<Rightarrow> chat_msg tx \<Rightarrow> chat_msg task_end" where
  "chat_final_message sv ctx env hs request whole_doc_detectors st tx =
     (if whole_doc_detectors \<noteq> [] \<or> cs_usage st \<noteq> None then
        (case cs_metadata st of
           None \<Rightarrow> (tx, False)
         | Some md \<Rightarrow>
             let c = chat_completion_chunk_default\<lparr>ck_id := md_id md, ck_created := md_created md, ck_model := md_model md,
                   ck_usage := cs_usage st\<rparr> in
             if whole_doc_detectors \<noteq> [] then
               (case chat_handle_whole_doc_detection sv ctx env hs request whole_doc_detectors st of
                  Ok (dets, warnings) \<Rightarrow>
                    (tx_send (Inr (Some (c\<lparr>ck_detections := Some dets, ck_warnings := warnings\<rparr>))) tx, True)
                | Err e \<Rightarrow> (tx_sends [Inl e, Inr None] tx, True)
                | Panic \<Rightarrow> (tx, False))
             else (tx_send (Inr (Some c)) tx, True))
      else (tx, True))"

definition chat_stream_handle_output_detection ::
  "services \<Rightarrow> orch_context \<Rightarrow> stream_env \<Rightarrow> headers \<Rightarrow> chat_completions_request \<Rightarrow> detector_map
     \<Rightarrow> (nat \<times> chat_msg) list \<Rightarrow> chat_msg tx \<Rightarrow> chat_msg task_end" where
  "chat_stream_handle_output_detection sv ctx env hs request ds msgs tx =
     (case partition_detectors ctx ds of
        Ok (chunk_detectors, whole_doc_detectors) \<Rightarrow>
          if chunk_detectors \<noteq> [] then
            (case res_bind (n_choices (cr_extra request)) (\<lambda>n.
                 res_map (Pair n) (open_detection_streams (\<lambda>i. text_contents_detection_streams sv ctx (se_rx env i) (se_dx env i)
                    hs chunk_detectors i (chat_inputs n msgs i)) (reorder (se_channels env) (map fst (choice_channels n))) tx)) of
               Ok (n, streams, tx) \<Rightarrow>
                 (case chat_process_detection_batch_stream (map (\<lambda>(item, k1, k2).
                     (item, chat_state_after n msgs k1, chat_state_after n msgs k2)) (se_batches env)) tx of
                    (tx, True) \<Rightarrow> chat_final_message sv ctx env hs request whole_doc_detectors
                      (chat_state_after n msgs (se_final env)) tx
                  | (tx, False) \<Rightarrow> (tx, False))
             | _ \<Rightarrow> (tx, False))
          else
            (let p = process_chat_completion_stream msgs
                   \<lparr>sp_state = Some completion_state_new, sp_inputs = None, sp_response = Some tx\<rparr>
             in chat_final_message sv ctx env hs request whole_doc_detectors (the (sp_state p)) (the (sp_response p)))
      | _ \<Rightarrow> (tx, False))"

definition chat_streaming_task ::
  "services \<Rightarrow> orch_context \<Rightarrow> stream_env \<Rightarrow> headers \<Rightarrow> chat_completions_request \<Rightarrow> chat_msg tx \<Rightarrow> chat_msg task_end" where
  "chat_streaming_task sv ctx env hs request tx =
     (let ids = od_input (cr_detectors request); ods = od_output (cr_detectors request) in
      case res_bind (validate_detectors ids (detectors (ctx_config ctx)) [TextContents] True) (\<lambda>_.
           res_bind (validate_detectors ods (detectors (ctx_config ctx)) [TextContents, TextChat] True) (\<lambda>_.
           if ids \<noteq> [] then chat_stream_handle_input_detection sv ctx (se_input env) (se_uuid env) (se_now env) hs request ids
           else Ok None)) of
        Err e \<Rightarrow> (tx_sends [Inl e, Inr None] tx, True)
      | Panic \<Rightarrow> (tx, False)
      | Ok (Some c) \<Rightarrow> (tx_sends [Inr (Some c), Inr None] tx, True)
      | Ok None \<Rightarrow>
          (case res_bind (unwrap (get_client OpenAiClient (ctx_clients ctx) ''openai'')) (\<lambda>_.
                chat_completion_stream sv hs request) of
             Err e \<Rightarrow> (tx_sends [Inl e, Inr None] tx, True)
           | Panic \<Rightarrow> (tx, False)
           | Ok msgs \<Rightarrow>
               (case (if ods = []
                      then (the (sp_response (process_chat_completion_stream msgs
                             \<lparr>sp_state = None, sp_inputs = None, sp_response = Some tx\<rparr>)), True)
                      else chat_stream_handle_output_detection sv ctx env hs request ods msgs tx) of
                  (tx, True) \<Rightarrow> (tx_send (Inr None) tx, True)
                | (tx, False) \<Rightarrow> (tx, False))))"

text \<open>\<open>limit\<close>: after how many messages the client disconnects.\<close>

definition chat_handle_streaming ::
  "services \<Rightarrow> orch_context \<Rightarrow> stream_env \<Rightarrow> nat option \<Rightarrow> headers \<Rightarrow> chat_completions_request \<Rightarrow> chat_completions_response" where
  "chat_handle_streaming sv ctx env limit hs request =
     ChatStreaming (tx_sent (fst (chat_streaming_task sv ctx env hs request (tx_new limit))))"

section \<open>The consumer as a log\<close>

definition chat_choice_of :: "chat_completion_chunk \<Rightarrow> (u32 \<times> string) option" where
  "chat_choice_of c = (case ck_choices c of
     choice # _ \<Rightarrow> Some (kc_index choice, unwrap_or [] (dl_content (kc_delta choice))) | [] \<Rightarrow> None)"

definition chat_state_step :: "nat \<Rightarrow> chat_completion_chunk \<Rightarrow> chat_state \<Rightarrow> chat_state" where
  "chat_state_step mi c st =
     (if ck_usage c \<noteq> None \<and> ck_choices c = [] then set_usage (the (ck_usage c)) st
      else
        let st = (if mi = 0 then set_metadata (ck_id c) (ck_created c) (ck_model c) st else st) in
        case ck_choices c of choice # _ \<Rightarrow> insert_completion (kc_index choice) mi c st | [] \<Rightarrow> st)"

lemma chat_record_state: "sp_state (chat_record mi c p) = map_option (chat_state_step mi c) (sp_state p)"
  by (cases "sp_state p"; cases "ck_choices c") (auto simp: chat_record_def chat_state_step_def Let_def)

lemma chat_state_step_props:
  "cs_wf st \<Longrightarrow> cs_wf (chat_state_step mi c st)"
  "choice_chunks (chat_state_step mi c st) i = (if map_option fst (chat_choice_of c) = Some i
     then bt_insert mi c (choice_chunks st i) else choice_chunks st i)"
  by (auto simp: chat_state_step_def Let_def chat_choice_of_def choice_chunks_insert split: list.splits)

lemma chat_record_sent:
  "inputs_open p \<Longrightarrow> input_sent (chat_record mi c p) i = input_sent p i @
     (case chat_choice_of c of Some (j, t) \<Rightarrow> if i = j \<and> t \<noteq> [] \<and> has_input i p then [Inr (mi, t)] else [] | None \<Rightarrow> [])"
  by (auto simp: chat_record_def Let_def chat_choice_of_def input_sent_send_input split: list.splits)

lemma chat_record_frame [simp]:
  "inputs_open (chat_record mi c p) = inputs_open p" "has_input i (chat_record mi c p) = has_input i p"
  "sp_response (chat_record mi c p) = sp_response p" "response_open (chat_record mi c p) = response_open p"
  by (auto simp: chat_record_def Let_def split: list.splits)

interpretation chat_log: chunk_log chat_choice_of chat_record "\<lambda>p. p"
  by unfold_locales (auto simp: chat_record_state chat_state_step_props chat_record_sent)

text \<open>
  Errors and end markers of the stream do not touch the state, so as long as the client stays connected the state
  after the stream is that of its completions alone.
\<close>

lemma chat_run_state:
  "sp_state (chat_log.run ms p) = map_option (fold (\<lambda>(mi, c). chat_state_step mi c) ms) (sp_state p)"
  by (induction ms arbitrary: p) (auto simp: chat_record_state option.map_comp comp_def option.map_id)

lemma process_chat_state:
  "response_open p \<Longrightarrow> sp_state (process_chat_completion_stream msgs p) = sp_state (chat_log.run (delivered msgs) p)"
  by (induction msgs p rule: process_chat_completion_stream.induct)
    (simp_all add: chat_run_state response_open_not_closed chat_record_state option.map_comp comp_def)

lemma process_chat_frame:
  "response_open p \<Longrightarrow> inputs_open (process_chat_completion_stream msgs p) = inputs_open p
     \<and> has_input i (process_chat_completion_stream msgs p) = has_input i p"
  by (induction msgs p rule: process_chat_completion_stream.induct) (simp_all add: response_open_not_closed)

lemma chat_consumer_simps [simp]:
  "sp_state (chat_consumer n) = Some completion_state_new" "response_open (chat_consumer n)"
  "inputs_open (chat_consumer n)"
proof -
  have "\<forall>(i, tx) \<in> set (fold (\<lambda>(k, v). hm_insert k v) (map (\<lambda>i. (as_u32 i, tx_new None)) xs) m). tx_limit tx = None"
    if "\<forall>(i, tx) \<in> set m. tx_limit tx = None" for xs and m :: "(u32, input_msg tx) hashmap"
    using that
  proof (induction xs arbitrary: m)
    case (Cons x xs)
    have "set (hm_insert (as_u32 x) (tx_new None) m) \<subseteq> insert (as_u32 x, tx_new None) (set m)" for m :: "(u32, input_msg tx) hashmap"
      unfolding hm_insert_def by (induction m) auto
    with Cons.prems have "\<forall>(i, tx) \<in> set (hm_insert (as_u32 x) (tx_new None) m). tx_limit tx = None"
      by (fastforce simp: tx_new_def)
    from Cons.IH [OF this] show ?case by simp
  qed simp
  from this [of "[]" "[0..<n]"] show "inputs_open (chat_consumer n)"
    by (simp add: chat_consumer_def inputs_open_def choice_channels_def hm_collect_def)
qed (simp_all add: chat_consumer_def response_open_def)

lemma has_input_choice: "has_input i (chat_consumer n) \<longleftrightarrow> (\<exists>k < n. i = as_u32 k)"
proof -
  have "hm_get (choice_channels n) i = None \<longleftrightarrow> i \<notin> fst ` set (map (\<lambda>i. (as_u32 i, tx_new None :: input_msg tx)) [0..<n])"
    by (simp only: choice_channels_def hm_get_collect map_of_eq_None_iff set_rev)
  then show ?thesis by (force simp: has_input_def chat_consumer_def)
qed

lemma chat_state_after_fold:
  "chat_state_after n msgs k = fold (\<lambda>(mi, c). chat_state_step mi c) (delivered (take k msgs)) completion_state_new"
  by (simp add: chat_state_after_def process_chat_state chat_run_state)

lemma sorted_take_map: "sorted_wrt (<) (map fst msgs) \<Longrightarrow> sorted_wrt (<) (map fst (take k msgs))"
  by (metis take_map sorted_wrt_take)

lemma chat_state_after_log:
  assumes "sorted_wrt (<) (map fst msgs)"
  shows "cs_wf (chat_state_after n msgs k)
     \<and> choice_chunks (chat_state_after n msgs k) i = of_choice chat_choice_of i (delivered (take k msgs))"
proof -
  have "sorted_wrt (<) (map fst (delivered (take k msgs)))" using assms by (intro sorted_delivered sorted_take_map)
  from chat_log.run_state_new [of "chat_consumer n", OF _ this] show ?thesis
    by (auto simp: chat_state_after_def process_chat_state)
qed

text \<open>Without errors in the stream the input channels receive the texts of the log.\<close>

lemma process_chat_no_errors:
  "sp_response p = None \<Longrightarrow> \<forall>m \<in> set msgs. \<not> isl (snd m) \<Longrightarrow>
   process_chat_completion_stream msgs p = chat_log.run (delivered msgs) p"
proof (induction msgs p rule: process_chat_completion_stream.induct)
  case (2 mi c msgs p)
  then have "forward c p = p" by (simp add: forward_def)
  with 2 show ?case by (simp add: response_closed_def)
qed simp_all

lemma chat_consumer_sent: "input_sent (chat_consumer n) i = []"
proof -
  have "\<forall>(i, tx) \<in> set (map (\<lambda>i. (as_u32 i, tx_new None)) [0..<n]). tx_sent (tx :: input_msg tx) = []"
    by (simp add: tx_new_def)
  then show ?thesis
    by (auto simp: input_sent_def chat_consumer_def choice_channels_def hm_get_collect split: option.splits dest!: map_of_SomeD)
qed

lemma chat_inputs_texts:
  assumes "\<forall>m \<in> set msgs. \<not> isl (snd m)" "k < n"
  shows "chat_inputs n msgs (as_u32 k) = map Inr (texts_of_choice chat_choice_of (as_u32 k) (delivered msgs))"
proof -
  have h: "has_input (as_u32 k) (chat_consumer n)" using assms(2) by (auto simp: has_input_choice)
  have "sp_response (chat_consumer n) = None" by (simp add: chat_consumer_def)
  from process_chat_no_errors [OF this assms(1)] chat_log.run_inputs [OF _ h] show ?thesis
    by (simp add: chat_inputs_def chat_consumer_sent)
qed

lemma merge_content_of_choice:
  "merge_content (map snd (of_choice chat_choice_of i ms)) =
     (let t = concat (map snd (texts_of_choice chat_choice_of i ms)) in if t = [] then None else Some (Text t))"
proof -
  have "concat [t. c \<leftarrow> map snd (of_choice chat_choice_of i ms), choice \<leftarrow> take 1 (ck_choices c),
          t \<leftarrow> (case dl_content (kc_delta choice) of Some t \<Rightarrow> [t] | None \<Rightarrow> [])]
      = concat (map snd (texts_of_choice chat_choice_of i ms))"
  proof (induction ms)
    case (Cons m ms)
    obtain mi c where m: "m = (mi, c)" by (cases m)
    show ?case
    proof (cases "ck_choices c")
      case Nil
      with Cons m show ?thesis by (simp add: chat_choice_of_def)
    next
      case (Cons choice choices)
      with Cons.IH m show ?thesis by (cases "dl_content (kc_delta choice)") (auto simp: chat_choice_of_def)
    qed
  qed simp
  then show ?thesis unfolding merge_content_def Let_def by simp
qed

lemma chat_of_choice_member:
  "(j, c) \<in> set (of_choice chat_choice_of i ms) \<Longrightarrow> \<exists>choice choices. ck_choices c = choice # choices \<and> kc_index choice = i"
  by (auto simp: of_choice_def chat_choice_of_def split: list.splits)

text \<open>What reaches the client when messages are forwarded.\<close>

lemma process_chat_forward:
  "sp_response p = Some tx \<Longrightarrow> tx_limit tx = None \<Longrightarrow> \<exists>tx'. sp_response (process_chat_completion_stream msgs p) = Some tx'
     \<and> tx_limit tx' = None \<and> tx_sent tx' = tx_sent tx @ filter (\<lambda>m. m \<noteq> Inr None) (map snd msgs)"
proof (induction msgs p arbitrary: tx rule: process_chat_completion_stream.induct)
  case (2 mi c msgs p)
  have "\<not> response_closed p" using 2(2,3) by (simp add: response_closed_def)
  with 2(1) [OF this, of "tx_send (Inr (Some c)) tx"] 2(2,3) show ?case by (simp add: forward_def)
next
  case (4 mi e msgs p)
  from 4(1) [of "tx_send (Inl e) tx"] 4(2,3) show ?case by (simp add: send_error_def)
qed simp_all

section \<open>Properties\<close>

text \<open>
  C29. The detection side and the model's stream agree: after the stream the state holds, for every choice, exactly
  the messages of that choice in their order; the input channel of a choice received exactly the non-empty texts of
  these messages, each with its message index; and the text whole-document detectors get is the concatenation of
  what the chunk detectors were given.
\<close>

theorem chat_stream_refines_log:
  assumes "msgs = List.enumerate 0 rx" "\<forall>m \<in> set rx. \<not> isl m" "j < n"
  shows "let i = as_u32 j; st = chat_state_after n msgs (length msgs) in
     cs_wf st \<and> choice_chunks st i = of_choice chat_choice_of i (delivered msgs)
     \<and> chat_inputs n msgs i = map Inr (texts_of_choice chat_choice_of i (delivered msgs))
     \<and> merge_content (map snd (choice_chunks st i)) =
         (let t = concat (map (snd \<circ> projr) (chat_inputs n msgs i)) in if t = [] then None else Some (Text t))"
proof -
  have "sorted_wrt (<) (map fst msgs)" using assms(1) sorted_enumerate by blast
  note log = chat_state_after_log [OF this, of n "length msgs" "as_u32 j"]
  have "\<forall>m \<in> set msgs. \<not> isl (snd m)" using assms(1,2) by (auto simp: in_set_enumerate_eq)
  note texts = chat_inputs_texts [OF this assms(3)]
  show ?thesis unfolding Let_def using log texts merge_content_of_choice [of "as_u32 j" "delivered msgs"]
    by (simp add: comp_def Let_def)
qed

definition ex_delta :: "u32 \<Rightarrow> string \<Rightarrow> string option \<Rightarrow> chat_completion_chunk" where
  "ex_delta i text fin = chat_completion_chunk_default\<lparr>ck_id := ''id'', ck_model := ''m'', ck_choices :=
     [chat_completion_chunk_choice_default\<lparr>kc_index := i, kc_delta := chat_completion_delta_default\<lparr>dl_content := Some text\<rparr>,
        kc_finish_reason := fin\<rparr>]\<rparr>"

lemma ex_delta_choice [simp]: "chat_choice_of (ex_delta i t f) = Some (i, t)"
  by (simp add: chat_choice_of_def ex_delta_def chat_completion_chunk_default_def chat_completion_chunk_choice_default_def)

theorem chat_stream_refines_log_witness:
  "chat_inputs 2 (List.enumerate 0 [Inr (Some (ex_delta 1 ''a'' None)), Inr (Some (ex_delta 0 ''x'' None)), Inr (Some (ex_delta 1 ''b'' None))])
     (as_u32 1) = [Inr (0, ''a''), Inr (2, ''b'')]"
proof -
  let ?rx = "[Inr (Some (ex_delta 1 ''a'' None)), Inr (Some (ex_delta 0 ''x'' None)), Inr (Some (ex_delta 1 ''b'' None))] :: chat_msg list"
  have "as_u32 1 = 1" by (simp add: as_u32_def)
  with chat_stream_refines_log [of "List.enumerate 0 ?rx" ?rx 1 2] show ?thesis by (simp add: Let_def)
qed

text \<open>
  C31. A batch is answered from the model's messages alone and without panics: for a chunk that covers the messages
  from its start index to its end index, the response is the last of these messages of the choice, with the chunk's
  text as content, the role set, the log probabilities of all of them, the detections of the batch, and the warning
  exactly when there are detections. If no message of the range has been consumed yet, the response is an error.
\<close>

theorem chat_output_detection_response_correct:
  assumes "input_start_index chunk \<le> input_end_index chunk"
  shows "let log = of_choice chat_choice_of i (delivered (take k (List.enumerate 0 rx)));
       range = map snd (filter (\<lambda>(j, _). input_start_index chunk \<le> j \<and> j \<le> input_end_index chunk) log);
       response = chat_output_detection_response (chat_state_after n (List.enumerate 0 rx) k) i chunk dets in
     if range = [] then \<exists>m. response = Err (Other m)
     else \<exists>choice choices. ck_choices (last range) = choice # choices \<and> kc_index choice = i
       \<and> response = Ok ((last range)\<lparr>
           ck_choices := choice\<lparr>kc_delta := (kc_delta choice)\<lparr>dl_role := Some Assistant, dl_content := Some (c_text chunk)\<rparr>,
             kc_logprobs := chat_merge_logprobs range\<rparr> # choices,
           ck_warnings := (if dets = [] then ck_warnings (last range) else [unsuitable_output_warning]),
           ck_detections := Some \<lparr>cdet_input = [], cdet_output = [\<lparr>cod_choice_index = i, cod_results = dets\<rparr>]\<rparr>\<rparr>)"
proof -
  let ?msgs = "List.enumerate 0 rx" and ?st = "chat_state_after n (List.enumerate 0 rx) k"
  let ?log = "of_choice chat_choice_of i (delivered (take k ?msgs))"
  let ?range = "map snd (filter (\<lambda>(j, _). input_start_index chunk \<le> j \<and> j \<le> input_end_index chunk) ?log)"
  have log: "cs_wf ?st" "choice_chunks ?st i = ?log" using chat_state_after_log [OF sorted_enumerate] by blast+
  have get: "hm_get (cs_completions ?st) i = (if ?log = [] then None else Some ?log)"
    using hm_get_choice_chunks [OF log(1)] log(2) by simp
  have ch: "\<exists>choice choices. ck_choices (last ?range) = choice # choices \<and> kc_index choice = i" if "?range \<noteq> []"
  proof -
    from that have "last ?range \<in> set ?range" by (rule last_in_set)
    then obtain j where "(j, last ?range) \<in> set ?log" by auto
    then show ?thesis by (rule chat_of_choice_member)
  qed
  show ?thesis
  proof (cases "?range = []")
    case True
    then show ?thesis using get assms
      by (cases "?log = []") (auto simp: Let_def chat_output_detection_response_def bt_range_def)
  next
    case False
    then obtain choice choices where "ck_choices (last ?range) = choice # choices" "kc_index choice = i" using ch by blast
    moreover have "?log \<noteq> []" using False by auto
    ultimately show ?thesis using get assms False
      by (simp add: Let_def chat_output_detection_response_def bt_range_def update_first_choice_def completion_detections_default_def)
  qed
qed

theorem chat_output_detection_response_correct_witness:
  "chat_output_detection_response (chat_state_after 1 (List.enumerate 0 [Inr (Some (ex_delta 0 ''ba'' None)), Inr (Some (ex_delta 0 ''d'' None))]) 2)
     0 \<lparr>input_start_index = 0, input_end_index = 1, c_start = 0, c_end = 3, c_text = ''bad''\<rparr> [ex_detection]
   = Ok ((ex_delta 0 ''bad'' None)\<lparr>ck_choices := [chat_completion_chunk_choice_default\<lparr>
         kc_delta := chat_completion_delta_default\<lparr>dl_role := Some Assistant, dl_content := Some ''bad''\<rparr>\<rparr>],
       ck_warnings := [unsuitable_output_warning],
       ck_detections := Some \<lparr>cdet_input = [], cdet_output = [\<lparr>cod_choice_index = 0, cod_results = [ex_detection]\<rparr>]\<rparr>\<rparr>)"
proof -
  let ?c = "\<lparr>input_start_index = 0, input_end_index = 1, c_start = 0, c_end = 3, c_text = ''bad''\<rparr>"
  have "input_start_index ?c \<le> input_end_index ?c" by simp
  from chat_output_detection_response_correct [OF this, of 0 2
      "[Inr (Some (ex_delta 0 ''ba'' None)), Inr (Some (ex_delta 0 ''d'' None))]" 1 "[ex_detection]"]
  show ?thesis
    by (simp add: Let_def) (auto simp: ex_delta_def chat_completion_chunk_default_def chat_completion_chunk_choice_default_def
        chat_completion_delta_default_def chat_merge_logprobs_def)
qed


definition ex_stream_env :: "(item \<times> nat \<times> nat) list \<Rightarrow> nat \<Rightarrow> stream_env" where
  "ex_stream_env batches final = \<lparr>se_uuid = ''id'', se_now = 0, se_input = ex_sched, se_output = (\<lambda>_ _. ex_sched),
     se_groups = in_order, se_choices = in_order, se_tools = in_order, se_channels = in_order,
     se_rx = (\<lambda>_ _. rx_prompt), se_dx = (\<lambda>_ _. rx_prompt), se_batches = batches, se_final = final\<rparr>"


text \<open>
  Without output detectors the client receives the model's stream unchanged: every chunk and every error, in order,
  and one end marker.
\<close>

theorem chat_streaming_passthrough:
  assumes "od_input (cr_detectors request) = []" "od_output (cr_detectors request) = []"
    and "get_client OpenAiClient (ctx_clients ctx) ''openai'' \<noteq> None"
    and "sv_chat_completions sv request (json_headers hs) = Inr (ChatStreaming rx)"
  shows "chat_handle_streaming sv ctx env None hs request = ChatStreaming (filter (\<lambda>m. m \<noteq> Inr None) rx @ [Inr None])"
proof -
  obtain cl where cl: "get_client OpenAiClient (ctx_clients ctx) ''openai'' = Some cl" using assms(3) by blast
  have s: "chat_completion_stream sv hs request = Ok (List.enumerate 0 rx)"
    using assms(4) by (simp add: chat_completion_stream_def)
  let ?p = "\<lparr>sp_state = None, sp_inputs = None, sp_response = Some (tx_new None)\<rparr> :: chat_process"
  obtain tx where tx: "sp_response (process_chat_completion_stream (List.enumerate 0 rx) ?p) = Some tx"
    "tx_limit tx = None" "tx_sent tx = filter (\<lambda>m. m \<noteq> Inr None) rx"
    using process_chat_forward [of ?p "tx_new None" "List.enumerate 0 rx"] by (auto simp: tx_new_def)
  show ?thesis using assms(1,2) cl s tx by (simp add: chat_handle_streaming_def chat_streaming_task_def)
qed

theorem chat_streaming_passthrough_witness:
  "chat_handle_streaming (ex_services\<lparr>sv_chat_completions := (\<lambda>_ _. Inr (ChatStreaming [Inr (Some (ex_delta 0 ''bad'' None)), Inl Cancelled, Inr None]))\<rparr>)
     ex_ctx (ex_stream_env [] 0) None [] ((ex_request ''hi'')\<lparr>cr_detectors := \<lparr>od_input = [], od_output = []\<rparr>\<rparr>)
   = ChatStreaming [Inr (Some (ex_delta 0 ''bad'' None)), Inl Cancelled, Inr None]"
proof -
  let ?rx = "[Inr (Some (ex_delta 0 ''bad'' None)), Inl Cancelled, Inr None] :: chat_msg list"
  let ?sv = "ex_services\<lparr>sv_chat_completions := (\<lambda>_ _. Inr (ChatStreaming ?rx))\<rparr>"
  let ?r = "(ex_request ''hi'')\<lparr>cr_detectors := \<lparr>od_input = [], od_output = []\<rparr>\<rparr>"
  have "chat_handle_streaming ?sv ex_ctx (ex_stream_env [] 0) None [] ?r = ChatStreaming (filter (\<lambda>m. m \<noteq> Inr None) ?rx @ [Inr None])"
    by (rule chat_streaming_passthrough) (simp_all add: ex_ctx_detectors)
  then show ?thesis by simp
qed

definition pieces_of :: "nat \<Rightarrow> chat_completion_chunk list \<Rightarrow> tool_call list" where
  "pieces_of index cs = filter (\<lambda>tc. tl_index tc = Some index) (concat (map first_tool_calls cs))"

definition arguments_of :: "tool_call list \<Rightarrow> string option" where
  "arguments_of tcs = (if \<forall>tc \<in> set tcs. tl_function tc = None then None
     else Some (concat [fn_arguments f. tc \<leftarrow> tcs, f \<leftarrow> (case tl_function tc of Some f \<Rightarrow> [f] | None \<Rightarrow> [])]))"

definition custom_input_of :: "tool_call list \<Rightarrow> string option" where
  "custom_input_of tcs = (if \<forall>tc \<in> set tcs. tl_custom tc = None then None
     else Some (concat [cu_input f. tc \<leftarrow> tcs, f \<leftarrow> (case tl_custom tc of Some f \<Rightarrow> [f] | None \<Rightarrow> [])]))"

definition assembled :: "nat \<Rightarrow> tool_call list \<Rightarrow> tool_call" where
  "assembled index tcs = fold apply_tool_call_chunk tcs (tool_call_default index)"

lemma assembled_snoc: "assembled index (tcs @ [tc]) = apply_tool_call_chunk tc (assembled index tcs)"
  by (simp add: assembled_def)

lemma apply_tool_call_chunk_fields:
  "tl_index (apply_tool_call_chunk tc e) = tl_index e"
  "map_option fn_arguments (tl_function (apply_tool_call_chunk tc e)) = (case tl_function tc of
     None \<Rightarrow> map_option fn_arguments (tl_function e)
   | Some f \<Rightarrow> Some (unwrap_or [] (map_option fn_arguments (tl_function e)) @ fn_arguments f))"
  "map_option cu_input (tl_custom (apply_tool_call_chunk tc e)) = (case tl_custom tc of
     None \<Rightarrow> map_option cu_input (tl_custom e)
   | Some f \<Rightarrow> Some (unwrap_or [] (map_option cu_input (tl_custom e)) @ cu_input f))"
  by (cases "tl_function tc"; cases "tl_custom tc"; cases "tl_function e"; cases "tl_custom e";
      simp add: apply_tool_call_chunk_def Let_def)+

lemma assembled_fields:
  "tl_index (assembled index tcs) = Some index \<and> map_option fn_arguments (tl_function (assembled index tcs)) = arguments_of tcs
   \<and> map_option cu_input (tl_custom (assembled index tcs)) = custom_input_of tcs"
proof (induction tcs rule: rev_induct)
  case Nil
  show ?case by (simp add: assembled_def tool_call_default_def arguments_of_def custom_input_of_def)
next
  case (snoc tc tcs)
  then show ?case
    by (auto simp: assembled_snoc apply_tool_call_chunk_fields arguments_of_def custom_input_of_def split: option.splits)
qed

lemma merge_tool_chunks_Ok:
  assumes "\<forall>tc \<in> set tcs. tl_index tc \<noteq> None" "hm_wf m"
  shows "\<exists>m'. merge_tool_chunks tcs m = Ok m' \<and> hm_wf m' \<and> (\<forall>index. hm_get m' index =
     (let ps = filter (\<lambda>tc. tl_index tc = Some index) tcs in
      case hm_get m index of
        Some e \<Rightarrow> Some (fold apply_tool_call_chunk ps e)
      | None \<Rightarrow> if ps = [] then None else Some (assembled index ps)))"
  using assms
proof (induction tcs arbitrary: m)
  case Nil
  then show ?case by (simp split: option.splits)
next
  case (Cons tc tcs)
  then obtain k where k: "tl_index tc = Some k" by auto
  let ?m = "hm_entry k (apply_tool_call_chunk tc (tool_call_default k)) (apply_tool_call_chunk tc) m"
  have "hm_wf ?m" using Cons.prems(2) by (rule hm_wf_entry)
  with Cons obtain m' where m': "merge_tool_chunks tcs ?m = Ok m'" "hm_wf m'"
    "\<forall>index. hm_get m' index = (let ps = filter (\<lambda>tc. tl_index tc = Some index) tcs in
      case hm_get ?m index of
        Some e \<Rightarrow> Some (fold apply_tool_call_chunk ps e)
      | None \<Rightarrow> if ps = [] then None else Some (assembled index ps))" by (metis list.set_intros(2))
  show ?case
  proof (intro exI [of _ m'] conjI allI)
    show "merge_tool_chunks (tc # tcs) m = Ok m'" using m'(1) k by simp
  next
    fix index
    show "hm_get m' index = (let ps = filter (\<lambda>tc. tl_index tc = Some index) (tc # tcs) in
      case hm_get m index of
        Some e \<Rightarrow> Some (fold apply_tool_call_chunk ps e)
      | None \<Rightarrow> if ps = [] then None else Some (assembled index ps))"
      using m'(3) k by (auto simp: hm_get_entry Let_def assembled_def split: option.splits)
  qed (rule m'(2))
qed


definition ex_tool_delta :: "string \<Rightarrow> string \<Rightarrow> string \<Rightarrow> chat_completion_chunk" where
  "ex_tool_delta i name args = chat_completion_chunk_default\<lparr>ck_choices :=
     [chat_completion_chunk_choice_default\<lparr>kc_delta := chat_completion_delta_default\<lparr>dl_tool_calls :=
        [\<lparr>tl_index = Some 0, tl_id = i, tl_type = [], tl_function = Some \<lparr>fn_name = name, fn_arguments = args\<rparr>, tl_custom = None\<rparr>]\<rparr>\<rparr>]\<rparr>"

lemma ex_tool_delta_calls [simp]: "first_tool_calls (ex_tool_delta i name args) =
  [\<lparr>tl_index = Some 0, tl_id = i, tl_type = [], tl_function = Some \<lparr>fn_name = name, fn_arguments = args\<rparr>, tl_custom = None\<rparr>]"
  by (simp add: first_tool_calls_def ex_tool_delta_def chat_completion_chunk_default_def chat_completion_chunk_choice_default_def
      chat_completion_delta_default_def)


subsection \<open>The last message of a choice\<close>

text \<open>
  The model answers \<open>out\<close> and then, together with the finish reason, \<open>bad\<close>; detector \<open>d\<close> objects to \<open>bad\<close>.
\<close>

definition ex_finish_rx :: "chat_msg list" where
  "ex_finish_rx = [Inr (Some (ex_delta 0 ''out'' None)), Inr (Some (ex_delta 0 ''bad'' (Some ''stop'')))]"

definition ex_finish_services :: services where
  "ex_finish_services = ex_services\<lparr>sv_chat_completions := (\<lambda>_ _. Inr (ChatStreaming ex_finish_rx))\<rparr>"

definition ex_finish_request :: chat_completions_request where
  "ex_finish_request = (ex_request ''hi'')\<lparr>cr_detectors := \<lparr>od_input = [], od_output = [(''d'', [])]\<rparr>\<rparr>"

definition ex_finish_stream :: "item list" where
  "ex_finish_stream = [Inr (0, ex_stream_chunk 0 ''out'', []), Inr (0, ex_stream_chunk 1 ''bad'', [ex_stream_detection ''d''])]"

text \<open>Both batches are processed after the whole stream of the model has been consumed.\<close>

definition ex_finish_env :: stream_env where
  "ex_finish_env = ex_stream_env (map (\<lambda>item. (item, 2, 2)) ex_finish_stream) 2"

lemma ex_finish_streams:
  "text_contents_detection_streams ex_finish_services ex_stream_ctx (\<lambda>_. rx_prompt) (\<lambda>_. rx_prompt) [] [(''d'', [])] 0
     [Inr (0, ''out''), Inr (1, ''bad'')] = Ok [ex_finish_stream]"
proof -
  have ids: "get_chunker_ids (ctx_config ex_stream_ctx) [(''d'', [])] = Ok [''s'']"
    by (simp add: get_chunker_ids_def get_chunker_id_def)
  have c: "chunk_stream ex_finish_services ''s'' [Received (Inr (0, ''out'')), Received (Inr (1, ''bad''))] =
      Ok [Inr (ex_stream_chunk 0 ''out''), Inr (ex_stream_chunk 1 ''bad'')]"
    by (simp add: chunk_stream_def ex_finish_services_def ex_services_def chunk_of_stream_result_def as_usize_def usize_as_i64_def
        ex_stream_chunk_def)
  have cs: "chunk_streams ex_finish_services ex_stream_ctx (\<lambda>_. rx_prompt) [''s''] [Inr (0, ''out''), Inr (1, ''bad'')]
      = Ok [(''s'', [Inr (ex_stream_chunk 0 ''out''), Inr (ex_stream_chunk 1 ''bad'')])]"
    by (simp add: chunk_streams_def DEFAULT_CHUNKER_ID_def c [unfolded One_nat_def] hm_collect_def hm_insert_def)
  have d: "detect_text_contents ex_finish_services = detect_text_contents ex_services"
    by (simp add: fun_eq_iff detect_text_contents_def ex_finish_services_def)
  have "d_score (ex_stream_detection d) = 1" for d by (simp add: ex_stream_detection_def ex_content_def detection_of_content_def)
  then show ?thesis
    by (simp add: text_contents_detection_streams_def ids cs [unfolded One_nat_def] take_threshold_def config_detector_def
        pop_threshold_def params_remove_def get_chunker_id_def ex_stream_detect ex_detector_def d ex_finish_stream_def)
qed

lemma ex_finish_state:
  "chat_state_after 1 (List.enumerate 0 ex_finish_rx) 2 = \<lparr>cs_metadata = Some \<lparr>md_id = ''id'', md_created = 0, md_model = ''m''\<rparr>,
     cs_completions = [(0, [(0, ex_delta 0 ''out'' None), (1, ex_delta 0 ''bad'' (Some ''stop''))])], cs_usage = None\<rparr>"
  by (simp add: chat_state_after_fold ex_finish_rx_def chat_state_step_def ex_delta_def
      chat_completion_chunk_default_def chat_completion_chunk_choice_default_def chat_completion_delta_default_def
      completion_state_new_def set_metadata_def insert_completion_def bt_insert_def)

lemma ex_finish_inputs: "chat_inputs 1 (List.enumerate 0 ex_finish_rx) 0 = [Inr (0, ''out''), Inr (1, ''bad'')]"
proof -
  have "\<forall>m \<in> set (List.enumerate 0 ex_finish_rx). \<not> isl (snd m)" by (simp add: ex_finish_rx_def)
  from chat_inputs_texts [OF this, of 0 1] show ?thesis by (simp add: ex_finish_rx_def as_u32_def)
qed

lemma ex_finish_task:
  assumes "env = ex_stream_env batches final"
  shows "chat_streaming_task ex_finish_services ex_stream_ctx env [] ex_finish_request (tx_new None) =
     (case chat_process_detection_batch_stream (map (\<lambda>(item, k1, k2).
          (item, chat_state_after 1 (List.enumerate 0 ex_finish_rx) k1, chat_state_after 1 (List.enumerate 0 ex_finish_rx) k2)) batches)
          (tx_new None) of
        (tx, True) \<Rightarrow> (case chat_final_message ex_finish_services ex_stream_ctx env [] ex_finish_request []
             (chat_state_after 1 (List.enumerate 0 ex_finish_rx) final) tx of
           (tx, True) \<Rightarrow> (tx_send (Inr None) tx, True) | (tx, False) \<Rightarrow> (tx, False))
      | (tx, False) \<Rightarrow> (tx, False))"
proof -
  have d: "od_input (cr_detectors ex_finish_request) = []" "od_output (cr_detectors ex_finish_request) = [(''d'', [])]"
    "cr_extra ex_finish_request = []" by (simp_all add: ex_finish_request_def ex_request_def)
  have v: "validate_detectors [(''d'', [])] (detectors (ctx_config ex_stream_ctx)) [TextContents, TextChat] True = Ok ()"
    by (simp add: validate_detectors_iff ex_detector_def)
  have p: "partition_detectors ex_stream_ctx [(''d'', [])] = Ok ([(''d'', [])], [])"
    by (simp add: partition_detectors_def config_detector_def is_chunk_detector_def ex_detector_def)
  have n: "n_choices [] = Ok 1" by (simp add: n_choices_def as_usize_def)
  have ch: "map fst (choice_channels 1) = [0]" by (simp add: choice_channels_def hm_collect_def hm_insert_def as_u32_def)
  have st: "chat_completion_stream ex_finish_services [] ex_finish_request = Ok (List.enumerate 0 ex_finish_rx)"
    by (simp add: chat_completion_stream_def ex_finish_services_def)
  have e: "se_rx env i = (\<lambda>_. rx_prompt)" "se_dx env i = (\<lambda>_. rx_prompt)" "se_channels env = in_order" "se_batches env = batches"
    "se_final env = final" for i by (simp_all add: assms ex_stream_env_def fun_eq_iff)
  show ?thesis
    by (simp add: chat_streaming_task_def chat_stream_handle_output_detection_def d v p n ch st e
        ex_finish_inputs ex_finish_streams del: One_nat_def split: prod.splits bool.splits)
qed

lemma ex_finish_sends: "batch_stream_sends cb_ops (cb_new 1) [ex_finish_stream] ex_finish_stream"
  by (simp add: batch_stream_sends_def ex_finish_stream_def)

text \<open>
  C28. Text can reach the client unchecked. When the model sends its last text together with the finish reason, the
  handler answers the batch before it by also sending this last message as it came from the model, although
  its text is still being examined. In this run the text \<open>bad\<close> is sent without detections first, and only then
  as the checked response with the detection and the warning.
\<close>

theorem chat_finish_chunk_unchecked:
  "\<exists>raw checked first. chat_handle_streaming ex_finish_services ex_stream_ctx ex_finish_env None [] ex_finish_request =
       ChatStreaming [Inr (Some first), Inr (Some raw), Inr (Some checked), Inr None]
     \<and> batch_stream_sends cb_ops (cb_new 1) [ex_finish_stream] (map fst (se_batches ex_finish_env))
     \<and> chat_choice_of first = Some (0, ''out'') \<and> ck_warnings first = []
     \<and> chat_choice_of raw = Some (0, ''bad'') \<and> ck_detections raw = None \<and> ck_warnings raw = []
     \<and> chat_choice_of checked = Some (0, ''bad'') \<and> ck_warnings checked = [unsuitable_output_warning]"
proof -
  have b: "map fst (se_batches ex_finish_env) = ex_finish_stream" by (simp add: ex_finish_env_def ex_stream_env_def comp_def)
  have "\<exists>raw checked first. chat_handle_streaming ex_finish_services ex_stream_ctx ex_finish_env None [] ex_finish_request =
       ChatStreaming [Inr (Some first), Inr (Some raw), Inr (Some checked), Inr None]
     \<and> chat_choice_of first = Some (0, ''out'') \<and> ck_warnings first = []
     \<and> chat_choice_of raw = Some (0, ''bad'') \<and> ck_detections raw = None \<and> ck_warnings raw = []
     \<and> chat_choice_of checked = Some (0, ''bad'') \<and> ck_warnings checked = [unsuitable_output_warning]"
    unfolding chat_handle_streaming_def ex_finish_task [OF ex_finish_env_def]
    by (simp add: ex_finish_state [unfolded One_nat_def] ex_finish_stream_def chat_output_detection_response_def ex_stream_chunk_def bt_range_def
        update_first_choice_def chat_finish_chunk_def chat_final_message_def ex_delta_def chat_completion_chunk_default_def
        chat_completion_chunk_choice_default_def chat_completion_delta_default_def tx_new_def chat_choice_of_def)
  with ex_finish_sends b show ?thesis by metis
qed

text \<open>
  The opposite can happen too: when the batch of the last text is answered before the message with the finish reason has
  been consumed, that message is never sent.
\<close>

lemma chat_finish_reason_lost:
  "\<exists>c. chat_process_detection_batch_stream
       [(Inr (0, ex_stream_chunk 0 ''out'', []), chat_state_after 1 msgs 1, chat_state_after 1 msgs 1)] (tx_new None)
       = (\<lparr>tx_sent = [Inr (Some c)], tx_limit = None\<rparr>, True)
     \<and> kc_finish_reason (hd (ck_choices c)) = None"
  if "msgs = List.enumerate 0 [Inr (Some (ex_delta 0 ''out'' None)), Inr (Some (ex_delta 0 [] (Some ''stop'')))]" for msgs
  by (simp add: that chat_state_after_fold chat_state_step_def ex_delta_def chat_completion_chunk_default_def
      chat_completion_chunk_choice_default_def chat_completion_delta_default_def completion_state_new_def set_metadata_def
      insert_completion_def chat_output_detection_response_def ex_stream_chunk_def bt_range_def update_first_choice_def
      chat_finish_chunk_def tx_new_def tx_send_def)

text \<open>An error of the detection batch stream is followed by two end markers.\<close>

lemma chat_batch_error_two_ends:
  assumes "tx_limit tx = None"
  shows "\<exists>tx'. chat_process_detection_batch_stream ((Inl e, st1, st2) # items) tx = (tx', True)
     \<and> tx_sent (tx_send (Inr None) tx') = tx_sent tx @ [Inl e, Inr None, Inr None]"
  using assms by simp

subsection \<open>A stream without metadata\<close>

lemma chat_metadata_None:
  "\<forall>(mi, c) \<in> set ms. mi \<noteq> 0 \<Longrightarrow> cs_metadata (fold (\<lambda>(mi, c). chat_state_step mi c) ms st) = cs_metadata st"
proof (induction ms arbitrary: st)
  case (Cons m ms)
  then show ?case
    by (cases m; cases "ck_choices (snd m)")
      (auto simp: chat_state_step_def Let_def insert_completion_def set_usage_def)
qed simp

text \<open>
  The final message of a request with whole-document detectors is built from the metadata of the model's first
  message. When the model's stream starts with an error there is none, and the task panics: the client receives
  what the model sent, but neither detections nor the end of the stream.
\<close>

theorem chat_streaming_panics_without_metadata:
  assumes "od_input (cr_detectors request) = []" "od_output (cr_detectors request) \<noteq> []"
    and "validate_detectors (od_output (cr_detectors request)) (detectors (ctx_config ctx)) [TextContents, TextChat] True = Ok ()"
    and "partition_detectors ctx (od_output (cr_detectors request)) = Ok ([], whole_doc_detectors)" "whole_doc_detectors \<noteq> []"
    and "get_client OpenAiClient (ctx_clients ctx) ''openai'' \<noteq> None"
    and "sv_chat_completions sv request (json_headers hs) = Inr (ChatStreaming (Inl e # rx))"
  shows "chat_handle_streaming sv ctx env None hs request = ChatStreaming (Inl e # filter (\<lambda>m. m \<noteq> Inr None) rx)"
proof -
  let ?msgs = "List.enumerate 0 (Inl e # rx)"
  let ?p = "\<lparr>sp_state = Some completion_state_new, sp_inputs = None, sp_response = Some (tx_new None)\<rparr> :: chat_process"
  obtain cl where cl: "get_client OpenAiClient (ctx_clients ctx) ''openai'' = Some cl" using assms(6) by blast
  have s: "chat_completion_stream sv hs request = Ok ?msgs" using assms(7) by (simp add: chat_completion_stream_def)
  obtain tx where tx: "sp_response (process_chat_completion_stream ?msgs ?p) = Some tx" "tx_sent tx = Inl e # filter (\<lambda>m. m \<noteq> Inr None) rx"
    using process_chat_forward [of ?p "tx_new None" ?msgs] by (auto simp: tx_new_def)
  have "response_open ?p" by (simp add: response_open_def tx_new_def)
  then have st: "sp_state (process_chat_completion_stream ?msgs ?p) =
      Some (fold (\<lambda>(mi, c). chat_state_step mi c) (delivered ?msgs) completion_state_new)"
    by (simp add: process_chat_state chat_run_state)
  have "\<forall>(mi, c) \<in> set (delivered ?msgs). mi \<noteq> 0"
    by (auto simp: delivered_def in_set_enumerate_eq)
  then have md: "cs_metadata (the (sp_state (process_chat_completion_stream ?msgs ?p))) = None"
    unfolding st option.sel by (subst chat_metadata_None) (simp_all add: completion_state_new_def)
  have "chat_stream_handle_output_detection sv ctx env hs request (od_output (cr_detectors request)) ?msgs (tx_new None) = (tx, False)"
    unfolding chat_stream_handle_output_detection_def Let_def using md tx(1) assms(4,5) by (simp add: chat_final_message_def)
  then show ?thesis using assms(1-3) cl s tx(2)
    by (simp add: chat_handle_streaming_def chat_streaming_task_def)
qed

theorem chat_streaming_panics_without_metadata_witness:
  "chat_handle_streaming (ex_services\<lparr>sv_chat_completions := (\<lambda>_ _. Inr (ChatStreaming [Inl Cancelled, Inr (Some (ex_delta 0 ''bad'' None))]))\<rparr>)
     ex_ctx (ex_stream_env [] 0) None [] ((ex_request ''hi'')\<lparr>cr_detectors := \<lparr>od_input = [], od_output = [(''d'', [])]\<rparr>\<rparr>)
   = ChatStreaming [Inl Cancelled, Inr (Some (ex_delta 0 ''bad'' None))]"
proof -
  let ?rx = "[Inr (Some (ex_delta 0 ''bad'' None))] :: chat_msg list"
  let ?sv = "ex_services\<lparr>sv_chat_completions := (\<lambda>_ _. Inr (ChatStreaming (Inl Cancelled # ?rx)))\<rparr>"
  let ?r = "(ex_request ''hi'')\<lparr>cr_detectors := \<lparr>od_input = [], od_output = [(''d'', [])]\<rparr>\<rparr>"
  have p: "partition_detectors ex_ctx [(''d'', [])] = Ok ([], [(''d'', [])])"
    by (simp add: partition_detectors_def ex_ctx_detectors is_chunk_detector_def ex_detector_def DEFAULT_CHUNKER_ID_def)
  have v: "validate_detectors [(''d'', [])] (detectors (ctx_config ex_ctx)) [TextContents, TextChat] True = Ok ()"
    using ex_ctx_detectors(1) by (simp add: validate_detectors_iff config_detector_def ex_detector_def)
  have "chat_handle_streaming ?sv ex_ctx (ex_stream_env [] 0) None [] ?r = ChatStreaming (Inl Cancelled # filter (\<lambda>m. m \<noteq> Inr None) ?rx)"
    by (rule chat_streaming_panics_without_metadata [where whole_doc_detectors = "[(''d'', [])]"])
      (simp_all add: ex_ctx_detectors p v)
  then show ?thesis by simp
qed

end
