(* ===== verification/Completion_Streaming.thy ===== *)
theory Completion_Streaming
  imports Chat_Streaming
begin

text \<open>
  The streaming handler of the completions endpoint
  (\<^verbatim>\<open>src/orchestrator/handlers/completions_detection/streaming.rs\<close>). It differs from the chat handler in the
  treatment of choices without text, in how the last message of a choice is sent, and in its error paths.
\<close>

section \<open>Consuming the model's stream\<close>

type_synonym completion_msg = "error + completion option"
type_synonym completion_st = "completion completion_state"

text \<open>
  \<open>cp_with_data\<close> are the choices that have sent text to their channel; \<open>cp_empty\<close> is the flag for empty output, where the
  caller passes one.
\<close>

record completion_process =
  cp_base :: "completion stream_process"
  cp_with_data :: "u32 list"
  cp_empty :: "bool option"

definition completion_record :: "nat \<Rightarrow> completion \<Rightarrow> completion_process \<Rightarrow> completion_process" where
  "completion_record message_index c p =
     (if cm_usage c \<noteq> None \<and> cm_choices c = []
      then p\<lparr>cp_base := with_state (set_usage (the (cm_usage c))) (cp_base p)\<rparr>
      else
        let p = (if message_index = 0
                 then p\<lparr>cp_base := with_state (set_metadata (cm_id c) (cm_created c) (cm_model c)) (cp_base p)\<rparr> else p) in
        case cm_choices c of
          choice # _ \<Rightarrow>
            let p = p\<lparr>cp_base := with_state (insert_completion (co_index choice) message_index c) (cp_base p)\<rparr> in
            if has_input (co_index choice) (cp_base p) then
              (if co_text choice \<noteq> [] then
                 p\<lparr>cp_with_data := List.insert (co_index choice) (cp_with_data p),
                   cp_base := send_input (co_index choice) (Inr (message_index, co_text choice)) (cp_base p)\<rparr>
               else if co_finish_reason choice \<noteq> None
               then p\<lparr>cp_empty := map_option (\<lambda>_. True) (cp_empty p)\<rparr>
               else p)
            else p
        | [] \<Rightarrow> p)"

text \<open>After the stream, channels that received no text get an empty one.\<close>

definition send_empty_inputs :: "completion_process \<Rightarrow> completion_process" where
  "send_empty_inputs p = p\<lparr>cp_base := (cp_base p)\<lparr>sp_inputs := map_option (map (\<lambda>(i, tx).
     (i, if i \<notin> set (cp_with_data p) then tx_send (Inr (0, [])) tx else tx))) (sp_inputs (cp_base p))\<rparr>\<rparr>"

fun process_completion_stream :: "(nat \<times> completion_msg) list \<Rightarrow> completion_process \<Rightarrow> completion_process" where
  "process_completion_stream [] p = send_empty_inputs p"
| "process_completion_stream ((message_index, Inr (Some c)) # msgs) p =
     (if response_closed (cp_base p) then p
      else process_completion_stream msgs (completion_record message_index c (p\<lparr>cp_base := forward c (cp_base p)\<rparr>)))"
| "process_completion_stream ((message_index, Inr None) # msgs) p = process_completion_stream msgs p"
| "process_completion_stream ((message_index, Inl e) # msgs) p =
     process_completion_stream msgs (p\<lparr>cp_base := send_error e (cp_base p)\<rparr>)"

section \<open>Responses from detection batches\<close>

definition completion_merge_logprobs :: "completion list \<Rightarrow> completion_logprobs option" where
  "completion_merge_logprobs cs =
     (let l = fold (\<lambda>c l.
          (case cm_choices c of
             choice # _ \<Rightarrow> (case co_logprobs choice of
                 Some x \<Rightarrow> \<lparr>cl_tokens = cl_tokens l @ cl_tokens x, cl_token_logprobs = cl_token_logprobs l @ cl_token_logprobs x,
                   cl_top_logprobs = cl_top_logprobs l @ cl_top_logprobs x, cl_text_offset = cl_text_offset l @ cl_text_offset x\<rparr>
               | None \<Rightarrow> l)
           | [] \<Rightarrow> l)) cs \<lparr>cl_tokens = [], cl_token_logprobs = [], cl_top_logprobs = [], cl_text_offset = []\<rparr> in
      if cl_tokens l \<noteq> [] \<or> cl_token_logprobs l \<noteq> [] \<or> cl_top_logprobs l \<noteq> [] \<or> cl_text_offset l \<noteq> []
      then Some l else None)"

definition completion_output_detection_response ::
  "completion_st \<Rightarrow> u32 \<Rightarrow> chunk \<Rightarrow> detection list \<Rightarrow> (error, completion) res" where
  "completion_output_detection_response st choice_index chunk dets =
     res_bind (unwrap (hm_get (cs_completions st) choice_index)) (\<lambda>m.
     res_bind (bt_range (input_start_index chunk) (input_end_index chunk) m) (\<lambda>range.
     let cs = map snd range in
     if cs = [] then Err (Other ''no completions found for chunk'')
     else (case cm_choices (last cs) of
         choice # choices \<Rightarrow>
           let c = (last cs)\<lparr>cm_choices := choice\<lparr>co_text := c_text chunk, co_logprobs := completion_merge_logprobs cs\<rparr> # choices\<rparr>;
               c = (if dets \<noteq> [] then c\<lparr>cm_warnings := [unsuitable_output_warning]\<rparr> else c)
           in Ok (c\<lparr>cm_detections := Some (completion_detections_default\<lparr>cdet_output :=
                [\<lparr>cod_choice_index = choice_index, cod_results = dets\<rparr>]\<rparr>)\<rparr>)
       | [] \<Rightarrow> Panic)))"

text \<open>
  \<open>reads i\<close> is the state seen when the last message of choice \<open>i\<close> is looked up, after the batch stream has ended. The
  sum of an end index and one in the log statement is not modelled.
\<close>

fun completion_send_last ::
  "(u32 \<Rightarrow> completion_st) \<Rightarrow> (u32 \<times> (nat \<times> nat) list) list \<Rightarrow> completion_msg tx \<Rightarrow> completion_msg task_end" where
  "completion_send_last reads [] tx = (tx, True)"
| "completion_send_last reads ((choice_index, indices) # tracked) tx =
     (case Option.bind (hm_get (cs_completions (reads choice_index)) choice_index) bt_last of
        None \<Rightarrow> (tx, False)
      | Some (last_index, c) \<Rightarrow>
          if indices = [] then (tx, False)
          else if last_index \<noteq> snd (last indices) then
            (if tx_closed tx then (tx, True) else completion_send_last reads tracked (tx_send (Inr (Some c)) tx))
          else completion_send_last reads tracked tx)"

fun completion_process_batches ::
  "(u32 \<Rightarrow> completion_st) \<Rightarrow> order \<Rightarrow> (item \<times> completion_st) list \<Rightarrow> (u32, (nat \<times> nat) list) hashmap
     \<Rightarrow> completion_msg tx \<Rightarrow> completion_msg task_end" where
  "completion_process_batches reads hord [] tracker tx = completion_send_last reads (reorder hord tracker) tx"
| "completion_process_batches reads hord ((Inl e, _) # items) tracker tx = (tx_send (Inl e) tx, True)"
| "completion_process_batches reads hord ((Inr (choice_index, chunk, dets), st) # items) tracker tx =
     (case completion_output_detection_response st choice_index chunk dets of
        Panic \<Rightarrow> (tx, False)
      | Err e \<Rightarrow> (tx_send (Inl e) tx, True)
      | Ok c \<Rightarrow>
          let indices = (input_start_index chunk, input_end_index chunk);
              tracker = hm_entry choice_index [indices] (\<lambda>entry. entry @ [indices]) tracker
          in if tx_closed tx then (tx, True)
             else completion_process_batches reads hord items tracker (tx_send (Inr (Some c)) tx))"

definition completion_process_detection_batch_stream ::
  "(u32 \<Rightarrow> completion_st) \<Rightarrow> order \<Rightarrow> (item \<times> completion_st) list \<Rightarrow> completion_msg tx \<Rightarrow> completion_msg task_end" where
  "completion_process_detection_batch_stream reads hord items tx = completion_process_batches reads hord items [] tx"

section \<open>The handler\<close>

record completion_stream_env = stream_env +
  se_tracker :: order
  se_last :: "u32 \<Rightarrow> nat"

definition completion_choice_text :: "(nat, completion) btree \<Rightarrow> string" where
  "completion_choice_text m = concat (map (\<lambda>(_, c). case cm_choices c of choice # _ \<Rightarrow> co_text choice | [] \<Rightarrow> []) m)"

definition completion_handle_whole_doc_detection ::
  "services \<Rightarrow> orch_context \<Rightarrow> completion_stream_env \<Rightarrow> headers \<Rightarrow> completions_request \<Rightarrow> detector_map \<Rightarrow> completion_st
     \<Rightarrow> (error, completion_detections \<times> completion_detection_warning list) res" where
  "completion_handle_whole_doc_detection sv ctx env hs request ds st =
     res_bind (group_detectors_by_type (ctx_config ctx) ds) (\<lambda>groups.
     let choices = map (\<lambda>(choice_index, m). completion_choice_default\<lparr>co_index := choice_index, co_text := completion_choice_text m\<rparr>)
           (reorder (se_choices env) (cs_completions st)) in
     res_bind (collect_results (map (\<lambda>(k, choice).
         spawn_completion_tasks sv ctx (se_output env k) hs (pr_prompt request) choice (reorder (se_groups env) groups))
         (List.enumerate 0 choices))) (\<lambda>tasks.
     res_bind (join_tasks (concat tasks)) (\<lambda>dets.
     let warnings = (if unsuitable_output_found dets then [unsuitable_output_warning] else []);
         output = map (\<lambda>(i, _, ds). \<lparr>cod_choice_index = i, cod_results = ds\<rparr>) dets
     in Ok (completion_detections_default\<lparr>cdet_output := output\<rparr>, warnings))))"

definition completion_stream_handle_input_detection ::
  "services \<Rightarrow> orch_context \<Rightarrow> sched \<Rightarrow> string \<Rightarrow> int \<Rightarrow> headers \<Rightarrow> completions_request \<Rightarrow> detector_map
     \<Rightarrow> (error, completion option) res" where
  "completion_stream_handle_input_detection sv ctx s uuid now hs request ds =
     res_bind (contents_detections sv ctx s hs ds (apply_masks (pr_prompt request) (pr_prompt_masks request))) (\<lambda>dets.
     if dets \<noteq> [] then
       res_bind (unwrap (get_client OpenAiClient (ctx_clients ctx) ''openai'')) (\<lambda>_.
       res_bind (tokenize_openai sv hs (tokenize_prompt_request (pr_model request) (pr_prompt request))) (\<lambda>t.
       Ok (Some (completion_default\<lparr>cm_id := uuid, cm_model := pr_model request, cm_created := now,
            cm_detections := Some (completion_detections_default\<lparr>cdet_input :=
              [\<lparr>cid_message_index = 0, cid_results = dets\<rparr>]\<rparr>),
            cm_warnings := [unsuitable_input_warning],
            cm_usage := Some (usage_default\<lparr>us_prompt_tokens := tk_count t\<rparr>)\<rparr>))))
     else Ok None)"

definition empty_choices_warning :: completion_detection_warning where
  "empty_choices_warning = completion_detection_warning_new EmptyOutput
     ''One or more choices have no content. Output detection was not executed for those choices''"

definition completion_final_message ::
  "services \<Rightarrow> orch_context \<Rightarrow> completion_stream_env \<Rightarrow> headers \<Rightarrow> completions_request \<Rightarrow> detector_map
     \<Rightarrow> completion_st \<Rightarrow> bool \<Rightarrow> completion_msg tx \<Rightarrow> completion_msg task_end" where
  "completion_final_message sv ctx env hs request whole_doc_detectors st empty_output tx =
     (if whole_doc_detectors \<noteq> [] \<or> cs_usage st \<noteq> None \<or> empty_output then
        (case cs_metadata st of
           None \<Rightarrow> (tx, False)
         | Some md \<Rightarrow>
             let c = completion_default\<lparr>cm_id := md_id md, cm_created := md_created md, cm_model := md_model md,
                   cm_usage := cs_usage st, cm_warnings := (if empty_output then [empty_choices_warning] else [])\<rparr> in
             if whole_doc_detectors \<noteq> [] then
               (case completion_handle_whole_doc_detection sv ctx env hs request whole_doc_detectors st of
                  Ok (dets, warnings) \<Rightarrow>
                    (tx_send (Inr (Some (c\<lparr>cm_detections := Some dets, cm_warnings := warnings\<rparr>))) tx, True)
                | Err e \<Rightarrow> (tx_send (Inl e) tx, True)
                | Panic \<Rightarrow> (tx, False))
             else (tx_send (Inr (Some c)) tx, True))
      else (tx, True))"

definition completion_consumer :: "nat \<Rightarrow> completion_process" where
  "completion_consumer n = \<lparr>cp_base = \<lparr>sp_state = Some completion_state_new, sp_inputs = Some (choice_channels n),
     sp_response = None\<rparr>, cp_with_data = [], cp_empty = Some False\<rparr>"

text \<open>The consumer after the first \<open>k\<close> messages; what follows the stream only sends on the input channels.\<close>

definition completion_state_after :: "nat \<Rightarrow> (nat \<times> completion_msg) list \<Rightarrow> nat \<Rightarrow> completion_st" where
  "completion_state_after n msgs k = the (sp_state (cp_base (process_completion_stream (take k msgs) (completion_consumer n))))"

definition empty_flag_after :: "nat \<Rightarrow> (nat \<times> completion_msg) list \<Rightarrow> nat \<Rightarrow> bool" where
  "empty_flag_after n msgs k = (cp_empty (process_completion_stream (take k msgs) (completion_consumer n)) = Some True)"

definition completion_inputs :: "nat \<Rightarrow> (nat \<times> completion_msg) list \<Rightarrow> u32 \<Rightarrow> input_msg list" where
  "completion_inputs n msgs = input_sent (cp_base (process_completion_stream msgs (completion_consumer n)))"

definition completion_stream_handle_output_detection ::
  "services \<Rightarrow> orch_context \<Rightarrow> completion_stream_env \<Rightarrow> headers \<Rightarrow> completions_request \<Rightarrow> detector_map
     \<Rightarrow> (nat \<times> completion_msg) list \<Rightarrow> completion_msg tx \<Rightarrow> completion_msg task_end" where
  "completion_stream_handle_output_detection sv ctx env hs request ds msgs tx =
     (case partition_detectors ctx ds of
        Ok (chunk_detectors, whole_doc_detectors) \<Rightarrow>
          if chunk_detectors \<noteq> [] then
            (case res_bind (n_choices (pr_extra request)) (\<lambda>n.
                 res_map (Pair n) (open_detection_streams (\<lambda>i. text_contents_detection_streams sv ctx (se_rx env i) (se_dx env i)
                    hs chunk_detectors i (completion_inputs n msgs i))
                    (reorder (se_channels env) (map fst (choice_channels n))) tx)) of
               Ok (n, streams, tx) \<Rightarrow>
                 (case completion_process_detection_batch_stream (\<lambda>i. completion_state_after n msgs (se_last env i)) (se_tracker env)
                     (map (\<lambda>(item, k, _). (item, completion_state_after n msgs k)) (se_batches env)) tx of
                    (tx, True) \<Rightarrow> completion_final_message sv ctx env hs request whole_doc_detectors
                      (completion_state_after n msgs (se_final env)) (empty_flag_after n msgs (se_final env)) tx
                  | (tx, False) \<Rightarrow> (tx, False))
             | _ \<Rightarrow> (tx, False))
          else
            (let p = process_completion_stream msgs
                   \<lparr>cp_base = \<lparr>sp_state = Some completion_state_new, sp_inputs = None, sp_response = Some tx\<rparr>,
                    cp_with_data = [], cp_empty = Some False\<rparr>
             in completion_final_message sv ctx env hs request whole_doc_detectors (the (sp_state (cp_base p)))
                  (cp_empty p = Some True) (the (sp_response (cp_base p))))
      | _ \<Rightarrow> (tx, False))"

definition completion_streaming_task ::
  "services \<Rightarrow> orch_context \<Rightarrow> completion_stream_env \<Rightarrow> headers \<Rightarrow> completions_request \<Rightarrow> completion_msg tx
     \<Rightarrow> completion_msg task_end" where
  "completion_streaming_task sv ctx env hs request tx =
     (let ids = od_input (pr_detectors request); ods = od_output (pr_detectors request) in
      case res_bind (validate_detectors ids (detectors (ctx_config ctx)) [TextContents] True) (\<lambda>_.
           res_bind (validate_detectors ods (detectors (ctx_config ctx)) [TextContents, TextGeneration] True) (\<lambda>_.
           if ids \<noteq> [] then completion_stream_handle_input_detection sv ctx (se_input env) (se_uuid env) (se_now env) hs request ids
           else Ok None)) of
        Err e \<Rightarrow> (tx_sends [Inl e, Inr None] tx, True)
      | Panic \<Rightarrow> (tx, False)
      | Ok (Some c) \<Rightarrow> (tx_sends [Inr (Some c), Inr None] tx, True)
      | Ok None \<Rightarrow>
          (case res_bind (unwrap (get_client OpenAiClient (ctx_clients ctx) ''openai'')) (\<lambda>_.
                completion_stream sv hs request) of
             Err e \<Rightarrow> (tx_sends [Inl e, Inr None] tx, True)
           | Panic \<Rightarrow> (tx, False)
           | Ok msgs \<Rightarrow>
               (case (if ods = []
                      then (the (sp_response (cp_base (process_completion_stream msgs
                             \<lparr>cp_base = \<lparr>sp_state = None, sp_inputs = None, sp_response = Some tx\<rparr>,
                              cp_with_data = [], cp_empty = None\<rparr>))), True)
                      else completion_stream_handle_output_detection sv ctx env hs request ods msgs tx) of
                  (tx, True) \<Rightarrow> (tx_send (Inr None) tx, True)
                | (tx, False) \<Rightarrow> (tx, False))))"

definition completion_handle_streaming ::
  "services \<Rightarrow> orch_context \<Rightarrow> completion_stream_env \<Rightarrow> nat option \<Rightarrow> headers \<Rightarrow> completions_request \<Rightarrow> completions_response" where
  "completion_handle_streaming sv ctx env limit hs request =
     CompletionStreaming (tx_sent (fst (completion_streaming_task sv ctx env hs request (tx_new limit))))"

section \<open>The consumer as a log\<close>

definition completion_choice_of :: "completion \<Rightarrow> (u32 \<times> string) option" where
  "completion_choice_of c = (case cm_choices c of choice # _ \<Rightarrow> Some (co_index choice, co_text choice) | [] \<Rightarrow> None)"

definition completion_state_step :: "nat \<Rightarrow> completion \<Rightarrow> completion_st \<Rightarrow> completion_st" where
  "completion_state_step mi c st =
     (if cm_usage c \<noteq> None \<and> cm_choices c = [] then set_usage (the (cm_usage c)) st
      else
        let st = (if mi = 0 then set_metadata (cm_id c) (cm_created c) (cm_model c) st else st) in
        case cm_choices c of choice # _ \<Rightarrow> insert_completion (co_index choice) mi c st | [] \<Rightarrow> st)"

lemma completion_record_state:
  "sp_state (cp_base (completion_record mi c p)) = map_option (completion_state_step mi c) (sp_state (cp_base p))"
  by (cases "sp_state (cp_base p)"; cases "cm_choices c") (auto simp: completion_record_def completion_state_step_def Let_def)

lemma completion_state_step_props:
  "cs_wf st \<Longrightarrow> cs_wf (completion_state_step mi c st)"
  "choice_chunks (completion_state_step mi c st) i = (if map_option fst (completion_choice_of c) = Some i
     then bt_insert mi c (choice_chunks st i) else choice_chunks st i)"
  by (auto simp: completion_state_step_def Let_def completion_choice_of_def choice_chunks_insert split: list.splits)

lemma completion_record_sent:
  "inputs_open (cp_base p) \<Longrightarrow> input_sent (cp_base (completion_record mi c p)) i = input_sent (cp_base p) i @
     (case completion_choice_of c of Some (j, t) \<Rightarrow> if i = j \<and> t \<noteq> [] \<and> has_input i (cp_base p) then [Inr (mi, t)] else []
      | None \<Rightarrow> [])"
  by (auto simp: completion_record_def Let_def completion_choice_of_def input_sent_send_input split: list.splits)

lemma completion_record_frame [simp]:
  "inputs_open (cp_base (completion_record mi c p)) = inputs_open (cp_base p)"
  "has_input i (cp_base (completion_record mi c p)) = has_input i (cp_base p)"
  "sp_response (cp_base (completion_record mi c p)) = sp_response (cp_base p)"
  "response_open (cp_base (completion_record mi c p)) = response_open (cp_base p)"
  by (auto simp: completion_record_def Let_def split: list.splits)

interpretation completion_log: chunk_log completion_choice_of completion_record cp_base
  by unfold_locales (auto simp: completion_record_state completion_state_step_props completion_record_sent)

lemma send_empty_frame [simp]:
  "sp_state (cp_base (send_empty_inputs p)) = sp_state (cp_base p)"
  "sp_response (cp_base (send_empty_inputs p)) = sp_response (cp_base p)" "cp_empty (send_empty_inputs p) = cp_empty p"
  by (simp_all add: send_empty_inputs_def)

lemma completion_run_state:
  "sp_state (cp_base (completion_log.run ms p)) = map_option (fold (\<lambda>(mi, c). completion_state_step mi c) ms) (sp_state (cp_base p))"
  by (induction ms arbitrary: p) (auto simp: completion_record_state option.map_comp comp_def option.map_id)

lemma process_completion_state:
  "response_open (cp_base p) \<Longrightarrow>
   sp_state (cp_base (process_completion_stream msgs p)) = sp_state (cp_base (completion_log.run (delivered msgs) p))"
  by (induction msgs p rule: process_completion_stream.induct)
    (simp_all add: completion_run_state response_open_not_closed completion_record_state option.map_comp comp_def)

lemma completion_consumer_simps [simp]:
  "sp_state (cp_base (completion_consumer n)) = Some completion_state_new" "response_open (cp_base (completion_consumer n))"
  "inputs_open (cp_base (completion_consumer n))" "has_input i (cp_base (completion_consumer n)) = has_input i (chat_consumer n)"
  "input_sent (cp_base (completion_consumer n)) i = []" "cp_with_data (completion_consumer n) = []"
proof -
  show "inputs_open (cp_base (completion_consumer n))"
    using chat_consumer_simps(3) [of n] by (simp add: completion_consumer_def chat_consumer_def inputs_open_def)
  show "has_input i (cp_base (completion_consumer n)) = has_input i (chat_consumer n)"
    by (simp add: completion_consumer_def chat_consumer_def has_input_def)
  show "input_sent (cp_base (completion_consumer n)) i = []"
    using chat_consumer_sent [of n i] by (simp add: completion_consumer_def chat_consumer_def input_sent_def)
qed (simp_all add: completion_consumer_def response_open_def)

lemma completion_state_after_fold:
  "completion_state_after n msgs k = fold (\<lambda>(mi, c). completion_state_step mi c) (delivered (take k msgs)) completion_state_new"
  by (simp add: completion_state_after_def process_completion_state completion_run_state)

lemma completion_state_after_log:
  assumes "sorted_wrt (<) (map fst msgs)"
  shows "cs_wf (completion_state_after n msgs k)
     \<and> choice_chunks (completion_state_after n msgs k) i = of_choice completion_choice_of i (delivered (take k msgs))"
proof -
  have "sorted_wrt (<) (map fst (delivered (take k msgs)))" using assms by (intro sorted_delivered sorted_take_map)
  from completion_log.run_state_new [of "completion_consumer n", OF _ this] show ?thesis
    by (auto simp: completion_state_after_def process_completion_state)
qed

lemma process_completion_no_errors:
  "sp_response (cp_base p) = None \<Longrightarrow> \<forall>m \<in> set msgs. \<not> isl (snd m) \<Longrightarrow>
   process_completion_stream msgs p = send_empty_inputs (completion_log.run (delivered msgs) p)"
proof (induction msgs p rule: process_completion_stream.induct)
  case (2 mi c msgs p)
  then have "p\<lparr>cp_base := forward c (cp_base p)\<rparr> = p" by (simp add: forward_def)
  with 2 show ?case by (simp add: response_closed_def)
qed simp_all

lemma with_data_run:
  "i \<in> set (cp_with_data (completion_log.run ms p)) \<longleftrightarrow>
     i \<in> set (cp_with_data p) \<or> (has_input i (cp_base p) \<and> texts_of_choice completion_choice_of i ms \<noteq> [])"
proof (induction ms arbitrary: p)
  case (Cons m ms)
  obtain mi c where m: "m = (mi, c)" by (cases m)
  have "i \<in> set (cp_with_data (completion_record mi c p)) \<longleftrightarrow> i \<in> set (cp_with_data p)
      \<or> (has_input i (cp_base p) \<and> texts_of_choice completion_choice_of i [(mi, c)] \<noteq> [])"
    by (auto simp: completion_record_def Let_def completion_choice_of_def split: list.splits)
  then show ?case using Cons.IH [of "completion_record mi c p"] by (auto simp: m split: option.splits)
qed simp

lemma input_sent_send_empty:
  "inputs_open (cp_base p) \<Longrightarrow> input_sent (cp_base (send_empty_inputs p)) i =
     input_sent (cp_base p) i @ (if has_input i (cp_base p) \<and> i \<notin> set (cp_with_data p) then [Inr (0, [])] else [])"
  by (auto simp: input_sent_def send_empty_inputs_def has_input_def hm_get_map_key split: option.splits dest: inputs_open_get)

lemma completion_inputs_texts:
  assumes "\<forall>m \<in> set msgs. \<not> isl (snd m)" "k < n"
  shows "completion_inputs n msgs (as_u32 k) =
     (let ts = texts_of_choice completion_choice_of (as_u32 k) (delivered msgs) in
      if ts = [] then [Inr (0, [])] else map Inr ts)"
proof -
  have h: "has_input (as_u32 k) (cp_base (completion_consumer n))" using assms(2) by (auto simp: has_input_choice)
  have r: "sp_response (cp_base (completion_consumer n)) = None" by (simp add: completion_consumer_def)
  note run = completion_log.run_inputs [OF completion_consumer_simps(3) h, of "delivered msgs"]
  show ?thesis
    unfolding completion_inputs_def process_completion_no_errors [OF r assms(1)]
    using h run by (simp add: input_sent_send_empty with_data_run Let_def)
qed

lemma completion_choice_text_of_choice:
  "completion_choice_text (of_choice completion_choice_of i ms) = concat (map snd (texts_of_choice completion_choice_of i ms))"
proof (induction ms)
  case (Cons m ms)
  then show ?case by (cases m) (auto simp: completion_choice_text_def completion_choice_of_def split: list.splits)
qed (simp add: completion_choice_text_def)

section \<open>Properties\<close>

text \<open>
  C30. The detection side and the model's stream agree for completions too: the state holds the messages of every
  choice in order; the input channel of a choice received exactly its non-empty texts, or one empty text if it
  has none, so that no channel stays silent; and whole-document detectors get the concatenation of these texts.
\<close>

theorem completion_stream_refines_log:
  assumes "msgs = List.enumerate 0 rx" "\<forall>m \<in> set rx. \<not> isl m" "j < n"
  shows "let i = as_u32 j; st = completion_state_after n msgs (length msgs);
       ts = texts_of_choice completion_choice_of i (delivered msgs) in
     cs_wf st \<and> choice_chunks st i = of_choice completion_choice_of i (delivered msgs)
     \<and> completion_inputs n msgs i = (if ts = [] then [Inr (0, [])] else map Inr ts)
     \<and> completion_choice_text (choice_chunks st i) = concat (map (snd \<circ> projr) (completion_inputs n msgs i))"
proof -
  have "sorted_wrt (<) (map fst msgs)" using assms(1) sorted_enumerate by blast
  note log = completion_state_after_log [OF this, of n "length msgs" "as_u32 j"]
  have "\<forall>m \<in> set msgs. \<not> isl (snd m)" using assms(1,2) by (auto simp: in_set_enumerate_eq)
  note texts = completion_inputs_texts [OF this assms(3)]
  show ?thesis unfolding Let_def using log texts completion_choice_text_of_choice [of "as_u32 j" "delivered msgs"]
    by (simp add: comp_def Let_def)
qed

definition ex_piece :: "u32 \<Rightarrow> string \<Rightarrow> string option \<Rightarrow> completion" where
  "ex_piece i text fin = completion_default\<lparr>cm_id := ''id'', cm_model := ''m'', cm_choices :=
     [completion_choice_default\<lparr>co_index := i, co_text := text, co_finish_reason := fin\<rparr>]\<rparr>"

lemma ex_piece_choice [simp]: "completion_choice_of (ex_piece i t f) = Some (i, t)"
  by (simp add: completion_choice_of_def ex_piece_def completion_default_def completion_choice_default_def)

theorem completion_stream_refines_log_witness:
  "completion_inputs 2 (List.enumerate 0 [Inr (Some (ex_piece 0 ''a'' None)), Inr (Some (ex_piece 1 [] (Some ''stop'')))]) (as_u32 0)
     = [Inr (0, ''a'')]
   \<and> completion_inputs 2 (List.enumerate 0 [Inr (Some (ex_piece 0 ''a'' None)), Inr (Some (ex_piece 1 [] (Some ''stop'')))]) (as_u32 1)
     = [Inr (0, [])]"
proof -
  let ?rx = "[Inr (Some (ex_piece 0 ''a'' None)), Inr (Some (ex_piece 1 [] (Some ''stop'')))] :: completion_msg list"
  have "as_u32 1 = 1" "as_u32 0 = 0" by (simp_all add: as_u32_def)
  with completion_stream_refines_log [of "List.enumerate 0 ?rx" ?rx 1 2] completion_stream_refines_log [of "List.enumerate 0 ?rx" ?rx 0 2]
  show ?thesis by (simp add: Let_def)
qed

text \<open>
  The empty text a choice without output sends to its chunker carries message index 0. When message 0 belongs to
  another choice, a batch that comes back for it can never be answered: the choice has no message 0, so the
  response is an error (or, before the choice has any message, a panic), and the client's whole stream ends with it.
\<close>

theorem completion_empty_choice_fails:
  assumes "msgs = List.enumerate 0 rx" "texts_of_choice completion_choice_of i (delivered msgs) = []"
    and "\<forall>(mi, c) \<in> set (of_choice completion_choice_of i (delivered msgs)). mi \<noteq> 0"
    and "input_start_index chunk = 0" "input_end_index chunk = 0" "tx_limit tx = None"
  shows "let (tx', alive) = completion_process_batches reads hord ((Inr (i, chunk, dets), completion_state_after n msgs k) # items) tracker tx in
     if of_choice completion_choice_of i (delivered (take k msgs)) = [] then \<not> alive \<and> tx' = tx
     else alive \<and> tx_sent tx' = tx_sent tx @ [Inl (Other ''no completions found for chunk'')]"
proof -
  let ?st = "completion_state_after n msgs k" and ?log = "of_choice completion_choice_of i (delivered (take k msgs))"
  have "sorted_wrt (<) (map fst msgs)" using assms(1) sorted_enumerate by blast
  from completion_state_after_log [OF this, of n k i] have log: "cs_wf ?st" "choice_chunks ?st i = ?log" by auto
  have get: "hm_get (cs_completions ?st) i = (if ?log = [] then None else Some ?log)"
    using hm_get_choice_chunks [OF log(1)] log(2) by simp
  have "set ?log \<subseteq> set (of_choice completion_choice_of i (delivered msgs))"
    by (metis append_take_drop_id delivered_simps(5) of_choice_simps(3) set_append Un_upper1)
  then have "filter (\<lambda>(j, _). 0 \<le> j \<and> j \<le> (0::nat)) ?log = []" using assms(3) by (force simp: filter_empty_conv)
  then have "completion_output_detection_response ?st i chunk dets =
      (if ?log = [] then Panic else Err (Other ''no completions found for chunk''))"
    using get assms(4,5) by (simp add: completion_output_detection_response_def bt_range_def)
  then show ?thesis using assms(6) by simp
qed

theorem completion_empty_choice_fails_witness:
  "\<exists>tx'. completion_process_batches (\<lambda>_. completion_state_new) in_order [(Inr (1, ex_stream_chunk 0 [], []),
       completion_state_after 2 (List.enumerate 0 [Inr (Some (ex_piece 0 ''a'' None)), Inr (Some (ex_piece 1 [] (Some ''stop'')))]) 2)] [] (tx_new None)
     = (tx', True) \<and> tx_sent tx' = [Inl (Other ''no completions found for chunk'')]"
proof -
  let ?rx = "[Inr (Some (ex_piece 0 ''a'' None)), Inr (Some (ex_piece 1 [] (Some ''stop'')))] :: completion_msg list"
  from completion_empty_choice_fails [of "List.enumerate 0 ?rx" ?rx 1 "ex_stream_chunk 0 []" "tx_new None" "\<lambda>_. completion_state_new"
      in_order "[]" 2 2 "[]" "[]"]
  show ?thesis by (auto simp: ex_stream_chunk_def tx_new_def split: prod.splits)
qed

subsection \<open>The last message of a choice\<close>

definition batch_indices :: "u32 \<Rightarrow> batch list \<Rightarrow> (nat \<times> nat) list" where
  "batch_indices i bs = [(input_start_index c, input_end_index c). (j, c, ds) \<leftarrow> bs, j = i]"

definition track :: "batch list \<Rightarrow> (u32, (nat \<times> nat) list) hashmap \<Rightarrow> (u32, (nat \<times> nat) list) hashmap" where
  "track bs m = fold (\<lambda>(i, c, ds). let ix = (input_start_index c, input_end_index c) in hm_entry i [ix] (\<lambda>e. e @ [ix])) bs m"

lemma track_get:
  "hm_wf m \<Longrightarrow> hm_wf (track bs m) \<and> hm_get (track bs m) i = (case hm_get m i of
     Some ix \<Rightarrow> Some (ix @ batch_indices i bs)
   | None \<Rightarrow> if batch_indices i bs = [] then None else Some (batch_indices i bs))"
proof (induction bs arbitrary: m)
  case (Cons b bs)
  obtain j c ds where b: "b = (j, c, ds)" by (cases b)
  let ?ix = "(input_start_index c, input_end_index c)"
  let ?m = "hm_entry j [?ix] (\<lambda>e. e @ [?ix]) m"
  have t: "track (b # bs) m = track bs ?m" by (simp add: track_def b Let_def)
  have bi: "batch_indices i (b # bs) = (if j = i then [?ix] else []) @ batch_indices i bs" by (simp add: batch_indices_def b)
  from Cons.IH [OF hm_wf_entry [OF Cons.prems, of j "[?ix]" "\<lambda>e. e @ [?ix]"]]
  show ?case unfolding t bi by (auto simp: hm_get_entry split: option.splits)
qed (simp add: track_def batch_indices_def split: option.splits)

text \<open>The messages that close the tracked choices.\<close>

definition closing :: "(u32 \<Rightarrow> completion_st) \<Rightarrow> u32 \<times> (nat \<times> nat) list \<Rightarrow> completion_msg list" where
  "closing reads = (\<lambda>(i, ix). let (k, c) = last (choice_chunks (reads i) i) in
     if k \<noteq> snd (last ix) then [Inr (Some c)] else [])"

lemma completion_send_last_eq:
  assumes "tx_limit tx = None" "\<forall>(i, ix) \<in> set tracked. ix \<noteq> [] \<and> choice_chunks (reads i) i \<noteq> []"
  shows "\<exists>tx'. completion_send_last reads tracked tx = (tx', True)
     \<and> tx_sent tx' = tx_sent tx @ concat (map (closing reads) tracked)"
  using assms
proof (induction tracked arbitrary: tx)
  case (Cons t tracked)
  obtain i ix where t: "t = (i, ix)" by (cases t)
  with Cons.prems have ne: "ix \<noteq> []" "choice_chunks (reads i) i \<noteq> []" by auto
  then have get: "hm_get (cs_completions (reads i)) i = Some (choice_chunks (reads i) i)"
    by (auto simp: choice_chunks_def split: option.splits)
  obtain k c where l: "last (choice_chunks (reads i) i) = (k, c)" by (cases "last (choice_chunks (reads i) i)")
  have b: "Option.bind (hm_get (cs_completions (reads i)) i) bt_last = Some (k, c)" using ne get l by (simp add: bt_last_def)
  show ?case
  proof (cases "k = snd (last ix)")
    case True
    with Cons t ne b l show ?thesis by (simp add: closing_def)
  next
    case False
    with Cons.IH [of "tx_send (Inr (Some c)) tx"] Cons.prems t ne b l show ?thesis by (simp add: closing_def)
  qed
qed simp

definition answers :: "(item \<times> completion_st) list \<Rightarrow> batch list \<Rightarrow> completion list \<Rightarrow> bool" where
  "answers items bs rs \<longleftrightarrow> map fst items = map Inr bs
     \<and> list_all2 (\<lambda>((i, c, ds), st) r. completion_output_detection_response st i c ds = Ok r) (zip bs (map snd items)) rs"

lemma completion_process_batches_answers:
  assumes "answers items bs rs" "tx_limit tx = None"
  shows "completion_process_batches reads hord items tracker tx =
     completion_send_last reads (reorder hord (track bs tracker)) (tx_sends (map (\<lambda>r. Inr (Some r)) rs) tx)"
  using assms
proof (induction items arbitrary: bs rs tracker tx)
  case Nil
  then show ?case by (simp add: answers_def track_def tx_sends_def)
next
  case (Cons it items)
  obtain item st where it: "it = (item, st)" by (cases it)
  with Cons.prems(1) obtain i c ds bs' where b: "item = Inr (i, c, ds)" "bs = (i, c, ds) # bs'" "map fst items = map Inr bs'"
    by (cases bs) (auto simp: answers_def)
  with Cons.prems(1) it obtain r rs' where r: "rs = r # rs'" "completion_output_detection_response st i c ds = Ok r"
    "answers items bs' rs'" by (auto simp: answers_def list_all2_Cons1)
  have "track bs tracker = track bs' (hm_entry i [(input_start_index c, input_end_index c)]
      (\<lambda>e. e @ [(input_start_index c, input_end_index c)]) tracker)" by (simp add: b track_def Let_def)
  with Cons.IH [OF r(3), of "tx_send (Inr (Some r)) tx"] Cons.prems(2) it b(1) r(1,2) show ?case
    by (simp add: tx_sends_def Let_def)
qed



text \<open>Whole-document detection replaces the warning about empty choices instead of adding to it.\<close>

lemma completion_empty_warning_replaced:
  assumes "whole_doc_detectors \<noteq> []" "cs_metadata st = Some md" "tx_limit tx = None"
    and "completion_handle_whole_doc_detection sv ctx env hs request whole_doc_detectors st = Ok (dets, warnings)"
  shows "\<exists>c tx'. completion_final_message sv ctx env hs request whole_doc_detectors st True tx = (tx', True)
     \<and> tx_sent tx' = tx_sent tx @ [Inr (Some c)] \<and> cm_warnings c = warnings
     \<and> set warnings \<subseteq> {unsuitable_output_warning}"
proof -
  have "set warnings \<subseteq> {unsuitable_output_warning}"
    using assms(4) by (auto simp: completion_handle_whole_doc_detection_def Let_def)
  with assms show ?thesis by (simp add: completion_final_message_def Let_def)
qed

end
