(* ===== verification/Guardrails_Streaming.thy ===== *)
theory Guardrails_Streaming
  imports Chat_Streaming
begin

text \<open>
  The streaming handlers of the guardrails endpoints: detection on a stream of contents
  (\<^verbatim>\<open>src/orchestrator/handlers/streaming_content_detection.rs\<close>) and generation with guardrails
  (\<^verbatim>\<open>src/orchestrator/handlers/streaming_classification_with_gen.rs\<close>).
\<close>

section \<open>Streaming content detection\<close>

type_synonym content_stream = "(nat \<times> (error + streaming_content_request)) list"
type_synonym content_msg = "error + streaming_content_response"

definition extract_detectors :: "content_stream \<Rightarrow> (error, detector_map) res" where
  "extract_detectors input_stream =
     (case input_stream of
        (_, Inr msg) # _ \<Rightarrow>
          (case scr_detectors msg of
             Some ds \<Rightarrow> if ds = [] then Err (Validation ''`detectors` must not be empty'') else Ok ds
           | None \<Rightarrow> Err (Validation ''`detectors` is required for the first message''))
      | (_, Inl e) # _ \<Rightarrow> Err e
      | [] \<Rightarrow> Err (Validation ''`detectors` is required for the first message''))"

definition content_inputs :: "content_stream \<Rightarrow> input_msg list" where
  "content_inputs input_stream = map (\<lambda>(index, r). case r of
     Inr message \<Rightarrow> Inr (index, scr_content message) | Inl e \<Rightarrow> Inl e) input_stream"

text \<open>The conversion of a detection unwraps its span.\<close>

definition content_response :: "chunk \<Rightarrow> detection list \<Rightarrow> (error, streaming_content_response) res" where
  "content_response chunk dets =
     res_map (\<lambda>ds. \<lparr>sc_detections = ds, sc_processed_index = as_u32 (c_end chunk), sc_start_index = as_u32 (c_start chunk)\<rparr>)
       (collect_results (map content_of_detection dets))"

fun content_process_detection_batch_stream :: "item list \<Rightarrow> content_msg tx \<Rightarrow> content_msg task_end" where
  "content_process_detection_batch_stream [] tx = (tx, True)"
| "content_process_detection_batch_stream (Inl e # items) tx = (tx_send (Inl e) tx, True)"
| "content_process_detection_batch_stream (Inr (_, chunk, dets) # items) tx =
     (case content_response chunk dets of
        Ok response \<Rightarrow>
          if tx_closed tx then (tx, True)
          else content_process_detection_batch_stream items (tx_send (Inr response) tx)
      | _ \<Rightarrow> (tx, False))"

text \<open>\<open>batches\<close> is what the detection batch stream delivers.\<close>

definition content_handle_detection ::
  "services \<Rightarrow> orch_context \<Rightarrow> (nat \<Rightarrow> rx_run) \<Rightarrow> (nat \<Rightarrow> rx_run) \<Rightarrow> item list \<Rightarrow> headers \<Rightarrow> detector_map
     \<Rightarrow> content_stream \<Rightarrow> content_msg tx \<Rightarrow> content_msg task_end" where
  "content_handle_detection sv ctx rxs dxs batches hs ds input_stream tx =
     (case text_contents_detection_streams sv ctx rxs dxs hs ds 0 (content_inputs input_stream) of
        Ok detection_streams \<Rightarrow> content_process_detection_batch_stream batches tx
      | Err e \<Rightarrow> (tx_send (Inl e) tx, True)
      | Panic \<Rightarrow> (tx, False))"

definition handle_streaming_content_detection ::
  "services \<Rightarrow> orch_context \<Rightarrow> (nat \<Rightarrow> rx_run) \<Rightarrow> (nat \<Rightarrow> rx_run) \<Rightarrow> item list \<Rightarrow> headers
     \<Rightarrow> content_stream \<Rightarrow> content_msg tx \<Rightarrow> content_msg task_end" where
  "handle_streaming_content_detection sv ctx rxs dxs batches hs input_stream tx =
     (case res_bind (extract_detectors input_stream) (\<lambda>ds.
           res_map (\<lambda>_. ds) (validate_detectors ds (detectors (ctx_config ctx)) [TextContents] False)) of
        Ok ds \<Rightarrow> content_handle_detection sv ctx rxs dxs batches hs ds input_stream tx
      | Err e \<Rightarrow> (tx_send (Inl e) tx, True)
      | Panic \<Rightarrow> (tx, False))"

section \<open>Streaming generation with guardrails\<close>

type_synonym gen_result = classified_generated_text_stream_result
type_synonym gen_stream = "(nat \<times> (error + gen_result)) list"
type_synonym gen_msg = "error + gen_result"

definition streaming_classification_with_gen_task_new :: "guardrails_http_request \<Rightarrow> classification_with_gen_task" where
  "streaming_classification_with_gen_task_new r =
     \<lparr>cw_model_id = gr_model_id r, cw_inputs = gr_inputs r,
      cw_guardrails_config = unwrap_or guardrails_config_default (gr_guardrail_config r),
      cw_text_gen_parameters = gr_text_gen_parameters r\<rparr>"

definition gen_stream_handle_input_detection ::
  "services \<Rightarrow> orch_context \<Rightarrow> sched \<Rightarrow> headers \<Rightarrow> classification_with_gen_task \<Rightarrow> detector_map
     \<Rightarrow> (error, gen_result option) res" where
  "gen_stream_handle_input_detection sv ctx s hs task ds =
     (let inputs = apply_masks (cw_inputs task) (input_masks (cw_guardrails_config task)) in
      res_bind (contents_detections sv ctx s hs ds inputs) (\<lambda>dets.
      if dets \<noteq> [] then
        res_bind (unwrap (get_client GenerationClient (ctx_clients ctx) ''generation'')) (\<lambda>_.
        res_bind (tokenize sv hs (cw_model_id task) (cw_inputs task)) (\<lambda>(token_count, _).
        res_map (\<lambda>results. Some (classified_generated_text_stream_result_default
            \<lparr>cs_input_token_count := token_count,
             cs_token_classification_results := \<lparr>tr_input = Some results, tr_output = None\<rparr>,
             cs_warnings := Some [unsuitable_input]\<rparr>))
          (collect_results (map token_class_of_detection dets))))
      else Ok None))"

fun forward_generation_stream :: "gen_stream \<Rightarrow> gen_msg tx \<Rightarrow> gen_msg tx" where
  "forward_generation_stream [] tx = tx"
| "forward_generation_stream ((_, Inr g) # msgs) tx =
     (if tx_closed tx then tx else forward_generation_stream msgs (tx_send (Inr g) tx))"
| "forward_generation_stream ((_, Inl e) # msgs) tx = tx_send (Inl e) tx"

text \<open>
  The task that consumes the generations sends the text of each to the detection pipeline and then stores it; errors
  are sent on but not stored.
\<close>

definition gen_inputs :: "gen_stream \<Rightarrow> input_msg list" where
  "gen_inputs msgs = map (\<lambda>(index, r). case r of
     Inr g \<Rightarrow> Inr (index, unwrap_or [] (cs_generated_text g)) | Inl e \<Rightarrow> Inl e) msgs"

definition stored_generations :: "gen_stream \<Rightarrow> gen_result list" where
  "stored_generations msgs = [g. (_, Inr g) \<leftarrow> msgs]"

text \<open>\<^verbatim>\<open>get(start..=end).unwrap_or_default()\<close>.\<close>

definition generations_slice :: "gen_result list \<Rightarrow> nat \<Rightarrow> nat \<Rightarrow> gen_result list" where
  "generations_slice gens start end' =
     (if end' < length gens \<and> start \<le> Suc end' then take (Suc end' - start) (drop start gens) else [])"

definition gen_output_detection_response ::
  "gen_result list \<Rightarrow> chunk \<Rightarrow> detection list \<Rightarrow> (error, gen_result) res" where
  "gen_output_detection_response gens chunk dets =
     (let slice = generations_slice gens (input_start_index chunk) (input_end_index chunk);
          last_gen = (if slice = [] then classified_generated_text_stream_result_default else last slice);
          tokens = concat (map (\<lambda>g. unwrap_or [] (cs_tokens g)) slice);
          response = last_gen\<lparr>cs_generated_text := Some (c_text chunk), cs_start_index := Some (as_u32 (c_start chunk)),
            cs_processed_index := Some (as_u32 (c_end chunk)), cs_tokens := Some tokens\<rparr>
      in res_bind (collect_results (map token_class_of_detection dets)) (\<lambda>results.
         let response = response\<lparr>cs_token_classification_results :=
               (cs_token_classification_results response)\<lparr>tr_output := Some results\<rparr>\<rparr>
         in if input_start_index chunk = 0
            then (case slice of
                    [] \<Rightarrow> Panic
                  | first # rest \<Rightarrow> Ok (response\<lparr>cs_input_token_count := cs_input_token_count first, cs_seed := cs_seed first,
                      cs_input_tokens := (case rest of second # _ \<Rightarrow> cs_input_tokens second | [] \<Rightarrow> Some [])\<rparr>))
            else Ok response))"

text \<open>Each batch comes with the generations stored when it is answered.\<close>

fun gen_process_detection_batch_stream :: "(item \<times> gen_result list) list \<Rightarrow> gen_msg tx \<Rightarrow> gen_msg task_end" where
  "gen_process_detection_batch_stream [] tx = (tx, True)"
| "gen_process_detection_batch_stream ((Inl e, _) # items) tx = (tx_send (Inl e) tx, True)"
| "gen_process_detection_batch_stream ((Inr (_, chunk, dets), gens) # items) tx =
     (case gen_output_detection_response gens chunk dets of
        Ok response \<Rightarrow>
          if tx_closed tx then (tx, True)
          else gen_process_detection_batch_stream items (tx_send (Inr response) tx)
      | _ \<Rightarrow> (tx, False))"

definition gen_stream_handle_output_detection ::
  "services \<Rightarrow> orch_context \<Rightarrow> stream_env \<Rightarrow> headers \<Rightarrow> detector_map \<Rightarrow> gen_stream \<Rightarrow> gen_msg tx \<Rightarrow> gen_msg task_end" where
  "gen_stream_handle_output_detection sv ctx env hs ds msgs tx =
     (case text_contents_detection_streams sv ctx (se_rx env 0) (se_dx env 0) hs ds 0 (gen_inputs msgs) of
        Ok detection_streams \<Rightarrow> gen_process_detection_batch_stream
          (map (\<lambda>(item, k, _). (item, take k (stored_generations msgs))) (se_batches env)) tx
      | Err e \<Rightarrow> (tx_send (Inl e) tx, True)
      | Panic \<Rightarrow> (tx, False))"

definition handle_streaming_classification_with_gen ::
  "services \<Rightarrow> orch_context \<Rightarrow> stream_env \<Rightarrow> headers \<Rightarrow> classification_with_gen_task \<Rightarrow> gen_msg tx \<Rightarrow> gen_msg task_end" where
  "handle_streaming_classification_with_gen sv ctx env hs task tx =
     (let ids = input_detectors (cw_guardrails_config task);
          ods = output_detectors (cw_guardrails_config task) in
      case res_bind (validate_detectors ids (detectors (ctx_config ctx)) [TextContents] True) (\<lambda>_.
           res_bind (validate_detectors ods (detectors (ctx_config ctx)) [TextContents] False) (\<lambda>_.
           if ids \<noteq> [] then gen_stream_handle_input_detection sv ctx (se_input env) hs task ids else Ok None)) of
        Err e \<Rightarrow> (tx_send (Inl e) tx, True)
      | Panic \<Rightarrow> (tx, False)
      | Ok (Some response) \<Rightarrow> (tx_send (Inr response) tx, True)
      | Ok None \<Rightarrow>
          (case res_bind (unwrap (get_client GenerationClient (ctx_clients ctx) ''generation'')) (\<lambda>_.
                generate_stream sv hs (cw_model_id task) (cw_inputs task) (cw_text_gen_parameters task)) of
             Err e \<Rightarrow> (tx_send (Inl e) tx, True)
           | Panic \<Rightarrow> (tx, False)
           | Ok msgs \<Rightarrow>
               if ods \<noteq> [] then gen_stream_handle_output_detection sv ctx env hs ods msgs tx
               else (forward_generation_stream msgs tx, True)))"

section \<open>Lemmas\<close>

lemma generations_slice_nth:
  "end' < length gens \<Longrightarrow> start \<le> end' \<Longrightarrow> generations_slice gens start end' = map ((!) gens) [start..<Suc end']"
  by (intro nth_equalityI) (auto simp: generations_slice_def simp del: upt_Suc)

lemma forward_generation_stream_open:
  "tx_limit tx = None \<Longrightarrow> tx_sent (forward_generation_stream msgs tx) = tx_sent tx @
     map snd (takeWhile (\<lambda>m. \<not> isl (snd m)) msgs) @ map snd (take 1 (dropWhile (\<lambda>m. \<not> isl (snd m)) msgs))"
  by (induction msgs tx rule: forward_generation_stream.induct) auto

lemma delivered_stored: "\<forall>m \<in> set msgs. \<not> isl (snd m) \<Longrightarrow> stored_generations msgs = map (projr \<circ> snd) msgs"
proof (induction msgs)
  case (Cons m msgs)
  then show ?case by (cases m; cases "snd m") (auto simp: stored_generations_def)
qed (simp add: stored_generations_def)

lemma ex_stream_chunk_sel:
  "input_start_index (ex_stream_chunk i t) = i" "input_end_index (ex_stream_chunk i t) = i"
  "c_start (ex_stream_chunk i t) = i" "c_end (ex_stream_chunk i t) = Suc i" "c_text (ex_stream_chunk i t) = t"
  by (simp_all add: ex_stream_chunk_def)

section \<open>Properties\<close>

text \<open>
  C34. Detection on a stream of contents answers every batch: the client receives one response per batch, in order,
  whose detections are those of the batch (converting them back gives the batch), and whose indices are the chunk's
  modulo $2^{32}$, hence exact for streams of fewer than $2^{32}$ codepoints. The contents of the input messages go to the
  pipeline unchanged, each with its index.
\<close>

theorem content_stream_responses:
  assumes "\<forall>(i, c, dets) \<in> set bs. \<forall>d \<in> set dets. has_span d" "tx_limit tx = None"
  shows "(\<exists>rs tx'. content_process_detection_batch_stream (map Inr bs) tx = (tx', True)
       \<and> tx_sent tx' = tx_sent tx @ map Inr rs
       \<and> list_all2 (\<lambda>(i, c, dets) r. map detection_of_content (sc_detections r) = dets
           \<and> unat (sc_start_index r) = c_start c mod 2 ^ 32 \<and> unat (sc_processed_index r) = c_end c mod 2 ^ 32
           \<and> (c_start c < 2 ^ 32 \<and> c_end c < 2 ^ 32 \<longrightarrow> unat (sc_start_index r) = c_start c \<and> unat (sc_processed_index r) = c_end c)) bs rs)
     \<and> content_inputs (List.enumerate 0 (map Inr msgs)) = map Inr (List.enumerate 0 (map scr_content msgs))"
proof
  show "\<exists>rs tx'. content_process_detection_batch_stream (map Inr bs) tx = (tx', True)
       \<and> tx_sent tx' = tx_sent tx @ map Inr rs
       \<and> list_all2 (\<lambda>(i, c, dets) r. map detection_of_content (sc_detections r) = dets
           \<and> unat (sc_start_index r) = c_start c mod 2 ^ 32 \<and> unat (sc_processed_index r) = c_end c mod 2 ^ 32
           \<and> (c_start c < 2 ^ 32 \<and> c_end c < 2 ^ 32 \<longrightarrow> unat (sc_start_index r) = c_start c \<and> unat (sc_processed_index r) = c_end c)) bs rs"
    using assms
  proof (induction bs arbitrary: tx)
    case (Cons b bs)
    obtain i c dets where b: "b = (i, c, dets)" by (cases b)
    from Cons.prems(1) b collect_content_of_detection [of dets] obtain ds where
      ds: "(collect_results (map content_of_detection dets) :: (error, _) res) = Ok ds" "map detection_of_content ds = dets" by auto
    let ?r = "\<lparr>sc_detections = ds, sc_processed_index = as_u32 (c_end c), sc_start_index = as_u32 (c_start c)\<rparr>"
    from Cons.IH [of "tx_send (Inr ?r) tx"] Cons.prems obtain rs tx' where
      IH: "content_process_detection_batch_stream (map Inr bs) (tx_send (Inr ?r) tx) = (tx', True)"
        "tx_sent tx' = tx_sent tx @ map Inr (?r # rs)"
        "list_all2 (\<lambda>(i, c, dets) r. map detection_of_content (sc_detections r) = dets
           \<and> unat (sc_start_index r) = c_start c mod 2 ^ 32 \<and> unat (sc_processed_index r) = c_end c mod 2 ^ 32
           \<and> (c_start c < 2 ^ 32 \<and> c_end c < 2 ^ 32 \<longrightarrow> unat (sc_start_index r) = c_start c \<and> unat (sc_processed_index r) = c_end c)) bs rs"
      by auto
    show ?case
      by (intro exI [of _ "?r # rs"] exI [of _ tx'])
        (use IH ds Cons.prems(2) in \<open>simp add: b content_response_def unat_as_u32\<close>)
  qed simp
  have "content_inputs (List.enumerate n (map Inr msgs)) = map Inr (List.enumerate n (map scr_content msgs))" for n
    by (induction msgs arbitrary: n) (simp_all add: content_inputs_def)
  then show "content_inputs (List.enumerate 0 (map Inr msgs)) = map Inr (List.enumerate 0 (map scr_content msgs))" .
qed

theorem content_stream_responses_witness:
  "\<exists>r tx'. content_process_detection_batch_stream [Inr (0, ex_stream_chunk 3 ''bad'', [ex_stream_detection ''d''])] (tx_new None) = (tx', True)
     \<and> tx_sent tx' = [Inr r] \<and> map detection_of_content (sc_detections r) = [ex_stream_detection ''d''] \<and> unat (sc_start_index r) = 3"
proof -
  have "has_span (ex_stream_detection ''d'')" by (simp add: ex_stream_detection_def has_span_def detection_of_content_def)
  note span = this
  let ?bs = "[(0, ex_stream_chunk 3 ''bad'', [ex_stream_detection ''d''])] :: batch list"
  have "\<exists>rs tx'. content_process_detection_batch_stream (map Inr ?bs) (tx_new None) = (tx', True)
       \<and> tx_sent tx' = tx_sent (tx_new None) @ map Inr rs
       \<and> list_all2 (\<lambda>(i, c, dets) r. map detection_of_content (sc_detections r) = dets
           \<and> unat (sc_start_index r) = c_start c mod 2 ^ 32 \<and> unat (sc_processed_index r) = c_end c mod 2 ^ 32
           \<and> (c_start c < 2 ^ 32 \<and> c_end c < 2 ^ 32 \<longrightarrow> unat (sc_start_index r) = c_start c \<and> unat (sc_processed_index r) = c_end c)) ?bs rs"
    by (rule content_stream_responses [THEN conjunct1]) (simp_all add: span tx_new_def)
  then obtain rs tx' where c: "content_process_detection_batch_stream (map Inr ?bs) (tx_new None) = (tx', True)"
    and sent: "tx_sent tx' = map Inr rs"
    and all: "list_all2 (\<lambda>(i, c, dets) r. map detection_of_content (sc_detections r) = dets
           \<and> unat (sc_start_index r) = c_start c mod 2 ^ 32 \<and> unat (sc_processed_index r) = c_end c mod 2 ^ 32
           \<and> (c_start c < 2 ^ 32 \<and> c_end c < 2 ^ 32 \<longrightarrow> unat (sc_start_index r) = c_start c \<and> unat (sc_processed_index r) = c_end c)) ?bs rs"
    unfolding tx_new_def by auto
  from all obtain r where "rs = [r]" "map detection_of_content (sc_detections r) = [ex_stream_detection ''d'']" "unat (sc_start_index r) = 3"
    by (auto simp: list_all2_Cons1 ex_stream_chunk_sel)
  with c sent show ?thesis by simp
qed

definition gen_answer :: "gen_result list \<Rightarrow> batch \<Rightarrow> gen_result \<Rightarrow> bool" where
  "gen_answer gens = (\<lambda>(i, c, dets) r. cs_generated_text r = Some (c_text c)
     \<and> cs_tokens r = Some (concat (map (\<lambda>k. unwrap_or [] (cs_tokens (gens ! k))) [input_start_index c..<Suc (input_end_index c)]))
     \<and> map_option length (tr_output (cs_token_classification_results r)) = Some (length dets)
     \<and> cs_finish_reason r = cs_finish_reason (gens ! input_end_index c)
     \<and> (input_start_index c = 0 \<longrightarrow> cs_input_token_count r = cs_input_token_count (gens ! 0) \<and> cs_seed r = cs_seed (gens ! 0)))"

lemma gen_response_answer:
  assumes "input_start_index c \<le> input_end_index c" "input_end_index c < length gens" "\<forall>d \<in> set dets. has_span d"
  shows "\<exists>r. gen_output_detection_response gens c dets = Ok r \<and> gen_answer gens (i, c, dets) r"
proof -
  obtain rs where rs: "(collect_results (map token_class_of_detection dets) :: (error, _) res) = Ok rs" "length rs = length dets"
    using collect_token_class [of dets] assms(3) by blast
  define slice where "slice = generations_slice gens (input_start_index c) (input_end_index c)"
  have slice: "slice = map ((!) gens) [input_start_index c..<Suc (input_end_index c)]"
    using assms by (simp only: slice_def generations_slice_nth)
  have toks: "concat (map (\<lambda>g. unwrap_or [] (cs_tokens g)) slice) =
      concat (map (\<lambda>k. unwrap_or [] (cs_tokens (gens ! k))) [input_start_index c..<Suc (input_end_index c)])"
    by (simp add: slice comp_def del: upt_Suc)
  have l: "last slice = gens ! input_end_index c" using assms(1) by (simp add: slice last_map)
  obtain first rest where s: "slice = first # rest" and f: "first = gens ! input_start_index c"
    using assms(1) by (simp add: slice upt_conv_Cons del: upt_Suc)
  have "\<exists>r. gen_output_detection_response gens c dets = Ok r \<and> gen_answer gens (i, c, dets) r"
    unfolding gen_output_detection_response_def slice_def [symmetric] Let_def rs(1) res_bind.simps toks l
    using s f rs(2) by (simp add: gen_answer_def del: upt_Suc)
  then show ?thesis .
qed

lemma gen_answer_take:
  assumes "input_end_index c < k"
  shows "gen_answer (take k gens) (i, c, dets) r = gen_answer gens (i, c, dets) r"
proof -
  have "map (\<lambda>j. unwrap_or [] (cs_tokens (take k gens ! j))) [input_start_index c..<Suc (input_end_index c)]
      = map (\<lambda>j. unwrap_or [] (cs_tokens (gens ! j))) [input_start_index c..<Suc (input_end_index c)]"
    using assms by (intro map_cong) auto
  then show ?thesis unfolding gen_answer_def prod.case using assms by (simp only: nth_take)
qed


definition ex_generation :: "string \<Rightarrow> gen_result" where
  "ex_generation t = classified_generated_text_stream_result_default\<lparr>cs_generated_text := Some t, cs_input_token_count := 7\<rparr>"


text \<open>
  A generation is stored only after its text has been sent to the detectors. If the first chunk is answered before
  that, the task panics: nothing of this or any later batch reaches the client, and the stream ends without
  an error.
\<close>

theorem gen_stream_early_batch_panics:
  assumes "text_contents_detection_streams sv ctx (se_rx env 0) (se_dx env 0) hs ds 0 (gen_inputs msgs) = Ok streams"
    and "se_batches env = (Inr (i, c, dets), k, k') # rest" "input_start_index c = 0" "k \<le> input_end_index c"
  shows "gen_stream_handle_output_detection sv ctx env hs ds msgs tx = (tx, False)"
proof -
  have slice: "generations_slice (take k (stored_generations msgs)) (input_start_index c) (input_end_index c) = []"
    using assms(4) by (simp add: generations_slice_def)
  have "\<forall>e. (collect_results (map token_class_of_detection dets) :: (error, _) res) \<noteq> Err e"
  proof (intro allI notI)
    fix e assume "(collect_results (map token_class_of_detection dets) :: (error, _) res) = Err e"
    from collect_results_Err_in [OF this] obtain d where "(token_class_of_detection d :: (error, _) res) = Err e" by auto
    then show False by (cases "d_start d"; cases "d_end d") (auto simp: token_class_of_detection_def)
  qed
  then have "gen_output_detection_response (take k (stored_generations msgs)) c dets = Panic"
    using assms(3) slice by (cases "collect_results (map token_class_of_detection dets) :: (error, _) res")
      (auto simp: gen_output_detection_response_def Let_def)
  with assms(1,2) show ?thesis by (simp add: gen_stream_handle_output_detection_def)
qed

theorem gen_stream_early_batch_panics_witness:
  "gen_stream_handle_output_detection ex_services ex_stream_ctx
     (ex_stream_env [(Inr (0, ex_stream_chunk 0 ''bad'', [ex_stream_detection ''d'', ex_stream_detection ''e'']), 0, 0)] 0) []
     [(''d'', []), (''e'', [])] [(0, Inr (ex_generation ''bad''))] (tx_new None) = (tx_new None, False)"
  by (rule gen_stream_early_batch_panics [where c = "ex_stream_chunk 0 ''bad''" and k = 0])
    (simp_all add: ex_stream_env_def ex_stream_streams gen_inputs_def ex_generation_def ex_stream_chunk_sel)

end
