(* ===== verification/Tls.thy ===== *)
theory Tls
  imports Orch_Config
begin

text \<open>
  TLS: the configuration of the clients' connections (\<^verbatim>\<open>src/utils/tls.rs\<close>), the configuration of the server and its loop that accepts
  connections (\<^verbatim>\<open>src/server/tls.rs\<close>). Reading files, PEM parsing and the checks of rustls are arguments.
\<close>

section \<open>Environment\<close>

text \<open>
  \<open>pe_open\<close> opens a file: an error text or its contents; \<open>pe_certs\<close> are the certificates of a file, in their order; \<open>pe_private_key\<close> is its first private
  key; \<open>pe_items\<close> are the results of reading its items one by one; \<open>pe_parsable\<close> is what a root store accepts; \<open>pe_identity\<close> is the error, if any, of
  using a certificate chain with a key; \<open>pe_verifier\<close> is whether a verifier of client certificates can be built from these roots.
\<close>

datatype pem_item = Pkcs1Key string | Pkcs8Key string | Sec1Key string | OtherItem

record pem_env =
  pe_open :: "string \<Rightarrow> string + string"
  pe_certs :: "string \<Rightarrow> (string + string) list"
  pe_private_key :: "string \<Rightarrow> string + string option"
  pe_items :: "string \<Rightarrow> (string + pem_item) list"
  pe_parsable :: "string \<Rightarrow> bool"
  pe_identity :: "string list \<Rightarrow> string \<Rightarrow> string option"
  pe_verifier :: "string list \<Rightarrow> bool"

section \<open>Clients\<close>

datatype tls_error =
    FailedReadCerts string
  | FailedReadKey string
  | FailedReadCaCerts string
  | MissingTlsKey
  | RustlsError string

fun tls_error_string :: "tls_error \<Rightarrow> string" where
  "tls_error_string (FailedReadCerts e) = ''failed to read TLS certs from file: '' @ e"
| "tls_error_string (FailedReadKey e) = ''failed to read TLS private key from file: '' @ e"
| "tls_error_string (FailedReadCaCerts e) = ''failed to read TLS CA certs from file: '' @ e"
| "tls_error_string MissingTlsKey = ''missing TLS private key''"
| "tls_error_string (RustlsError e) = ''TLS configuration error: '' @ e"

definition into_client_error :: "tls_error \<Rightarrow> client_error" where
  "into_client_error e = Http 500 (''client TLS configuration failed: '' @ tls_error_string e)"

record tls_config_builder =
  tb_cert_path :: string
  tb_key_path :: "string option"
  tb_ca_cert_path :: "string option"
  tb_insecure :: "bool option"

record resolved_tls_config =
  rt_cert :: "string list"
  rt_key :: "string option"
  rt_ca_cert :: "string list option"
  rt_insecure :: bool

definition tls_config_from_parts :: "string \<Rightarrow> string option \<Rightarrow> string option \<Rightarrow> bool option \<Rightarrow> tls_config_builder" where
  "tls_config_from_parts cert_path key_path ca_cert_path insecure =
     \<lparr>tb_cert_path = cert_path, tb_key_path = key_path, tb_ca_cert_path = ca_cert_path, tb_insecure = insecure\<rparr>"

fun of_io :: "(string \<Rightarrow> 'e) \<Rightarrow> string + 'a \<Rightarrow> ('e, 'a) res" where
  "of_io f (Inl e) = Err (f e)"
| "of_io f (Inr x) = Ok x"

definition read_certs :: "pem_env \<Rightarrow> (string \<Rightarrow> tls_error) \<Rightarrow> string \<Rightarrow> (tls_error, string list) res" where
  "read_certs env failed path =
     res_bind (of_io failed (pe_open env path)) (\<lambda>file. collect_results (map (of_io failed) (pe_certs env file)))"

definition read_key :: "pem_env \<Rightarrow> string \<Rightarrow> (tls_error, string) res" where
  "read_key env path =
     res_bind (of_io FailedReadKey (pe_open env path)) (\<lambda>file.
     res_bind (of_io FailedReadKey (pe_private_key env file)) (ok_or MissingTlsKey))"

fun res_option :: "('e, 'a) res option \<Rightarrow> ('e, 'a option) res" where
  "res_option None = Ok None"
| "res_option (Some r) = res_map Some r"

definition tls_config_build :: "pem_env \<Rightarrow> tls_config_builder \<Rightarrow> (tls_error, resolved_tls_config) res" where
  "tls_config_build env b =
     res_bind (read_certs env FailedReadCerts (tb_cert_path b)) (\<lambda>cert.
     res_bind (res_option (map_option (read_key env) (tb_key_path b))) (\<lambda>key.
     res_bind (res_option (map_option (read_certs env FailedReadCaCerts) (tb_ca_cert_path b))) (\<lambda>ca_cert.
     Ok \<lparr>rt_cert = cert, rt_key = key, rt_ca_cert = ca_cert, rt_insecure = unwrap_or False (tb_insecure b)\<rparr>)))"

text \<open>
  The configuration of a connection: its roots, where \<open>None\<close> are those of the system or the built-in ones, the identity it shows, and whether the
  certificate of the other side is verified.
\<close>

record client_tls =
  ct_roots :: "string list option"
  ct_identity :: "(string list \<times> string) option"
  ct_verify :: bool

definition build_insecure_client_config :: client_tls where
  "build_insecure_client_config = \<lparr>ct_roots = None, ct_identity = None, ct_verify = False\<rparr>"

definition tls_roots :: "pem_env \<Rightarrow> resolved_tls_config \<Rightarrow> string list option" where
  "tls_roots env t =
     (case rt_ca_cert t of Some ca_cert \<Rightarrow> if ca_cert \<noteq> [] then Some (filter (pe_parsable env) ca_cert) else None | None \<Rightarrow> None)"

definition tls_identity :: "pem_env \<Rightarrow> resolved_tls_config \<Rightarrow> (tls_error, (string list \<times> string) option) res" where
  "tls_identity env t =
     (case rt_key t of
        Some key \<Rightarrow>
          if rt_cert t \<noteq> [] then
            (case pe_identity env (rt_cert t) key of Some e \<Rightarrow> Err (RustlsError e) | None \<Rightarrow> Ok (Some (rt_cert t, key)))
          else Ok None
      | None \<Rightarrow> Ok None)"

definition build_client_config :: "pem_env \<Rightarrow> tls_config \<Rightarrow> (tls_error, client_tls) res" where
  "build_client_config env t =
     res_bind (unwrap (tls_cert_path t)) (\<lambda>cert_path.
     res_bind (tls_config_build env
         (tls_config_from_parts cert_path (tls_key_path t) (tls_client_ca_cert_path t) (tls_insecure t))) (\<lambda>r.
     res_map (\<lambda>identity. \<lparr>ct_roots = tls_roots env r, ct_identity = identity, ct_verify = \<not> rt_insecure r\<rparr>) (tls_identity env r)))"

section \<open>Server\<close>

record server_tls =
  st_cert :: "string list"
  st_key :: string
  st_client_roots :: "string list option"

definition load_certs :: "pem_env \<Rightarrow> string \<Rightarrow> ('e, string list) res" where
  "load_certs env path =
     (case pe_open env path of
        Inl _ \<Rightarrow> Panic
      | Inr file \<Rightarrow> collect_results (map (\<lambda>r. case r of Inr cert \<Rightarrow> Ok cert | Inl _ \<Rightarrow> Panic) (pe_certs env file)))"

text \<open>The loop over the items of a file; what is no key is skipped, encrypted keys among it.\<close>

fun first_key :: "(string + pem_item) list \<Rightarrow> ('e, string) res" where
  "first_key [] = Panic"
| "first_key (Inl _ # items) = Panic"
| "first_key (Inr (Pkcs1Key key) # items) = Ok key"
| "first_key (Inr (Pkcs8Key key) # items) = Ok key"
| "first_key (Inr (Sec1Key key) # items) = Ok key"
| "first_key (Inr OtherItem # items) = first_key items"

definition load_private_key :: "pem_env \<Rightarrow> string \<Rightarrow> ('e, string) res" where
  "load_private_key env path =
     (case pe_open env path of Inl _ \<Rightarrow> Panic | Inr file \<Rightarrow> first_key (pe_items env file))"

definition client_roots :: "pem_env \<Rightarrow> string \<Rightarrow> ('e, string list) res" where
  "client_roots env path =
     res_bind (load_certs env path) (\<lambda>certs.
     if list_all (pe_parsable env) certs \<and> pe_verifier env certs then Ok certs else Panic)"

definition configure_tls ::
  "pem_env \<Rightarrow> string option \<Rightarrow> string option \<Rightarrow> string option \<Rightarrow> ('e, server_tls option) res" where
  "configure_tls env cert_file key_file client_ca_file =
     (case (cert_file, key_file) of
        (Some cert_path, Some key_path) \<Rightarrow>
          res_bind (load_certs env cert_path) (\<lambda>cert.
          res_bind (load_private_key env key_path) (\<lambda>key.
          res_bind (res_option (map_option (client_roots env) client_ca_file)) (\<lambda>roots.
          if pe_identity env cert key = None then Ok (Some \<lparr>st_cert = cert, st_key = key, st_client_roots = roots\<rparr>) else Panic)))
      | _ \<Rightarrow> Ok None)"

section \<open>Accepting connections\<close>

text \<open>
  The loop of \<^verbatim>\<open>serve_with_tls\<close> waits for a connection, then for its handshake, then serves it in a task of its own; a signal ends it in
  either place. What happens is a sequence of events.
\<close>

datatype phase = Accepting | Handshaking nat | Draining

datatype tls_event = Connected nat | AcceptFailed | HandshakeDone | HandshakeFailed | Shutdown

record tls_server =
  tv_phase :: phase
  tv_served :: "nat list"

definition tls_server_new :: tls_server where
  "tls_server_new = \<lparr>tv_phase = Accepting, tv_served = []\<rparr>"

inductive serve_step :: "tls_server \<Rightarrow> tls_event \<Rightarrow> tls_server \<Rightarrow> bool" where
  connected: "tv_phase s = Accepting \<Longrightarrow> serve_step s (Connected c) (s\<lparr>tv_phase := Handshaking c\<rparr>)"
| accept_failed: "tv_phase s = Accepting \<Longrightarrow> serve_step s AcceptFailed s"
| handshake_done: "tv_phase s = Handshaking c \<Longrightarrow>
    serve_step s HandshakeDone (s\<lparr>tv_phase := Accepting, tv_served := tv_served s @ [c]\<rparr>)"
| handshake_failed: "tv_phase s = Handshaking c \<Longrightarrow> serve_step s HandshakeFailed (s\<lparr>tv_phase := Accepting\<rparr>)"
| shutdown: "tv_phase s \<noteq> Draining \<Longrightarrow> serve_step s Shutdown (s\<lparr>tv_phase := Draining\<rparr>)"

inductive_simps serve_step_iff: "serve_step s e t"

inductive serves :: "tls_server \<Rightarrow> tls_event list \<Rightarrow> tls_server \<Rightarrow> bool" where
  serves_Nil: "serves s [] s"
| serves_Cons: "serve_step s e t \<Longrightarrow> serves t es u \<Longrightarrow> serves s (e # es) u"

inductive_cases serves_NilE [elim!]: "serves s [] t"
inductive_cases serves_ConsE [elim!]: "serves s (e # es) t"

section \<open>Lemmas\<close>

lemma of_io_Ok_iff [simp]: "of_io f x = Ok y \<longleftrightarrow> x = Inr y"
  by (cases x) auto

lemma res_option_Ok_iff [simp]: "res_option r = Ok x \<longleftrightarrow> (case r of None \<Rightarrow> x = None | Some r \<Rightarrow> \<exists>y. r = Ok y \<and> x = Some y)"
  by (cases r) auto

lemma unwrap_or_False [simp]: "unwrap_or False x \<longleftrightarrow> x = Some True"
  by (cases x) auto

lemma load_certs_Ok:
  "load_certs env path = Ok certs \<longleftrightarrow> (\<exists>file. pe_open env path = Inr file \<and> pe_certs env file = map Inr certs)"
proof -
  have "collect_results (map (\<lambda>r. case r of Inr cert \<Rightarrow> Ok cert | Inl _ \<Rightarrow> Panic) rs) = (Ok certs :: ('e, string list) res) \<longleftrightarrow> rs = map Inr certs"
    for rs :: "(string + string) list"
    by (induction rs arbitrary: certs) (auto split: sum.splits)
  then show ?thesis by (auto simp: load_certs_def split: sum.splits)
qed

lemma read_certs_Ok:
  "read_certs env failed path = Ok certs \<longleftrightarrow> (\<exists>file. pe_open env path = Inr file \<and> pe_certs env file = map Inr certs)"
proof -
  have "collect_results (map (of_io failed) rs) = Ok certs \<longleftrightarrow> rs = map Inr certs" for rs
    by (induction rs arbitrary: certs) auto
  then show ?thesis by (auto simp: read_certs_def)
qed

section \<open>An example\<close>

text \<open>Files whose text is their path, with one certificate and one key each.\<close>

definition ex_pem :: pem_env where
  "ex_pem = \<lparr>pe_open = (\<lambda>path. Inr path), pe_certs = (\<lambda>file. [Inr file]), pe_private_key = (\<lambda>file. Inr (Some file)),
     pe_items = (\<lambda>file. [Inr OtherItem, Inr (Pkcs8Key file)]), pe_parsable = (\<lambda>_. True), pe_identity = (\<lambda>_ _. None), pe_verifier = (\<lambda>_. True)\<rparr>"

section \<open>Properties\<close>

text \<open>
  A client's connection verifies the other side unless the configuration says otherwise; with a file of CA certificates that has any,
  these are its only roots; it shows its certificate exactly when a key is given and there is a certificate.
\<close>

theorem client_tls_correct:
  assumes "build_client_config env t = Ok c"
  shows "(ct_verify c \<longleftrightarrow> tls_insecure t \<noteq> Some True)
     \<and> (\<forall>path file certs. tls_client_ca_cert_path t = Some path \<and> pe_open env path = Inr file \<and> pe_certs env file = map Inr certs \<and> certs \<noteq> []
          \<longrightarrow> ct_roots c = Some (filter (pe_parsable env) certs))
     \<and> (tls_client_ca_cert_path t = None \<longrightarrow> ct_roots c = None)
     \<and> (ct_identity c \<noteq> None \<longleftrightarrow> tls_key_path t \<noteq> None
          \<and> (\<forall>path file. tls_cert_path t = Some path \<and> pe_open env path = Inr file \<longrightarrow> pe_certs env file \<noteq> []))"
proof -
  from assms obtain cert_path r identity where p: "tls_cert_path t = Some cert_path"
    and r: "tls_config_build env (tls_config_from_parts cert_path (tls_key_path t) (tls_client_ca_cert_path t) (tls_insecure t)) = Ok r"
    and i: "tls_identity env r = Ok identity"
    and c: "c = \<lparr>ct_roots = tls_roots env r, ct_identity = identity, ct_verify = \<not> rt_insecure r\<rparr>"
    unfolding build_client_config_def by auto
  from r have cert: "\<exists>file. pe_open env cert_path = Inr file \<and> pe_certs env file = map Inr (rt_cert r)"
    and key: "rt_key r = None \<longleftrightarrow> tls_key_path t = None"
    and ca: "case tls_client_ca_cert_path t of None \<Rightarrow> rt_ca_cert r = None
       | Some path \<Rightarrow> \<exists>file certs. pe_open env path = Inr file \<and> pe_certs env file = map Inr certs \<and> rt_ca_cert r = Some certs"
    and ins: "rt_insecure r \<longleftrightarrow> tls_insecure t = Some True"
    by (auto simp: tls_config_build_def tls_config_from_parts_def read_certs_Ok split: option.splits)
  have "identity \<noteq> None \<longleftrightarrow> rt_key r \<noteq> None \<and> rt_cert r \<noteq> []"
    using i by (auto simp: tls_identity_def split: option.splits if_splits)
  then show ?thesis using p cert key ca ins by (auto simp: c tls_roots_def inj_map_eq_map split: option.splits)
qed

text \<open>
  The server uses TLS exactly when it is given a certificate and a key; with a client CA it serves only clients with a certificate of
  these roots. Whatever cannot be read or used stops it from starting.
\<close>

theorem server_tls_correct:
  assumes "configure_tls env cert_file key_file client_ca_file = Ok tls"
  shows "(tls \<noteq> None \<longleftrightarrow> cert_file \<noteq> None \<and> key_file \<noteq> None)
     \<and> (\<forall>s. tls = Some s \<longrightarrow>
          (st_client_roots s = None \<longleftrightarrow> client_ca_file = None)
          \<and> (\<forall>path. client_ca_file = Some path \<longrightarrow> (\<exists>file roots. pe_open env path = Inr file \<and> pe_certs env file = map Inr roots
               \<and> st_client_roots s = Some roots \<and> list_all (pe_parsable env) roots)))"
  using assms by (auto simp: configure_tls_def client_roots_def load_certs_Ok split: option.splits if_splits)

text \<open>The connections whose handshake is completed, read off the events.\<close>

fun handshakes :: "tls_event list \<Rightarrow> nat list" where
  "handshakes (Connected c # HandshakeDone # es) = c # handshakes es"
| "handshakes (e # es) = handshakes es"
| "handshakes [] = []"

lemma draining_ends: "serves s es t \<Longrightarrow> tv_phase s = Draining \<Longrightarrow> es = [] \<and> t = s"
  by (cases es) (auto simp: serve_step_iff)

lemma serves_handshakes:
  "serves s es t \<Longrightarrow>
     tv_served t = tv_served s @ (case tv_phase s of Handshaking c \<Rightarrow> handshakes (Connected c # es) | _ \<Rightarrow> handshakes es)"
proof (induction rule: serves.induct)
  case (serves_Cons s e t es u)
  from serves_Cons.hyps(1) show ?case
  proof cases
    case (handshake_failed c)
    then show ?thesis using serves_Cons.IH by (cases es) simp_all
  next
    case shutdown
    then have "es = [] \<and> u = t" using draining_ends [OF serves_Cons.hyps(2)] by simp
    then show ?thesis using shutdown by (cases "tv_phase s") simp_all
  qed (use serves_Cons.IH in \<open>simp_all\<close>)
next
  case (serves_Nil s)
  then show ?case by (cases "tv_phase s") simp_all
qed

text \<open>A handshake that does not end keeps the server from accepting any other connection.\<close>

theorem handshake_blocks_server:
  assumes "serves s es t" "tv_phase s = Handshaking c" "HandshakeDone \<notin> set es" "HandshakeFailed \<notin> set es"
  shows "tv_served t = tv_served s \<and> (\<forall>d. Connected d \<notin> set es)"
proof (cases es)
  case Nil
  then show ?thesis using assms(1) by auto
next
  case (Cons e es')
  with assms obtain u where u: "serve_step s e u" "serves u es' t" by auto
  with assms(2-4) Cons have "e = Shutdown \<and> u = s\<lparr>tv_phase := Draining\<rparr>" by (auto simp: serve_step_iff)
  moreover from this u(2) have "es' = [] \<and> t = u" using draining_ends by auto
  ultimately show ?thesis using Cons by simp
qed

end
