(* ===== verification/Clients.thy ===== *)
theory Clients
  imports Tasks Tls
begin

text \<open>
  The clients of the services: header maps, the HTTP client (\<^verbatim>\<open>src/clients/http.rs\<close>), how clients are built from their
  configuration (\<^verbatim>\<open>src/clients.rs\<close>), health checks (\<^verbatim>\<open>src/health.rs\<close> and the clients' \<^verbatim>\<open>health\<close>) and the retries of the
  generation client (\<^verbatim>\<open>src/clients/generation.rs\<close>). The connection itself is that of the libraries hyper and tonic.
\<close>

section \<open>Header maps\<close>

text \<open>
  \<^verbatim>\<open>HeaderMap\<close>: \<^verbatim>\<open>get\<close> and \<^verbatim>\<open>remove\<close> return the first value of a name, \<^verbatim>\<open>remove\<close> drops all of them, \<^verbatim>\<open>insert\<close> replaces
  all of them; the order of different names has no meaning. The bytes of a value are tabs and those from 32 on but 127.
\<close>

definition headers_get :: "string \<Rightarrow> headers \<Rightarrow> string option" where
  "headers_get k hs = map_of hs k"

definition headers_remove :: "string \<Rightarrow> headers \<Rightarrow> headers" where
  "headers_remove k hs = filter (\<lambda>(n, _). n \<noteq> k) hs"

definition headers_insert :: "string \<Rightarrow> string \<Rightarrow> headers \<Rightarrow> headers" where
  "headers_insert k v hs = headers_remove k hs @ [(k, v)]"

definition header_value_ok :: "string \<Rightarrow> bool" where
  "header_value_ok v \<longleftrightarrow> list_all (\<lambda>c. let b = (of_char c :: nat) in (32 \<le> b \<and> b \<noteq> 127) \<or> b = 9) v"

text \<open>\<^verbatim>\<open>HeaderValue::to_str\<close> accepts tabs and visible ASCII.\<close>

definition header_to_str :: "string \<Rightarrow> string option" where
  "header_to_str v = (if list_all (\<lambda>c. let b = (of_char c :: nat) in (32 \<le> b \<and> b < 127) \<or> b = 9) v then Some v else None)"

lemma headers_remove_set: "set (headers_remove k hs) = {(n, v) \<in> set hs. n \<noteq> k}"
  by (auto simp: headers_remove_def)

lemma headers_insert_set: "set (headers_insert k v hs) = insert (k, v) {(n, w) \<in> set hs. n \<noteq> k}"
  by (auto simp: headers_insert_def headers_remove_set)

lemma headers_get_insert [simp]: "headers_get k (headers_insert k v hs) = Some v"
proof -
  have "map_of (headers_remove k hs) k = None" by (auto simp: headers_remove_def map_of_eq_None_iff)
  then show ?thesis by (simp add: headers_get_def headers_insert_def map_add_def)
qed

lemma header_value_ok_bearer: "header_value_ok v \<Longrightarrow> header_value_ok (''Bearer '' @ v)"
  by (simp add: header_value_ok_def)

section \<open>The HTTP client\<close>

text \<open>
  URLs of the url crate. \<open>url_join\<close> is \<^verbatim>\<open>Url::join\<close> for a relative path without dot segments: it replaces what follows the
  last slash of the base path.
\<close>

record url =
  url_scheme :: string
  url_host :: string
  url_port :: "nat option"
  url_path :: string

definition upto_last_slash :: "string \<Rightarrow> string" where
  "upto_last_slash p = rev (dropWhile (\<lambda>c. c \<noteq> CHR ''/'') (rev p))"

definition url_join :: "url \<Rightarrow> string \<Rightarrow> url" where
  "url_join base rel = base\<lparr>url_path := upto_last_slash (url_path base) @ rel\<rparr>"

text \<open>\<^verbatim>\<open>trim_start_matches('/')\<close> and \<^verbatim>\<open>trim_matches('/')\<close>.\<close>

definition trim_start_slash :: "string \<Rightarrow> string" where
  "trim_start_slash s = dropWhile (\<lambda>c. c = CHR ''/'') s"

definition trim_slashes :: "string \<Rightarrow> string" where
  "trim_slashes s = rev (trim_start_slash (rev (trim_start_slash s)))"

text \<open>What the inner hyper client is built with; times are in seconds.\<close>

record http_options =
  ho_tls :: client_tls
  ho_connect_timeout :: nat
  ho_request_timeout :: nat
  ho_http2_keep_alive_interval :: nat
  ho_http2_keep_alive_timeout :: nat

record http_client =
  hc_base_url :: url
  hc_health_url :: url
  hc_api_token :: "string option"
  hc_inner :: http_options

definition http_client_new :: "url \<Rightarrow> string option \<Rightarrow> http_options \<Rightarrow> http_client" where
  "http_client_new base api_token inner =
     (let base = (if url_path base \<noteq> [] \<and> last (url_path base) = CHR ''/'' then base
                  else base\<lparr>url_path := url_path base @ ''/''\<rparr>)
      in \<lparr>hc_base_url = base, hc_health_url = url_join base ''health'', hc_api_token = api_token, hc_inner = inner\<rparr>)"

definition client_endpoint :: "http_client \<Rightarrow> string \<Rightarrow> url" where
  "client_endpoint client path = url_join (hc_base_url client) (trim_start_slash path)"

definition inject_api_token :: "http_client \<Rightarrow> headers \<Rightarrow> (client_error, headers) res" where
  "inject_api_token client hs =
     (case hc_api_token client of
        Some token \<Rightarrow>
          if header_value_ok (''Bearer '' @ token) then Ok (headers_insert ''authorization'' (''Bearer '' @ token) hs)
          else Err (Http 500 ''invalid authorization header: failed to parse header value'')
      | None \<Rightarrow> Ok hs)"

text \<open>
  A request and its answer: status, body and, where the body is an event stream, its events. \<open>net\<close> is the network; the
  tracing headers are left out.
\<close>

record sse_message =
  sm_event :: string
  sm_data :: string

record http_response =
  rs_status :: nat
  rs_body :: string
  rs_events :: "(string + sse_message) list"

type_synonym network = "url \<Rightarrow> string \<Rightarrow> headers \<Rightarrow> json \<Rightarrow> string + http_response"

definition http_send :: "network \<Rightarrow> http_client \<Rightarrow> string \<Rightarrow> url \<Rightarrow> headers \<Rightarrow> json \<Rightarrow> (client_error, http_response) res" where
  "http_send net client meth u hs body =
     res_bind (inject_api_token client hs) (\<lambda>hs.
     case net u meth hs body of
       Inl e \<Rightarrow> Err (Http 408 (''client request timeout: '' @ e))
     | Inr response \<Rightarrow> Ok response)"

definition http_post :: "network \<Rightarrow> http_client \<Rightarrow> url \<Rightarrow> headers \<Rightarrow> json \<Rightarrow> (client_error, http_response) res" where
  "http_post net client u hs body = http_send net client ''POST'' u hs body"

text \<open>A deserializer gives the error text or the value.\<close>

type_synonym 'a parser = "string \<Rightarrow> string + 'a"

definition response_json :: "'a parser \<Rightarrow> http_response \<Rightarrow> (client_error, 'a) res" where
  "response_json parse response =
     (case parse (rs_body response) of
        Inr x \<Rightarrow> Ok x
      | Inl e \<Rightarrow> Err (Http 500 (''client response deserialization failed: '' @ e)))"

section \<open>Building clients\<close>

text \<open>
  The environment: parsing of URLs, what TLS needs of files and rustls, reading a file and opening a gRPC channel.
\<close>

datatype resolution_strategy = Eager nat | Lazy

record grpc_options =
  go_host :: string
  go_port :: nat
  go_dns_probe_interval :: nat
  go_connect_timeout :: nat
  go_timeout :: nat
  go_keep_alive_timeout :: nat
  go_http2_keep_alive_interval :: nat
  go_resolution_strategy :: resolution_strategy
  go_tls :: "(string \<times> string \<times> string option) option"

record client_env =
  ce_url_parse :: "string \<Rightarrow> url option"
  ce_pem :: pem_env
  ce_read :: "string \<Rightarrow> string option"
  ce_channel :: "grpc_options \<Rightarrow> bool"

definition protocol :: "service_config \<Rightarrow> string" where
  "protocol s = (case s_tls s of Some _ \<Rightarrow> ''https'' | None \<Rightarrow> ''http'')"

text \<open>\<^verbatim>\<open>set_port\<close> fails for a URL without a host.\<close>

definition base_url :: "client_env \<Rightarrow> nat \<Rightarrow> service_config \<Rightarrow> (client_error, url) res" where
  "base_url env port s =
     res_bind (unwrap (ce_url_parse env (protocol s @ ''://'' @ s_hostname s))) (\<lambda>u.
     if url_host u = [] then Panic else Ok (u\<lparr>url_port := Some port\<rparr>))"

definition create_http_client :: "client_env \<Rightarrow> nat \<Rightarrow> service_config \<Rightarrow> (client_error, http_client) res" where
  "create_http_client env default_port s =
     res_bind (base_url env (unwrap_or default_port (s_port s)) s) (\<lambda>base.
     let base = (case s_path_prefix s of
           Some p \<Rightarrow> if trim_slashes p \<noteq> [] then base\<lparr>url_path := ''/'' @ trim_slashes p\<rparr> else base
         | None \<Rightarrow> base)
     in res_bind (case s_tls s of
           Some (TlsConfig t) \<Rightarrow> res_map_err into_client_error (build_client_config (ce_pem env) t)
         | Some (TlsName _) \<Rightarrow> Panic
         | None \<Rightarrow> Ok build_insecure_client_config) (\<lambda>tls.
     Ok (http_client_new base (s_api_token s) \<lparr>ho_tls = tls, ho_connect_timeout = 60,
          ho_request_timeout = unwrap_or 600 (s_request_timeout s),
          ho_http2_keep_alive_interval = unwrap_or 30 (s_keep_alive_timeout s),
          ho_http2_keep_alive_timeout = unwrap_or 30 (s_http2_keep_alive_interval s)\<rparr>)))"

definition grpc_tls :: "client_env \<Rightarrow> service_config \<Rightarrow> (client_error, (string \<times> string \<times> string option) option) res" where
  "grpc_tls env s =
     (case s_tls s of
        Some (TlsConfig t) \<Rightarrow>
          res_bind (unwrap (tls_cert_path t)) (\<lambda>cert_path.
          res_bind (unwrap (tls_key_path t)) (\<lambda>key_path.
          res_bind (unwrap (ce_read env cert_path)) (\<lambda>cert_pem.
          res_bind (unwrap (ce_read env key_path)) (\<lambda>key_pem.
          case tls_client_ca_cert_path t of
            Some ca_path \<Rightarrow> res_map (\<lambda>ca. Some (cert_pem, key_pem, Some ca)) (unwrap (ce_read env ca_path))
          | None \<Rightarrow> Ok (Some (cert_pem, key_pem, None))))))
      | _ \<Rightarrow> Ok None)"

definition create_grpc_client :: "client_env \<Rightarrow> nat \<Rightarrow> service_config \<Rightarrow> (client_error, grpc_options) res" where
  "create_grpc_client env default_port s =
     (let port = unwrap_or default_port (s_port s) in
      res_bind (base_url env port s) (\<lambda>_.
      res_bind (grpc_tls env s) (\<lambda>tls.
      let options = \<lparr>go_host = s_hostname s, go_port = port,
            go_dns_probe_interval = unwrap_or 10 (s_grpc_dns_probe_interval s), go_connect_timeout = 60,
            go_timeout = unwrap_or 600 (s_request_timeout s), go_keep_alive_timeout = unwrap_or 30 (s_keep_alive_timeout s),
            go_http2_keep_alive_interval = unwrap_or 30 (s_http2_keep_alive_interval s),
            go_resolution_strategy = (if s_resolution_strategy s = Some ''eager''
              then Eager (unwrap_or 10 (s_resolution_strategy_timeout s)) else Lazy),
            go_tls = tls\<rparr>
      in if ce_channel env options then Ok options else Panic)))"

section \<open>Health checks\<close>

datatype health_status = Healthy | Unhealthy | HealthUnknown

datatype serving_status = ServingUnknown | Serving | NotServing | ServiceUnknown

fun health_status_of_serving :: "serving_status \<Rightarrow> health_status" where
  "health_status_of_serving Serving = Healthy"
| "health_status_of_serving NotServing = Unhealthy"
| "health_status_of_serving ServingUnknown = HealthUnknown"
| "health_status_of_serving ServiceUnknown = HealthUnknown"

definition health_status_of_code :: "nat \<Rightarrow> health_status" where
  "health_status_of_code code =
     (if 200 \<le> code \<and> code \<le> 299 then Healthy else if 500 \<le> code \<and> code \<le> 599 then Unhealthy else HealthUnknown)"

fun serving_reason :: "serving_status \<Rightarrow> string option" where
  "serving_reason Serving = None"
| "serving_reason NotServing = Some ''NOT_SERVING''"
| "serving_reason ServingUnknown = Some ''UNKNOWN''"
| "serving_reason ServiceUnknown = Some ''SERVICE_UNKNOWN''"

record health_check_result =
  hr_status :: health_status
  hr_code :: nat
  hr_reason :: "string option"

fun health_of_grpc :: "(grpc_code \<times> string) + serving_status \<Rightarrow> health_check_result" where
  "health_of_grpc (Inr s) = \<lparr>hr_status = health_status_of_serving s, hr_code = 200, hr_reason = serving_reason s\<rparr>"
| "health_of_grpc (Inl (code, message)) =
     \<lparr>hr_status = HealthUnknown, hr_code = grpc_to_http_code code, hr_reason = Some message\<rparr>"

text \<open>The health check of the chunker, NLP and TGIS clients only looks at whether the call failed.\<close>

definition grpc_client_health :: "(grpc_code \<times> string) + 'r \<Rightarrow> health_check_result" where
  "grpc_client_health response =
     (let code = (case response of
            Inr _ \<Rightarrow> GOk
          | Inl (status, _) \<Rightarrow> if status \<in> {GInvalidArgument, GNotFound} then GOk else status)
      in \<lparr>hr_status = (if code = GOk then Healthy else Unhealthy), hr_code = grpc_to_http_code code, hr_reason = None\<rparr>)"

text \<open>
  An HTTP health check: the error of the call, or the status and, where the body is a health response, its content.
  \<open>canonical\<close> is the reason phrase of a status.
\<close>

definition http_client_health ::
  "(nat \<Rightarrow> string option) \<Rightarrow> string + nat \<times> (health_status \<times> string option) option \<Rightarrow> health_check_result" where
  "http_client_health canonical response =
     (case response of
        Inr (status, body) \<Rightarrow>
          if status = 200 then
            (case body of
               Some (s, reason) \<Rightarrow> \<lparr>hr_status = s, hr_code = 200, hr_reason = (if s = Healthy then None else reason)\<rparr>
             | None \<Rightarrow> \<lparr>hr_status = Healthy, hr_code = 200, hr_reason = None\<rparr>)
          else \<lparr>hr_status = (if 500 \<le> status \<and> status < 600 then Unhealthy else HealthUnknown), hr_code = status,
                hr_reason = canonical status\<rparr>
      | Inl e \<Rightarrow> \<lparr>hr_status = HealthUnknown, hr_code = 500, hr_reason = Some e\<rparr>)"

section \<open>Retries\<close>

text \<open>
  \<open>func k\<close> is the outcome of the \<open>k\<close>-th call, counted from one. The result comes with the waiting times in milliseconds;
  the exponent is a \<^verbatim>\<open>u32\<close> and the power a wrapping \<^verbatim>\<open>u64\<close>. \<open>max_retries\<close> is below the largest \<^verbatim>\<open>usize\<close>.
\<close>

definition allowed_retry_codes :: "nat list" where
  "allowed_retry_codes = [502, 503, 504, 505, 506]"

function retry_loop :: "nat \<Rightarrow> (nat \<Rightarrow> client_error + 'r) \<Rightarrow> nat \<Rightarrow> nat list \<Rightarrow> (client_error + 'r) \<times> nat list" where
  "retry_loop max_retries func attempt waits =
     (let attempt = attempt + 1 in
      case func attempt of
        Inr res \<Rightarrow> (Inr res, waits)
      | Inl error \<Rightarrow>
          if client_status_code error \<in> set allowed_retry_codes then
            (if max_retries < attempt then (Inl error, waits)
             else retry_loop max_retries func attempt (waits @ [2 ^ (attempt - 1) mod 2 ^ 64]))
          else (Inl error, waits))"
  by pat_completeness auto
termination
  by (relation "measure (\<lambda>(max_retries, func, attempt, waits). Suc max_retries - attempt)") auto

declare retry_loop.simps [simp del]

definition retry_function :: "nat \<Rightarrow> (nat \<Rightarrow> client_error + 'r) \<Rightarrow> (client_error + 'r) \<times> nat list" where
  "retry_function max_retries func = retry_loop max_retries func 0 []"

section \<open>Lemmas\<close>

lemma upto_last_slash_snoc [simp]: "upto_last_slash (xs @ ''/'') = xs @ ''/''"
  by (simp add: upto_last_slash_def)

lemma trim_slashes_last: "trim_slashes s \<noteq> [] \<Longrightarrow> last (trim_slashes s) \<noteq> CHR ''/''"
  unfolding trim_slashes_def trim_start_slash_def
  by (metis (mono_tags, lifting) hd_dropWhile last_rev rev_is_Nil_conv)

lemma trim_slashes_hd: "trim_slashes s \<noteq> [] \<Longrightarrow> hd (trim_slashes s) \<noteq> CHR ''/''"
proof -
  let ?t = "trim_start_slash s"
  obtain ys where t: "?t = trim_slashes s @ ys"
    unfolding trim_slashes_def trim_start_slash_def by (metis rev_append rev_rev_ident takeWhile_dropWhile_id)
  assume ne: "trim_slashes s \<noteq> []"
  with t have "?t \<noteq> []" by auto
  then have "hd ?t \<noteq> CHR ''/''" unfolding trim_start_slash_def by (rule hd_dropWhile)
  with t ne show ?thesis by (metis hd_append2)
qed

definition retryable :: "client_error + 'r \<Rightarrow> bool" where
  "retryable r \<longleftrightarrow> (\<exists>e. r = Inl e \<and> client_status_code e \<in> set allowed_retry_codes)"

lemma retry_loop_unfold:
  "retry_loop mr func a waits =
     (if retryable (func (Suc a)) \<and> Suc a \<le> mr then retry_loop mr func (Suc a) (waits @ [2 ^ a mod 2 ^ 64])
      else (func (Suc a), waits))"
  by (subst retry_loop.simps) (auto simp: Let_def retryable_def split: sum.splits)

lemma retry_loop_correct:
  "a \<le> mr \<Longrightarrow> \<exists>n. a < n \<and> n \<le> Suc mr \<and> retry_loop mr func a waits = (func n, waits @ map (\<lambda>k. 2 ^ k mod 2 ^ 64) [a..<n - 1])
     \<and> (\<forall>k. a < k \<and> k < n \<longrightarrow> retryable (func k)) \<and> (n \<le> mr \<longrightarrow> \<not> retryable (func n))"
proof (induction "mr - a" arbitrary: a waits rule: less_induct)
  case less
  show ?case
  proof (cases "retryable (func (Suc a)) \<and> Suc a \<le> mr")
    case True
    then obtain n where n: "Suc a < n" "n \<le> Suc mr"
      "retry_loop mr func (Suc a) (waits @ [2 ^ a mod 2 ^ 64]) =
         (func n, (waits @ [2 ^ a mod 2 ^ 64]) @ map (\<lambda>k. 2 ^ k mod 2 ^ 64) [Suc a..<n - 1])"
      "\<forall>k. Suc a < k \<and> k < n \<longrightarrow> retryable (func k)" "n \<le> mr \<longrightarrow> \<not> retryable (func n)"
      using less.hyps [of "Suc a" "waits @ [2 ^ a mod 2 ^ 64]"] True by (metis diff_less_mono2 lessI less_eq_Suc_le)
    have "[a..<n - 1] = a # [Suc a..<n - 1]" using n(1) by (simp add: upt_conv_Cons)
    moreover have "\<forall>k. a < k \<and> k < n \<longrightarrow> retryable (func k)" using n(4) True by (metis Suc_lessI)
    ultimately show ?thesis
      using True n by (intro exI [of _ n]) (simp add: retry_loop_unfold [of mr func a])
  next
    case False
    then show ?thesis using less.prems
      by (intro exI [of _ "Suc a"]) (auto simp: retry_loop_unfold [of mr func a])
  qed
qed

section \<open>Properties\<close>

text \<open>
  C40. A retried call is made at least once and at most \<open>max_retries + 1\<close> times; the result is that of the last call; all
  calls before it failed with a status that is retried; the last one did not, or the retries are used up. Before the
  \<open>k\<close>-th repetition the client waits \<open>2 ^ (k - 1)\<close> milliseconds, modulo $2^{64}$.
\<close>

theorem retry_function_correct:
  "\<exists>n. 1 \<le> n \<and> n \<le> max_retries + 1
     \<and> retry_function max_retries func = (func n, map (\<lambda>k. 2 ^ k mod 2 ^ 64) [0..<n - 1])
     \<and> (\<forall>k. 1 \<le> k \<and> k < n \<longrightarrow> retryable (func k)) \<and> (n \<le> max_retries \<longrightarrow> \<not> retryable (func n))"
proof -
  obtain n where "0 < n" "n \<le> Suc max_retries" "retry_loop max_retries func 0 [] = (func n, map (\<lambda>k. 2 ^ k mod 2 ^ 64) [0..<n - 1])"
    "\<forall>k. 0 < k \<and> k < n \<longrightarrow> retryable (func k)" "n \<le> max_retries \<longrightarrow> \<not> retryable (func n)"
    using retry_loop_correct [of 0 max_retries func "[]"] by auto
  then show ?thesis unfolding retry_function_def by (intro exI [of _ n]) (simp add: Suc_le_eq)
qed

theorem retry_function_correct_witness:
  "retry_function 3 (\<lambda>k. if k < 3 then Inl (Http 503 []) else Inr k) = (Inr 3, [1, 2])"
proof -
  let ?f = "\<lambda>k. if k < 3 then Inl (Http 503 []) else Inr k :: client_error + nat"
  have r: "retryable (?f k) \<longleftrightarrow> k < 3" for k by (simp add: retryable_def allowed_retry_codes_def)
  from retry_function_correct [of 3 ?f] obtain n where n: "1 \<le> n" "n \<le> 3 + 1"
    "retry_function 3 ?f = (?f n, map (\<lambda>k. 2 ^ k mod 2 ^ 64) [0..<n - 1])"
    "\<forall>k. 1 \<le> k \<and> k < n \<longrightarrow> k < 3" "n \<le> 3 \<longrightarrow> \<not> n < 3"
    unfolding r by blast
  have "n = 3" using n(2,5) n(4) [rule_format, of 3] by linarith
  with n(3) show ?thesis by (simp add: upt_rec)
qed

text \<open>
  The requests of an HTTP client stay below the configured path prefix: with a prefix, written with or without
  slashes at its ends, the path of every endpoint is the prefix, one slash and the endpoint, on the
  configured host and port, and the health check is at the same place.
\<close>

theorem endpoint_under_prefix:
  assumes "create_http_client env default_port s = Ok client" "s_path_prefix s = Some p" "trim_slashes p \<noteq> []"
  shows "url_path (client_endpoint client e) = ''/'' @ trim_slashes p @ ''/'' @ trim_start_slash e
     \<and> url_path (hc_health_url client) = ''/'' @ trim_slashes p @ ''/health''
     \<and> url_port (client_endpoint client e) = Some (unwrap_or default_port (s_port s))
     \<and> hd (trim_slashes p) \<noteq> CHR ''/'' \<and> last (trim_slashes p) \<noteq> CHR ''/''"
proof -
  obtain u tls where u: "base_url env (unwrap_or default_port (s_port s)) s = Ok u"
    "client = http_client_new (u\<lparr>url_path := ''/'' @ trim_slashes p\<rparr>) (s_api_token s) tls"
    using assms by (auto simp: create_http_client_def Let_def)
  moreover from u(1) have "url_port u = Some (unwrap_or default_port (s_port s))"
    by (auto simp: base_url_def split: if_splits)
  moreover have "upto_last_slash (CHR ''/'' # trim_slashes p @ ''/'') = CHR ''/'' # trim_slashes p @ ''/''"
    using upto_last_slash_snoc [of "CHR ''/'' # trim_slashes p"] by simp
  ultimately show ?thesis
    using assms(3) trim_slashes_last [of p] trim_slashes_hd [of p]
    by (simp add: client_endpoint_def url_join_def http_client_new_def Let_def)
qed

definition ex_client_env :: client_env where
  "ex_client_env = \<lparr>ce_url_parse = (\<lambda>s. Some \<lparr>url_scheme = ''http'', url_host = s, url_port = None, url_path = ''/''\<rparr>),
     ce_pem = ex_pem, ce_read = (\<lambda>p. Some p), ce_channel = (\<lambda>_. True)\<rparr>"

theorem endpoint_under_prefix_witness:
  "\<exists>client. create_http_client ex_client_env 8080 ((service_config_new ''host'' 80)\<lparr>s_path_prefix := Some ''/a/''\<rparr>) = Ok client
     \<and> url_path (client_endpoint client ''/v1'') = ''/a/v1''"
proof -
  let ?s = "(service_config_new ''host'' 80)\<lparr>s_path_prefix := Some ''/a/''\<rparr>"
  have t: "trim_slashes ''/a/'' = ''a''" "trim_start_slash ''/v1'' = ''v1''" by code_simp+
  obtain client where c: "create_http_client ex_client_env 8080 ?s = Ok client"
    by (simp add: create_http_client_def base_url_def ex_client_env_def service_config_new_def protocol_def Let_def)
  have p: "s_path_prefix ?s = Some ''/a/''" by simp
  from endpoint_under_prefix [OF c p, of "''/v1''"] t c show ?thesis by simp
qed

text \<open>
  A gRPC client for a service whose TLS entry is still a name is created without TLS; an HTTP client panics. Names stay
  unresolved when the configuration has no TLS section.
\<close>

theorem grpc_unresolved_tls_plaintext:
  assumes "create_grpc_client env port s = Ok options" "s_tls s = Some (TlsName name)"
  shows "go_tls options = None \<and> create_http_client env port s = Panic"
  using assms by (auto simp: create_grpc_client_def grpc_tls_def create_http_client_def Let_def split: if_splits)

text \<open>
  C25. An HTTP client with a TLS entry connects to an \<^verbatim>\<open>https\<close> URL, and verifies its service unless the entry says otherwise: against the
  certificates of the entry's CA file that can be used, if the file has any, and against those of the system if there is no such file. It shows a
  certificate exactly when a key is given and the certificate file has a certificate.
\<close>

theorem http_client_verifies:
  assumes "create_http_client env port s = Ok client" "s_tls s = Some (TlsConfig t)"
  shows "(\<exists>u. ce_url_parse env (''https://'' @ s_hostname s) = Some u)
     \<and> (ct_verify (ho_tls (hc_inner client)) \<longleftrightarrow> tls_insecure t \<noteq> Some True)
     \<and> (\<forall>path file certs. tls_client_ca_cert_path t = Some path \<and> pe_open (ce_pem env) path = Inr file
          \<and> pe_certs (ce_pem env) file = map Inr certs \<and> certs \<noteq> []
          \<longrightarrow> ct_roots (ho_tls (hc_inner client)) = Some (filter (pe_parsable (ce_pem env)) certs))
     \<and> (tls_client_ca_cert_path t = None \<longrightarrow> ct_roots (ho_tls (hc_inner client)) = None)
     \<and> (ct_identity (ho_tls (hc_inner client)) \<noteq> None \<longleftrightarrow> tls_key_path t \<noteq> None
          \<and> (\<forall>path file. tls_cert_path t = Some path \<and> pe_open (ce_pem env) path = Inr file \<longrightarrow> pe_certs (ce_pem env) file \<noteq> []))"
proof -
  from assms obtain c where c: "build_client_config (ce_pem env) t = Ok c" "ho_tls (hc_inner client) = c"
    by (auto simp: create_http_client_def http_client_new_def Let_def)
  have "\<exists>u. ce_url_parse env (''https://'' @ s_hostname s) = Some u"
    using assms by (auto simp: create_http_client_def base_url_def protocol_def)
  then show ?thesis using client_tls_correct [OF c(1)] unfolding c(2) by (rule conjI)
qed

theorem http_client_verifies_witness:
  "\<exists>client. create_http_client ex_client_env 443 ((service_config_new ''host'' 443)\<lparr>s_tls := Some (TlsConfig
       \<lparr>tls_cert_path = Some ''cert'', tls_key_path = None, tls_client_ca_cert_path = Some ''ca'', tls_insecure = None\<rparr>)\<rparr>) = Ok client
     \<and> ct_verify (ho_tls (hc_inner client)) \<and> ct_roots (ho_tls (hc_inner client)) = Some [''ca'']"
proof -
  let ?t = "\<lparr>tls_cert_path = Some ''cert'', tls_key_path = None, tls_client_ca_cert_path = Some ''ca'', tls_insecure = None\<rparr>"
  let ?s = "(service_config_new ''host'' 443)\<lparr>s_tls := Some (TlsConfig ?t)\<rparr>"
  have "build_client_config ex_pem ?t = Ok \<lparr>ct_roots = Some [''ca''], ct_identity = None, ct_verify = True\<rparr>"
    by (simp add: build_client_config_def tls_config_build_def tls_config_from_parts_def read_certs_def ex_pem_def tls_identity_def tls_roots_def)
  then obtain client where c: "create_http_client ex_client_env 443 ?s = Ok client"
    by (simp add: create_http_client_def base_url_def ex_client_env_def service_config_new_def protocol_def Let_def)
  have "ce_pem ex_client_env = ex_pem" by (simp add: ex_client_env_def)
  then show ?thesis using http_client_verifies [OF c, of ?t] c by (simp add: ex_pem_def)
qed

text \<open>
  A gRPC client ignores that the configuration turns verification off, and needs a key, which is optional otherwise. An entry without a
  certificate is a panic, not an error.
\<close>

lemma grpc_ignores_insecure:
  "create_grpc_client env port (s\<lparr>s_tls := Some (TlsConfig (t\<lparr>tls_insecure := x\<rparr>))\<rparr>)
   = create_grpc_client env port (s\<lparr>s_tls := Some (TlsConfig t)\<rparr>)"
  by (simp add: create_grpc_client_def grpc_tls_def base_url_def protocol_def)

lemma tls_entry_without_files_panics:
  assumes "s_tls s = Some (TlsConfig t)" "ce_url_parse env (''https://'' @ s_hostname s) = Some u" "url_host u \<noteq> []"
  shows "tls_cert_path t = None \<Longrightarrow> create_http_client env port s = Panic"
    and "tls_cert_path t = None \<or> tls_key_path t = None \<Longrightarrow> create_grpc_client env port s = Panic"
  using assms by (cases "tls_cert_path t"; simp add: create_http_client_def create_grpc_client_def base_url_def protocol_def
      build_client_config_def grpc_tls_def Let_def)+

text \<open>The two keep-alive settings reach the HTTP client exchanged.\<close>

theorem http_keep_alive_exchanged:
  assumes "create_http_client env port s = Ok client" "s_keep_alive_timeout s = Some t" "s_http2_keep_alive_interval s = Some i"
  shows "ho_http2_keep_alive_interval (hc_inner client) = t \<and> ho_http2_keep_alive_timeout (hc_inner client) = i"
  using assms by (auto simp: create_http_client_def http_client_new_def Let_def)

text \<open>A chunker or NLP service that answers the health check with \<^verbatim>\<open>NOT_SERVING\<close> is reported as healthy.\<close>

theorem grpc_health_ignores_serving_status:
  "hr_status (grpc_client_health (Inr NotServing)) = Healthy \<and> hr_status (health_of_grpc (Inr NotServing)) = Unhealthy"
  by (simp add: grpc_client_health_def)

text \<open>With a configured token the services see that token as authorization, and no other value for it.\<close>

lemma inject_api_token_only:
  assumes "inject_api_token client hs = Ok hs'" "hc_api_token client = Some token"
  shows "(''authorization'', v) \<in> set hs' \<longleftrightarrow> v = ''Bearer '' @ token"
  using assms by (auto simp: inject_api_token_def headers_insert_set split: if_splits)

end
