(* ===== verification/Orchestrator.thy ===== *)
theory Orchestrator
  imports Clients Completions_Unary
begin

text \<open>
  The orchestrator itself (\<^verbatim>\<open>src/orchestrator.rs\<close>): the clients it creates from the configuration, and their health.
  The map of clients holds the kind of each client, which is what typed lookup depends on.
\<close>

section \<open>The clients of the services\<close>

record detector_client =
  dcl_client :: http_client
  dcl_health_client :: "http_client option"
  dcl_router_client :: "http_client option"
  dcl_router_config :: "router_config option"
  dcl_detector_id :: string
  dcl_model_id :: "string option"

record openai_client =
  ocl_client :: http_client
  ocl_health_client :: "http_client option"
  ocl_router_client :: "http_client option"
  ocl_router_config :: "router_config option"

definition optional_client :: "client_env \<Rightarrow> service_config option \<Rightarrow> (client_error, http_client option) res" where
  "optional_client env config =
     (case config of Some c \<Rightarrow> res_map Some (create_http_client env 8080 c) | None \<Rightarrow> Ok None)"

definition router_client :: "client_env \<Rightarrow> router_config option \<Rightarrow> (client_error, http_client option) res" where
  "router_client env config =
     (case config of
        Some rc \<Rightarrow> if r_enabled rc
          then res_map Some (create_http_client env (r_port rc) (service_config_new (r_hostname rc) (r_port rc)))
          else Ok None
      | None \<Rightarrow> Ok None)"

definition detector_client_new ::
  "client_env \<Rightarrow> string \<Rightarrow> service_config \<Rightarrow> service_config option \<Rightarrow> router_config option \<Rightarrow> string option
     \<Rightarrow> (client_error, detector_client) res" where
  "detector_client_new env detector_id config health_config router_cfg model_id =
     res_bind (create_http_client env 8080 config) (\<lambda>client.
     res_bind (optional_client env health_config) (\<lambda>health_client.
     res_bind (router_client env router_cfg) (\<lambda>rc.
     Ok \<lparr>dcl_client = client, dcl_health_client = health_client, dcl_router_client = rc, dcl_router_config = router_cfg,
         dcl_detector_id = detector_id, dcl_model_id = model_id\<rparr>)))"

definition openai_client_new ::
  "client_env \<Rightarrow> service_config \<Rightarrow> service_config option \<Rightarrow> router_config option \<Rightarrow> (client_error, openai_client) res" where
  "openai_client_new env config health_config router_cfg =
     res_bind (create_http_client env 8080 config) (\<lambda>client.
     res_bind (optional_client env health_config) (\<lambda>health_client.
     res_bind (router_client env router_cfg) (\<lambda>rc.
     Ok \<lparr>ocl_client = client, ocl_health_client = health_client, ocl_router_client = rc, ocl_router_config = router_cfg\<rparr>)))"

text \<open>The gRPC clients: one channel for TGIS, one more for health checks for the chunkers and the NLP service.\<close>

definition chunker_client_new :: "client_env \<Rightarrow> service_config \<Rightarrow> (client_error, grpc_options \<times> grpc_options) res" where
  "chunker_client_new env config =
     res_bind (create_grpc_client env 8085 config) (\<lambda>client.
     res_map (Pair client) (create_grpc_client env 8085 config))"

definition nlp_client_new :: "client_env \<Rightarrow> service_config \<Rightarrow> (client_error, grpc_options \<times> grpc_options) res" where
  "nlp_client_new env config =
     res_bind (create_grpc_client env 8085 config) (\<lambda>client.
     res_map (Pair client) (create_grpc_client env 8085 config))"

definition tgis_client_new :: "client_env \<Rightarrow> service_config \<Rightarrow> (client_error, grpc_options) res" where
  "tgis_client_new env config = create_grpc_client env 8033 config"

section \<open>Creating them\<close>

definition generation_client_new :: "client_env \<Rightarrow> generation_config \<Rightarrow> (client_error, unit) res" where
  "generation_client_new env g =
     (case g_provider g of
        Tgis \<Rightarrow> res_map (\<lambda>_. ()) (tgis_client_new env (g_service g))
      | Nlp \<Rightarrow> res_map (\<lambda>_. ()) (nlp_client_new env (g_service g)))"

text \<open>The loop over the entries of a hash map: create the client, insert it under its id.\<close>

fun insert_clients :: "('c \<Rightarrow> (client_error, 'd) res) \<Rightarrow> client \<Rightarrow> (string \<times> 'c) list \<Rightarrow> client_map \<Rightarrow> (client_error, client_map) res" where
  "insert_clients new kind [] clients = Ok clients"
| "insert_clients new kind ((i, c) # entries) clients =
     res_bind (new c) (\<lambda>_. insert_clients new kind entries (hm_insert i kind clients))"

definition create_clients :: "client_env \<Rightarrow> orchestrator_config \<Rightarrow> (error, client_map) res" where
  "create_clients env cfg =
     res_map_err Client (
     res_bind (case generation cfg of
         Some g \<Rightarrow> res_map (\<lambda>_. hm_insert ''generation'' GenerationClient []) (generation_client_new env g)
       | None \<Rightarrow> Ok []) (\<lambda>clients.
     res_bind (case openai cfg of
         Some p \<Rightarrow> res_map (\<lambda>_. hm_insert ''openai'' OpenAiClient clients)
            (openai_client_new env (o_service p) (o_health_service p) (router cfg))
       | None \<Rightarrow> Ok clients) (\<lambda>clients.
     res_bind (case chunkers cfg of
         Some cs \<Rightarrow> insert_clients (\<lambda>c. chunker_client_new env (ch_service c)) ChunkerClient cs clients
       | None \<Rightarrow> Ok clients) (\<lambda>clients.
     insert_clients (\<lambda>(i, d). detector_client_new env i (dc_service d) (dc_health_service d) (router cfg) (dc_model_id d))
       DetectorClient (map (\<lambda>(i, d). (i, i, d)) (detectors cfg)) clients))))"

text \<open>The health of every client, in the order of the map; start-up reports it and never fails.\<close>

definition client_health :: "(string \<Rightarrow> headers \<Rightarrow> health_check_result) \<Rightarrow> orch_context \<Rightarrow> headers
    \<Rightarrow> (string, health_check_result) hashmap" where
  "client_health health ctx hs = hm_collect (map (\<lambda>(key, _). (key, health key hs)) (ctx_clients ctx))"

definition on_start_up :: "(string \<Rightarrow> headers \<Rightarrow> health_check_result) \<Rightarrow> bool \<Rightarrow> orch_context \<Rightarrow> bool \<times> (error, unit) res" where
  "on_start_up health health_check ctx =
     (health_check \<and> list_ex (\<lambda>(_, r). hr_status r = Unhealthy) (client_health health ctx []), Ok ())"

definition orchestrator_new ::
  "client_env \<Rightarrow> (string \<Rightarrow> headers \<Rightarrow> health_check_result) \<Rightarrow> orchestrator_config \<Rightarrow> bool \<Rightarrow> (error, orch_context) res" where
  "orchestrator_new env health cfg start_up_health_check =
     res_bind (create_clients env cfg) (\<lambda>clients.
     let ctx = \<lparr>ctx_config = cfg, ctx_clients = clients\<rparr> in
     res_map (\<lambda>_. ctx) (snd (on_start_up health start_up_health_check ctx)))"

section \<open>Lemmas\<close>

lemma insert_clients_get:
  "insert_clients new kind entries clients = Ok m \<Longrightarrow>
     hm_get m i = (if i \<in> fst ` set entries then Some kind else hm_get clients i)"
  by (induction new kind entries clients rule: insert_clients.induct) auto

lemma create_clients_get:
  assumes "create_clients env cfg = Ok m"
  shows "hm_get m i =
     (if i \<in> fst ` set (detectors cfg) then Some DetectorClient
      else if i \<in> fst ` set (unwrap_or [] (chunkers cfg)) then Some ChunkerClient
      else if i = ''openai'' \<and> openai cfg \<noteq> None then Some OpenAiClient
      else if i = ''generation'' \<and> generation cfg \<noteq> None then Some GenerationClient
      else None)"
proof -
  from assms obtain c1 c2 c3 where
    c1: "(case generation cfg of Some g \<Rightarrow> res_map (\<lambda>_. hm_insert ''generation'' GenerationClient []) (generation_client_new env g)
       | None \<Rightarrow> Ok []) = Ok c1"
    and c2: "(case openai cfg of
         Some p \<Rightarrow> res_map (\<lambda>_. hm_insert ''openai'' OpenAiClient c1)
            (openai_client_new env (o_service p) (o_health_service p) (router cfg)) | None \<Rightarrow> Ok c1) = Ok c2"
    and c3: "(case chunkers cfg of
         Some cs \<Rightarrow> insert_clients (\<lambda>c. chunker_client_new env (ch_service c)) ChunkerClient cs c2 | None \<Rightarrow> Ok c2) = Ok c3"
    and c4: "insert_clients (\<lambda>(i, d). detector_client_new env i (dc_service d) (dc_health_service d) (router cfg) (dc_model_id d))
       DetectorClient (map (\<lambda>(i, d). (i, i, d)) (detectors cfg)) c3 = Ok m"
    unfolding create_clients_def by auto
  have g1: "hm_get c1 i = (if i = ''generation'' \<and> generation cfg \<noteq> None then Some GenerationClient else None)"
    using c1 by (auto split: option.splits)
  have g2: "hm_get c2 i = (if i = ''openai'' \<and> openai cfg \<noteq> None then Some OpenAiClient else hm_get c1 i)"
    using c2 by (auto split: option.splits)
  have g3: "hm_get c3 i = (if i \<in> fst ` set (unwrap_or [] (chunkers cfg)) then Some ChunkerClient else hm_get c2 i)"
  proof (cases "chunkers cfg")
    case (Some cs)
    with c3 have "insert_clients (\<lambda>c. chunker_client_new env (ch_service c)) ChunkerClient cs c2 = Ok c3" by simp
    from insert_clients_get [OF this, of i] Some show ?thesis by simp
  qed (use c3 in simp)
  have "fst ` set (map (\<lambda>(i, d). (i, i, d)) (detectors cfg)) = fst ` set (detectors cfg)" by force
  with insert_clients_get [OF c4, of i] show ?thesis unfolding g1 g2 g3 by (simp only:)
qed

lemma orchestrator_parts:
  assumes "orchestrator_new env health cfg start_up = Ok ctx"
  shows "ctx_config ctx = cfg" "ctx_ok ctx"
    "hm_get (ctx_clients ctx) i =
       (if i \<in> fst ` set (detectors cfg) then Some DetectorClient
        else if i \<in> fst ` set (unwrap_or [] (chunkers cfg)) then Some ChunkerClient
        else if i = ''openai'' \<and> openai cfg \<noteq> None then Some OpenAiClient
        else if i = ''generation'' \<and> generation cfg \<noteq> None then Some GenerationClient
        else None)"
proof -
  from assms obtain m where m: "create_clients env cfg = Ok m" and ctx: "ctx = \<lparr>ctx_config = cfg, ctx_clients = m\<rparr>"
    by (auto simp: orchestrator_new_def Let_def)
  note get = create_clients_get [OF m]
  have "get_client DetectorClient m i \<noteq> None" if "config_detector cfg i = Some d" for i d
  proof -
    from that have "i \<in> fst ` set (detectors cfg)" by (force simp: config_detector_def dest: map_of_SomeD)
    then show ?thesis by (simp add: get_client_def get)
  qed
  then show "ctx_config ctx = cfg" "ctx_ok ctx" by (auto simp: ctx_ok_def ctx)
  show "hm_get (ctx_clients ctx) i =
       (if i \<in> fst ` set (detectors cfg) then Some DetectorClient
        else if i \<in> fst ` set (unwrap_or [] (chunkers cfg)) then Some ChunkerClient
        else if i = ''openai'' \<and> openai cfg \<noteq> None then Some OpenAiClient
        else if i = ''generation'' \<and> generation cfg \<noteq> None then Some GenerationClient
        else None)"
    using get [of i] by (simp add: ctx)
qed

section \<open>Properties\<close>

text \<open>
  C36. The clients have the types the tasks look them up with: in an orchestrator that starts, every configured detector has a
  detector client, so that no detection task panics for want of one; a chunker has a chunker client unless a
  detector has its id; the model services have theirs unless a chunker or a detector is called
  \<^verbatim>\<open>generation\<close> or \<^verbatim>\<open>openai\<close>.
\<close>

theorem orchestrator_clients_typed:
  assumes "orchestrator_new env health cfg start_up = Ok ctx"
  shows "ctx_config ctx = cfg \<and> ctx_ok ctx
     \<and> (\<forall>i. i \<in> fst ` set (unwrap_or [] (chunkers cfg)) \<and> i \<notin> fst ` set (detectors cfg)
          \<longrightarrow> get_client ChunkerClient (ctx_clients ctx) i \<noteq> None)
     \<and> (get_client GenerationClient (ctx_clients ctx) ''generation'' \<noteq> None \<longleftrightarrow> generation cfg \<noteq> None
          \<and> ''generation'' \<notin> fst ` set (detectors cfg) \<union> fst ` set (unwrap_or [] (chunkers cfg)))
     \<and> (get_client OpenAiClient (ctx_clients ctx) ''openai'' \<noteq> None \<longleftrightarrow> openai cfg \<noteq> None
          \<and> ''openai'' \<notin> fst ` set (detectors cfg) \<union> fst ` set (unwrap_or [] (chunkers cfg)))"
  by (simp add: orchestrator_parts [OF assms] get_client_def)

text \<open>A configuration with both model services, one chunker and one detector.\<close>

definition ex_service :: service_config where
  "ex_service = service_config_new ''host'' 80"

definition ex_config :: "string \<Rightarrow> orchestrator_config" where
  "ex_config detector_id = orchestrator_config_default\<lparr>
     generation := Some \<lparr>g_provider = Tgis, g_service = ex_service\<rparr>,
     openai := Some \<lparr>o_service = ex_service, o_health_service = None\<rparr>,
     chunkers := Some [(''c'', \<lparr>ch_type = Sentence, ch_service = ex_service\<rparr>)],
     detectors := [(detector_id, ex_detector TextContents)]\<rparr>"

lemma ex_orchestrator:
  "\<exists>ctx. orchestrator_new ex_client_env (\<lambda>_ _. \<lparr>hr_status = Healthy, hr_code = 200, hr_reason = None\<rparr>) (ex_config i) True = Ok ctx"
  by (simp add: orchestrator_new_def create_clients_def ex_config_def ex_service_def orchestrator_config_default_def
      generation_client_new_def tgis_client_new_def create_grpc_client_def grpc_tls_def base_url_def ex_client_env_def
      service_config_new_def protocol_def openai_client_new_def optional_client_def router_client_def create_http_client_def
      chunker_client_new_def detector_client_new_def ex_detector_def on_start_up_def Let_def)

theorem orchestrator_clients_typed_witness:
  "\<exists>ctx. orchestrator_new ex_client_env (\<lambda>_ _. \<lparr>hr_status = Healthy, hr_code = 200, hr_reason = None\<rparr>) (ex_config ''d'') True = Ok ctx
     \<and> ctx_ok ctx \<and> get_client ChunkerClient (ctx_clients ctx) ''c'' \<noteq> None
     \<and> get_client OpenAiClient (ctx_clients ctx) ''openai'' \<noteq> None"
proof -
  obtain ctx where ctx: "orchestrator_new ex_client_env (\<lambda>_ _. \<lparr>hr_status = Healthy, hr_code = 200, hr_reason = None\<rparr>) (ex_config ''d'') True = Ok ctx"
    using ex_orchestrator by blast
  have d: "detectors (ex_config ''d'') = [(''d'', ex_detector TextContents)]"
    "unwrap_or [] (chunkers (ex_config ''d'')) = [(''c'', \<lparr>ch_type = Sentence, ch_service = ex_service\<rparr>)]" "openai (ex_config ''d'') \<noteq> None"
    by (simp_all add: ex_config_def)
  from orchestrator_clients_typed [OF ctx] d ctx show ?thesis by simp
qed

text \<open>
  Client ids share one name space: when a detector or a chunker is called \<^verbatim>\<open>openai\<close>, the orchestrator starts and
  passes validation, and every chat completions request without input detections panics.
\<close>

theorem client_id_clash_panics:
  assumes "orchestrator_new env health cfg start_up = Ok ctx"
    and "''openai'' \<in> fst ` set (detectors cfg) \<union> fst ` set (unwrap_or [] (chunkers cfg))"
    and "od_input (cr_detectors request) = []"
    and "validate_detectors (od_output (cr_detectors request)) (detectors cfg) [TextContents, TextChat] True = Ok ()"
  shows "chat_handle_unary sv ctx uenv hs request = Panic"
proof -
  have "get_client OpenAiClient (ctx_clients ctx) ''openai'' = None"
    using assms(2) by (auto simp: get_client_def orchestrator_parts [OF assms(1)])
  then show ?thesis using assms(3,4) by (simp add: chat_handle_unary_def orchestrator_parts [OF assms(1)] validate_detectors.simps)
qed

theorem client_id_clash_panics_witness:
  "\<exists>ctx. orchestrator_new ex_client_env (\<lambda>_ _. \<lparr>hr_status = Healthy, hr_code = 200, hr_reason = None\<rparr>) (ex_config ''openai'') True = Ok ctx
     \<and> validate_config (ex_config ''openai'') = Ok ()
     \<and> chat_handle_unary ex_services ctx ex_env [] ((ex_request ''hi'')\<lparr>cr_detectors := \<lparr>od_input = [], od_output = []\<rparr>\<rparr>) = Panic"
proof -
  obtain ctx where ctx: "orchestrator_new ex_client_env (\<lambda>_ _. \<lparr>hr_status = Healthy, hr_code = 200, hr_reason = None\<rparr>) (ex_config ''openai'') True = Ok ctx"
    using ex_orchestrator by blast
  have h: "is_valid_hostname ''host''" "is_valid_hostname ''localhost''" by code_simp+
  have "validate_config (ex_config ''openai'') = Ok ()"
    by (simp add: validate_config_def validate_generation_config_def validate_openai_configs_def validate_detector_configs_def
        validate_chunker_configs_def ex_config_def ex_service_def ex_detector_def service_config_new_def h)
  moreover have "chat_handle_unary ex_services ctx ex_env [] ((ex_request ''hi'')\<lparr>cr_detectors := \<lparr>od_input = [], od_output = []\<rparr>\<rparr>) = Panic"
    by (rule client_id_clash_panics [OF ctx]) (simp_all add: ex_config_def)
  ultimately show ?thesis using ctx by blast
qed

end
