(* ===== verification/Server.thy ===== *)
theory Server
  imports Completion_Streaming Guardrails_Streaming Orchestrator
begin

text \<open>
  The HTTP server: the errors it returns (\<^verbatim>\<open>src/server/errors.rs\<close>) and the endpoints
  (\<^verbatim>\<open>src/server/routes.rs\<close>), which extract and validate a request, filter the headers that are passed on,
  run the handler and turn its answer into a JSON body, server-sent events or JSON lines.
  Routing of paths to endpoints is done by the axum library; JSON and event encoding are left out, so that a
  body is the value that is encoded.
\<close>

section \<open>Errors\<close>

text \<open>\<^verbatim>\<open>Display\<close> of the error types.\<close>

fun client_error_string :: "client_error \<Rightarrow> string" where
  "client_error_string (Grpc _ message) = message"
| "client_error_string (Http _ message) = message"
| "client_error_string (ModelNotFound model_id) = ''model not found: '' @ model_id"

fun error_string :: "error \<Rightarrow> string" where
  "error_string (Client error) = client_error_string error"
| "error_string (DetectorNotFound i) = ''detector `'' @ i @ ''` not found''"
| "error_string (ChunkerNotFound i) = ''chunker `'' @ i @ ''` not found''"
| "error_string (DetectorRequestFailed i error) = ''detector request failed for `'' @ i @ ''`: '' @ client_error_string error"
| "error_string (ChunkerRequestFailed i error) = ''chunker request failed for `'' @ i @ ''`: '' @ client_error_string error"
| "error_string (GenerateRequestFailed i error) = ''generate request failed for `'' @ i @ ''`: '' @ client_error_string error"
| "error_string (ChatCompletionRequestFailed i error) =
     ''chat completion request failed for `'' @ i @ ''`: '' @ client_error_string error"
| "error_string (CompletionRequestFailed i error) =
     ''completion request failed for `'' @ i @ ''`: '' @ client_error_string error"
| "error_string (TokenizeRequestFailed i error) = ''tokenize request failed for `'' @ i @ ''`: '' @ client_error_string error"
| "error_string (Validation message) = ''validation error: '' @ message"
| "error_string (Other message) = message"
| "error_string Cancelled = ''cancelled''"
| "error_string (JsonError message) = ''json deserialization error: '' @ message"

fun validation_error_string :: "validation_error \<Rightarrow> string" where
  "validation_error_string (Required name) = ''`'' @ name @ ''` is required''"
| "validation_error_string (Invalid message) = message"

record server_error =
  sve_code :: nat
  sve_details :: string

text \<open>
  The rejections of axum's JSON extractor: its status and, for data errors, the message of the JSON library if there is
  one, else the text of its body.
\<close>

datatype json_rejection = JsonDataError nat "string option" | OtherRejection nat string

fun server_error_of_rejection :: "json_rejection \<Rightarrow> server_error" where
  "server_error_of_rejection (JsonDataError status source) = \<lparr>sve_code = status, sve_details = unwrap_or [] source\<rparr>"
| "server_error_of_rejection (OtherRejection status body_text) = \<lparr>sve_code = status, sve_details = body_text\<rparr>"

definition server_error_of_validation :: "validation_error \<Rightarrow> server_error" where
  "server_error_of_validation e = \<lparr>sve_code = 422, sve_details = validation_error_string e\<rparr>"

definition server_error_of_io :: "string \<Rightarrow> server_error" where
  "server_error_of_io e = \<lparr>sve_code = 500, sve_details = ''io error: '' @ e\<rparr>"

definition generic_error :: server_error where
  "generic_error = \<lparr>sve_code = 500, sve_details = ''unexpected error occurred while processing request''\<rparr>"

definition server_error_of_client :: "error \<Rightarrow> client_error \<Rightarrow> server_error" where
  "server_error_of_client e c =
     (if client_status_code c \<in> {400, 422, 404, 503}
      then \<lparr>sve_code = client_status_code c, sve_details = error_string e\<rparr>
      else generic_error)"

fun server_error_of :: "error \<Rightarrow> server_error" where
  "server_error_of (DetectorNotFound i) = \<lparr>sve_code = 404, sve_details = error_string (DetectorNotFound i)\<rparr>"
| "server_error_of (ChunkerNotFound i) = \<lparr>sve_code = 404, sve_details = error_string (ChunkerNotFound i)\<rparr>"
| "server_error_of (DetectorRequestFailed i c) = server_error_of_client (DetectorRequestFailed i c) c"
| "server_error_of (ChunkerRequestFailed i c) = server_error_of_client (ChunkerRequestFailed i c) c"
| "server_error_of (GenerateRequestFailed i c) = server_error_of_client (GenerateRequestFailed i c) c"
| "server_error_of (ChatCompletionRequestFailed i c) = server_error_of_client (ChatCompletionRequestFailed i c) c"
| "server_error_of (CompletionRequestFailed i c) = server_error_of_client (CompletionRequestFailed i c) c"
| "server_error_of (TokenizeRequestFailed i c) = server_error_of_client (TokenizeRequestFailed i c) c"
| "server_error_of (Client c) = server_error_of_client (Client c) c"
| "server_error_of (JsonError message) = \<lparr>sve_code = 422, sve_details = message\<rparr>"
| "server_error_of (Validation message) = \<lparr>sve_code = 422, sve_details = message\<rparr>"
| "server_error_of _ = generic_error"

section \<open>Headers\<close>

definition rewrite_forwarded_access_headers :: "headers \<Rightarrow> headers" where
  "rewrite_forwarded_access_headers hs =
     (case headers_get ''x-forwarded-access-token'' hs of
        Some token \<Rightarrow>
          let hs = headers_remove ''x-forwarded-access-token'' hs;
              bearer_token = ''Bearer '' @ token
          in if header_value_ok bearer_token then headers_insert ''authorization'' bearer_token hs else hs
      | None \<Rightarrow> hs)"

definition filter_headers :: "string list \<Rightarrow> headers \<Rightarrow> bool \<Rightarrow> headers" where
  "filter_headers passthrough hs rewrite =
     (let filtered = filter (\<lambda>(name, _). to_lowercase name \<in> set passthrough) hs
      in if rewrite then rewrite_forwarded_access_headers filtered else filtered)"

definition passed_headers :: "orch_context \<Rightarrow> headers \<Rightarrow> headers" where
  "passed_headers ctx hs =
     filter_headers (passthrough_headers (ctx_config ctx)) hs (rewrite_forwarded_access_header (ctx_config ctx))"

section \<open>Endpoints\<close>

text \<open>
  A request arrives as the rejection of the extractor or the request. The endpoints with one JSON answer share their
  shape: extract, validate, filter the headers, handle, convert the error.
\<close>

fun extract_json :: "json_rejection + 'r \<Rightarrow> (server_error, 'r) res" where
  "extract_json (Inl rejection) = Err (server_error_of_rejection rejection)"
| "extract_json (Inr request) = Ok request"

definition endpoint ::
  "orch_context \<Rightarrow> ('r \<Rightarrow> (validation_error, unit) res) \<Rightarrow> (headers \<Rightarrow> 'r \<Rightarrow> (error, 'a) res)
     \<Rightarrow> headers \<Rightarrow> json_rejection + 'r \<Rightarrow> (server_error, 'a) res" where
  "endpoint ctx validate handle hs body =
     res_bind (extract_json body) (\<lambda>request.
     res_bind (res_map_err server_error_of_validation (validate request)) (\<lambda>_.
     res_map_err server_error_of (handle (passed_headers ctx hs) request)))"

definition classification_with_gen ::
  "services \<Rightarrow> orch_context \<Rightarrow> sched \<Rightarrow> sched \<Rightarrow> headers \<Rightarrow> json_rejection + guardrails_http_request
     \<Rightarrow> (server_error, classified_generated_text_result) res" where
  "classification_with_gen sv ctx s1 s2 = endpoint ctx guardrails_http_request_validate
     (\<lambda>hs request. handle_classification_with_gen sv ctx s1 s2 hs (classification_with_gen_task_new request))"

definition generation_with_detection ::
  "services \<Rightarrow> orch_context \<Rightarrow> sched \<Rightarrow> headers \<Rightarrow> json_rejection + generation_with_detection_request
     \<Rightarrow> (server_error, generation_with_detection_result) res" where
  "generation_with_detection sv ctx s = endpoint ctx generation_with_detection_validate
     (handle_generation_with_detection sv ctx s)"

definition detection_content ::
  "services \<Rightarrow> orch_context \<Rightarrow> sched \<Rightarrow> headers \<Rightarrow> json_rejection + text_content_detection_request
     \<Rightarrow> (server_error, content_analysis_response list) res" where
  "detection_content sv ctx s = endpoint ctx text_content_detection_validate (handle_text_content_detection sv ctx s)"

definition detect_context_documents ::
  "services \<Rightarrow> orch_context \<Rightarrow> sched \<Rightarrow> headers \<Rightarrow> json_rejection + context_docs_request
     \<Rightarrow> (server_error, detection_result list) res" where
  "detect_context_documents sv ctx s = endpoint ctx context_docs_validate (handle_context_docs_detection sv ctx s)"

definition detect_chat ::
  "services \<Rightarrow> orch_context \<Rightarrow> sched \<Rightarrow> headers \<Rightarrow> json_rejection + chat_detection_request
     \<Rightarrow> (server_error, detection_result list) res" where
  "detect_chat sv ctx s = endpoint ctx validate_for_text (handle_chat_detection sv ctx s)"

definition detect_generated ::
  "services \<Rightarrow> orch_context \<Rightarrow> sched \<Rightarrow> headers \<Rightarrow> json_rejection + detection_on_generated_request
     \<Rightarrow> (server_error, detection_result list) res" where
  "detect_generated sv ctx s = endpoint ctx detection_on_generated_validate (handle_detection_on_generation sv ctx s)"

text \<open>The health of the clients, checked with the headers that are passed on.\<close>

definition info :: "(string \<Rightarrow> headers \<Rightarrow> health_check_result) \<Rightarrow> orch_context \<Rightarrow> headers
    \<Rightarrow> (string, health_check_result) hashmap" where
  "info health ctx hs = client_health health ctx (passed_headers ctx hs)"

section \<open>Streaming endpoints\<close>

text \<open>Server-sent events: data, the final \<^verbatim>\<open>[DONE]\<close> and named error events.\<close>

datatype 'a sse_event = SseData 'a | SseDone | SseError server_error

fun stream_event :: "error + 'a option \<Rightarrow> 'a sse_event" where
  "stream_event (Inr (Some chunk)) = SseData chunk"
| "stream_event (Inr None) = SseDone"
| "stream_event (Inl e) = SseError (server_error_of e)"

datatype ('u, 'c) http_body = JsonBody 'u | SseBody "'c sse_event list"

definition handle_chat_completions_detection ::
  "services \<Rightarrow> orch_context \<Rightarrow> unary_env \<Rightarrow> stream_env \<Rightarrow> nat option \<Rightarrow> headers \<Rightarrow> chat_completions_request
     \<Rightarrow> (error, chat_completions_response) res" where
  "handle_chat_completions_detection sv ctx uenv senv limit hs request =
     (case cr_stream request of
        Some True \<Rightarrow> Ok (chat_handle_streaming sv ctx senv limit hs request)
      | _ \<Rightarrow> chat_handle_unary sv ctx uenv hs request)"

definition handle_completions_detection ::
  "services \<Rightarrow> orch_context \<Rightarrow> unary_env \<Rightarrow> completion_stream_env \<Rightarrow> nat option \<Rightarrow> headers \<Rightarrow> completions_request
     \<Rightarrow> (error, completions_response) res" where
  "handle_completions_detection sv ctx uenv senv limit hs request =
     (case pr_stream request of
        Some True \<Rightarrow> Ok (completion_handle_streaming sv ctx senv limit hs request)
      | _ \<Rightarrow> completion_handle_unary sv ctx uenv hs request)"

fun chat_body :: "chat_completions_response \<Rightarrow> (chat_completion, chat_completion_chunk) http_body" where
  "chat_body (ChatUnary response) = JsonBody response"
| "chat_body (ChatStreaming messages) = SseBody (map stream_event messages)"

fun completion_body :: "completions_response \<Rightarrow> (completion, completion) http_body" where
  "completion_body (CompletionUnary response) = JsonBody response"
| "completion_body (CompletionStreaming messages) = SseBody (map stream_event messages)"

definition chat_completions_detection ::
  "services \<Rightarrow> orch_context \<Rightarrow> unary_env \<Rightarrow> stream_env \<Rightarrow> nat option \<Rightarrow> headers
     \<Rightarrow> json_rejection + chat_completions_request \<Rightarrow> (server_error, (chat_completion, chat_completion_chunk) http_body) res" where
  "chat_completions_detection sv ctx uenv senv limit hs body =
     res_map chat_body (endpoint ctx chat_completions_request_validate
       (handle_chat_completions_detection sv ctx uenv senv limit) hs body)"

definition completions_detection ::
  "services \<Rightarrow> orch_context \<Rightarrow> unary_env \<Rightarrow> completion_stream_env \<Rightarrow> nat option \<Rightarrow> headers
     \<Rightarrow> json_rejection + completions_request \<Rightarrow> (server_error, (completion, completion) http_body) res" where
  "completions_detection sv ctx uenv senv limit hs body =
     res_map completion_body (endpoint ctx completions_request_validate
       (handle_completions_detection sv ctx uenv senv limit) hs body)"

text \<open>A request that fails validation is answered with a stream of one error event.\<close>

definition stream_classification_with_gen ::
  "services \<Rightarrow> orch_context \<Rightarrow> stream_env \<Rightarrow> nat option \<Rightarrow> headers \<Rightarrow> json_rejection + guardrails_http_request
     \<Rightarrow> (server_error, gen_result sse_event list) res" where
  "stream_classification_with_gen sv ctx env limit hs body =
     res_bind (extract_json body) (\<lambda>request.
     case guardrails_http_request_validate request of
       Err e \<Rightarrow> Ok [SseError (server_error_of_validation e)]
     | Panic \<Rightarrow> Panic
     | Ok _ \<Rightarrow> Ok (map (\<lambda>m. stream_event (map_sum id Some m))
         (tx_sent (fst (handle_streaming_classification_with_gen sv ctx env (passed_headers ctx hs)
            (streaming_classification_with_gen_task_new request) (tx_new limit))))))"

definition starts_with :: "string \<Rightarrow> string \<Rightarrow> bool" where
  "starts_with p s \<longleftrightarrow> take (length p) s = p"

text \<open>The lines of the body: a message, or the error of its JSON.\<close>

definition content_input_stream :: "(string + streaming_content_request) list \<Rightarrow> content_stream" where
  "content_input_stream json_lines = List.enumerate 0 (map (\<lambda>r. case r of
     Inr message \<Rightarrow> (case streaming_content_validate message of
        Err e \<Rightarrow> Inl (Validation (validation_error_string e)) | _ \<Rightarrow> Inr message)
   | Inl e \<Rightarrow> Inl (Validation e)) json_lines)"

definition stream_content_detection ::
  "services \<Rightarrow> orch_context \<Rightarrow> (nat \<Rightarrow> rx_run) \<Rightarrow> (nat \<Rightarrow> rx_run) \<Rightarrow> item list \<Rightarrow> nat option \<Rightarrow> headers
     \<Rightarrow> (string + streaming_content_request) list \<Rightarrow> (server_error, (server_error + streaming_content_response) list) res" where
  "stream_content_detection sv ctx rxs dxs batches limit hs json_lines =
     (case Option.bind (headers_get ''content-type'' hs) header_to_str of
        Some content_type \<Rightarrow>
          if starts_with ''application/x-ndjson'' content_type
          then Ok (map (map_sum server_error_of id) (tx_sent (fst (handle_streaming_content_detection sv ctx rxs dxs batches
                 (passed_headers ctx hs) (content_input_stream json_lines) (tx_new limit)))))
          else Err \<lparr>sve_code = 415, sve_details = ''expected application/x-ndjson''\<rparr>
      | None \<Rightarrow> Err \<lparr>sve_code = 415, sve_details = ''expected application/x-ndjson''\<rparr>)"

section \<open>Lemmas\<close>

lemma server_error_of_codes: "sve_code (server_error_of e) \<in> {400, 404, 422, 500, 503}"
  by (cases e) (auto simp: server_error_of_client_def generic_error_def)

lemma server_error_of_500: "sve_code (server_error_of e) = 500 \<Longrightarrow> server_error_of e = generic_error"
  by (cases e) (auto simp: server_error_of_client_def split: if_splits)

lemma endpoint_invalid: "validate r = Err e \<Longrightarrow> endpoint ctx validate handle hs (Inr r) = Err (server_error_of_validation e)"
  by (simp add: endpoint_def)

lemma endpoint_valid:
  "validate r = Ok () \<Longrightarrow> endpoint ctx validate handle hs (Inr r) = res_map_err server_error_of (handle (passed_headers ctx hs) r)"
  by (simp add: endpoint_def)

lemma endpoint_rejected: "endpoint ctx validate handle hs (Inl j) = Err (server_error_of_rejection j)"
  by (simp add: endpoint_def)

lemma chat_batches_limit: "tx_limit (fst (chat_process_detection_batch_stream items tx)) = tx_limit tx"
  by (induction items tx rule: chat_process_detection_batch_stream.induct) (auto simp: Let_def split: res.splits option.splits)

lemma open_streams_limit: "open_detection_streams f is tx = Ok (streams, tx') \<Longrightarrow> tx_limit tx' = tx_limit tx"
  by (induction f "is" tx arbitrary: streams rule: open_detection_streams.induct) (auto split: res.splits)

lemma chat_final_limit: "tx_limit (fst (chat_final_message sv ctx env hs request ds st tx)) = tx_limit tx"
  by (auto simp: chat_final_message_def Let_def split: option.splits res.splits)

lemma chat_output_limit:
  assumes "tx_limit tx = None"
  shows "tx_limit (fst (chat_stream_handle_output_detection sv ctx env hs request ds msgs tx)) = None"
proof (cases "partition_detectors ctx ds")
  case (Ok parts)
  obtain cd wd where parts: "parts = (cd, wd)" by (cases parts)
  let ?open = "\<lambda>n. open_detection_streams (\<lambda>i. text_contents_detection_streams sv ctx (se_rx env i) (se_dx env i)
     hs cd i (chat_inputs n msgs i)) (reorder (se_channels env) (map fst (choice_channels n))) tx"
  show ?thesis
  proof (cases "cd = []")
    case True
    have "\<exists>tx'. sp_response (process_chat_completion_stream msgs
        \<lparr>sp_state = Some completion_state_new, sp_inputs = None, sp_response = Some tx\<rparr>) = Some tx' \<and> tx_limit tx' = None"
      using process_chat_forward [of "\<lparr>sp_state = Some completion_state_new, sp_inputs = None, sp_response = Some tx\<rparr>" tx msgs] assms
      by auto
    then show ?thesis using True Ok parts by (auto simp: chat_stream_handle_output_detection_def Let_def chat_final_limit)
  next
    case False
    show ?thesis
    proof (cases "res_bind (n_choices (cr_extra request)) (\<lambda>n. res_map (Pair n) (?open n))")
      case (Ok r)
      obtain n streams tx1 where r: "r = (n, streams, tx1)" by (cases r)
      with Ok have "?open n = Ok (streams, tx1)" by auto
      from open_streams_limit [OF this] assms have "tx_limit tx1 = None" by simp
      then have b: "tx_limit (fst (chat_process_detection_batch_stream its tx1)) = None" for its
        by (simp add: chat_batches_limit)
      show ?thesis
        unfolding chat_stream_handle_output_detection_def \<open>partition_detectors ctx ds = _\<close> parts res.case prod.case Ok r
        using False b by (auto simp: chat_final_limit split: prod.splits bool.splits) (metis fst_conv)+
    qed (use Ok parts False assms in \<open>auto simp: chat_stream_handle_output_detection_def\<close>)
  qed
qed (simp_all add: chat_stream_handle_output_detection_def assms)

lemma chat_task_done:
  assumes "tx_limit tx = None" "chat_streaming_task sv ctx env hs request tx = (tx', True)"
  shows "\<exists>ms. tx_sent tx' = ms @ [Inr None]"
proof -
  have f: "tx_limit (the (sp_response (process_chat_completion_stream msgs
      \<lparr>sp_state = None, sp_inputs = None, sp_response = Some tx\<rparr>))) = None" for msgs
    using process_chat_forward [of "\<lparr>sp_state = None, sp_inputs = None, sp_response = Some tx\<rparr>" tx msgs] assms(1) by auto
  have g: "tx_limit tx1 = None" if "chat_stream_handle_output_detection sv ctx env hs request ds msgs tx = (tx1, b)" for ds msgs tx1 b
    using chat_output_limit [OF assms(1), of sv ctx env hs request ds msgs] that by simp
  show ?thesis
    using assms f unfolding chat_streaming_task_def Let_def
    by (auto split: res.splits option.splits if_splits prod.splits bool.splits dest!: g)
qed

lemma handle_text_content_not_Panic:
  assumes "ctx_ok ctx" "sched_ok s"
  shows "handle_text_content_detection sv ctx s hs task \<noteq> Panic"
proof (cases "contents_detections sv ctx s hs (tcr_detectors task) [(0, tcr_content task)]")
  case (Ok dets)
  from collect_content_of_detection [of dets] contents_detections_span [OF Ok assms(2)] obtain rs where
    "(collect_results (map content_of_detection dets) :: (error, _) res) = Ok rs" by blast
  with Ok validate_detectors_cases [of "tcr_detectors task" "detectors (ctx_config ctx)" "[TextContents]" True]
  show ?thesis by (auto simp: handle_text_content_detection_def)
next
  case (Err e)
  with validate_detectors_cases [of "tcr_detectors task" "detectors (ctx_config ctx)" "[TextContents]" True]
  show ?thesis by (auto simp: handle_text_content_detection_def)
next
  case Panic
  then show ?thesis using contents_detections_not_Panic [OF assms, of "[(0, tcr_content task)]" sv hs "tcr_detectors task"] by simp
qed

section \<open>Properties\<close>



text \<open>
  Headers are not passed on to the services unless they are configured: a header the services receive is one
  of the request whose name is in the configured set, or the access token of the request as bearer authorization, where
  the token header is configured and rewriting is on; then the token header itself is dropped, and no authorization header of
  the request is passed on with it.
\<close>

theorem passed_headers_configured:
  assumes "(n, v) \<in> set (filter_headers allowed hs rewrite)" "\<forall>(n, v) \<in> set hs. header_value_ok v"
  shows "((n, v) \<in> set hs \<and> to_lowercase n \<in> set allowed
       \<and> (rewrite \<longrightarrow> n \<noteq> ''x-forwarded-access-token''
            \<and> (n = ''authorization'' \<longrightarrow> (\<forall>t. (''x-forwarded-access-token'', t) \<in> set hs \<longrightarrow> ''x-forwarded-access-token'' \<notin> set allowed))))
     \<or> (rewrite \<and> n = ''authorization'' \<and> ''x-forwarded-access-token'' \<in> set allowed
       \<and> (\<exists>t. (''x-forwarded-access-token'', t) \<in> set hs \<and> v = ''Bearer '' @ t))"
proof -
  let ?x = "''x-forwarded-access-token''" and ?f = "filter (\<lambda>(name, _). to_lowercase name \<in> set allowed) hs"
  have x: "to_lowercase ?x = ?x" by code_simp
  show ?thesis
  proof (cases "rewrite \<and> headers_get ?x ?f \<noteq> None")
    case False
    then have "(n, v) \<in> set ?f"
      using assms(1) by (auto simp: filter_headers_def rewrite_forwarded_access_headers_def Let_def split: if_splits option.splits)
    moreover have "rewrite \<Longrightarrow> (?x, t) \<notin> set ?f" for t
      using False weak_map_of_SomeI [of ?x t ?f] by (auto simp only: headers_get_def)
    ultimately show ?thesis using x by auto
  next
    case True
    then obtain t where t: "headers_get ?x ?f = Some t" by blast
    then have in_f: "(?x, t) \<in> set ?f" by (auto simp: headers_get_def dest: map_of_SomeD)
    then have "header_value_ok t" using assms(2) by auto
    then have "header_value_ok (''Bearer '' @ t)" by (rule header_value_ok_bearer)
    then have "(n, v) \<in> set (headers_insert ''authorization'' (''Bearer '' @ t) (headers_remove ?x ?f))"
      using assms(1) True t by (simp add: filter_headers_def rewrite_forwarded_access_headers_def Let_def)
    then have "n = ''authorization'' \<and> v = ''Bearer '' @ t \<or> (n, v) \<in> set ?f \<and> n \<noteq> ?x \<and> n \<noteq> ''authorization''"
      unfolding headers_insert_set headers_remove_set by blast
    then show ?thesis using in_f True x by auto
  qed
qed

theorem passed_headers_configured_witness:
  "filter_headers [''x-forwarded-access-token''] [(''x-forwarded-access-token'', ''tok''), (''authorization'', ''secret''), (''cookie'', ''c'')] True
     = [(''authorization'', ''Bearer tok'')]
   \<and> (\<exists>t. (''x-forwarded-access-token'', t) \<in> set [(''x-forwarded-access-token'', ''tok''), (''authorization'', ''secret''), (''cookie'', ''c'')]
        \<and> ''Bearer tok'' = ''Bearer '' @ t)"
proof -
  let ?hs = "[(''x-forwarded-access-token'', ''tok''), (''authorization'', ''secret''), (''cookie'', ''c'')]"
  have f: "filter_headers [''x-forwarded-access-token''] ?hs True = [(''authorization'', ''Bearer tok'')]" by code_simp
  have "\<forall>(n, v) \<in> set ?hs. header_value_ok v" by code_simp
  from passed_headers_configured [of "''authorization''" "''Bearer tok''" "[''x-forwarded-access-token'']" ?hs True, OF _ this] f
  show ?thesis by simp
qed

text \<open>
  C39. A streaming chat completions request is answered with server-sent events, and unless the task panics the stream
  ends with \<^verbatim>\<open>[DONE]\<close> for a client that stays connected; every error event has one of the five statuses.
\<close>

theorem chat_stream_ends_with_done:
  assumes "chat_completions_request_validate request = Ok ()" "cr_stream request = Some True"
    and "snd (chat_streaming_task sv ctx senv (passed_headers ctx hs) request (tx_new None))"
  shows "\<exists>events. chat_completions_detection sv ctx uenv senv None hs (Inr request) = Ok (SseBody (events @ [SseDone]))
     \<and> (\<forall>e. SseError e \<in> set events \<longrightarrow> sve_code e \<in> {400, 404, 422, 500, 503})"
proof -
  obtain tx where tx: "chat_streaming_task sv ctx senv (passed_headers ctx hs) request (tx_new None) = (tx, True)"
    using assms(3) by (cases "chat_streaming_task sv ctx senv (passed_headers ctx hs) request (tx_new None)") simp
  from chat_task_done [OF _ tx] obtain ms where ms: "tx_sent tx = ms @ [Inr None]" by (auto simp: tx_new_def)
  have "chat_completions_detection sv ctx uenv senv None hs (Inr request) = Ok (SseBody (map stream_event ms @ [SseDone]))"
    using assms(1,2) tx ms by (simp add: chat_completions_detection_def endpoint_valid
        handle_chat_completions_detection_def chat_handle_streaming_def)
  moreover have "sve_code e \<in> {400, 404, 422, 500, 503}" if "SseError e \<in> set (map stream_event ms)" for e
  proof -
    from that obtain m :: chat_msg where "stream_event m = SseError e" by (auto dest: sym)
    then obtain d where "e = server_error_of d" by (cases m rule: stream_event.cases) auto
    then show ?thesis using server_error_of_codes by blast
  qed
  ultimately show ?thesis by blast
qed

theorem chat_stream_ends_with_done_witness:
  "\<exists>events. chat_completions_detection (ex_services\<lparr>sv_chat_completions := (\<lambda>_ _. Inr (ChatStreaming [Inl Cancelled]))\<rparr>)
     ex_ctx ex_env (ex_stream_env [] 0) None [] (Inr ((ex_request ''hi'')\<lparr>cr_stream := Some True, cr_detectors := \<lparr>od_input = [], od_output = []\<rparr>\<rparr>))
     = Ok (SseBody (events @ [SseDone]))"
proof -
  let ?sv = "ex_services\<lparr>sv_chat_completions := (\<lambda>_ _. Inr (ChatStreaming [Inl Cancelled]))\<rparr>"
  let ?r = "(ex_request ''hi'')\<lparr>cr_stream := Some True, cr_detectors := \<lparr>od_input = [], od_output = []\<rparr>\<rparr>"
  have "chat_completions_request_validate ?r = Ok ()"
    by (simp add: chat_completions_request_validate_def ex_request_def)
  moreover have "snd (chat_streaming_task ?sv ex_ctx (ex_stream_env [] 0) (passed_headers ex_ctx []) ?r (tx_new None))"
    by (simp add: chat_streaming_task_def ex_ctx_detectors chat_completion_stream_def)
  ultimately show ?thesis using chat_stream_ends_with_done [of ?r ?sv ex_ctx "ex_stream_env [] 0" "[]" ex_env] by auto
qed

end
