(* ===== verification/Openai_Client.thy ===== *)
theory Openai_Client
  imports Orchestrator Completion_State
begin

text \<open>
  The client of the model server (\<^verbatim>\<open>src/clients/openai.rs\<close>): requests sent directly or through the router
  sidecar, and the reading of their answers, in particular of the event streams. Deserializers are arguments.
\<close>

section \<open>Strings\<close>

text \<open>\<^verbatim>\<open>split("\n\n")\<close>.\<close>

abbreviation newline :: char where
  "newline \<equiv> CHR 0x0A"

fun split_blank :: "string \<Rightarrow> string list" where
  "split_blank [] = [[]]"
| "split_blank [c] = [[c]]"
| "split_blank (c # d # cs) =
     (if c = newline \<and> d = newline then [] # split_blank cs
      else (case split_blank (d # cs) of [] \<Rightarrow> [[c]] | l # ls \<Rightarrow> (c # l) # ls))"

text \<open>\<^verbatim>\<open>char::is_whitespace\<close>, on the UTF-8 bytes of a character.\<close>

definition is_whitespace :: "string \<Rightarrow> bool" where
  "is_whitespace ch \<longleftrightarrow>
     map of_char ch \<in> {[9], [10], [11], [12], [13], [32], [194, 133], [194, 160], [225, 154, 128], [226, 128, 168],
       [226, 128, 169], [226, 128, 175], [226, 129, 159], [227, 128, 128 :: nat]}
     \<or> list_ex (\<lambda>b. map of_char ch = [226, 128, b]) [128..<139 :: nat]"

definition trim :: "string \<Rightarrow> string" where
  "trim s = concat (rev (dropWhile is_whitespace (rev (dropWhile is_whitespace (chars s)))))"

definition strip_prefix :: "string \<Rightarrow> string \<Rightarrow> string option" where
  "strip_prefix p s = (if take (length p) s = p then Some (drop (length p) s) else None)"

section \<open>Event streams\<close>

text \<open>
  The task that reads an event stream and sends messages to the receiver; the result is the channel and whether the task
  ended without a panic.
\<close>

fun event_stream_messages ::
  "'c parser \<Rightarrow> error_response parser \<Rightarrow> (string + sse_message) list \<Rightarrow> (error + 'c option) tx \<Rightarrow> (error + 'c option) tx \<times> bool" where
  "event_stream_messages parse parse_error [] tx = (tx, True)"
| "event_stream_messages parse parse_error (Inl e # events) tx = (tx_send (Inl (Client (Http 500 e))) tx, True)"
| "event_stream_messages parse parse_error (Inr event # events) tx =
     (if sm_data event = ''[DONE]'' then (tx_send (Inr None) tx, True)
      else
        case parse (sm_data event) of
          Inr m \<Rightarrow> event_stream_messages parse parse_error events (tx_send (Inr (Some m)) tx)
        | Inl _ \<Rightarrow>
            (case parse_error (sm_data event) of
               Inr response \<Rightarrow>
                 (case client_error_of_error_response response of
                    Ok c \<Rightarrow> event_stream_messages parse parse_error events (tx_send (Inl (Client c)) tx)
                  | Err (u :: unit) \<Rightarrow> (tx, False)
                  | Panic \<Rightarrow> (tx, False))
             | Inl e \<Rightarrow> event_stream_messages parse parse_error events
                 (tx_send (Inl (Client (Http 500 (''deserialization error: '' @ e)))) tx)))"

text \<open>The router wraps the model's events: an envelope whose content holds one or more of them as text.\<close>

definition envelope_content :: "json parser \<Rightarrow> string \<Rightarrow> string" where
  "envelope_content parse_json data =
     (case parse_json data of
        Inr (JObject fs) \<Rightarrow> (case map_of fs ''content'' of Some (JString s) \<Rightarrow> s | _ \<Rightarrow> data)
      | _ \<Rightarrow> data)"

datatype flow = Go | Return | Abort

fun router_lines :: "'c parser \<Rightarrow> error_response parser \<Rightarrow> string list \<Rightarrow> (error + 'c option) tx \<Rightarrow> (error + 'c option) tx \<times> flow" where
  "router_lines parse parse_error [] tx = (tx, Go)"
| "router_lines parse parse_error (line # lines) tx =
     (let trimmed = trim line in
      if trimmed = [] then router_lines parse parse_error lines tx
      else
        let json_str = unwrap_or trimmed (strip_prefix ''data: '' trimmed) in
        if json_str = ''[DONE]'' then (tx_send (Inr None) tx, Return)
        else
          case parse json_str of
            Inr m \<Rightarrow> router_lines parse parse_error lines (tx_send (Inr (Some m)) tx)
          | Inl parse_err \<Rightarrow>
              (case parse_error json_str of
                 Inr response \<Rightarrow>
                   (case client_error_of_error_response response of
                      Ok c \<Rightarrow> router_lines parse parse_error lines (tx_send (Inl (Client c)) tx)
                    | Err (u :: unit) \<Rightarrow> (tx, Abort)
                    | Panic \<Rightarrow> (tx, Abort))
               | Inl _ \<Rightarrow> router_lines parse parse_error lines
                   (tx_send (Inl (Client (Http 500 (''failed to parse response: '' @ parse_err)))) tx)))"

fun router_stream_messages ::
  "json parser \<Rightarrow> 'c parser \<Rightarrow> error_response parser \<Rightarrow> (string + sse_message) list \<Rightarrow> (error + 'c option) tx
     \<Rightarrow> (error + 'c option) tx \<times> bool" where
  "router_stream_messages parse_json parse parse_error [] tx = (tx, True)"
| "router_stream_messages parse_json parse parse_error (Inl e # events) tx =
     (tx_send (Inl (Client (Http 500 (''stream error: '' @ e)))) tx, True)"
| "router_stream_messages parse_json parse parse_error (Inr event # events) tx =
     (if sm_event event = ''png'' then router_stream_messages parse_json parse parse_error events tx
      else if sm_event event = ''err'' then (tx_send (Inl (Client (Http 500 (sm_data event)))) tx, True)
      else
        case router_lines parse parse_error (split_blank (envelope_content parse_json (sm_data event))) tx of
          (tx, Go) \<Rightarrow> router_stream_messages parse_json parse parse_error events tx
        | (tx, Return) \<Rightarrow> (tx, True)
        | (tx, Abort) \<Rightarrow> (tx, False))"

section \<open>Requests\<close>

text \<open>
  The deserializers and encoders of one kind of request: \<open>w_body\<close> serializes the request, \<open>w_encode\<close> is the base64 text of
  a serialized value.
\<close>

record ('r, 'u, 'c) wire =
  w_body :: "'r \<Rightarrow> json"
  w_unary :: "'u parser"
  w_chunk :: "'c parser"
  w_error :: "error_response parser"
  w_json :: "json parser"
  w_encode :: "json \<Rightarrow> string"

definition http_error :: "error_response parser \<Rightarrow> http_response \<Rightarrow> client_error" where
  "http_error parse_error response = Http (rs_status response)
     (case parse_error (rs_body response) of
        Inr r \<Rightarrow> error_response_message r | Inl _ \<Rightarrow> ''unknown error occurred'')"

definition handle_unary_with_body ::
  "network \<Rightarrow> 'u parser \<Rightarrow> error_response parser \<Rightarrow> http_client \<Rightarrow> url \<Rightarrow> json \<Rightarrow> headers \<Rightarrow> (client_error, 'u) res" where
  "handle_unary_with_body net parse parse_error client u body hs =
     res_bind (http_post net client u hs body) (\<lambda>response.
     if rs_status response = 200 then response_json parse response else Err (http_error parse_error response))"

definition handle_unary ::
  "network \<Rightarrow> ('r, 'u, 'c) wire \<Rightarrow> openai_client \<Rightarrow> url \<Rightarrow> 'r \<Rightarrow> headers \<Rightarrow> (client_error, 'u) res" where
  "handle_unary net w client u request hs =
     handle_unary_with_body net (w_unary w) (w_error w) (ocl_client client) u (w_body w request) hs"

text \<open>The messages the receiver of a stream gets; \<open>limit\<close> is when it goes away.\<close>

definition handle_streaming ::
  "network \<Rightarrow> ('r, 'u, 'c) wire \<Rightarrow> nat option \<Rightarrow> openai_client \<Rightarrow> url \<Rightarrow> 'r \<Rightarrow> headers
     \<Rightarrow> (client_error, (error + 'c option) list) res" where
  "handle_streaming net w limit client u request hs =
     res_bind (http_post net (ocl_client client) u hs (w_body w request)) (\<lambda>response.
     if rs_status response = 200
     then Ok (tx_sent (fst (event_stream_messages (w_chunk w) (w_error w) (rs_events response) (tx_new limit))))
     else Err (http_error (w_error w) response))"

definition handle_stream_with_body ::
  "network \<Rightarrow> ('r, 'u, 'c) wire \<Rightarrow> nat option \<Rightarrow> http_client \<Rightarrow> url \<Rightarrow> json \<Rightarrow> headers
     \<Rightarrow> (client_error, (error + 'c option) list) res" where
  "handle_stream_with_body net w limit client u body hs =
     res_bind (http_post net client u hs body) (\<lambda>response.
     if rs_status response = 200
     then Ok (tx_sent (fst (router_stream_messages (w_json w) (w_chunk w) (w_error w) (rs_events response) (tx_new limit))))
     else Err (http_error (w_error w) response))"

section \<open>The router\<close>

definition put_header :: "string \<Rightarrow> string \<Rightarrow> string \<Rightarrow> headers \<Rightarrow> (client_error, headers) res" where
  "put_header name v message hs =
     (if header_value_ok v then Ok (headers_insert name v hs)
      else Err (Http 400 (message @ ''failed to parse header value'')))"

text \<open>\<open>uuid\<close> is the fresh transaction id.\<close>

definition transaction :: "string \<Rightarrow> headers \<Rightarrow> (client_error, string \<times> headers) res" where
  "transaction uuid hs =
     (case headers_get ''x-global-transaction-id'' hs of
        Some v \<Rightarrow> Ok (unwrap_or [] (header_to_str v), hs)
      | None \<Rightarrow> res_map (Pair uuid)
          (put_header ''x-global-transaction-id'' uuid ''failed to set x-global-transaction-id header: '' hs))"

definition build_router_headers ::
  "router_config option \<Rightarrow> http_client option \<Rightarrow> string \<Rightarrow> string \<Rightarrow> string \<Rightarrow> headers
     \<Rightarrow> (client_error, string \<times> http_client \<times> headers) res" where
  "build_router_headers config client uuid model_name meth hs =
     res_bind (ok_or (Http 500 ''router config must be present when router is enabled'') config) (\<lambda>rc.
     res_bind (put_header ''x-model-name'' model_name ''invalid model name for x-model-name header: '' hs) (\<lambda>hs.
     res_bind (put_header ''x-reply-type'' (r_reply_type rc) ''failed to set x-reply-type header: '' hs) (\<lambda>hs.
     res_bind (put_header ''x-sla-seconds'' (show_nat (r_sla_seconds rc)) ''failed to set x-sla-seconds header: '' hs) (\<lambda>hs.
     res_bind (transaction uuid hs) (\<lambda>(transaction_id, hs).
     res_bind (put_header ''x-method'' meth ''failed to set x-method header: '' hs) (\<lambda>hs.
     res_map (\<lambda>rcl. (transaction_id, rcl, hs))
       (ok_or (Http 500 ''router_client must be present when router is enabled'') client)))))))"

definition build_router_payload :: "(json \<Rightarrow> string) \<Rightarrow> string \<Rightarrow> json \<Rightarrow> string \<Rightarrow> json" where
  "build_router_payload encode endpoint body transaction_id =
     JObject [(''method'', JString ''POST''), (''path'', JString endpoint),
       (''headers'', JObject [(''Content-Type'', JString ''application/json''), (''x-request-id'', JString transaction_id)]),
       (''payload'', JString (encode body))]"

definition merge_extra_fields :: "(string \<times> json) list \<Rightarrow> (string \<times> json) list \<Rightarrow> (string \<times> json) list" where
  "merge_extra_fields target extra =
     fold (\<lambda>(k, v) fs. if k \<noteq> ''detectors'' \<and> k \<noteq> ''_prompt_masks'' then hm_insert k v fs else fs) extra target"

definition ROUTER_HANDLE_ENDPOINT :: string where
  "ROUTER_HANDLE_ENDPOINT = ''/ml/v1-private/router/handle''"

definition ROUTER_HANDLE_STREAM_ENDPOINT :: string where
  "ROUTER_HANDLE_STREAM_ENDPOINT = ''/ml/v1-private/router/handle-stream''"

datatype ('u, 'c) router_response = RouterUnary 'u | RouterStreaming "(error + 'c option) list"

definition route_via_router ::
  "network \<Rightarrow> ('r, 'u, 'c) wire \<Rightarrow> nat option \<Rightarrow> string \<Rightarrow> openai_client \<Rightarrow> string \<Rightarrow> json \<Rightarrow> string \<Rightarrow> bool \<Rightarrow> headers
     \<Rightarrow> (client_error, ('u, 'c) router_response) res" where
  "route_via_router net w limit uuid client model_name vllm_request endpoint is_streaming hs =
     (if is_streaming then
        res_bind (build_router_headers (ocl_router_config client) (ocl_router_client client) uuid model_name
            ''http_pass_stream'' hs) (\<lambda>(transaction_id, rcl, hs).
        res_map RouterStreaming (handle_stream_with_body net w limit rcl (client_endpoint rcl ROUTER_HANDLE_STREAM_ENDPOINT)
            (build_router_payload (w_encode w) endpoint vllm_request transaction_id) hs))
      else
        res_bind (build_router_headers (ocl_router_config client) (ocl_router_client client) uuid model_name
            ''http_pass'' hs) (\<lambda>(transaction_id, rcl, hs).
        res_map RouterUnary (handle_unary_with_body net (w_unary w) (w_error w) rcl (client_endpoint rcl ROUTER_HANDLE_ENDPOINT)
            (build_router_payload (w_encode w) endpoint vllm_request transaction_id) hs)))"

definition model_id_for_routing :: "string \<Rightarrow> headers \<Rightarrow> string" where
  "model_id_for_routing model hs = unwrap_or model (Option.bind (headers_get ''x-model-id'' hs) header_to_str)"

definition use_router :: "openai_client \<Rightarrow> bool" where
  "use_router client = (case ocl_router_config client of Some rc \<Rightarrow> r_enabled rc | None \<Rightarrow> False)"

definition stream_field :: "bool option \<Rightarrow> (string \<times> json) list" where
  "stream_field stream = (if stream = Some True then [(''stream'', JBool True)] else [])"

text \<open>\<open>messages_json\<close> serializes the messages.\<close>

definition chat_router_request :: "(message list \<Rightarrow> json) \<Rightarrow> chat_completions_request \<Rightarrow> (string \<times> json) list" where
  "chat_router_request messages_json request = merge_extra_fields
     ([(''model'', JString (cr_model request)), (''messages'', messages_json (cr_messages request))] @ stream_field (cr_stream request))
     (cr_extra request)"

definition completion_router_request :: "completions_request \<Rightarrow> (string \<times> json) list" where
  "completion_router_request request = merge_extra_fields
     ([(''model'', JString (pr_model request)), (''prompt'', JString (pr_prompt request))] @ stream_field (pr_stream request))
     (pr_extra request)"

section \<open>Operations\<close>

fun chat_of_router :: "(chat_completion, chat_completion_chunk) router_response \<Rightarrow> chat_completions_response" where
  "chat_of_router (RouterUnary c) = ChatUnary c"
| "chat_of_router (RouterStreaming rx) = ChatStreaming rx"

fun completion_of_router :: "(completion, completion) router_response \<Rightarrow> completions_response" where
  "completion_of_router (RouterUnary c) = CompletionUnary c"
| "completion_of_router (RouterStreaming rx) = CompletionStreaming rx"

definition chat_completions_via_router ::
  "network \<Rightarrow> (chat_completions_request, chat_completion, chat_completion_chunk) wire \<Rightarrow> (message list \<Rightarrow> json) \<Rightarrow> nat option
     \<Rightarrow> string \<Rightarrow> openai_client \<Rightarrow> chat_completions_request \<Rightarrow> headers \<Rightarrow> string \<Rightarrow> (client_error, chat_completions_response) res" where
  "chat_completions_via_router net w messages_json limit uuid client request hs model_id =
     res_map chat_of_router (route_via_router net w limit uuid client model_id
       (JObject (chat_router_request messages_json request)) ''/v1/chat/completions'' (unwrap_or False (cr_stream request)) hs)"

definition chat_completions ::
  "network \<Rightarrow> (chat_completions_request, chat_completion, chat_completion_chunk) wire \<Rightarrow> (message list \<Rightarrow> json) \<Rightarrow> nat option
     \<Rightarrow> string \<Rightarrow> openai_client \<Rightarrow> chat_completions_request \<Rightarrow> headers \<Rightarrow> (client_error, chat_completions_response) res" where
  "chat_completions net w messages_json limit uuid client request hs =
     (if use_router client
      then chat_completions_via_router net w messages_json limit uuid client request hs (model_id_for_routing (cr_model request) hs)
      else
        let u = client_endpoint (ocl_client client) ''/v1/chat/completions'' in
        if cr_stream request = Some True then res_map ChatStreaming (handle_streaming net w limit client u request hs)
        else res_map ChatUnary (handle_unary net w client u request hs))"

definition completions_via_router ::
  "network \<Rightarrow> (completions_request, completion, completion) wire \<Rightarrow> nat option
     \<Rightarrow> string \<Rightarrow> openai_client \<Rightarrow> completions_request \<Rightarrow> headers \<Rightarrow> string \<Rightarrow> (client_error, completions_response) res" where
  "completions_via_router net w limit uuid client request hs model_id =
     res_map completion_of_router (route_via_router net w limit uuid client model_id
       (JObject (completion_router_request request)) ''/v1/completions'' (unwrap_or False (pr_stream request)) hs)"

definition completions ::
  "network \<Rightarrow> (completions_request, completion, completion) wire \<Rightarrow> nat option
     \<Rightarrow> string \<Rightarrow> openai_client \<Rightarrow> completions_request \<Rightarrow> headers \<Rightarrow> (client_error, completions_response) res" where
  "completions net w limit uuid client request hs =
     (if use_router client
      then completions_via_router net w limit uuid client request hs (model_id_for_routing (pr_model request) hs)
      else
        let u = client_endpoint (ocl_client client) ''/v1/completions'' in
        if pr_stream request = Some True then res_map CompletionStreaming (handle_streaming net w limit client u request hs)
        else res_map CompletionUnary (handle_unary net w client u request hs))"

definition tokenize_via_router ::
  "network \<Rightarrow> (tokenize_request, tokenize_response, unit) wire \<Rightarrow> string \<Rightarrow> openai_client \<Rightarrow> tokenize_request \<Rightarrow> headers \<Rightarrow> string
     \<Rightarrow> (client_error, tokenize_response) res" where
  "tokenize_via_router net w uuid client request hs model_id =
     res_bind (build_router_headers (ocl_router_config client) (ocl_router_client client) uuid model_id ''http_pass'' hs)
       (\<lambda>(transaction_id, rcl, hs).
        handle_unary_with_body net (w_unary w) (w_error w) rcl (client_endpoint rcl ROUTER_HANDLE_ENDPOINT)
          (build_router_payload (w_encode w) ''/tokenize'' (w_body w request) transaction_id) hs)"

definition openai_tokenize ::
  "network \<Rightarrow> (tokenize_request, tokenize_response, unit) wire \<Rightarrow> string \<Rightarrow> openai_client \<Rightarrow> tokenize_request \<Rightarrow> headers
     \<Rightarrow> (client_error, tokenize_response) res" where
  "openai_tokenize net w uuid client request hs =
     (if use_router client
      then tokenize_via_router net w uuid client request hs (model_id_for_routing (tr_model request) hs)
      else handle_unary net w client (client_endpoint (ocl_client client) ''/tokenize'') request hs)"

section \<open>Lemmas\<close>

lemma split_blank_nonempty [simp]: "split_blank s \<noteq> []"
  by (induction s rule: split_blank.induct) (auto split: list.splits)

lemma split_blank_frame: "newline \<notin> set x \<Longrightarrow> split_blank (x @ newline # newline # y) = x # split_blank y"
proof (induction x)
  case (Cons c x)
  then have IH: "split_blank (x @ newline # newline # y) = x # split_blank y" by simp
  obtain d cs where dcs: "x @ newline # newline # y = d # cs" by (cases x) auto
  show ?case using IH Cons.prems by (auto simp: dcs)
qed simp

definition data_line :: "string \<Rightarrow> string" where
  "data_line d = ''data: '' @ d"

definition frame :: "string \<Rightarrow> string" where
  "frame d = data_line d @ [newline, newline]"

lemma split_blank_frames:
  "\<forall>d \<in> set ds. newline \<notin> set d \<Longrightarrow> split_blank (concat (map frame ds)) = map data_line ds @ [[]]"
proof (induction ds)
  case (Cons d ds)
  then have "split_blank (data_line d @ newline # newline # concat (map frame ds)) = data_line d # split_blank (concat (map frame ds))"
    by (intro split_blank_frame) (simp add: data_line_def)
  with Cons show ?case by (simp add: frame_def [of d])
qed simp

text \<open>A text that neither starts inside a character nor ends with white space is not changed by trimming after \<^verbatim>\<open>data: \<close>.\<close>

definition trimmed_text :: "string \<Rightarrow> bool" where
  "trimmed_text d \<longleftrightarrow> d \<noteq> [] \<and> \<not> is_continuation (hd d) \<and> \<not> is_whitespace (last (chars d))"

lemma chars_ascii_append:
  assumes "is_ascii s" "d \<noteq> []" "\<not> is_continuation (hd d)"
  shows "chars (s @ d) = map (\<lambda>c. [c]) s @ chars d"
  using assms(1)
proof (induction s)
  case (Cons c s)
  have "takeWhile is_continuation (s @ d) = []" "dropWhile is_continuation (s @ d) = s @ d"
    using Cons.prems assms(2,3) by (cases s; cases d; auto simp: is_ascii_def is_continuation_def Let_def)+
  with Cons show ?case by (simp add: is_ascii_def chars.simps(2))
qed simp

lemma trim_data:
  assumes "trimmed_text d"
  shows "trim (data_line d) = data_line d"
  unfolding data_line_def
proof -
  have a: "is_ascii ''data: ''" by code_simp
  have c: "chars (''data: '' @ d) = map (\<lambda>c. [c]) ''data: '' @ chars d"
    using assms by (intro chars_ascii_append [OF a]) (simp_all add: trimmed_text_def)
  have w: "\<not> is_whitespace ''d''" by code_simp
  have ne: "chars d \<noteq> []" using assms by (simp add: trimmed_text_def)
  have "dropWhile is_whitespace (chars (''data: '' @ d)) = chars (''data: '' @ d)"
    unfolding c by (simp add: w)
  moreover have "dropWhile is_whitespace (rev (chars (''data: '' @ d))) = rev (chars (''data: '' @ d))"
    using ne assms unfolding c trimmed_text_def
    by (cases "chars d" rule: rev_cases) auto
  ultimately show "trim (''data: '' @ d) = ''data: '' @ d" unfolding trim_def by (simp only: rev_rev_ident concat_chars)
qed

lemma strip_data: "unwrap_or x (strip_prefix ''data: '' (data_line d)) = d" "data_line d \<noteq> []"
  by (simp_all add: strip_prefix_def data_line_def)

lemma trim_Nil [simp]: "trim [] = []"
  by (simp add: trim_def)

text \<open>A text that both readers understand: the end marker, a message or an error response.\<close>

definition readable :: "'c parser \<Rightarrow> error_response parser \<Rightarrow> string \<Rightarrow> bool" where
  "readable parse parse_error d \<longleftrightarrow> d = ''[DONE]'' \<or> (\<exists>m. parse d = Inr m) \<or> (\<exists>r. parse_error d = Inr r)"

definition data_event :: "string \<Rightarrow> string + sse_message" where
  "data_event d = Inr \<lparr>sm_event = ''message'', sm_data = d\<rparr>"

lemma router_lines_direct:
  assumes "\<forall>d \<in> set ds. trimmed_text d \<and> readable parse parse_error d"
  shows "event_stream_messages parse parse_error (map data_event ds @ rest) tx =
     (case router_lines parse parse_error (map data_line ds @ [[]]) tx of
        (tx, Go) \<Rightarrow> event_stream_messages parse parse_error rest tx
      | (tx, Return) \<Rightarrow> (tx, True) | (tx, Abort) \<Rightarrow> (tx, False))"
  using assms
proof (induction ds arbitrary: tx)
  case (Cons d ds)
  have line: "trim (data_line d) = data_line d" "data_line d \<noteq> []" "unwrap_or (data_line d) (strip_prefix ''data: '' (data_line d)) = d"
    using Cons.prems by (simp_all add: trim_data strip_data)
  have IH: "event_stream_messages parse parse_error (map data_event ds @ rest) tx =
     (case router_lines parse parse_error (map data_line ds @ [[]]) tx of
        (tx, Go) \<Rightarrow> event_stream_messages parse parse_error rest tx
      | (tx, Return) \<Rightarrow> (tx, True) | (tx, Abort) \<Rightarrow> (tx, False))" for tx
    using Cons.IH Cons.prems by simp
  consider "d = ''[DONE]''" | m where "d \<noteq> ''[DONE]''" "parse d = Inr m"
    | e r where "d \<noteq> ''[DONE]''" "parse d = Inl e" "parse_error d = Inr r"
    using Cons.prems by (cases "parse d") (auto simp: readable_def)
  then show ?case
  proof cases
    case 1
    then show ?thesis using line by (simp add: data_event_def Let_def)
  next
    case 2
    then show ?thesis using line by (simp add: data_event_def [of d] Let_def IH)
  next
    case 3
    then show ?thesis using line
      by (cases "client_error_of_error_response r :: (unit, client_error) res") (simp_all add: data_event_def [of d] Let_def IH)
  qed
qed simp

section \<open>Properties\<close>

text \<open>
  C18. The two ways to the model deliver the same messages: when the router passes the model's events on, grouped in any
  way and framed as server-sent events in its envelopes, with pings between them, the receiver gets exactly what it would get from the
  model directly, up to the first end marker, for events that are messages or error responses.
\<close>

theorem router_stream_equals_direct:
  assumes "\<forall>(e, g) \<in> set envelopes. sm_event e \<noteq> ''png'' \<and> sm_event e \<noteq> ''err''
       \<and> parse_json (sm_data e) = Inr (JObject [(''content'', JString (concat (map frame g)))])
       \<and> (\<forall>d \<in> set g. newline \<notin> set d \<and> trimmed_text d \<and> readable parse parse_error d)"
    and "\<forall>p \<in> set pings. sm_event p = ''png''"
  shows "router_stream_messages parse_json parse parse_error
       (concat (map (\<lambda>(e, g). Inr e # map Inr pings) envelopes)) tx
     = event_stream_messages parse parse_error (map data_event (concat (map snd envelopes))) tx"
  using assms(1)
proof (induction envelopes arbitrary: tx)
  case (Cons x envelopes)
  obtain e g where x: "x = (e, g)" by (cases x)
  have skip: "router_stream_messages parse_json parse parse_error (map Inr ps @ es) tx = router_stream_messages parse_json parse parse_error es tx"
    if "\<forall>p \<in> set ps. sm_event p = ''png''" for ps es tx
    using that by (induction ps) auto
  have lines: "split_blank (envelope_content parse_json (sm_data e)) = map data_line g @ [[]]"
    using Cons.prems x by (simp add: envelope_content_def split_blank_frames)
  have ev: "sm_event e \<noteq> ''png''" "sm_event e \<noteq> ''err''" using Cons.prems x by auto
  have IH: "router_stream_messages parse_json parse parse_error (concat (map (\<lambda>(e, g). Inr e # map Inr pings) envelopes)) tx
     = event_stream_messages parse parse_error (map data_event (concat (map snd envelopes))) tx" for tx
    using Cons.IH Cons.prems by simp
  have "event_stream_messages parse parse_error (map data_event g @ map data_event (concat (map snd envelopes))) tx =
     (case router_lines parse parse_error (map data_line g @ [[]]) tx of
        (tx, Go) \<Rightarrow> event_stream_messages parse parse_error (map data_event (concat (map snd envelopes))) tx
      | (tx, Return) \<Rightarrow> (tx, True) | (tx, Abort) \<Rightarrow> (tx, False))"
    using Cons.prems x by (intro router_lines_direct) auto
  then show ?case
    by (simp add: x lines ev skip [OF assms(2)] IH del: router_lines.simps cong: prod.case_cong flow.case_cong)
qed simp

theorem router_stream_equals_direct_witness:
  "router_stream_messages (\<lambda>_. Inr (JObject [(''content'', JString (concat (map frame [''1'', ''[DONE]''])))])) (\<lambda>d. Inr d)
       (\<lambda>_. Inl []) [Inr \<lparr>sm_event = ''message'', sm_data = ''x''\<rparr>, Inr \<lparr>sm_event = ''png'', sm_data = []\<rparr>] (tx_new None)
     = event_stream_messages (\<lambda>d. Inr d) (\<lambda>_. Inl []) (map data_event [''1'', ''[DONE]'']) (tx_new None)"
proof -
  let ?env = "[(\<lparr>sm_event = ''message'', sm_data = ''x''\<rparr>, [''1'', ''[DONE]''])]"
  have t: "trimmed_text ''1''" "trimmed_text ''[DONE]''" by code_simp+
  have "router_stream_messages (\<lambda>_. Inr (JObject [(''content'', JString (concat (map frame [''1'', ''[DONE]''])))])) (\<lambda>d. Inr d)
       (\<lambda>_. Inl []) (concat (map (\<lambda>(e, g). Inr e # map Inr [\<lparr>sm_event = ''png'', sm_data = []\<rparr>]) ?env)) (tx_new None)
     = event_stream_messages (\<lambda>d. Inr d) (\<lambda>_. Inl []) (map data_event (concat (map snd ?env))) (tx_new None)"
    by (rule router_stream_equals_direct) (simp_all add: t readable_def)
  then show ?thesis by simp
qed

text \<open>
  The request sent through the router has the extra fields of the request but not the orchestrator's own, and no tools: they are not
  among the extra fields.
\<close>

lemma merge_extra_fields_get:
  "hm_get (merge_extra_fields target extra) k =
     (if k = ''detectors'' \<or> k = ''_prompt_masks'' then hm_get target k else (hm_get target ++ map_of (rev extra)) k)"
  by (induction extra arbitrary: target) (auto simp: merge_extra_fields_def map_add_def split: option.splits)

theorem router_request_drops_tools:
  assumes "map_of (cr_extra request) ''tools'' = None"
  shows "hm_get (chat_router_request messages_json request) ''tools'' = None
     \<and> hm_get (chat_router_request messages_json request) ''detectors'' = None"
proof -
  have "map_of (rev (cr_extra request)) ''tools'' = None" using assms by (simp add: map_of_eq_None_iff)
  then show ?thesis by (auto simp: chat_router_request_def merge_extra_fields_get stream_field_def map_add_def)
qed

text \<open>An error event with a status outside of the HTTP range ends the stream without an error and without an end marker.\<close>

theorem error_event_panics:
  assumes "parse d = Inl e" "parse_error d = Inr r" "error_response_code r < 100" "d \<noteq> ''[DONE]''"
  shows "event_stream_messages parse parse_error (data_event d # events) tx = (tx, False)"
proof -
  have "(client_error_of_error_response r :: (unit, client_error) res) = Panic"
    using assms(3) by (simp add: client_error_of_error_response_panics)
  with assms(1,2,4) show ?thesis by (simp add: data_event_def)
qed

end
