(* ===== verification/Detector_Client.thy ===== *)
theory Detector_Client
  imports Openai_Client
begin

text \<open>
  The client of a detector (\<^verbatim>\<open>src/clients/detector.rs\<close>): requests sent to the detector or through the router, and its errors.
\<close>

section \<open>Errors\<close>

record detector_error =
  dte_code :: nat
  dte_message :: string

text \<open>The conversion unwraps the status code.\<close>

definition client_error_of_detector_error :: "detector_error \<Rightarrow> ('e, client_error) res" where
  "client_error_of_detector_error e = res_map (\<lambda>c. Http c (dte_message e)) (unwrap (status_code_from_u16 (dte_code e)))"

text \<open>The answer of a detector: its value, or its error, with a default where the body is none.\<close>

definition detector_answer ::
  "'u parser \<Rightarrow> detector_error parser \<Rightarrow> string \<Rightarrow> http_response \<Rightarrow> (client_error, 'u) res" where
  "detector_answer parse parse_error default_message response =
     (if rs_status response = 200 then response_json parse response
      else
        let e = (case parse_error (rs_body response) of
              Inr e \<Rightarrow> e | Inl _ \<Rightarrow> \<lparr>dte_code = rs_status response, dte_message = default_message\<rparr>)
        in res_bind (client_error_of_detector_error e) Err)"

section \<open>Requests\<close>

text \<open>The bodies of the four kinds of requests, as they are serialized; messages and tools are serialized by arguments.\<close>

record content_analysis_request =
  caq_contents :: "string list"
  caq_detector_params :: detector_params

record detector_chat_request =
  dcq_messages :: "message list"
  dcq_tools :: "tool list"
  dcq_detector_params :: detector_params

record detector_context_request =
  dxq_content :: string
  dxq_context_type :: context_type
  dxq_context :: "string list"
  dxq_detector_params :: detector_params

record generation_detection_request =
  gdq_prompt :: string
  gdq_generated_text :: string
  gdq_detector_params :: detector_params

definition content_analysis_request_new :: "string list \<Rightarrow> detector_params \<Rightarrow> content_analysis_request" where
  "content_analysis_request_new contents params = \<lparr>caq_contents = contents, caq_detector_params = params\<rparr>"

definition detector_chat_request_new :: "message list \<Rightarrow> tool list \<Rightarrow> detector_params \<Rightarrow> detector_chat_request" where
  "detector_chat_request_new messages tools params = \<lparr>dcq_messages = messages, dcq_tools = tools, dcq_detector_params = params\<rparr>"

definition detector_context_request_new ::
  "string \<Rightarrow> context_type \<Rightarrow> string list \<Rightarrow> detector_params \<Rightarrow> detector_context_request" where
  "detector_context_request_new content ctype docs params =
     \<lparr>dxq_content = content, dxq_context_type = ctype, dxq_context = docs, dxq_detector_params = params\<rparr>"

definition generation_detection_request_new :: "string \<Rightarrow> string \<Rightarrow> detector_params \<Rightarrow> generation_detection_request" where
  "generation_detection_request_new prompt text params =
     \<lparr>gdq_prompt = prompt, gdq_generated_text = text, gdq_detector_params = params\<rparr>"

fun context_type_json :: "context_type \<Rightarrow> json" where
  "context_type_json Document = JString ''docs''"
| "context_type_json Url = JString ''url''"

definition content_analysis_json :: "content_analysis_request \<Rightarrow> json" where
  "content_analysis_json r =
     JObject [(''contents'', JArray (map JString (caq_contents r))), (''detector_params'', JObject (caq_detector_params r))]"

definition detector_chat_json :: "(message \<Rightarrow> json) \<Rightarrow> (tool \<Rightarrow> json) \<Rightarrow> detector_chat_request \<Rightarrow> json" where
  "detector_chat_json message_json tool_json r =
     JObject [(''messages'', JArray (map message_json (dcq_messages r))), (''tools'', JArray (map tool_json (dcq_tools r))),
       (''detector_params'', JObject (dcq_detector_params r))]"

definition detector_context_json :: "detector_context_request \<Rightarrow> json" where
  "detector_context_json r =
     JObject [(''content'', JString (dxq_content r)), (''context_type'', context_type_json (dxq_context_type r)),
       (''context'', JArray (map JString (dxq_context r))), (''detector_params'', JObject (dxq_detector_params r))]"

definition generation_detection_json :: "generation_detection_request \<Rightarrow> json" where
  "generation_detection_json r =
     JObject [(''prompt'', JString (gdq_prompt r)), (''generated_text'', JString (gdq_generated_text r)),
       (''detector_params'', JObject (gdq_detector_params r))]"

section \<open>Sending\<close>

text \<open>\<^verbatim>\<open>str::contains\<close>\<close>

definition contains :: "string \<Rightarrow> string \<Rightarrow> bool" where
  "contains s p \<longleftrightarrow> list_ex (\<lambda>i. take (length p) (drop i s) = p) [0..<Suc (length s)]"

definition detector_uses_router :: "detector_client \<Rightarrow> string \<Rightarrow> bool" where
  "detector_uses_router client model_id =
     (case dcl_router_config client of
        Some r \<Rightarrow> r_enabled r \<and> (r_supported_detectors r = [] \<or> list_ex (contains model_id) (r_supported_detectors r))
      | None \<Rightarrow> False)"

definition detector_router_payload :: "(json \<Rightarrow> string) \<Rightarrow> url \<Rightarrow> string \<Rightarrow> string \<Rightarrow> json \<Rightarrow> json" where
  "detector_router_payload encode u transaction_id model_id request =
     JObject [(''method'', JString ''POST''), (''path'', JString (url_path u)),
       (''headers'', JObject [(''Content-Type'', JString ''application/json''), (''x-request-id'', JString transaction_id),
          (''detector-id'', JString model_id)]),
       (''payload'', JString (encode request))]"

text \<open>The headers for the router are built as by the model's client, with the method fixed.\<close>

definition detector_router_headers ::
  "detector_client \<Rightarrow> string \<Rightarrow> string \<Rightarrow> headers \<Rightarrow> (client_error, string \<times> http_client \<times> headers) res" where
  "detector_router_headers client uuid model_name hs =
     build_router_headers (dcl_router_config client) (dcl_router_client client) uuid model_name ''http_pass'' hs"

definition post_via_router ::
  "network \<Rightarrow> (json \<Rightarrow> string) \<Rightarrow> string \<Rightarrow> 'u parser \<Rightarrow> detector_error parser \<Rightarrow> detector_client \<Rightarrow> string \<Rightarrow> url \<Rightarrow> headers \<Rightarrow> json
     \<Rightarrow> (client_error, 'u) res" where
  "post_via_router net encode uuid parse parse_error client model_id u hs request =
     res_bind (detector_router_headers client uuid (unwrap_or (dcl_detector_id client) (dcl_model_id client)) hs)
       (\<lambda>(transaction_id, rcl, hs).
     res_bind (http_post net rcl (client_endpoint rcl ROUTER_HANDLE_ENDPOINT) hs
         (detector_router_payload encode u transaction_id model_id request)) (\<lambda>response.
     detector_answer parse parse_error ''router request failed'' response))"

text \<open>The detector's headers are appended; the values are parsed with \<^verbatim>\<open>unwrap\<close>.\<close>

definition detector_post ::
  "network \<Rightarrow> (json \<Rightarrow> string) \<Rightarrow> string \<Rightarrow> 'u parser \<Rightarrow> detector_error parser \<Rightarrow> detector_client \<Rightarrow> string \<Rightarrow> url \<Rightarrow> headers \<Rightarrow> json
     \<Rightarrow> (client_error, 'u) res" where
  "detector_post net encode uuid parse parse_error client model_id u hs request =
     (if detector_uses_router client model_id
      then post_via_router net encode uuid parse parse_error client model_id u hs request
      else if \<not> header_value_ok model_id then Panic
      else
        let hs = headers_append ''x-model-name'' model_id
              (headers_append ''content-type'' ''application/json'' (headers_append ''detector-id'' model_id hs))
        in res_bind (http_post net (dcl_client client) u hs request) (\<lambda>response.
           detector_answer parse parse_error [] response))"

text \<open>The four kinds of requests differ in their endpoint and their answer.\<close>

definition detector_text_contents ::
  "network \<Rightarrow> (json \<Rightarrow> string) \<Rightarrow> string \<Rightarrow> content_analysis_response list list parser \<Rightarrow> detector_error parser
     \<Rightarrow> detector_client \<Rightarrow> string \<Rightarrow> json \<Rightarrow> headers \<Rightarrow> (client_error, content_analysis_response list list) res" where
  "detector_text_contents net encode uuid parse parse_error client model_id request hs =
     detector_post net encode uuid parse parse_error client model_id
       (client_endpoint (dcl_client client) ''/api/v1/text/contents'') hs request"

definition detector_text_chat ::
  "network \<Rightarrow> (json \<Rightarrow> string) \<Rightarrow> string \<Rightarrow> detection_result list parser \<Rightarrow> detector_error parser
     \<Rightarrow> detector_client \<Rightarrow> string \<Rightarrow> json \<Rightarrow> headers \<Rightarrow> (client_error, detection_result list) res" where
  "detector_text_chat net encode uuid parse parse_error client model_id request hs =
     detector_post net encode uuid parse parse_error client model_id
       (client_endpoint (dcl_client client) ''/api/v1/text/chat'') hs request"

definition detector_text_context_doc ::
  "network \<Rightarrow> (json \<Rightarrow> string) \<Rightarrow> string \<Rightarrow> detection_result list parser \<Rightarrow> detector_error parser
     \<Rightarrow> detector_client \<Rightarrow> string \<Rightarrow> json \<Rightarrow> headers \<Rightarrow> (client_error, detection_result list) res" where
  "detector_text_context_doc net encode uuid parse parse_error client model_id request hs =
     detector_post net encode uuid parse parse_error client model_id
       (client_endpoint (dcl_client client) ''/api/v1/text/context/doc'') hs request"

definition detector_text_generation ::
  "network \<Rightarrow> (json \<Rightarrow> string) \<Rightarrow> string \<Rightarrow> detection_result list parser \<Rightarrow> detector_error parser
     \<Rightarrow> detector_client \<Rightarrow> string \<Rightarrow> json \<Rightarrow> headers \<Rightarrow> (client_error, detection_result list) res" where
  "detector_text_generation net encode uuid parse parse_error client model_id request hs =
     detector_post net encode uuid parse parse_error client model_id
       (client_endpoint (dcl_client client) ''/api/v1/text/generation'') hs request"

definition token_class_of_content :: "content_analysis_response \<Rightarrow> token_classification_result" where
  "token_class_of_content v =
     \<lparr>tc_start = as_u32 (ca_start v), tc_end = as_u32 (ca_end v), tc_word = ca_text v, tc_entity = ca_detection v,
      tc_entity_group = ca_detection_type v, tc_detector_id = ca_detector_id v, tc_score = ca_score v, tc_token_count = None\<rparr>"

definition detector_health :: "(http_client \<Rightarrow> headers \<Rightarrow> health_check_result) \<Rightarrow> detector_client \<Rightarrow> headers \<Rightarrow> health_check_result" where
  "detector_health health client hs =
     (case dcl_health_client client of Some h \<Rightarrow> health h hs | None \<Rightarrow> health (dcl_client client) hs)"

section \<open>Properties\<close>

text \<open>
  A detector that answers with an error body whose code is outside of the HTTP range makes the request panic, whatever status
  the response has.
\<close>

theorem detector_error_panics:
  assumes "rs_status response \<noteq> 200" "parse_error (rs_body response) = Inr e" "dte_code e < 100 \<or> 999 < dte_code e"
  shows "detector_answer parse parse_error m response = Panic"
  using assms by (auto simp: detector_answer_def client_error_of_detector_error_def status_code_from_u16_def)

text \<open>Otherwise an error answer is an error with the code of its body, or the response's status where the body is none.\<close>

lemma detector_answer_error:
  assumes "rs_status response \<noteq> 200" "100 \<le> rs_status response" "rs_status response \<le> 999" "parse_error (rs_body response) = Inl x"
  shows "detector_answer parse parse_error m response = Err (Http (rs_status response) m)"
  using assms by (auto simp: detector_answer_def client_error_of_detector_error_def status_code_from_u16_def)

text \<open>The direct conversion of a detector's answer to a token classification is the one through a detection.\<close>

lemma token_class_of_content_eq:
  "token_class_of_detection (detection_of_content v) = (Ok (token_class_of_content v) :: ('e, token_classification_result) res)"
  by (simp add: token_class_of_content_def token_class_of_detection_def detection_of_content_def)

text \<open>
  A request that goes to the detector directly carries its id in the headers; the API token of the detector, if there is
  one, replaces any authorization header that was passed on.
\<close>

theorem detector_post_headers:
  assumes "\<not> detector_uses_router client model_id" "header_value_ok model_id" "hc_api_token (dcl_client client) = Some token"
    and "header_value_ok (''Bearer '' @ token)"
  shows "\<exists>hs'. detector_post net encode uuid parse parse_error client model_id u hs request =
       (case net u ''POST'' hs' request of
          Inl e \<Rightarrow> Err (Http 408 (''client request timeout: '' @ e))
        | Inr response \<Rightarrow> detector_answer parse parse_error [] response)
     \<and> (''detector-id'', model_id) \<in> set hs' \<and> (\<forall>v. (''authorization'', v) \<in> set hs' \<longleftrightarrow> v = ''Bearer '' @ token)"
proof -
  let ?hs = "headers_append ''x-model-name'' model_id
     (headers_append ''content-type'' ''application/json'' (headers_append ''detector-id'' model_id hs))"
  let ?hs' = "headers_insert ''authorization'' (''Bearer '' @ token) ?hs"
  have "inject_api_token (dcl_client client) ?hs = Ok ?hs'" using assms(3,4) by (simp add: inject_api_token_def)
  then have "detector_post net encode uuid parse parse_error client model_id u hs request =
       (case net u ''POST'' ?hs' request of
          Inl e \<Rightarrow> Err (Http 408 (''client request timeout: '' @ e))
        | Inr response \<Rightarrow> detector_answer parse parse_error [] response)"
    using assms(1,2) by (simp add: detector_post_def http_post_def http_send_def Let_def split: sum.splits)
  then show ?thesis by (intro exI [of _ ?hs']) (auto simp: headers_insert_set headers_append_def)
qed

end
