(* ===== verification/Grpc_Clients.thy ===== *)
theory Grpc_Clients
  imports Clients
begin

text \<open>
  The clients of the gRPC services: the chunkers (\<^verbatim>\<open>src/clients/chunker.rs\<close>), the NLP service (\<^verbatim>\<open>src/clients/nlp.rs\<close>) and
  TGIS (\<^verbatim>\<open>src/clients/tgis.rs\<close>). The generated stubs are arguments: they get a request and its metadata and answer with
  a status or a value.
\<close>

section \<open>Errors and metadata\<close>

type_synonym grpc_status = "grpc_code \<times> string"

definition client_error_of_status :: "grpc_status \<Rightarrow> client_error" where
  "client_error_of_status status = Grpc (grpc_to_http_code (fst status)) (snd status)"

definition MODEL_ID_HEADER_NAME :: string where
  "MODEL_ID_HEADER_NAME = ''mm-model-id''"

text \<open>The metadata of a request are its headers, without the tracing header; the model's name is parsed with \<^verbatim>\<open>unwrap\<close>.\<close>

definition nlp_request_with_headers :: "string \<Rightarrow> headers \<Rightarrow> ('e, headers) res" where
  "nlp_request_with_headers model_id hs =
     (if header_value_ok model_id then Ok (headers_insert MODEL_ID_HEADER_NAME model_id hs) else Panic)"

definition chunker_request_with_headers :: "string \<Rightarrow> ('e, headers) res" where
  "chunker_request_with_headers model_id =
     (if header_value_ok model_id then Ok (headers_insert MODEL_ID_HEADER_NAME model_id []) else Panic)"

text \<open>A call of a stub, and a call that answers with a stream.\<close>

definition grpc_unary :: "('q \<Rightarrow> headers \<Rightarrow> grpc_status + 'a) \<Rightarrow> 'q \<Rightarrow> headers \<Rightarrow> client_error + 'a" where
  "grpc_unary stub request md = map_sum client_error_of_status id (stub request md)"

definition grpc_stream ::
  "('q \<Rightarrow> headers \<Rightarrow> grpc_status + (grpc_status + 'a) list) \<Rightarrow> 'q \<Rightarrow> headers \<Rightarrow> client_error + (client_error + 'a) list" where
  "grpc_stream stub request md =
     map_sum client_error_of_status (map (map_sum client_error_of_status id)) (stub request md)"

fun of_call :: "client_error + 'a \<Rightarrow> (client_error, 'a) res" where
  "of_call (Inl e) = Err e"
| "of_call (Inr x) = Ok x"

section \<open>Chunkers\<close>

definition tokenization_task_predict ::
  "(string \<Rightarrow> headers \<Rightarrow> grpc_status + pb_token list) \<Rightarrow> string \<Rightarrow> string \<Rightarrow> (client_error, pb_token list) res" where
  "tokenization_task_predict stub model_id text =
     res_bind (chunker_request_with_headers model_id) (\<lambda>md. of_call (grpc_unary stub text md))"

text \<open>The requests of the bidirectional stream are pairs of a text and its index.\<close>

definition bidi_streaming_tokenization_task_predict ::
  "((string \<times> int) list \<Rightarrow> headers \<Rightarrow> grpc_status + (grpc_status + pb_stream_result) list) \<Rightarrow> string \<Rightarrow> (string \<times> int) list
     \<Rightarrow> (client_error, (client_error + pb_stream_result) list) res" where
  "bidi_streaming_tokenization_task_predict stub model_id requests =
     res_bind (chunker_request_with_headers model_id) (\<lambda>md. of_call (grpc_stream stub requests md))"

section \<open>The NLP service\<close>

text \<open>
  The calls are repeated by their caller; the metadata do not depend on the attempt, so that a call is, once its metadata
  are built, a function of the number of the attempt, which the stub gets first.
\<close>

definition nlp_tokenization_task_predict ::
  "(nat \<Rightarrow> 'q \<Rightarrow> headers \<Rightarrow> grpc_status + 'a) \<Rightarrow> string \<Rightarrow> 'q \<Rightarrow> headers \<Rightarrow> (client_error, nat \<Rightarrow> client_error + 'a) res" where
  "nlp_tokenization_task_predict stub model_id request hs =
     res_map (\<lambda>md attempt. grpc_unary (stub attempt) request md) (nlp_request_with_headers model_id hs)"

definition nlp_token_classification_task_predict ::
  "(nat \<Rightarrow> 'q \<Rightarrow> headers \<Rightarrow> grpc_status + 'a) \<Rightarrow> string \<Rightarrow> 'q \<Rightarrow> headers \<Rightarrow> (client_error, nat \<Rightarrow> client_error + 'a) res" where
  "nlp_token_classification_task_predict stub model_id request hs =
     res_map (\<lambda>md attempt. grpc_unary (stub attempt) request md) (nlp_request_with_headers model_id hs)"

definition nlp_text_generation_task_predict ::
  "(nat \<Rightarrow> 'q \<Rightarrow> headers \<Rightarrow> grpc_status + 'a) \<Rightarrow> string \<Rightarrow> 'q \<Rightarrow> headers \<Rightarrow> (client_error, nat \<Rightarrow> client_error + 'a) res" where
  "nlp_text_generation_task_predict stub model_id request hs =
     res_map (\<lambda>md attempt. grpc_unary (stub attempt) request md) (nlp_request_with_headers model_id hs)"

definition server_streaming_text_generation_task_predict ::
  "(nat \<Rightarrow> 'q \<Rightarrow> headers \<Rightarrow> grpc_status + (grpc_status + 'a) list) \<Rightarrow> string \<Rightarrow> 'q \<Rightarrow> headers
     \<Rightarrow> (client_error, nat \<Rightarrow> client_error + (client_error + 'a) list) res" where
  "server_streaming_text_generation_task_predict stub model_id request hs =
     res_map (\<lambda>md attempt. grpc_stream (stub attempt) request md) (nlp_request_with_headers model_id hs)"

section \<open>TGIS\<close>

definition tgis_generate :: "('q \<Rightarrow> headers \<Rightarrow> grpc_status + 'a) \<Rightarrow> 'q \<Rightarrow> headers \<Rightarrow> client_error + 'a" where
  "tgis_generate stub request hs = grpc_unary stub request hs"

definition tgis_generate_stream ::
  "('q \<Rightarrow> headers \<Rightarrow> grpc_status + (grpc_status + 'a) list) \<Rightarrow> 'q \<Rightarrow> headers \<Rightarrow> client_error + (client_error + 'a) list" where
  "tgis_generate_stream stub request hs = grpc_stream stub request hs"

definition tgis_tokenize :: "('q \<Rightarrow> headers \<Rightarrow> grpc_status + 'a) \<Rightarrow> 'q \<Rightarrow> headers \<Rightarrow> client_error + 'a" where
  "tgis_tokenize stub request hs = grpc_unary stub request hs"

definition tgis_model_info :: "('q \<Rightarrow> headers \<Rightarrow> grpc_status + 'a) \<Rightarrow> 'q \<Rightarrow> client_error + 'a" where
  "tgis_model_info stub request = grpc_unary stub request []"

section \<open>Lemmas\<close>

lemma nlp_request_with_headers_names [simp]:
  "nlp_request_with_headers model_id hs = Ok md \<longleftrightarrow> header_value_ok model_id \<and> md = headers_insert MODEL_ID_HEADER_NAME model_id hs"
  "nlp_request_with_headers model_id hs = Panic \<longleftrightarrow> \<not> header_value_ok model_id"
  "nlp_request_with_headers model_id hs \<noteq> Err e"
  by (auto simp: nlp_request_with_headers_def)

text \<open>Of the errors of a gRPC service only an unavailable service is retried: no other status is reported as one of the retried codes.\<close>

lemma grpc_retried_iff:
  "client_status_code (client_error_of_status status) \<in> set allowed_retry_codes \<longleftrightarrow> fst status = GUnavailable"
  by (cases "fst status") (auto simp: client_error_of_status_def allowed_retry_codes_def)

end
