(* ===== verification/Generation_Client.thy ===== *)
theory Generation_Client
  imports Grpc_Clients
begin

text \<open>
  The client of the text generation services (\<^verbatim>\<open>src/clients/generation.rs\<close>): the requests of the two providers, TGIS and the caikit
  NLP service, and the conversion of their answers (\<^verbatim>\<open>src/models.rs\<close>). The message types follow the protocol definitions
  in \<^verbatim>\<open>protos/\<close>; the calls themselves are arguments.
\<close>

section \<open>Messages\<close>

record pb_token_info =
  ti_text :: string
  ti_logprob :: f64
  ti_rank :: u32

record pb_generation_response =
  gre_input_token_count :: u32
  gre_generated_token_count :: u32
  gre_text :: string
  gre_stop_reason :: int
  gre_seed :: nat
  gre_tokens :: "pb_token_info list"
  gre_input_tokens :: "pb_token_info list"

record nlp_token =
  nt_text :: string
  nt_logprob :: f64
  nt_rank :: int

record nlp_text_result =
  ntr_generated_text :: string
  ntr_generated_tokens :: int
  ntr_finish_reason :: int
  ntr_input_token_count :: int
  ntr_seed :: nat
  ntr_tokens :: "nlp_token list"
  ntr_input_tokens :: "nlp_token list"

record nlp_stream_details =
  nsd_finish_reason :: int
  nsd_generated_tokens :: u32
  nsd_seed :: nat
  nsd_input_token_count :: int

record nlp_stream_result =
  nsr_generated_text :: string
  nsr_tokens :: "nlp_token list"
  nsr_details :: "nlp_stream_details option"
  nsr_input_tokens :: "nlp_token list"

section \<open>Conversion of answers\<close>

text \<open>
  The enumerations \<^verbatim>\<open>StopReason\<close> and \<^verbatim>\<open>FinishReason\<close> have the same numbers; an unknown number reads as the default.
\<close>

definition finish_reason_of :: "int \<Rightarrow> finish_reason" where
  "finish_reason_of n =
     (if n = 1 then MaxTokens else if n = 2 then EosToken else if n = 3 then FCancelled else if n = 4 then TimeLimit
      else if n = 5 then StopSequence else if n = 6 then TokenLimit else if n = 7 then FError else NotFinished)"

definition i64_as_u32 :: "int \<Rightarrow> u32" where
  "i64_as_u32 i = word_of_int i"

definition generated_token_of_tgis :: "pb_token_info \<Rightarrow> generated_token" where
  "generated_token_of_tgis t = \<lparr>gt_text = ti_text t, gt_logprob = Some (ti_logprob t), gt_rank = Some (ti_rank t)\<rparr>"

definition generated_token_of_nlp :: "nlp_token \<Rightarrow> generated_token" where
  "generated_token_of_nlp t =
     \<lparr>gt_text = nt_text t, gt_logprob = Some (nt_logprob t), gt_rank = Some (i64_as_u32 (nt_rank t))\<rparr>"

definition no_results :: token_classification_results where
  "no_results = \<lparr>tr_input = None, tr_output = None\<rparr>"

definition stream_result_of_tgis :: "pb_generation_response \<Rightarrow> classified_generated_text_stream_result" where
  "stream_result_of_tgis v =
     \<lparr>cs_generated_text = Some (gre_text v), cs_token_classification_results = no_results,
      cs_finish_reason = Some (finish_reason_of (gre_stop_reason v)),
      cs_generated_token_count = Some (gre_generated_token_count v), cs_seed = Some (as_u32 (gre_seed v)),
      cs_input_token_count = gre_input_token_count v, cs_warnings = None,
      cs_tokens = then_some_map generated_token_of_tgis (gre_tokens v),
      cs_input_tokens = then_some_map generated_token_of_tgis (gre_input_tokens v),
      cs_processed_index = None, cs_start_index = Some 0\<rparr>"

text \<open>\<^verbatim>\<open>swap_remove(0)\<close> panics on an empty list.\<close>

definition result_of_tgis :: "pb_generation_response list \<Rightarrow> (client_error, classified_generated_text_result) res" where
  "result_of_tgis responses =
     (case responses of
        [] \<Rightarrow> Panic
      | v # _ \<Rightarrow> Ok \<lparr>cg_generated_text = Some (gre_text v), cg_token_classification_results = no_results,
          cg_finish_reason = Some (finish_reason_of (gre_stop_reason v)),
          cg_generated_token_count = Some (gre_generated_token_count v), cg_seed = Some (as_u32 (gre_seed v)),
          cg_input_token_count = gre_input_token_count v, cg_warnings = None,
          cg_tokens = then_some_map generated_token_of_tgis (gre_tokens v),
          cg_input_tokens = then_some_map generated_token_of_tgis (gre_input_tokens v)\<rparr>)"

definition stream_result_of_nlp :: "nlp_stream_result \<Rightarrow> classified_generated_text_stream_result" where
  "stream_result_of_nlp v =
     \<lparr>cs_generated_text = Some (nsr_generated_text v), cs_token_classification_results = no_results,
      cs_finish_reason = map_option (\<lambda>d. finish_reason_of (nsd_finish_reason d)) (nsr_details v),
      cs_generated_token_count = map_option nsd_generated_tokens (nsr_details v),
      cs_seed = map_option (\<lambda>d. as_u32 (nsd_seed d)) (nsr_details v),
      cs_input_token_count = unwrap_or 0 (map_option (\<lambda>d. i64_as_u32 (nsd_input_token_count d)) (nsr_details v)),
      cs_warnings = None,
      cs_tokens = then_some_map generated_token_of_nlp (nsr_tokens v),
      cs_input_tokens = then_some_map generated_token_of_nlp (nsr_input_tokens v),
      cs_processed_index = None, cs_start_index = None\<rparr>"

definition result_of_nlp :: "nlp_text_result \<Rightarrow> classified_generated_text_result" where
  "result_of_nlp v =
     \<lparr>cg_generated_text = Some (ntr_generated_text v), cg_token_classification_results = no_results,
      cg_finish_reason = Some (finish_reason_of (ntr_finish_reason v)),
      cg_generated_token_count = Some (i64_as_u32 (ntr_generated_tokens v)), cg_seed = Some (as_u32 (ntr_seed v)),
      cg_input_token_count = i64_as_u32 (ntr_input_token_count v), cg_warnings = None,
      cg_tokens = then_some_map generated_token_of_nlp (ntr_tokens v),
      cg_input_tokens = then_some_map generated_token_of_nlp (ntr_input_tokens v)\<rparr>"

section \<open>Requests\<close>

text \<open>
  \<open>to_f32\<close> rounds to single precision; the cast of a float to \<^verbatim>\<open>u32\<close> truncates and saturates; a \<^verbatim>\<open>u32\<close> widens to its value.
\<close>

definition f64_as_u32 :: "f64 \<Rightarrow> u32" where
  "f64_as_u32 x = (if x < 0 then 0 else if 2 ^ 32 - 1 \<le> x then - 1 else word_of_int \<lfloor>x\<rfloor>)"

record tgis_parameters =
  tp_method :: int
  tp_temperature :: f64
  tp_top_k :: u32
  tp_top_p :: f64
  tp_typical_p :: f64
  tp_seed :: "nat option"
  tp_max_new_tokens :: u32
  tp_min_new_tokens :: u32
  tp_time_limit_millis :: u32
  tp_stop_sequences :: "string list"
  tp_include_stop_sequence :: "bool option"
  tp_input_text :: bool
  tp_generated_tokens :: bool
  tp_input_tokens :: bool
  tp_token_logprobs :: bool
  tp_token_ranks :: bool
  tp_top_n_tokens :: u32
  tp_repetition_penalty :: f64
  tp_length_penalty :: "(u32 \<times> f64) option"
  tp_truncate_input_tokens :: u32

definition tgis_length_penalty :: "(f64 \<Rightarrow> f64) \<Rightarrow> exponential_decay_length_penalty \<Rightarrow> u32 \<times> f64" where
  "tgis_length_penalty to_f32 v = (unwrap_or 0 (ed_start_index v), to_f32 (unwrap_or 0 (ed_decay_factor v)))"

definition decoding_method_of :: "string \<Rightarrow> int" where
  "decoding_method_of s = (if s = ''SAMPLE'' then 1 else 0)"

definition tgis_parameters_of :: "(f64 \<Rightarrow> f64) \<Rightarrow> text_generation_parameters \<Rightarrow> tgis_parameters" where
  "tgis_parameters_of to_f32 v =
     \<lparr>tp_method = decoding_method_of (unwrap_or ''GREEDY'' (tg_decoding_method v)),
      tp_temperature = to_f32 (unwrap_or 0 (tg_temperature v)), tp_top_k = unwrap_or 0 (tg_top_k v),
      tp_top_p = to_f32 (unwrap_or 0 (tg_top_p v)), tp_typical_p = to_f32 (unwrap_or 0 (tg_typical_p v)),
      tp_seed = map_option unat (tg_seed v),
      tp_max_new_tokens = unwrap_or 0 (tg_max_new_tokens v), tp_min_new_tokens = unwrap_or 0 (tg_min_new_tokens v),
      tp_time_limit_millis = f64_as_u32 (unwrap_or 0 (tg_max_time v)),
      tp_stop_sequences = unwrap_or [] (tg_stop_sequences v), tp_include_stop_sequence = tg_include_stop_sequence v,
      tp_input_text = unwrap_or False (tg_preserve_input_text v), tp_generated_tokens = unwrap_or False (tg_generated_tokens v),
      tp_input_tokens = unwrap_or False (tg_input_tokens v), tp_token_logprobs = unwrap_or False (tg_token_logprobs v),
      tp_token_ranks = unwrap_or False (tg_token_ranks v), tp_top_n_tokens = 0,
      tp_repetition_penalty = to_f32 (unwrap_or 0 (tg_repetition_penalty v)),
      tp_length_penalty = map_option (tgis_length_penalty to_f32) (tg_exponential_decay_length_penalty v),
      tp_truncate_input_tokens = unwrap_or 0 (tg_truncate_input_tokens v)\<rparr>"

text \<open>The request to the NLP service; the unary and the streaming request have the same fields.\<close>

record nlp_request =
  nq_text :: string
  nq_max_new_tokens :: "int option"
  nq_min_new_tokens :: "int option"
  nq_truncate_input_tokens :: "int option"
  nq_decoding_method :: "string option"
  nq_top_k :: "int option"
  nq_top_p :: "f64 option"
  nq_typical_p :: "f64 option"
  nq_temperature :: "f64 option"
  nq_repetition_penalty :: "f64 option"
  nq_max_time :: "f64 option"
  nq_length_penalty :: "(int \<times> f64) option"
  nq_stop_sequences :: "string list"
  nq_seed :: "nat option"
  nq_preserve_input_text :: "bool option"
  nq_input_tokens :: "bool option"
  nq_generated_tokens :: "bool option"
  nq_token_logprobs :: "bool option"
  nq_token_ranks :: "bool option"
  nq_include_stop_sequence :: "bool option"

definition nlp_length_penalty :: "exponential_decay_length_penalty \<Rightarrow> int \<times> f64" where
  "nlp_length_penalty v = (unwrap_or 0 (map_option uint (ed_start_index v)), unwrap_or 0 (ed_decay_factor v))"

definition nlp_request_default :: "string \<Rightarrow> nlp_request" where
  "nlp_request_default text =
     \<lparr>nq_text = text, nq_max_new_tokens = None, nq_min_new_tokens = None, nq_truncate_input_tokens = None,
      nq_decoding_method = None, nq_top_k = None, nq_top_p = None, nq_typical_p = None, nq_temperature = None,
      nq_repetition_penalty = None, nq_max_time = None, nq_length_penalty = None, nq_stop_sequences = [], nq_seed = None,
      nq_preserve_input_text = None, nq_input_tokens = None, nq_generated_tokens = None, nq_token_logprobs = None,
      nq_token_ranks = None, nq_include_stop_sequence = None\<rparr>"

definition nlp_request_of :: "string \<Rightarrow> text_generation_parameters option \<Rightarrow> nlp_request" where
  "nlp_request_of text params =
     (case params of
        Some p \<Rightarrow>
          \<lparr>nq_text = text, nq_max_new_tokens = map_option uint (tg_max_new_tokens p),
           nq_min_new_tokens = map_option uint (tg_min_new_tokens p),
           nq_truncate_input_tokens = map_option uint (tg_truncate_input_tokens p),
           nq_decoding_method = tg_decoding_method p, nq_top_k = map_option uint (tg_top_k p), nq_top_p = tg_top_p p,
           nq_typical_p = tg_typical_p p, nq_temperature = tg_temperature p, nq_repetition_penalty = tg_repetition_penalty p,
           nq_max_time = tg_max_time p, nq_length_penalty = map_option nlp_length_penalty (tg_exponential_decay_length_penalty p),
           nq_stop_sequences = unwrap_or [] (tg_stop_sequences p), nq_seed = map_option unat (tg_seed p),
           nq_preserve_input_text = tg_preserve_input_text p, nq_input_tokens = tg_input_tokens p,
           nq_generated_tokens = tg_generated_tokens p, nq_token_logprobs = tg_token_logprobs p,
           nq_token_ranks = tg_token_ranks p, nq_include_stop_sequence = tg_include_stop_sequence p\<rparr>
      | None \<Rightarrow> nlp_request_default text)"

section \<open>The client\<close>

text \<open>
  The requests to TGIS, and the stubs of both services; those of the NLP service get the number of the attempt.
\<close>

record tgis_request =
  tq_model_id :: string
  tq_requests :: "string list"
  tq_params :: "tgis_parameters option"

record generation_stubs =
  gn_tgis_tokenize :: "tgis_request \<Rightarrow> headers \<Rightarrow> grpc_status + (u32 \<times> string list) list"
  gn_tgis_generate :: "tgis_request \<Rightarrow> headers \<Rightarrow> grpc_status + pb_generation_response list"
  gn_tgis_stream :: "tgis_request \<Rightarrow> headers \<Rightarrow> grpc_status + (grpc_status + pb_generation_response) list"
  gn_nlp_tokenize :: "nat \<Rightarrow> string \<Rightarrow> headers \<Rightarrow> grpc_status + (string list \<times> int)"
  gn_nlp_generate :: "nat \<Rightarrow> nlp_request \<Rightarrow> headers \<Rightarrow> grpc_status + nlp_text_result"
  gn_nlp_stream :: "nat \<Rightarrow> nlp_request \<Rightarrow> headers \<Rightarrow> grpc_status + (grpc_status + nlp_stream_result) list"

datatype generation_client = GenerationTgis nat | GenerationNlp nat | GenerationNotConfigured

definition tgis_request_of ::
  "(f64 \<Rightarrow> f64) \<Rightarrow> string \<Rightarrow> string \<Rightarrow> text_generation_parameters option \<Rightarrow> tgis_request" where
  "tgis_request_of to_f32 model_id text params =
     \<lparr>tq_model_id = model_id, tq_requests = [text], tq_params = map_option (tgis_parameters_of to_f32) params\<rparr>"

definition retried :: "nat \<Rightarrow> (client_error, nat \<Rightarrow> client_error + 'a) res \<Rightarrow> (client_error, 'a) res" where
  "retried retries call = res_bind call (\<lambda>f. of_call (fst (retry_function retries f)))"

fun generation_tokenize ::
  "generation_stubs \<Rightarrow> generation_client \<Rightarrow> string \<Rightarrow> string \<Rightarrow> headers \<Rightarrow> (client_error, u32 \<times> string list) res" where
  "generation_tokenize net (GenerationTgis _) model_id text hs =
     res_bind (of_call (tgis_tokenize (gn_tgis_tokenize net) \<lparr>tq_model_id = model_id, tq_requests = [text], tq_params = None\<rparr> hs))
       (\<lambda>responses. case responses of [] \<Rightarrow> Panic | r # _ \<Rightarrow> Ok r)"
| "generation_tokenize net (GenerationNlp retries) model_id text hs =
     res_map (\<lambda>(tokens, token_count). (i64_as_u32 token_count, tokens))
       (retried retries (nlp_tokenization_task_predict (gn_nlp_tokenize net) model_id text hs))"
| "generation_tokenize net GenerationNotConfigured model_id text hs = Err (ModelNotFound model_id)"

fun generation_generate ::
  "(f64 \<Rightarrow> f64) \<Rightarrow> generation_stubs \<Rightarrow> generation_client \<Rightarrow> string \<Rightarrow> string \<Rightarrow> text_generation_parameters option \<Rightarrow> headers
     \<Rightarrow> (client_error, classified_generated_text_result) res" where
  "generation_generate to_f32 net (GenerationTgis _) model_id text params hs =
     res_bind (of_call (tgis_generate (gn_tgis_generate net) (tgis_request_of to_f32 model_id text params) hs)) result_of_tgis"
| "generation_generate to_f32 net (GenerationNlp retries) model_id text params hs =
     res_map result_of_nlp
       (retried retries (nlp_text_generation_task_predict (gn_nlp_generate net) model_id (nlp_request_of text params) hs))"
| "generation_generate to_f32 net GenerationNotConfigured model_id text params hs = Err (ModelNotFound model_id)"

fun generation_generate_stream ::
  "(f64 \<Rightarrow> f64) \<Rightarrow> generation_stubs \<Rightarrow> generation_client \<Rightarrow> string \<Rightarrow> string \<Rightarrow> text_generation_parameters option \<Rightarrow> headers
     \<Rightarrow> (client_error, (client_error + classified_generated_text_stream_result) list) res" where
  "generation_generate_stream to_f32 net (GenerationTgis _) model_id text params hs =
     res_map (map (map_sum id stream_result_of_tgis))
       (of_call (tgis_generate_stream (gn_tgis_stream net) (tgis_request_of to_f32 model_id text params) hs))"
| "generation_generate_stream to_f32 net (GenerationNlp retries) model_id text params hs =
     res_map (map (map_sum id stream_result_of_nlp))
       (retried retries (server_streaming_text_generation_task_predict (gn_nlp_stream net) model_id (nlp_request_of text params) hs))"
| "generation_generate_stream to_f32 net GenerationNotConfigured model_id text params hs = Err (ModelNotFound model_id)"

section \<open>Properties\<close>

text \<open>A repeated call whose first attempts fail with a retryable error and whose next attempt does not has the outcome of that attempt.\<close>

lemma retry_function_outcome:
  assumes "k \<le> Suc retries" "0 < k" "\<forall>j. 0 < j \<and> j < k \<longrightarrow> retryable (f j)" "\<not> retryable (f k)"
  shows "fst (retry_function retries f) = f k"
proof -
  have "\<exists>n. 0 < n \<and> n \<le> Suc retries \<and> fst (retry_function retries f) = f n
     \<and> (\<forall>j. 0 < j \<and> j < n \<longrightarrow> retryable (f j)) \<and> (n \<le> retries \<longrightarrow> \<not> retryable (f n))"
    unfolding retry_function_def using retry_loop_correct [of 0 retries f "[]"] by auto
  then obtain n where n: "0 < n" "n \<le> Suc retries" "fst (retry_function retries f) = f n"
    "\<forall>j. 0 < j \<and> j < n \<longrightarrow> retryable (f j)" "n \<le> retries \<longrightarrow> \<not> retryable (f n)" by blast
  have "\<not> k < n" using n(4) assms(2,4) by auto
  moreover have "\<not> n < k"
  proof
    assume "n < k"
    then have "retryable (f n)" using assms(3) n(1) by simp
    with n(5) \<open>n < k\<close> assms(1) show False by simp
  qed
  ultimately show ?thesis using n(3) by simp
qed

text \<open>
  While the NLP service is unavailable it is called again, up to \<open>retries + 1\<close> times, with the name of the model in the metadata in place of
  any that the client sent; the answer is the conversion of the first one that comes, or any other error at once.
\<close>

theorem nlp_generate_retries:
  assumes "header_value_ok model_id" "k \<le> Suc retries" "0 < k"
    and "md = headers_insert MODEL_ID_HEADER_NAME model_id hs" "request = nlp_request_of text params"
    and "\<forall>j. 0 < j \<and> j < k \<longrightarrow> (\<exists>m. gn_nlp_generate net j request md = Inl (GUnavailable, m))"
  shows "(\<forall>r. gn_nlp_generate net k request md = Inr r \<longrightarrow>
       generation_generate to_f32 net (GenerationNlp retries) model_id text params hs = Ok (result_of_nlp r))
     \<and> (\<forall>c m. gn_nlp_generate net k request md = Inl (c, m) \<and> c \<noteq> GUnavailable \<longrightarrow>
       generation_generate to_f32 net (GenerationNlp retries) model_id text params hs = Err (Grpc (grpc_to_http_code c) m))"
proof -
  let ?f = "\<lambda>attempt. grpc_unary (gn_nlp_generate net attempt) request md"
  have r: "retryable (?f j) \<longleftrightarrow> (\<exists>m. gn_nlp_generate net j request md = Inl (GUnavailable, m))" for j
    using grpc_retried_iff by (cases "gn_nlp_generate net j request md") (auto simp: grpc_unary_def retryable_def)
  have out: "fst (retry_function retries ?f) = ?f k" if "\<nexists>m. gn_nlp_generate net k request md = Inl (GUnavailable, m)"
    using assms(2,3,6) that by (intro retry_function_outcome) (simp_all only: r simp_thms)
  have "generation_generate to_f32 net (GenerationNlp retries) model_id text params hs =
     res_map result_of_nlp (of_call (fst (retry_function retries ?f)))"
    using assms(1,4,5) by (simp add: nlp_text_generation_task_predict_def nlp_request_with_headers_def retried_def)
  then have "generation_generate to_f32 net (GenerationNlp retries) model_id text params hs = res_map result_of_nlp (of_call (?f k))"
    if "\<nexists>m. gn_nlp_generate net k request md = Inl (GUnavailable, m)"
    using out [OF that] by (simp only:)
  then show ?thesis by (simp add: grpc_unary_def client_error_of_status_def del: generation_generate.simps)
qed

text \<open>A model name that is no header value, which a request may have, makes the NLP client panic instead of reporting an error.\<close>

theorem nlp_model_name_panics:
  assumes "\<not> header_value_ok model_id"
  shows "generation_generate to_f32 net (GenerationNlp retries) model_id text params hs = Panic
     \<and> generation_tokenize net (GenerationNlp retries) model_id text hs = Panic
     \<and> generation_generate_stream to_f32 net (GenerationNlp retries) model_id text params hs = Panic"
  using assms by (simp add: retried_def nlp_request_with_headers_def nlp_text_generation_task_predict_def
      nlp_tokenization_task_predict_def server_streaming_text_generation_task_predict_def)

text \<open>The TGIS service is called once, whatever number of retries is configured.\<close>

lemma tgis_not_retried:
  "generation_generate to_f32 net (GenerationTgis retries) model_id text params hs =
   generation_generate to_f32 net (GenerationTgis 0) model_id text params hs"
  by simp

text \<open>Casts of counts are exact in range; a negative count of the NLP service wraps around.\<close>

lemma i64_as_u32_exact: "0 \<le> i \<Longrightarrow> i < 2 ^ 32 \<Longrightarrow> uint (i64_as_u32 i) = i"
  by (simp add: i64_as_u32_def uint_word_of_int)

lemma i64_as_u32_wraps: "uint (i64_as_u32 i) = i mod 2 ^ 32"
  by (simp add: i64_as_u32_def uint_word_of_int)

text \<open>No generated answer carries an empty token list: an absent list is \<^verbatim>\<open>None\<close>.\<close>

lemma result_tokens_not_empty:
  "cg_tokens (result_of_nlp v) \<noteq> Some []" "cs_tokens (stream_result_of_nlp s) \<noteq> Some []"
  "cs_tokens (stream_result_of_tgis g) \<noteq> Some []"
  by (simp_all add: result_of_nlp_def stream_result_of_nlp_def stream_result_of_tgis_def then_some_map_def)

end
