(* ===== verification/Service_Clients.thy ===== *)
theory Service_Clients
  imports Server Detector_Client Generation_Client
begin

text \<open>
  The whole program: the services of the handlers are the answers of the clients, which send their requests over the network. What
  the clients do not panic on, and which headers of a request reach the network.
\<close>

section \<open>The services\<close>

text \<open>
  What the clients are made of: the network, the stubs of the gRPC services, serializers and deserializers, and the clients.
\<close>

record service_env =
  se_net :: network
  se_uuid :: "string \<Rightarrow> json \<Rightarrow> string"
  se_encode :: "json \<Rightarrow> string"
  se_detectors :: "string \<Rightarrow> detector_client"
  se_message_json :: "message \<Rightarrow> json"
  se_tool_json :: "tool \<Rightarrow> json"
  se_contents_parser :: "content_analysis_response list list parser"
  se_results_parser :: "detection_result list parser"
  se_detector_error_parser :: "detector_error parser"
  se_openai :: openai_client
  se_chat_wire :: "(chat_completions_request, chat_completion, chat_completion_chunk) wire"
  se_completion_wire :: "(completions_request, completion, completion) wire"
  se_tokenize_wire :: "(tokenize_request, tokenize_response, unit) wire"
  se_chunker_stub :: "string \<Rightarrow> string \<Rightarrow> headers \<Rightarrow> grpc_status + pb_token list"
  se_bidi_stub :: "string \<Rightarrow> bool \<Rightarrow> (string \<times> int) list \<Rightarrow> headers \<Rightarrow> grpc_status + (grpc_status + pb_stream_result) list"
  se_generation :: generation_client
  se_generation_stubs :: generation_stubs
  se_to_f32 :: "f64 \<Rightarrow> f64"

text \<open>The answer of a client as the handlers see it.\<close>

fun answer_of :: "(client_error, 'a) res \<Rightarrow> client_error + 'a" where
  "answer_of (Ok x) = Inr x"
| "answer_of (Err e) = Inl e"
| "answer_of Panic = Inl (Http 500 ''panic'')"

lemma of_answer: "r \<noteq> Panic \<Longrightarrow> of_sum id (answer_of r) = r"
  by (cases r) auto

text \<open>The four requests to a detector.\<close>

definition contents_answer ::
  "service_env \<Rightarrow> string \<Rightarrow> string list \<Rightarrow> detector_params \<Rightarrow> headers \<Rightarrow> (client_error, content_analysis_response list list) res" where
  "contents_answer env i contents params hs = (let body = content_analysis_json (content_analysis_request_new contents params) in
     detector_text_contents (se_net env) (se_encode env) (se_uuid env i body) (se_contents_parser env) (se_detector_error_parser env)
       (se_detectors env i) i body hs)"

definition generated_answer ::
  "service_env \<Rightarrow> string \<Rightarrow> string \<Rightarrow> string \<Rightarrow> detector_params \<Rightarrow> headers \<Rightarrow> (client_error, detection_result list) res" where
  "generated_answer env i prompt text params hs = (let body = generation_detection_json (generation_detection_request_new prompt text params) in
     detector_text_generation (se_net env) (se_encode env) (se_uuid env i body) (se_results_parser env) (se_detector_error_parser env)
       (se_detectors env i) i body hs)"

definition chat_answer ::
  "service_env \<Rightarrow> string \<Rightarrow> message list \<Rightarrow> tool list \<Rightarrow> detector_params \<Rightarrow> headers \<Rightarrow> (client_error, detection_result list) res" where
  "chat_answer env i messages tools params hs = (let body = detector_chat_json (se_message_json env) (se_tool_json env) (detector_chat_request_new messages tools params) in
     detector_text_chat (se_net env) (se_encode env) (se_uuid env i body) (se_results_parser env) (se_detector_error_parser env)
       (se_detectors env i) i body hs)"

definition context_answer ::
  "service_env \<Rightarrow> string \<Rightarrow> string \<Rightarrow> context_type \<Rightarrow> string list \<Rightarrow> detector_params \<Rightarrow> headers
     \<Rightarrow> (client_error, detection_result list) res" where
  "context_answer env i content ctype docs params hs = (let body = detector_context_json (detector_context_request_new content ctype docs params) in
     detector_text_context_doc (se_net env) (se_encode env) (se_uuid env i body) (se_results_parser env) (se_detector_error_parser env)
       (se_detectors env i) i body hs)"

text \<open>Streams are read to their end.\<close>

definition services_of :: "service_env \<Rightarrow> services" where
  "services_of env =
     \<lparr>sv_tokenization_task = (\<lambda>i text. answer_of (tokenization_task_predict (se_chunker_stub env i) i text)),
      sv_text_contents = (\<lambda>i contents params hs. answer_of (contents_answer env i contents params hs)),
      sv_text_generation = (\<lambda>i prompt text params hs. answer_of (generated_answer env i prompt text params hs)),
      sv_text_chat = (\<lambda>i messages tools params hs. answer_of (chat_answer env i messages tools params hs)),
      sv_text_context_doc = (\<lambda>i content ctype docs params hs. answer_of (context_answer env i content ctype docs params hs)),
      sv_chat_completions = (\<lambda>request hs. answer_of (chat_completions (se_net env) (se_chat_wire env) (\<lambda>ms. JArray (map (se_message_json env) ms)) None
        (se_uuid env ''openai'' (w_body (se_chat_wire env) request)) (se_openai env) request hs)),
      sv_completions = (\<lambda>request hs. answer_of (completions (se_net env) (se_completion_wire env) None
        (se_uuid env ''openai'' (w_body (se_completion_wire env) request)) (se_openai env) request hs)),
      sv_openai_tokenize = (\<lambda>request hs. answer_of (openai_tokenize (se_net env) (se_tokenize_wire env)
        (se_uuid env ''openai'' (w_body (se_tokenize_wire env) request)) (se_openai env) request hs)),
      sv_tokenize = (\<lambda>model_id text hs. answer_of (generation_tokenize (se_generation_stubs env) (se_generation env) model_id text hs)),
      sv_generate = (\<lambda>model_id text params hs.
        answer_of (generation_generate (se_to_f32 env) (se_generation_stubs env) (se_generation env) model_id text params hs)),
      sv_generate_stream = (\<lambda>model_id text params hs.
        answer_of (generation_generate_stream (se_to_f32 env) (se_generation_stubs env) (se_generation env) model_id text params hs)),
      sv_bidi_tokenization = (\<lambda>i requests broken.
        answer_of (bidi_streaming_tokenization_task_predict (se_bidi_stub env i broken) i requests))\<rparr>"

section \<open>Panics\<close>

lemma of_call_not_Panic: "of_call c \<noteq> Panic"
  by (cases c) auto

lemma http_post_not_Panic: "http_post net client u hs body \<noteq> Panic"
  by (auto simp: http_post_def http_send_def inject_api_token_def res_bind_Panic_iff split: option.splits sum.splits if_splits)

lemma response_json_not_Panic: "response_json parse r \<noteq> Panic"
  by (simp add: response_json_def split: sum.splits)

lemma ok_or_not_Panic: "ok_or e x \<noteq> Panic"
  by (cases x) auto

lemma put_header_not_Panic: "put_header n v m hs \<noteq> Panic"
  by (simp add: put_header_def)

lemma transaction_not_Panic: "transaction uuid hs \<noteq> Panic"
  by (simp add: transaction_def put_header_not_Panic split: option.splits)

lemmas no_panic = res_bind_Panic_iff of_call_not_Panic http_post_not_Panic response_json_not_Panic ok_or_not_Panic
  put_header_not_Panic transaction_not_Panic

lemma build_router_headers_not_Panic: "build_router_headers config client uuid model meth hs \<noteq> Panic"
  by (simp add: build_router_headers_def no_panic split: prod.splits)

text \<open>The model's client never panics; a detector's panics on ids that are no header values and on error codes out of range.\<close>

lemma handle_not_Panic:
  "handle_unary_with_body net p pe client u body hs \<noteq> Panic"
  "handle_stream_with_body net w limit client u body hs \<noteq> Panic"
  "handle_unary net w oc u request hs \<noteq> Panic"
  "handle_streaming net w limit oc u request hs \<noteq> Panic"
  by (simp_all add: handle_unary_with_body_def handle_stream_with_body_def handle_unary_def handle_streaming_def no_panic)

lemma route_via_router_not_Panic: "route_via_router net w limit uuid client model body path stream hs \<noteq> Panic"
  by (auto simp: route_via_router_def no_panic build_router_headers_not_Panic handle_not_Panic)

lemma openai_not_Panic:
  "chat_completions net w mj limit uuid client request hs \<noteq> Panic"
  "completions net w' limit uuid client request' hs \<noteq> Panic"
  "openai_tokenize net w'' uuid client request'' hs \<noteq> Panic"
  by (auto simp: chat_completions_def chat_completions_via_router_def completions_def completions_via_router_def openai_tokenize_def
      tokenize_via_router_def Let_def no_panic route_via_router_not_Panic handle_not_Panic build_router_headers_not_Panic)

text \<open>What a detector may answer without making its client panic.\<close>

definition answers_ok :: "network \<Rightarrow> detector_error parser \<Rightarrow> bool" where
  "answers_ok net parse_error \<longleftrightarrow>
     (\<forall>u m hs body r. net u m hs body = Inr r \<longrightarrow> 100 \<le> rs_status r \<and> rs_status r \<le> 999)
     \<and> (\<forall>body e. parse_error body = Inr e \<longrightarrow> 100 \<le> dte_code e \<and> dte_code e \<le> 999)"

lemma http_post_status:
  assumes "http_post net client u hs body = Ok r" "answers_ok net parse_error"
  shows "100 \<le> rs_status r \<and> rs_status r \<le> 999"
proof -
  obtain hs' where "(case net u ''POST'' hs' body of Inl e \<Rightarrow> Err (Http 408 (''client request timeout: '' @ e)) | Inr response \<Rightarrow> Ok response) = Ok r"
    using assms(1) unfolding http_post_def http_send_def res_bind_Ok_iff by blast
  then have "net u ''POST'' hs' body = Inr r" by (cases "net u ''POST'' hs' body") simp_all
  with assms(2) show ?thesis by (auto simp: answers_ok_def)
qed

lemma detector_answer_not_Panic:
  assumes "answers_ok net parse_error" "100 \<le> rs_status r" "rs_status r \<le> 999"
  shows "detector_answer parse parse_error m r \<noteq> Panic"
proof (cases "parse_error (rs_body r)")
  case (Inl x)
  then show ?thesis using assms(2,3)
    by (simp add: detector_answer_def client_error_of_detector_error_def status_code_from_u16_def no_panic)
next
  case (Inr e)
  then have "100 \<le> dte_code e" "dte_code e \<le> 999" using assms(1) by (auto simp: answers_ok_def)
  with Inr show ?thesis
    by (simp add: detector_answer_def client_error_of_detector_error_def status_code_from_u16_def no_panic)
qed

lemma posted_not_Panic:
  "answers_ok net parse_error \<Longrightarrow> http_post net client u hs body = Ok r \<Longrightarrow> detector_answer parse parse_error m r \<noteq> Panic"
  using http_post_status detector_answer_not_Panic by blast

lemma detector_post_not_Panic:
  assumes "answers_ok net parse_error" "header_value_ok i"
  shows "detector_post net encode uuid parse parse_error client i u hs body \<noteq> Panic"
  using assms(2)
  by (auto simp: detector_post_def post_via_router_def detector_router_headers_def Let_def no_panic build_router_headers_not_Panic dest: posted_not_Panic [OF assms(1)])

lemma detector_answers_not_Panic:
  assumes "answers_ok (se_net env) (se_detector_error_parser env)" "header_value_ok i"
  shows "contents_answer env i contents params hs \<noteq> Panic" "generated_answer env i prompt text params hs \<noteq> Panic"
    "chat_answer env i messages tools params hs \<noteq> Panic" "context_answer env i content ctype docs params hs \<noteq> Panic"
  by (simp_all add: contents_answer_def generated_answer_def chat_answer_def context_answer_def detector_text_contents_def
      detector_text_generation_def detector_text_chat_def detector_text_context_doc_def Let_def detector_post_not_Panic [OF assms])

lemma chunker_not_Panic:
  assumes "header_value_ok i"
  shows "tokenization_task_predict stub i text \<noteq> Panic" "bidi_streaming_tokenization_task_predict bstub i requests \<noteq> Panic"
  using assms
  by (simp_all add: tokenization_task_predict_def bidi_streaming_tokenization_task_predict_def chunker_request_with_headers_def no_panic)

text \<open>
  The generation client needs a model name that is a header value for the NLP service, and an answer to every text from TGIS.
\<close>

fun generation_ok :: "(f64 \<Rightarrow> f64) \<Rightarrow> generation_stubs \<Rightarrow> generation_client \<Rightarrow> string \<Rightarrow> bool" where
  "generation_ok to_f32 net (GenerationTgis _) model_id \<longleftrightarrow> (\<forall>request md. gn_tgis_generate net request md \<noteq> Inr [])"
| "generation_ok to_f32 net (GenerationNlp _) model_id \<longleftrightarrow> header_value_ok model_id"
| "generation_ok to_f32 net GenerationNotConfigured model_id \<longleftrightarrow> True"

lemma generation_not_Panic:
  assumes "generation_ok to_f32 net client model_id"
  shows "generation_generate to_f32 net client model_id text params hs \<noteq> Panic"
proof (cases client)
  case (GenerationTgis n)
  have "result_of_tgis r \<noteq> Panic" if "r \<noteq> []" for r using that by (cases r) (simp_all add: result_of_tgis_def)
  moreover have "of_call (tgis_generate (gn_tgis_generate net) request md) \<noteq> Ok []" for request md
    using assms GenerationTgis by (cases "gn_tgis_generate net request md") (auto simp: tgis_generate_def grpc_unary_def)
  ultimately show ?thesis using GenerationTgis by (simp add: no_panic) metis
next
  case (GenerationNlp n)
  then show ?thesis using assms
    by (simp add: retried_def nlp_text_generation_task_predict_def no_panic)
qed simp

section \<open>Headers\<close>

text \<open>Two networks that answer alike to all requests whose headers satisfy \<open>P\<close>.\<close>

definition agree :: "(string \<times> string \<Rightarrow> bool) \<Rightarrow> network \<Rightarrow> network \<Rightarrow> bool" where
  "agree P net net' \<longleftrightarrow> (\<forall>u m hs body. (\<forall>h \<in> set hs. P h) \<longrightarrow> net u m hs body = net' u m hs body)"

definition token_ok :: "(string \<times> string \<Rightarrow> bool) \<Rightarrow> http_client \<Rightarrow> bool" where
  "token_ok P client \<longleftrightarrow> (\<forall>token. hc_api_token client = Some token \<longrightarrow> P (''authorization'', ''Bearer '' @ token))"

lemma insert_keeps:
  "\<forall>h \<in> set hs. P h \<Longrightarrow> P (n, v) \<Longrightarrow> \<forall>h \<in> set (headers_insert n v hs). P h"
  "\<forall>h \<in> set hs. P h \<Longrightarrow> P (n, v) \<Longrightarrow> \<forall>h \<in> set (headers_append n v hs). P h"
  by (auto simp: headers_insert_set headers_append_def)

lemma http_post_agree:
  assumes "agree P net net'" "\<forall>h \<in> set hs. P h" "token_ok P client"
  shows "http_post net client u hs body = http_post net' client u hs body"
proof (cases "inject_api_token client hs")
  case (Ok hs')
  then have "\<forall>h \<in> set hs'. P h"
    using assms(2,3) by (auto simp: inject_api_token_def token_ok_def intro: insert_keeps(1) [rule_format] split: option.splits if_splits)
  with assms(1) Ok show ?thesis by (simp add: http_post_def http_send_def agree_def)
qed (simp_all add: http_post_def http_send_def)

lemma put_header_keeps: "put_header n v m hs = Ok hs' \<Longrightarrow> \<forall>h \<in> set hs. P h \<Longrightarrow> P (n, v) \<Longrightarrow> \<forall>h \<in> set hs'. P h"
  using insert_keeps(1) [of hs P n v] by (auto simp: put_header_def split: if_splits)

lemma transaction_keeps:
  assumes "transaction uuid hs = Ok (t, hs')" "\<forall>h \<in> set hs. P h" "P (''x-global-transaction-id'', uuid)"
  shows "\<forall>h \<in> set hs'. P h"
  using assms put_header_keeps [of "''x-global-transaction-id''" uuid _ hs hs' P]
  by (auto simp: transaction_def split: option.splits)

text \<open>The headers that a detector's client sets itself.\<close>

definition own_headers :: "detector_client \<Rightarrow> string \<Rightarrow> string \<Rightarrow> (string \<times> string) list" where
  "own_headers client i uuid =
     [(''detector-id'', i), (''content-type'', ''application/json''), (''x-model-name'', i),
      (''x-model-name'', unwrap_or (dcl_detector_id client) (dcl_model_id client)), (''x-method'', ''http_pass''),
      (''x-global-transaction-id'', uuid)]
     @ (case dcl_router_config client of
          None \<Rightarrow> [] | Some rc \<Rightarrow> [(''x-reply-type'', r_reply_type rc), (''x-sla-seconds'', show_nat (r_sla_seconds rc))])"

lemma build_router_headers_keeps:
  assumes "build_router_headers (dcl_router_config client) (dcl_router_client client) uuid
       (unwrap_or (dcl_detector_id client) (dcl_model_id client)) ''http_pass'' hs = Ok (t, rcl, hs')"
    and "\<forall>h \<in> set hs. P h" "\<forall>h \<in> set (own_headers client i uuid). P h"
  shows "dcl_router_client client = Some rcl \<and> (\<forall>h \<in> set hs'. P h)"
proof -
  from assms(1) obtain rc hs1 hs2 hs3 hs4 where r: "dcl_router_config client = Some rc" "dcl_router_client client = Some rcl"
    and h: "put_header ''x-model-name'' (unwrap_or (dcl_detector_id client) (dcl_model_id client))
         ''invalid model name for x-model-name header: '' hs = Ok hs1"
      "put_header ''x-reply-type'' (r_reply_type rc) ''failed to set x-reply-type header: '' hs1 = Ok hs2"
      "put_header ''x-sla-seconds'' (show_nat (r_sla_seconds rc)) ''failed to set x-sla-seconds header: '' hs2 = Ok hs3"
      "transaction uuid hs3 = Ok (t, hs4)"
      "put_header ''x-method'' ''http_pass'' ''failed to set x-method header: '' hs4 = Ok hs'"
    unfolding build_router_headers_def by (auto split: prod.splits)
  have own: "P (''x-model-name'', unwrap_or (dcl_detector_id client) (dcl_model_id client))" "P (''x-reply-type'', r_reply_type rc)"
    "P (''x-sla-seconds'', show_nat (r_sla_seconds rc))" "P (''x-global-transaction-id'', uuid)" "P (''x-method'', ''http_pass'')"
    using assms(3) r(1) by (simp_all add: own_headers_def)
  have "\<forall>h \<in> set hs3. P h"
    using put_header_keeps [OF h(3) put_header_keeps [OF h(2) put_header_keeps [OF h(1) assms(2)]]] own by blast
  then have "\<forall>h \<in> set hs'. P h"
    using put_header_keeps [OF h(5) transaction_keeps [OF h(4)]] own by blast
  with r(2) show ?thesis by blast
qed

lemma detector_post_agree:
  assumes "agree P net net'" "\<forall>h \<in> set hs. P h" "\<forall>h \<in> set (own_headers client i uuid). P h" "token_ok P (dcl_client client)"
    and "\<forall>rcl. dcl_router_client client = Some rcl \<longrightarrow> token_ok P rcl"
  shows "detector_post net encode uuid parse parse_error client i u hs body = detector_post net' encode uuid parse parse_error client i u hs body"
proof (cases "detector_uses_router client i")
  case True
  show ?thesis
  proof (cases "build_router_headers (dcl_router_config client) (dcl_router_client client) uuid
       (unwrap_or (dcl_detector_id client) (dcl_model_id client)) ''http_pass'' hs")
    case (Ok x)
    obtain t rcl hs' where x: "x = (t, rcl, hs')" by (cases x)
    from build_router_headers_keeps [OF Ok [unfolded x] assms(2,3)]
    have "dcl_router_client client = Some rcl" "\<forall>h \<in> set hs'. P h" by blast+
    then show ?thesis using True Ok x http_post_agree [OF assms(1), of hs' rcl] assms(5)
      by (simp add: detector_post_def post_via_router_def detector_router_headers_def)
  qed (simp_all add: detector_post_def post_via_router_def detector_router_headers_def True)
next
  case False
  have "\<forall>h \<in> set (headers_append ''x-model-name'' i (headers_append ''content-type'' ''application/json'' (headers_append ''detector-id'' i hs))). P h"
    using assms(2,3) by (intro insert_keeps) (simp_all add: own_headers_def)
  from http_post_agree [OF assms(1) this assms(4)] False show ?thesis by (simp add: detector_post_def Let_def)
qed

text \<open>
  The headers that may reach a detector in an answer to a request with headers \<open>hs\<close>: those of the request whose names are configured, the access
  token of the request where it is, the client's own, and the configured tokens.
\<close>

definition own_header :: "service_env \<Rightarrow> string \<times> string \<Rightarrow> bool" where
  "own_header env h \<longleftrightarrow>
     (\<exists>i body. h \<in> set (own_headers (se_detectors env i) i (se_uuid env i body)))
     \<or> (\<exists>i client token. (client = dcl_client (se_detectors env i) \<or> dcl_router_client (se_detectors env i) = Some client)
          \<and> hc_api_token client = Some token \<and> h = (''authorization'', ''Bearer '' @ token))"

definition sendable :: "service_env \<Rightarrow> orch_context \<Rightarrow> headers \<Rightarrow> string \<times> string \<Rightarrow> bool" where
  "sendable env ctx hs h \<longleftrightarrow>
     (h \<in> set hs \<and> to_lowercase (fst h) \<in> set (passthrough_headers (ctx_config ctx)))
     \<or> (\<exists>t. (''x-forwarded-access-token'', t) \<in> set hs \<and> ''x-forwarded-access-token'' \<in> set (passthrough_headers (ctx_config ctx))
          \<and> h = (''authorization'', ''Bearer '' @ t))
     \<or> own_header env h"

lemma passed_headers_sendable:
  assumes "\<forall>(n, v) \<in> set hs. header_value_ok v" "h \<in> set (passed_headers ctx hs)"
  shows "sendable env ctx hs h"
proof -
  obtain n v where h: "h = (n, v)" by (cases h)
  from passed_headers_configured [OF assms(2) [unfolded h passed_headers_def] assms(1)] show ?thesis
    by (auto simp: sendable_def h)
qed

lemma own_sendable:
  "\<forall>h \<in> set (own_headers (se_detectors env i) i (se_uuid env i body)). sendable env ctx hs h"
  "token_ok (sendable env ctx hs) (dcl_client (se_detectors env i))"
  "dcl_router_client (se_detectors env i) = Some client \<Longrightarrow> token_ok (sendable env ctx hs) client"
  by (auto simp: sendable_def own_header_def token_ok_def)

lemma detector_answers_agree:
  assumes "agree (sendable env ctx hs) net net'" "\<forall>h \<in> set gs. sendable env ctx hs h"
  shows "contents_answer (env\<lparr>se_net := net\<rparr>) i contents params gs = contents_answer (env\<lparr>se_net := net'\<rparr>) i contents params gs"
    and "generated_answer (env\<lparr>se_net := net\<rparr>) i prompt text params gs = generated_answer (env\<lparr>se_net := net'\<rparr>) i prompt text params gs"
    and "chat_answer (env\<lparr>se_net := net\<rparr>) i messages tools params gs = chat_answer (env\<lparr>se_net := net'\<rparr>) i messages tools params gs"
    and "context_answer (env\<lparr>se_net := net\<rparr>) i content ctype docs params gs = context_answer (env\<lparr>se_net := net'\<rparr>) i content ctype docs params gs"
  by (simp_all add: contents_answer_def generated_answer_def chat_answer_def context_answer_def detector_text_contents_def
      detector_text_generation_def detector_text_chat_def detector_text_context_doc_def Let_def
      detector_post_agree [OF assms own_sendable(1,2)] own_sendable(3))

text \<open>The tasks use the services with the headers they are given.\<close>

lemma contents_detections_cong:
  assumes "sv_tokenization_task sv = sv_tokenization_task sv'"
    and "\<And>i contents params. sv_text_contents sv i contents params hs = sv_text_contents sv' i contents params hs"
  shows "contents_detections sv ctx s hs ds inputs = contents_detections sv' ctx s hs ds inputs"
proof -
  have "chunk_request sv = chunk_request sv'" by (intro ext) (simp add: chunk_request_def assms(1))
  then have "chunk_input sv = chunk_input sv'" by (intro ext) (simp only: chunk_input_def)
  moreover have "detect_text_contents sv hs = detect_text_contents sv' hs" by (intro ext) (simp add: detect_text_contents_def assms(2))
  ultimately show ?thesis by (simp only: contents_detections_def text_contents_detections_def chunks_def)
qed

lemma result_detections_cong:
  "(\<And>i prompt text params. sv_text_generation sv i prompt text params hs = sv_text_generation sv' i prompt text params hs) \<Longrightarrow>
     text_generation_detections sv ctx ord hs ds p t = text_generation_detections sv' ctx ord hs ds p t"
  "(\<And>i messages tools params. sv_text_chat sv i messages tools params hs = sv_text_chat sv' i messages tools params hs) \<Longrightarrow>
     text_chat_detections sv ctx ord hs ds ms ts = text_chat_detections sv' ctx ord hs ds ms ts"
  "(\<And>i content ctype docs params. sv_text_context_doc sv i content ctype docs params hs = sv_text_context_doc sv' i content ctype docs params hs) \<Longrightarrow>
     text_context_detections sv ctx ord hs ds c ct dc = text_context_detections sv' ctx ord hs ds c ct dc"
  by (simp_all add: text_generation_detections_def detect_text_generation_def text_chat_detections_def detect_text_chat_def
      text_context_detections_def detect_text_context_def)

section \<open>An example\<close>

definition ex_http :: http_client where
  "ex_http = http_client_new \<lparr>url_scheme = ''http'', url_host = ''d'', url_port = None, url_path = []\<rparr> (Some ''t'')
     \<lparr>ho_tls = build_insecure_client_config, ho_connect_timeout = 60, ho_request_timeout = 600, ho_http2_keep_alive_interval = 30, ho_http2_keep_alive_timeout = 30\<rparr>"

definition ex_net :: network where
  "ex_net u m hs body = Inr \<lparr>rs_status = (if body = content_analysis_json (content_analysis_request_new [''busy''] []) then 503 else 200), rs_body = [], rs_events = []\<rparr>"

definition ex_wire :: "('u parser) \<Rightarrow> ('c parser) \<Rightarrow> ('r, 'u, 'c) wire" where
  "ex_wire parse chunk = \<lparr>w_body = (\<lambda>_. JNull), w_unary = parse, w_chunk = chunk, w_error = (\<lambda>_. Inl []), w_json = (\<lambda>_. Inl []),
     w_encode = (\<lambda>_. [])\<rparr>"

definition ex_service_env :: service_env where
  "ex_service_env = \<lparr>se_net = ex_net, se_uuid = (\<lambda>_ _. ''u''), se_encode = (\<lambda>_. []),
     se_detectors = (\<lambda>i. \<lparr>dcl_client = ex_http, dcl_health_client = None, dcl_router_client = None, dcl_router_config = None,
       dcl_detector_id = i, dcl_model_id = None\<rparr>),
     se_message_json = (\<lambda>_. JNull), se_tool_json = (\<lambda>_. JNull),
     se_contents_parser = (\<lambda>_. Inr [[ex_content]]), se_results_parser = (\<lambda>_. Inr [ex_result]),
     se_detector_error_parser = (\<lambda>_. Inr \<lparr>dte_code = 503, dte_message = ''busy''\<rparr>),
     se_openai = \<lparr>ocl_client = ex_http, ocl_health_client = None, ocl_router_client = None, ocl_router_config = None\<rparr>,
     se_chat_wire = ex_wire (\<lambda>_. Inl []) (\<lambda>_. Inl []),
     se_completion_wire = ex_wire (\<lambda>_. Inl []) (\<lambda>_. Inl []), se_tokenize_wire = ex_wire (\<lambda>_. Inl []) (\<lambda>_. Inl []),
     se_chunker_stub = (\<lambda>_ text _. Inr [\<lparr>tok_start = 0, tok_end = int (length text), tok_text = text\<rparr>]),
     se_bidi_stub = (\<lambda>_ _ _ _. Inr []),
     se_generation = GenerationNlp 2,
     se_generation_stubs = \<lparr>gn_tgis_tokenize = (\<lambda>_ _. Inr []), gn_tgis_generate = (\<lambda>_ _. Inr []), gn_tgis_stream = (\<lambda>_ _. Inr []),
       gn_nlp_tokenize = (\<lambda>_ _ _. Inr ([], 0)), gn_nlp_generate = (\<lambda>_ _ _. Inl (GNotFound, ''no model'')), gn_nlp_stream = (\<lambda>_ _ _. Inr [])\<rparr>,
     se_to_f32 = (\<lambda>x. x)\<rparr>"

section \<open>Properties\<close>



text \<open>
  C37. A header of a request reaches a detector only if its name is configured, or as the configured access token: whatever the network
  would answer to requests with other headers does not matter to the detection endpoints, because no such request is sent.
\<close>

theorem detectors_see_configured_headers:
  assumes "\<forall>(n, v) \<in> set hs. header_value_ok v" "agree (sendable env ctx hs) net net'"
  shows "detection_content (services_of (env\<lparr>se_net := net\<rparr>)) ctx s hs contents_request
       = detection_content (services_of (env\<lparr>se_net := net'\<rparr>)) ctx s hs contents_request
     \<and> detect_generated (services_of (env\<lparr>se_net := net\<rparr>)) ctx s hs generated_request
       = detect_generated (services_of (env\<lparr>se_net := net'\<rparr>)) ctx s hs generated_request
     \<and> detect_chat (services_of (env\<lparr>se_net := net\<rparr>)) ctx s hs chat_request
       = detect_chat (services_of (env\<lparr>se_net := net'\<rparr>)) ctx s hs chat_request
     \<and> detect_context_documents (services_of (env\<lparr>se_net := net\<rparr>)) ctx s hs docs_request
       = detect_context_documents (services_of (env\<lparr>se_net := net'\<rparr>)) ctx s hs docs_request"
proof -
  let ?sv = "services_of (env\<lparr>se_net := net\<rparr>)" and ?sv' = "services_of (env\<lparr>se_net := net'\<rparr>)" and ?hs = "passed_headers ctx hs"
  have ok: "\<forall>h \<in> set ?hs. sendable env ctx hs h" using passed_headers_sendable [OF assms(1)] by blast
  note eq = detector_answers_agree [OF assms(2) ok]
  have "contents_detections ?sv ctx s ?hs ds inputs = contents_detections ?sv' ctx s ?hs ds inputs" for ds inputs
    by (rule contents_detections_cong) (simp_all add: services_of_def eq)
  moreover have "text_generation_detections ?sv ctx ord ?hs ds p t = text_generation_detections ?sv' ctx ord ?hs ds p t" for ord ds p t
    by (rule result_detections_cong) (simp add: services_of_def eq)
  moreover have "text_chat_detections ?sv ctx ord ?hs ds ms ts = text_chat_detections ?sv' ctx ord ?hs ds ms ts" for ord ds ms ts
    by (rule result_detections_cong) (simp add: services_of_def eq)
  moreover have "text_context_detections ?sv ctx ord ?hs ds c ct dc = text_context_detections ?sv' ctx ord ?hs ds c ct dc" for ord ds c ct dc
    by (rule result_detections_cong) (simp add: services_of_def eq)
  ultimately show ?thesis
    by (simp add: detection_content_def detect_generated_def detect_chat_def detect_context_documents_def endpoint_def
        handle_text_content_detection_def handle_detection_on_generation_def handle_chat_detection_def handle_context_docs_detection_def)
qed

theorem detectors_see_configured_headers_witness:
  "detection_content (services_of (ex_service_env\<lparr>se_net := (\<lambda>u m hs body. if (''cookie'', ''c'') \<in> set hs then Inl ''leak'' else ex_net u m hs body)\<rparr>))
       ex_ctx ex_sched [(''cookie'', ''c'')] (Inr \<lparr>tcr_content = ''bad'', tcr_detectors = [(''d'', [])]\<rparr>)
     = detection_content (services_of (ex_service_env\<lparr>se_net := ex_net\<rparr>)) ex_ctx ex_sched [(''cookie'', ''c'')]
         (Inr \<lparr>tcr_content = ''bad'', tcr_detectors = [(''d'', [])]\<rparr>)"
proof -
  let ?net = "\<lambda>u m hs body. if (''cookie'', ''c'') \<in> set hs then Inl ''leak'' else ex_net u m hs body"
  have v: "\<forall>(n, v) \<in> set [(''cookie'', ''c'')]. header_value_ok v" by code_simp
  have "\<not> own_header ex_service_env (''cookie'', ''c'')" by (simp add: own_header_def own_headers_def ex_service_env_def)
  moreover have "passthrough_headers (ctx_config ex_ctx) = []" by (simp add: ex_ctx_def orchestrator_config_default_def)
  ultimately have "\<not> sendable ex_service_env ex_ctx [(''cookie'', ''c'')] (''cookie'', ''c'')" by (simp add: sendable_def)
  then have "agree (sendable ex_service_env ex_ctx [(''cookie'', ''c'')]) ?net ex_net" by (auto simp: agree_def)
  from detectors_see_configured_headers [OF v this] show ?thesis by blast
qed

end
