(* ===== verification/Client_Map.thy ===== *)
theory Client_Map
  imports Service_Clients
begin

text \<open>
  The map of clients (\<^verbatim>\<open>ClientMap\<close> of \<^verbatim>\<open>src/clients.rs\<close>), which holds clients of different types behind one trait, with the
  clients themselves. The handlers only see under which id there is a client of which type; \<open>client_tags\<close> is that view, and the map
  refines it. The health checks of \<^verbatim>\<open>src/orchestrator.rs\<close> use the clients of the map.
\<close>

section \<open>Interface\<close>

text \<open>A map with values of several types, and lookup at a type.\<close>

locale typed_map =
  fixes lookup :: "'t \<Rightarrow> 'm \<Rightarrow> 'k \<Rightarrow> 'v option"
    and store :: "'k \<Rightarrow> 'v \<Rightarrow> 'm \<Rightarrow> 'm"
    and discard :: "'k \<Rightarrow> 'm \<Rightarrow> 'm"
    and type_of :: "'v \<Rightarrow> 't"
  assumes lookup_store: "lookup t (store k v m) k' = (if k = k' then if type_of v = t then Some v else None else lookup t m k')"
    and lookup_discard: "lookup t (discard k m) k' = (if k = k' then None else lookup t m k')"
    and lookup_typed: "lookup t m k = Some v \<Longrightarrow> type_of v = t"
    and lookup_type: "lookup t m k \<noteq> None \<Longrightarrow> lookup t' m k \<noteq> None \<Longrightarrow> t = t'"
begin

lemma store_hides:
  "lookup t (store k v m) k \<noteq> None \<longleftrightarrow> type_of v = t"
  by (simp add: lookup_store)

lemma store_store: "lookup t (store k v (store k w m)) = lookup t (store k v m)"
  by (simp add: fun_eq_iff lookup_store)

lemma discard_store: "lookup t (discard k (store k v m)) = lookup t (discard k m)"
  by (simp add: fun_eq_iff lookup_store lookup_discard)

lemma store_commute: "k \<noteq> l \<Longrightarrow> lookup t (store k v (store l w m)) = lookup t (store l w (store k v m))"
  by (simp add: fun_eq_iff lookup_store)

end

section \<open>Clients behind the trait\<close>

datatype dyn_generation = DynTgis grpc_options nat | DynNlp "grpc_options \<times> grpc_options" nat

datatype dyn_client =
    DynChunker "grpc_options \<times> grpc_options"
  | DynDetector detector_client
  | DynGeneration dyn_generation
  | DynOpenAi openai_client

fun type_id :: "dyn_client \<Rightarrow> client" where
  "type_id (DynChunker _) = ChunkerClient"
| "type_id (DynDetector _) = DetectorClient"
| "type_id (DynGeneration _) = GenerationClient"
| "type_id (DynOpenAi _) = OpenAiClient"

definition dyn_is :: "client \<Rightarrow> dyn_client \<Rightarrow> bool" where
  "dyn_is v c \<longleftrightarrow> v = type_id c"

definition downcast :: "client \<Rightarrow> dyn_client \<Rightarrow> dyn_client + dyn_client" where
  "downcast v c = (if dyn_is v c then Inr c else Inl c)"

definition downcast_ref :: "client \<Rightarrow> dyn_client \<Rightarrow> dyn_client option" where
  "downcast_ref v c = (if dyn_is v c then Some c else None)"

section \<open>The map\<close>

type_synonym dyn_map = "(string, dyn_client) hashmap"

definition cm_new :: dyn_map where
  "cm_new = []"

definition cm_insert :: "string \<Rightarrow> dyn_client \<Rightarrow> dyn_map \<Rightarrow> dyn_map" where
  "cm_insert key v m = hm_insert key v m"

definition cm_get :: "client \<Rightarrow> dyn_map \<Rightarrow> string \<Rightarrow> dyn_client option" where
  "cm_get v m key = (case hm_get m key of Some c \<Rightarrow> downcast_ref v c | None \<Rightarrow> None)"

text \<open>A mutable reference is what its holder does with it: \<open>f\<close> is applied in place.\<close>

definition cm_get_mut :: "client \<Rightarrow> string \<Rightarrow> (dyn_client \<Rightarrow> dyn_client) \<Rightarrow> dyn_map \<Rightarrow> dyn_map option" where
  "cm_get_mut v key f m = map_option (\<lambda>c. hm_insert key (f c) m) (cm_get v m key)"

definition cm_remove :: "string \<Rightarrow> dyn_map \<Rightarrow> dyn_client option \<times> dyn_map" where
  "cm_remove key m = (hm_get m key, AList.delete key m)"

definition cm_keys :: "dyn_map \<Rightarrow> string list" where
  "cm_keys m = map fst m"

definition cm_values :: "dyn_map \<Rightarrow> dyn_client list" where
  "cm_values m = map snd m"

definition cm_len :: "dyn_map \<Rightarrow> nat" where
  "cm_len m = length m"

definition cm_is_empty :: "dyn_map \<Rightarrow> bool" where
  "cm_is_empty m \<longleftrightarrow> m = []"

section \<open>Creating the clients\<close>

definition dyn_generation_new :: "client_env \<Rightarrow> generation_config \<Rightarrow> (client_error, dyn_generation) res" where
  "dyn_generation_new env g =
     (let retries = unwrap_or 3 (s_max_retries (g_service g)) in
      case g_provider g of
        Tgis \<Rightarrow> res_map (\<lambda>c. DynTgis c retries) (tgis_client_new env (g_service g))
      | Nlp \<Rightarrow> res_map (\<lambda>c. DynNlp c retries) (nlp_client_new env (g_service g)))"

fun dyn_insert_clients :: "('c \<Rightarrow> (client_error, dyn_client) res) \<Rightarrow> (string \<times> 'c) list \<Rightarrow> dyn_map \<Rightarrow> (client_error, dyn_map) res" where
  "dyn_insert_clients new [] m = Ok m"
| "dyn_insert_clients new ((i, c) # entries) m = res_bind (new c) (\<lambda>d. dyn_insert_clients new entries (cm_insert i d m))"

definition dyn_detector_new :: "client_env \<Rightarrow> orchestrator_config \<Rightarrow> string \<times> detector_config \<Rightarrow> (client_error, dyn_client) res" where
  "dyn_detector_new env cfg = (\<lambda>(i, d).
     res_map DynDetector (detector_client_new env i (dc_service d) (dc_health_service d) (router cfg) (dc_model_id d)))"

definition dyn_create_clients :: "client_env \<Rightarrow> orchestrator_config \<Rightarrow> (error, dyn_map) res" where
  "dyn_create_clients env cfg =
     res_map_err Client (
     res_bind (case generation cfg of
         Some g \<Rightarrow> res_map (\<lambda>c. cm_insert ''generation'' (DynGeneration c) cm_new) (dyn_generation_new env g)
       | None \<Rightarrow> Ok cm_new) (\<lambda>m.
     res_bind (case openai cfg of
         Some p \<Rightarrow> res_map (\<lambda>c. cm_insert ''openai'' (DynOpenAi c) m)
            (openai_client_new env (o_service p) (o_health_service p) (router cfg))
       | None \<Rightarrow> Ok m) (\<lambda>m.
     res_bind (case chunkers cfg of
         Some cs \<Rightarrow> dyn_insert_clients (\<lambda>c. res_map DynChunker (chunker_client_new env (ch_service c))) cs m
       | None \<Rightarrow> Ok m) (\<lambda>m.
     dyn_insert_clients (dyn_detector_new env cfg) (map (\<lambda>(i, d). (i, i, d)) (detectors cfg)) m))))"

section \<open>Health\<close>

text \<open>\<open>http\<close>, \<open>check\<close> and \<open>model_info\<close> ask a service over HTTP, the gRPC health protocol and the TGIS protocol.\<close>

record health_env =
  he_http :: "http_client \<Rightarrow> headers \<Rightarrow> health_check_result"
  he_check :: "grpc_options \<Rightarrow> (grpc_code \<times> string) + serving_status"
  he_model_info :: "grpc_options \<Rightarrow> (grpc_code \<times> string) + unit"

definition openai_health :: "(http_client \<Rightarrow> headers \<Rightarrow> health_check_result) \<Rightarrow> openai_client \<Rightarrow> headers \<Rightarrow> health_check_result" where
  "openai_health health client hs =
     (case ocl_health_client client of Some h \<Rightarrow> health h hs | None \<Rightarrow> health (ocl_client client) hs)"

fun generation_health :: "health_env \<Rightarrow> dyn_generation \<Rightarrow> health_check_result" where
  "generation_health env (DynTgis client _) = grpc_client_health (he_model_info env client)"
| "generation_health env (DynNlp (_, health_client) _) = grpc_client_health (he_check env health_client)"

fun dyn_health :: "health_env \<Rightarrow> dyn_client \<Rightarrow> headers \<Rightarrow> health_check_result" where
  "dyn_health env (DynChunker (_, health_client)) hs = grpc_client_health (he_check env health_client)"
| "dyn_health env (DynDetector c) hs = detector_health (he_http env) c hs"
| "dyn_health env (DynGeneration g) hs = generation_health env g"
| "dyn_health env (DynOpenAi c) hs = openai_health (he_http env) c hs"

definition dyn_client_health :: "health_env \<Rightarrow> dyn_map \<Rightarrow> headers \<Rightarrow> (string, health_check_result) hashmap" where
  "dyn_client_health env m hs = fold (\<lambda>(key, c) health. hm_insert key (dyn_health env c hs) health) m []"

section \<open>The view of the handlers\<close>

definition client_tags :: "dyn_map \<Rightarrow> client_map" where
  "client_tags m = map (\<lambda>(i, c). (i, type_id c)) m"

lemma client_tags_get [simp]: "hm_get (client_tags m) i = map_option type_id (hm_get m i)"
  by (simp add: client_tags_def map_of_map)

lemma client_tags_insert [simp]: "client_tags (cm_insert i c m) = hm_insert i (type_id c) (client_tags m)"
  unfolding cm_insert_def hm_insert_def client_tags_def by (induction m) auto

lemma cm_get_tags: "get_client v (client_tags m) i = map_option type_id (cm_get v m i)"
  by (auto simp: get_client_def cm_get_def downcast_ref_def dyn_is_def split: option.splits)

text \<open>Both maps implement the interface: the one with the clients and the one with their types.\<close>

interpretation cm: typed_map cm_get cm_insert "\<lambda>i m. snd (cm_remove i m)" type_id
  by unfold_locales
     (auto simp: cm_get_def cm_insert_def cm_remove_def downcast_ref_def dyn_is_def delete_conv' split: option.splits if_splits)

interpretation tags: typed_map get_client hm_insert AList.delete id
  by unfold_locales (auto simp: get_client_def delete_conv' split: option.splits if_splits)

section \<open>Lemmas\<close>

lemma cm_get_eq: "cm_get v m i = Some c \<longleftrightarrow> hm_get m i = Some c \<and> type_id c = v"
  by (auto simp: cm_get_def downcast_ref_def dyn_is_def split: option.splits)

lemma cm_get_mut_get:
  assumes "cm_get_mut v key f m = Some m'" "type_id (f (the (cm_get v m key))) = v"
  shows "cm_get v m' key = map_option f (cm_get v m key)" "i \<noteq> key \<Longrightarrow> cm_get w m' i = cm_get w m i"
proof -
  from assms(1) obtain c where c: "cm_get v m key = Some c" "m' = cm_insert key (f c) m" by (auto simp: cm_get_mut_def cm_insert_def)
  show "cm_get v m' key = map_option f (cm_get v m key)" using c assms(2) by (simp add: cm.lookup_store)
  show "i \<noteq> key \<Longrightarrow> cm_get w m' i = cm_get w m i" using c(2) by (simp add: cm.lookup_store)
qed

lemma cm_len_insert: "cm_len (cm_insert i c m) = (if i \<in> set (cm_keys m) then cm_len m else Suc (cm_len m))"
  unfolding cm_len_def cm_keys_def cm_insert_def hm_insert_def by (induction m) auto

lemma res_map_res_map: "res_map f (res_map g r) = res_map (\<lambda>x. f (g x)) r"
  by (cases r) simp_all

lemma generation_tags: "generation_client_new env g = res_map (\<lambda>_. ()) (dyn_generation_new env g)"
  by (simp add: generation_client_new_def dyn_generation_new_def res_map_res_map Let_def split: generation_provider.splits)

lemma dyn_insert_tags:
  assumes "\<And>c. res_map (\<lambda>_. ()) (new c) = res_map (\<lambda>_. ()) (dyn c)" "\<And>c d. dyn c = Ok d \<Longrightarrow> type_id d = kind"
  shows "res_map client_tags (dyn_insert_clients dyn entries m) = insert_clients new kind entries (client_tags m)"
proof (induction entries arbitrary: m)
  case (Cons e entries)
  obtain i c where e: "e = (i, c)" by (cases e)
  show ?case using assms(1) [of c] assms(2) [of c] Cons.IH by (cases "new c"; cases "dyn c"; simp add: e)
qed simp

lemma dyn_insert_keeps:
  "dyn_insert_clients new entries m = Ok m' \<Longrightarrow> i \<notin> fst ` set entries \<Longrightarrow> hm_get m' i = hm_get m i"
  by (induction new entries m rule: dyn_insert_clients.induct) (auto simp: cm_insert_def)

lemma dyn_insert_get:
  assumes "dyn_insert_clients new entries m = Ok m'" "hm_wf entries" "hm_get entries i = Some c"
  shows "\<exists>d. new c = Ok d \<and> hm_get m' i = Some d"
  using assms
proof (induction new entries m rule: dyn_insert_clients.induct)
  case (2 new j e entries m)
  then obtain d where d: "new e = Ok d" "dyn_insert_clients new entries (cm_insert j d m) = Ok m'" by auto
  show ?case
  proof (cases "i = j")
    case True
    with 2(3) dyn_insert_keeps [OF d(2)] have "hm_get m' i = Some d" by (simp add: hm_wf_def cm_insert_def image_iff)
    then show ?thesis using True 2(4) d(1) by simp
  next
    case False
    then show ?thesis using 2 d by (simp add: hm_wf_def)
  qed
qed simp

lemma dyn_insert_wf: "dyn_insert_clients new entries m = Ok m' \<Longrightarrow> hm_wf m \<Longrightarrow> hm_wf m'"
  by (induction new entries m rule: dyn_insert_clients.induct) (auto simp: cm_insert_def)

lemma dyn_create_clients_parts:
  assumes "dyn_create_clients env cfg = Ok m"
  obtains m1 m2 m3 where "(case generation cfg of
         Some g \<Rightarrow> res_map (\<lambda>c. cm_insert ''generation'' (DynGeneration c) cm_new) (dyn_generation_new env g) | None \<Rightarrow> Ok cm_new) = Ok m1"
    and "(case openai cfg of
         Some p \<Rightarrow> res_map (\<lambda>c. cm_insert ''openai'' (DynOpenAi c) m1)
            (openai_client_new env (o_service p) (o_health_service p) (router cfg)) | None \<Rightarrow> Ok m1) = Ok m2"
    and "(case chunkers cfg of
         Some cs \<Rightarrow> dyn_insert_clients (\<lambda>c. res_map DynChunker (chunker_client_new env (ch_service c))) cs m2 | None \<Rightarrow> Ok m2) = Ok m3"
    and "dyn_insert_clients (dyn_detector_new env cfg) (map (\<lambda>(i, d). (i, i, d)) (detectors cfg)) m3 = Ok m"
  using assms unfolding dyn_create_clients_def by auto

lemma dyn_create_wf:
  assumes "dyn_create_clients env cfg = Ok m"
  shows "hm_wf m"
  using assms
proof (rule dyn_create_clients_parts)
  fix m1 m2 m3
  assume m: "(case generation cfg of
         Some g \<Rightarrow> res_map (\<lambda>c. cm_insert ''generation'' (DynGeneration c) cm_new) (dyn_generation_new env g) | None \<Rightarrow> Ok cm_new) = Ok m1"
    "(case openai cfg of
         Some p \<Rightarrow> res_map (\<lambda>c. cm_insert ''openai'' (DynOpenAi c) m1)
            (openai_client_new env (o_service p) (o_health_service p) (router cfg)) | None \<Rightarrow> Ok m1) = Ok m2"
    "(case chunkers cfg of
         Some cs \<Rightarrow> dyn_insert_clients (\<lambda>c. res_map DynChunker (chunker_client_new env (ch_service c))) cs m2 | None \<Rightarrow> Ok m2) = Ok m3"
    "dyn_insert_clients (dyn_detector_new env cfg) (map (\<lambda>(i, d). (i, i, d)) (detectors cfg)) m3 = Ok m"
  have "hm_wf m1" using m(1) by (auto simp: cm_insert_def cm_new_def split: option.splits)
  with m(2) have "hm_wf m2" by (auto simp: cm_insert_def split: option.splits)
  with m(3) have "hm_wf m3" by (auto intro: dyn_insert_wf split: option.splits)
  with m(4) show ?thesis by (rule dyn_insert_wf)
qed

text \<open>A step of the detailed program followed by its view is a step of the other.\<close>

lemma res_bind_refine:
  "res_map g a = a' \<Longrightarrow> (\<And>x. res_map f (b x) = b' (g x)) \<Longrightarrow> res_map f (res_bind a b) = res_bind a' b'"
  by (cases a) auto

lemma res_map_map_err: "res_map f (res_map_err g r) = res_map_err g (res_map f r)"
  by (cases r) simp_all

lemma dyn_create_tags: "res_map client_tags (dyn_create_clients env cfg) = create_clients env cfg"
  unfolding dyn_create_clients_def create_clients_def res_map_map_err
proof (intro arg_cong [where f = "res_map_err Client"] res_bind_refine [where g = client_tags], goal_cases)
  case 1
  show ?case by (simp add: generation_tags res_map_res_map cm_new_def client_tags_insert [of _ _ "[]"] split: option.splits) (simp add: client_tags_def)
next
  case (2 m)
  show ?case by (simp add: res_map_res_map split: option.splits)
next
  case (3 m1 m)
  show ?case by (cases "chunkers cfg") (simp, simp, rule dyn_insert_tags, auto simp: res_map_res_map)
next
  case (4 m1 m2 m)
  show ?case by (rule dyn_insert_tags) (auto simp: dyn_detector_new_def res_map_res_map split: prod.splits)
qed

lemma dyn_detector_get:
  assumes "dyn_create_clients env cfg = Ok m" "hm_wf (detectors cfg)" "config_detector cfg i = Some d"
  shows "\<exists>c. cm_get DetectorClient m i = Some (DynDetector c)
     \<and> detector_client_new env i (dc_service d) (dc_health_service d) (router cfg) (dc_model_id d) = Ok c"
proof -
  from assms(1) obtain m0 where m0: "dyn_insert_clients (dyn_detector_new env cfg) (map (\<lambda>(i, d). (i, i, d)) (detectors cfg)) m0 = Ok m"
    by (rule dyn_create_clients_parts)
  have "map fst (map (\<lambda>(i, d). (i, i, d)) (detectors cfg)) = map fst (detectors cfg)" by (simp add: case_prod_beta comp_def)
  with assms(2) have wf: "hm_wf (map (\<lambda>(i, d). (i, i, d)) (detectors cfg))" by (simp only: hm_wf_def)
  have "hm_get (map (\<lambda>(i, d). (i, i, d)) ds) i = map_option (Pair i) (hm_get ds i)" for ds :: "(string \<times> detector_config) list"
    by (induction ds) auto
  with assms(3) have "hm_get (map (\<lambda>(i, d). (i, i, d)) (detectors cfg)) i = Some (i, d)" by (simp add: config_detector_def)
  from dyn_insert_get [OF m0 wf this] show ?thesis by (auto simp: dyn_detector_new_def cm_get_eq)
qed

definition health_of :: "health_env \<Rightarrow> dyn_map \<Rightarrow> string \<Rightarrow> headers \<Rightarrow> health_check_result" where
  "health_of env m i hs = dyn_health env (the (hm_get m i)) hs"

lemma client_health_dyn:
  assumes "hm_wf m" "ctx_clients ctx = client_tags m"
  shows "client_health (health_of env m) ctx hs = dyn_client_health env m hs"
proof -
  have "map (\<lambda>(i, _). (i, health_of env m i hs)) (client_tags m) = map (\<lambda>(i, c). (i, dyn_health env c hs)) m"
    using assms(1) by (auto simp: client_tags_def health_of_def hm_wf_def map_of_eq_Some_iff)
  then show ?thesis by (simp add: client_health_def assms(2) dyn_client_health_def hm_collect_def fold_map comp_def split_def)
qed

section \<open>Properties\<close>

text \<open>
  C24. The map of clients refines the view that the handlers have of it: creating the clients and looking at their types is creating the types,
  typed lookup finds a client exactly where it finds its type, the client under the id of a detector is the one made from that
  detector's entry of the configuration, and the health that is reported under an id is that of the client in the map.
\<close>

theorem client_map_refines:
  assumes "hm_wf (detectors cfg)"
  shows "res_map client_tags (dyn_create_clients env cfg) = create_clients env cfg
     \<and> (\<forall>m. dyn_create_clients env cfg = Ok m \<longrightarrow>
          (\<forall>v i. get_client v (client_tags m) i = map_option type_id (cm_get v m i))
          \<and> (\<forall>i d. config_detector cfg i = Some d \<longrightarrow> (\<exists>c. cm_get DetectorClient m i = Some (DynDetector c)
               \<and> detector_client_new env i (dc_service d) (dc_health_service d) (router cfg) (dc_model_id d) = Ok c))
          \<and> (\<forall>henv hs. client_health (health_of henv m) \<lparr>ctx_config = cfg, ctx_clients = client_tags m\<rparr> hs = dyn_client_health henv m hs))"
  using dyn_detector_get [OF _ assms] by (simp add: dyn_create_tags cm_get_tags client_health_dyn dyn_create_wf)

theorem client_map_refines_witness:
  "\<exists>m c. dyn_create_clients ex_client_env (ex_config ''d'') = Ok m \<and> cm_get DetectorClient m ''d'' = Some (DynDetector c)"
proof -
  have wf: "hm_wf (detectors (ex_config ''d''))" by (simp add: hm_wf_def ex_config_def)
  note r = client_map_refines [OF wf, of ex_client_env]
  obtain ctx where "orchestrator_new ex_client_env (\<lambda>_ _. \<lparr>hr_status = Healthy, hr_code = 200, hr_reason = None\<rparr>) (ex_config ''d'') True = Ok ctx"
    using ex_orchestrator by blast
  then obtain tags where "create_clients ex_client_env (ex_config ''d'') = Ok tags" by (auto simp: orchestrator_new_def)
  then have "res_map client_tags (dyn_create_clients ex_client_env (ex_config ''d'')) = Ok tags" using r by simp
  then obtain m where m: "dyn_create_clients ex_client_env (ex_config ''d'') = Ok m" by auto
  have "config_detector (ex_config ''d'') ''d'' = Some (ex_detector TextContents)" by (simp add: config_detector_def ex_config_def)
  then obtain c where "cm_get DetectorClient m ''d'' = Some (DynDetector c)" using r m by blast
  with m show ?thesis by blast
qed

end
