(* ===== verification/Telemetry.thy ===== *)
theory Telemetry
  imports Clients
begin

text \<open>
  Command line options for telemetry (\<^verbatim>\<open>src/args.rs\<close>), how tracing is set up from them and the metrics of the server
  (\<^verbatim>\<open>src/utils/trace.rs\<close>), and the metrics of the clients (\<^verbatim>\<open>src/clients/http.rs\<close>, \<^verbatim>\<open>src/clients/otel_grpc.rs\<close>).
\<close>

section \<open>Options\<close>

datatype otlp_export = Traces | Metrics

datatype otlp_protocol = OtlpGrpc | OtlpHttp

datatype log_format = Compact | Full | Pretty | LogJSON

fun otlp_export_string :: "otlp_export \<Rightarrow> string" where
  "otlp_export_string Traces = ''traces''"
| "otlp_export_string Metrics = ''metrics''"

fun otlp_protocol_string :: "otlp_protocol \<Rightarrow> string" where
  "otlp_protocol_string OtlpGrpc = ''grpc''"
| "otlp_protocol_string OtlpHttp = ''http''"

fun log_format_string :: "log_format \<Rightarrow> string" where
  "log_format_string Full = ''full''"
| "log_format_string Compact = ''compact''"
| "log_format_string Pretty = ''pretty''"
| "log_format_string LogJSON = ''json''"

text \<open>
  The words are compared in lower case; no letter outside of ASCII has one of their letters as lower case. An unknown export panics, an
  unknown protocol or format is replaced by the default.
\<close>

definition otlp_export_of :: "string \<Rightarrow> ('e, otlp_export) res" where
  "otlp_export_of s =
     (if to_lowercase s = ''traces'' then Ok Traces else if to_lowercase s = ''metrics'' then Ok Metrics else Panic)"

definition otlp_protocol_of :: "string \<Rightarrow> otlp_protocol" where
  "otlp_protocol_of s = (if to_lowercase s = ''http'' then OtlpHttp else OtlpGrpc)"

definition log_format_of :: "string \<Rightarrow> log_format" where
  "log_format_of s =
     (if to_lowercase s = ''compact'' then Compact else if to_lowercase s = ''pretty'' then Pretty
      else if to_lowercase s = ''json'' then LogJSON else Full)"

record args =
  ar_http_port :: nat
  ar_health_http_port :: nat
  ar_config_path :: string
  ar_tls_cert_path :: "string option"
  ar_tls_key_path :: "string option"
  ar_tls_client_ca_cert_path :: "string option"
  ar_start_up_health_check :: bool
  ar_otlp_export :: "otlp_export list"
  ar_log_format :: log_format
  ar_quiet :: bool
  ar_otlp_service_name :: string
  ar_otlp_endpoint :: "url option"
  ar_otlp_traces_endpoint :: "url option"
  ar_otlp_metrics_endpoint :: "url option"
  ar_otlp_protocol :: otlp_protocol
  ar_otlp_traces_protocol :: "otlp_protocol option"
  ar_otlp_metrics_protocol :: "otlp_protocol option"

definition args_default :: args where
  "args_default = \<lparr>ar_http_port = 8033, ar_health_http_port = 8034, ar_config_path = ''config/config.yaml'', ar_tls_cert_path = None,
     ar_tls_key_path = None, ar_tls_client_ca_cert_path = None, ar_start_up_health_check = False, ar_otlp_export = [], ar_log_format = Full,
     ar_quiet = False, ar_otlp_service_name = ''fms_guardrails_orchestr8'', ar_otlp_endpoint = None, ar_otlp_traces_endpoint = None,
     ar_otlp_metrics_endpoint = None, ar_otlp_protocol = OtlpGrpc, ar_otlp_traces_protocol = None, ar_otlp_metrics_protocol = None\<rparr>"

record tracing_config =
  tn_service_name :: string
  tn_traces :: "(otlp_protocol \<times> string) option"
  tn_metrics :: "(otlp_protocol \<times> string) option"
  tn_log_format :: log_format
  tn_quiet :: bool

text \<open>A URL as text, for URLs without user, query and fragment.\<close>

definition url_string :: "url \<Rightarrow> string" where
  "url_string u = url_scheme u @ ''://'' @ url_host u @ (case url_port u of Some p \<Rightarrow> '':'' @ show_nat p | None \<Rightarrow> []) @ url_path u"

definition DEFAULT_GRPC_OTLP_ENDPOINT :: url where
  "DEFAULT_GRPC_OTLP_ENDPOINT = \<lparr>url_scheme = ''http'', url_host = ''localhost'', url_port = Some 4317, url_path = ''/''\<rparr>"

definition DEFAULT_HTTP_OTLP_ENDPOINT :: url where
  "DEFAULT_HTTP_OTLP_ENDPOINT = \<lparr>url_scheme = ''http'', url_host = ''localhost'', url_port = Some 4318, url_path = ''/''\<rparr>"

text \<open>The check of an endpoint given for traces or metrics, and the endpoint that is used; \<open>http_path\<close> is \<^verbatim>\<open>v1/traces\<close> or \<^verbatim>\<open>v1/metrics\<close>.\<close>

definition validate_endpoint :: "string \<Rightarrow> string \<Rightarrow> otlp_protocol \<Rightarrow> url option \<Rightarrow> (validation_error, unit) res" where
  "validate_endpoint name http_path p endpoint =
     (case endpoint of
        None \<Rightarrow> Ok ()
      | Some u \<Rightarrow>
          (case p of
             OtlpGrpc \<Rightarrow> if url_path u \<noteq> ''/'' then Err (Invalid (''invalid '' @ name @ '' for grpc protocol'')) else Ok ()
           | OtlpHttp \<Rightarrow> if url_path u \<noteq> ''/'' @ http_path
               then Err (Invalid (''invalid '' @ name @ '' for http protocol: path should be /'' @ http_path)) else Ok ()))"

definition signal_endpoint :: "string \<Rightarrow> otlp_protocol \<Rightarrow> url \<Rightarrow> url option \<Rightarrow> url" where
  "signal_endpoint http_path p otlp_endpoint endpoint =
     unwrap_or (case p of OtlpGrpc \<Rightarrow> otlp_endpoint | OtlpHttp \<Rightarrow> url_join otlp_endpoint http_path) endpoint"

definition tracing_config_of_args :: "args \<Rightarrow> (validation_error, tracing_config) res" where
  "tracing_config_of_args a =
     (let p = ar_otlp_protocol a;
          traces_protocol = unwrap_or p (ar_otlp_traces_protocol a);
          metrics_protocol = unwrap_or p (ar_otlp_metrics_protocol a)
      in
      res_bind (case ar_otlp_endpoint a of
          Some u \<Rightarrow> if url_path u \<noteq> ''/'' then Err (Invalid ''invalid otlp_endpoint'') else Ok () | None \<Rightarrow> Ok ()) (\<lambda>_.
      res_bind (validate_endpoint ''otlp_traces_endpoint'' ''v1/traces'' traces_protocol (ar_otlp_traces_endpoint a)) (\<lambda>_.
      res_bind (validate_endpoint ''otlp_metrics_endpoint'' ''v1/metrics'' metrics_protocol (ar_otlp_metrics_endpoint a)) (\<lambda>_.
      let otlp_endpoint = unwrap_or (case p of OtlpGrpc \<Rightarrow> DEFAULT_GRPC_OTLP_ENDPOINT | OtlpHttp \<Rightarrow> DEFAULT_HTTP_OTLP_ENDPOINT)
            (ar_otlp_endpoint a);
          traces_endpoint = signal_endpoint ''v1/traces'' traces_protocol otlp_endpoint (ar_otlp_traces_endpoint a);
          metrics_endpoint = signal_endpoint ''v1/metrics'' metrics_protocol otlp_endpoint (ar_otlp_metrics_endpoint a)
      in Ok \<lparr>tn_service_name = ar_otlp_service_name a,
             tn_traces = (if Traces \<in> set (ar_otlp_export a) then Some (traces_protocol, url_string traces_endpoint) else None),
             tn_metrics = (if Metrics \<in> set (ar_otlp_export a) then Some (metrics_protocol, url_string metrics_endpoint) else None),
             tn_log_format = ar_log_format a, tn_quiet = ar_quiet a\<rparr>))))"

section \<open>Set-up\<close>

text \<open>
  A provider of traces exports them or only keeps them for the log. \<open>build\<close> says whether an exporter for a protocol and an endpoint with
  a timeout can be built.
\<close>

datatype tracer_provider = ExportingTracer otlp_protocol string nat | LocalTracer

datatype meter_provider = ExportingMeter otlp_protocol string nat nat

datatype layer = TracerLayer tracer_provider | MeterLayer meter_provider | FmtLayer log_format

type_synonym exporter_env = "otlp_protocol \<Rightarrow> string \<Rightarrow> nat \<Rightarrow> bool"

fun otlp_protocol_name :: "otlp_protocol \<Rightarrow> string" where
  "otlp_protocol_name OtlpGrpc = ''gRPC''"
| "otlp_protocol_name OtlpHttp = ''HTTP''"

definition init_tracer_provider :: "exporter_env \<Rightarrow> tracing_config \<Rightarrow> (string, tracer_provider option) res" where
  "init_tracer_provider build c =
     (case tn_traces c of
        Some (p, endpoint) \<Rightarrow>
          if build p endpoint 3 then Ok (Some (ExportingTracer p endpoint 3))
          else Err (''Failed to build '' @ otlp_protocol_name p @ '' span exporter'')
      | None \<Rightarrow> Ok (if \<not> tn_quiet c then Some LocalTracer else None))"

definition init_meter_provider :: "exporter_env \<Rightarrow> tracing_config \<Rightarrow> (string, meter_provider option) res" where
  "init_meter_provider build c =
     (case tn_metrics c of
        Some (p, endpoint) \<Rightarrow>
          if build p endpoint 10 then Ok (Some (ExportingMeter p endpoint 10 3))
          else Err (''Failed to build OTel '' @ otlp_protocol_name p @ '' metric exporter'')
      | None \<Rightarrow> Ok None)"

text \<open>Installing a subscriber a second time is a panic; \<open>installed\<close> says that there is one.\<close>

definition init_tracing ::
  "exporter_env \<Rightarrow> exporter_env \<Rightarrow> bool \<Rightarrow> tracing_config \<Rightarrow> (string, layer list \<times> tracer_provider option \<times> meter_provider option) res" where
  "init_tracing build_span build_metric installed c =
     res_bind (res_map_err (\<lambda>_. ''Failed to initialize tracer provider'') (init_tracer_provider build_span c)) (\<lambda>tracer.
     res_bind (res_map_err (\<lambda>_. ''Failed to initialize meter provider'') (init_meter_provider build_metric c)) (\<lambda>meter.
     if installed then Panic
     else Ok ((case tracer of Some t \<Rightarrow> [TracerLayer t] | None \<Rightarrow> [])
           @ (case meter of Some m \<Rightarrow> [MeterLayer m] | None \<Rightarrow> [])
           @ (if tn_quiet c then [] else [FmtLayer (tn_log_format c)]), tracer, meter)))"

text \<open>The closure that shuts telemetry down: the providers it shuts down, and its result.\<close>

datatype provider = TraceProvider tracer_provider | MeterProvider meter_provider

definition shutdown_all :: "(provider \<Rightarrow> bool) \<Rightarrow> tracer_provider option \<Rightarrow> meter_provider option \<Rightarrow> provider list \<times> (string, unit) res" where
  "shutdown_all ok tracer meter =
     (let rest = (case meter of
            Some m \<Rightarrow> ([MeterProvider m], if ok (MeterProvider m) then Ok () else Err ''Failed to shutdown meter provider'')
          | None \<Rightarrow> ([], Ok ()))
      in case tracer of
           Some t \<Rightarrow> if ok (TraceProvider t) then (TraceProvider t # fst rest, snd rest)
             else ([TraceProvider t], Err ''Failed to shutdown tracer provider'')
         | None \<Rightarrow> rest)"

section \<open>Metrics\<close>

text \<open>What a hook reports: an increment of a counter, a value of a histogram in \<^verbatim>\<open>u64\<close>, or a logged error.\<close>

datatype telemetry = Counter string | Histogram string "64 word" | LogError string

definition is_server_error :: "nat \<Rightarrow> bool" where
  "is_server_error status \<longleftrightarrow> 500 \<le> status \<and> status < 600"

definition is_client_error :: "nat \<Rightarrow> bool" where
  "is_client_error status \<longleftrightarrow> 400 \<le> status \<and> status < 500"

definition is_success :: "nat \<Rightarrow> bool" where
  "is_success status \<longleftrightarrow> 200 \<le> status \<and> status < 300"

definition on_incoming_request :: "telemetry list" where
  "on_incoming_request = [Counter ''incoming_request_count'']"

definition on_outgoing_response :: "nat \<Rightarrow> nat \<Rightarrow> telemetry list" where
  "on_outgoing_response status latency =
     [Counter ''handled_request_count'', Histogram ''service_request_duration'' (of_nat latency)] @
     (if is_server_error status then [Counter ''server_error_response_count'']
      else if is_client_error status then [Counter ''client_app_error_response_count'']
      else if is_success status then [Counter ''success_response_count'']
      else [LogError (''unexpected response status code: '' @ show_nat status)])"

definition on_outgoing_eos :: "nat \<Rightarrow> telemetry list" where
  "on_outgoing_eos duration =
     [Counter ''service_stream_response_count'', Histogram ''service_stream_response_duration'' (of_nat duration)]"

definition client_on_request :: "telemetry list" where
  "client_on_request = [Counter ''incoming_request_count'']"

definition client_on_response :: "nat \<Rightarrow> nat \<Rightarrow> telemetry list" where
  "client_on_response status latency =
     [Counter ''client_response_count'', Histogram ''client_request_duration'' (of_nat latency)] @
     (if is_server_error status then [Counter ''client_5xx_response_count'']
      else if is_client_error status then [Counter ''client_4xx_response_count'']
      else if is_success status then [Counter ''client_success_response_count'']
      else [LogError (''unexpected HTTP client response status code: '' @ show_nat status)])"

definition client_on_failure :: "telemetry list" where
  "client_on_failure =
     [LogError ''failure handling request'', Counter ''client_request_failure_count'', Counter ''client_5xx_response_count'']"

definition client_on_eos :: "nat \<Rightarrow> telemetry list" where
  "client_on_eos duration =
     [Counter ''client_stream_response_count'', Histogram ''client_stream_response_duration'' (of_nat duration)]"

text \<open>
  The hooks that the tracing layer of tower-http runs for a call: \<open>failure\<close> is its classification of statuses, and a call that
  fails without a response is a failure.
\<close>

definition http_trace_layer :: "(nat \<Rightarrow> bool) \<Rightarrow> nat \<Rightarrow> string + nat \<Rightarrow> telemetry list" where
  "http_trace_layer failure latency outcome =
     client_on_request @
     (case outcome of
        Inr status \<Rightarrow> client_on_response status latency @ (if failure status then client_on_failure else [])
      | Inl _ \<Rightarrow> client_on_failure)"

definition log_on_response_or_error :: "nat \<Rightarrow> string + nat \<Rightarrow> telemetry list" where
  "log_on_response_or_error latency response =
     (case response of
        Inr status \<Rightarrow>
          [Counter ''client_response_count'', Histogram ''client_request_duration'' (of_nat latency)] @
          (if is_server_error status then [Counter ''client_5xx_response_count'']
           else if is_client_error status then [Counter ''client_4xx_response_count'']
           else if is_success status then [Counter ''client_success_response_count'']
           else [LogError (''unexpected gRPC client response status code: '' @ show_nat status)])
      | Inl err \<Rightarrow>
          [LogError (''failure handling request: '' @ err), Counter ''client_request_failure_count'', Counter ''client_5xx_response_count''])"

text \<open>
  A gRPC call is counted when it is made. Its future is polled until it is ready; a poll has the times of its start and end,
  and the result if it is ready. The duration is measured in the poll.
\<close>

definition otel_call :: "telemetry list" where
  "otel_call = [Counter ''incoming_request_count'']"

fun response_future :: "(nat \<times> nat \<times> (string + nat) option) list \<Rightarrow> ((string + nat) \<times> telemetry list) option" where
  "response_future [] = None"
| "response_future ((start, now, None) # polls) = response_future polls"
| "response_future ((start, now, Some result) # polls) = Some (result, log_on_response_or_error (now - start) result)"

section \<open>Properties\<close>

definition count_of :: "string \<Rightarrow> telemetry list \<Rightarrow> nat" where
  "count_of name ts = length (filter (\<lambda>t. t = Counter name) ts)"

text \<open>Options are printed the way they are read.\<close>

theorem option_words_roundtrip:
  "otlp_export_of (otlp_export_string e) = (Ok e :: ('e, otlp_export) res)" "otlp_protocol_of (otlp_protocol_string p) = p"
  "log_format_of (log_format_string f) = f"
  by (cases e; simp add: otlp_export_of_def to_lowercase_def) (cases p; cases f; simp add: otlp_protocol_of_def log_format_of_def to_lowercase_def)+

text \<open>
  Accepted options: what is exported is what was asked for, to the endpoint given or built; a gRPC endpoint has no path, an HTTP endpoint
  has the path of its signal.
\<close>

lemma url_join_root: "url_path u = ''/'' \<Longrightarrow> url_path (url_join u p) = ''/'' @ p"
  by (simp add: url_join_def upto_last_slash_def)

lemma signal_endpoint_path:
  assumes "validate_endpoint name http_path p endpoint = Ok ()" "url_path base = ''/''"
  shows "url_path (signal_endpoint http_path p base endpoint) = (case p of OtlpGrpc \<Rightarrow> ''/'' | OtlpHttp \<Rightarrow> ''/'' @ http_path)"
  using assms url_join_root [OF assms(2), of http_path]
  by (cases endpoint; cases p) (simp_all add: validate_endpoint_def signal_endpoint_def split: if_splits)

theorem tracing_config_correct:
  assumes "tracing_config_of_args a = Ok c"
  shows "(tn_traces c \<noteq> None \<longleftrightarrow> Traces \<in> set (ar_otlp_export a)) \<and> (tn_metrics c \<noteq> None \<longleftrightarrow> Metrics \<in> set (ar_otlp_export a))
     \<and> (\<forall>p e. tn_traces c = Some (p, e) \<longrightarrow> (\<exists>u. e = url_string u \<and> (ar_otlp_traces_endpoint a \<noteq> None \<longrightarrow> ar_otlp_traces_endpoint a = Some u)
          \<and> url_path u = (case p of OtlpGrpc \<Rightarrow> ''/'' | OtlpHttp \<Rightarrow> ''/v1/traces'')))
     \<and> (\<forall>p e. tn_metrics c = Some (p, e) \<longrightarrow> (\<exists>u. e = url_string u \<and> (ar_otlp_metrics_endpoint a \<noteq> None \<longrightarrow> ar_otlp_metrics_endpoint a = Some u)
          \<and> url_path u = (case p of OtlpGrpc \<Rightarrow> ''/'' | OtlpHttp \<Rightarrow> ''/v1/metrics'')))"
proof -
  define tp where "tp = unwrap_or (ar_otlp_protocol a) (ar_otlp_traces_protocol a)"
  define mp where "mp = unwrap_or (ar_otlp_protocol a) (ar_otlp_metrics_protocol a)"
  define base where "base = unwrap_or (case ar_otlp_protocol a of OtlpGrpc \<Rightarrow> DEFAULT_GRPC_OTLP_ENDPOINT | OtlpHttp \<Rightarrow> DEFAULT_HTTP_OTLP_ENDPOINT)
    (ar_otlp_endpoint a)"
  define tu where "tu = signal_endpoint ''v1/traces'' tp base (ar_otlp_traces_endpoint a)"
  define mu where "mu = signal_endpoint ''v1/metrics'' mp base (ar_otlp_metrics_endpoint a)"
  have ok: "ar_otlp_endpoint a = None \<or> (\<exists>u. ar_otlp_endpoint a = Some u \<and> url_path u = ''/'')"
      "validate_endpoint ''otlp_traces_endpoint'' ''v1/traces'' tp (ar_otlp_traces_endpoint a) = Ok ()"
      "validate_endpoint ''otlp_metrics_endpoint'' ''v1/metrics'' mp (ar_otlp_metrics_endpoint a) = Ok ()"
    and c: "tn_traces c = (if Traces \<in> set (ar_otlp_export a) then Some (tp, url_string tu) else None)"
      "tn_metrics c = (if Metrics \<in> set (ar_otlp_export a) then Some (mp, url_string mu) else None)"
    using assms by (auto simp: tracing_config_of_args_def Let_def tp_def mp_def base_def tu_def mu_def split: option.splits if_splits)
  have base: "url_path base = ''/''"
    using ok(1) by (auto simp: base_def DEFAULT_GRPC_OTLP_ENDPOINT_def DEFAULT_HTTP_OTLP_ENDPOINT_def split: otlp_protocol.splits)
  have "url_path tu = (case tp of OtlpGrpc \<Rightarrow> ''/'' | OtlpHttp \<Rightarrow> ''/v1/traces'')"
    "url_path mu = (case mp of OtlpGrpc \<Rightarrow> ''/'' | OtlpHttp \<Rightarrow> ''/v1/metrics'')"
    using signal_endpoint_path [OF ok(2) base] signal_endpoint_path [OF ok(3) base] by (cases tp; cases mp; simp add: tu_def mu_def)+
  moreover have "ar_otlp_traces_endpoint a \<noteq> None \<Longrightarrow> ar_otlp_traces_endpoint a = Some tu"
    "ar_otlp_metrics_endpoint a \<noteq> None \<Longrightarrow> ar_otlp_metrics_endpoint a = Some mu"
    by (auto simp: tu_def mu_def signal_endpoint_def)
  ultimately show ?thesis using c by auto
qed

text \<open>With HTTP chosen for traces only, the default endpoint is still the one of gRPC.\<close>

lemma mixed_protocols_default_port:
  "\<exists>c. tracing_config_of_args (args_default\<lparr>ar_otlp_export := [Traces], ar_otlp_traces_protocol := Some OtlpHttp\<rparr>) = Ok c
     \<and> tn_traces c = Some (OtlpHttp, ''http://localhost:4317/v1/traces'')"
proof -
  have "show_nat 4317 = ''4317''" by code_simp
  then show ?thesis
    by (simp add: tracing_config_of_args_def args_default_def validate_endpoint_def signal_endpoint_def url_string_def
        DEFAULT_GRPC_OTLP_ENDPOINT_def url_join_def upto_last_slash_def)
qed

text \<open>
  A response of the server is counted once, in exactly one class if it is a success or an error. Failed requests to services are counted
  as responses of class 5xx: over HTTP a response of this class is counted twice in it, over gRPC once.
\<close>

theorem server_response_counted:
  "count_of ''handled_request_count'' (on_outgoing_response status latency) = 1
   \<and> count_of ''success_response_count'' (on_outgoing_response status latency)
       + count_of ''client_app_error_response_count'' (on_outgoing_response status latency)
       + count_of ''server_error_response_count'' (on_outgoing_response status latency)
     = (if is_success status \<or> is_client_error status \<or> is_server_error status then 1 else 0)"
  by (simp add: count_of_def on_outgoing_response_def is_success_def is_client_error_def is_server_error_def)

theorem http_5xx_counted_twice:
  assumes "is_server_error status" "failure status"
  shows "count_of ''client_response_count'' (http_trace_layer failure latency (Inr status)) = 1
     \<and> count_of ''client_5xx_response_count'' (http_trace_layer failure latency (Inr status)) = 2
     \<and> count_of ''client_5xx_response_count'' (log_on_response_or_error latency (Inr status)) = 1"
  using assms by (simp add: count_of_def http_trace_layer_def client_on_request_def client_on_response_def client_on_failure_def
      log_on_response_or_error_def)

text \<open>The duration reported for a gRPC call is that of its last poll, not of the call.\<close>

theorem grpc_duration_of_last_poll:
  assumes "\<forall>(start, now, result) \<in> set pending. result = None"
  shows "response_future (pending @ [(start, now, Some r)]) = Some (r, log_on_response_or_error (now - start) r)"
  using assms by (induction pending) auto

text \<open>A failure to shut down the traces leaves the metrics running.\<close>

lemma failed_shutdown_skips_metrics:
  "\<not> ok (TraceProvider t) \<Longrightarrow> MeterProvider m \<notin> set (fst (shutdown_all ok (Some t) (Some m)))"
  by (simp add: shutdown_all_def)

text \<open>Unless it is quiet, the program logs; quiet and without exports it has no telemetry at all.\<close>

lemma init_tracing_layers:
  assumes "init_tracing build_span build_metric installed c = Ok (layers, tracer, meter)"
  shows "(FmtLayer (tn_log_format c) \<in> set layers \<longleftrightarrow> \<not> tn_quiet c)
     \<and> (layers = [] \<longleftrightarrow> tn_quiet c \<and> tn_traces c = None \<and> tn_metrics c = None)"
proof -
  from assms have t: "init_tracer_provider build_span c = Ok tracer" and m: "init_meter_provider build_metric c = Ok meter"
    and l: "layers = (case tracer of Some t \<Rightarrow> [TracerLayer t] | None \<Rightarrow> []) @ (case meter of Some m \<Rightarrow> [MeterLayer m] | None \<Rightarrow> [])
       @ (if tn_quiet c then [] else [FmtLayer (tn_log_format c)])"
    unfolding init_tracing_def by (auto split: if_splits)
  have "tracer = None \<longleftrightarrow> tn_quiet c \<and> tn_traces c = None"
    using t by (cases "tn_traces c") (auto simp: init_tracer_provider_def simp del: append_Cons split: if_splits prod.splits)
  moreover have "meter = None \<longleftrightarrow> tn_metrics c = None"
    using m by (cases "tn_metrics c") (auto simp: init_meter_provider_def simp del: append_Cons split: if_splits prod.splits)
  ultimately show ?thesis unfolding l by (cases tracer; cases meter) auto
qed

end
