(* ===== verification/Startup.thy ===== *)
theory Startup
  imports Client_Map Telemetry
begin

text \<open>
  From the command line to the running servers: \<^verbatim>\<open>src/main.rs\<close>, the servers of \<^verbatim>\<open>src/server.rs\<close> and their routes
  (\<^verbatim>\<open>src/server/routes.rs\<close>), and the helpers of \<^verbatim>\<open>src/utils.rs\<close> and \<^verbatim>\<open>src/utils/json.rs\<close>.
\<close>

section \<open>Helpers\<close>

text \<open>\<open>getenv\<close> is the environment of the process, \<open>serialize\<close> and \<open>parse\<close> are the encoder and the decoder of the type.\<close>

definition from_env :: "(string \<Rightarrow> string option) \<Rightarrow> string option \<Rightarrow> (string, string option) res" where
  "from_env getenv env_name =
     (case env_name of
        Some n \<Rightarrow> res_map Some (ok_or (''env var `'' @ n @ ''` not found'') (getenv n))
      | None \<Rightarrow> Ok None)"

definition one_or_many :: "(json \<Rightarrow> string + 'a) \<Rightarrow> json \<Rightarrow> (string, 'a list) res" where
  "one_or_many parse j =
     (let no_variant = Err ''data did not match any variant of untagged enum OneOrMany'' in
      case parse j of
        Inr v \<Rightarrow> Ok [v]
      | Inl _ \<Rightarrow>
          (case j of
             JArray js \<Rightarrow> (case collect_results (map (\<lambda>j. of_io (\<lambda>e. e) (parse j)) js) of Ok vs \<Rightarrow> Ok vs | _ \<Rightarrow> no_variant)
           | _ \<Rightarrow> no_variant))"

definition to_nd_string :: "('a \<Rightarrow> string + string) \<Rightarrow> 'a \<Rightarrow> (string, string) res" where
  "to_nd_string serialize v = res_map (\<lambda>bytes. bytes @ [newline]) (of_io (\<lambda>e. e) (serialize v))"

section \<open>Routes\<close>

datatype http_method = GET | POST

datatype route =
    ClassificationWithGen
  | StreamClassificationWithGen
  | StreamContentDetection
  | GenerationWithDetection
  | DetectionContent
  | DetectChat
  | DetectContextDocuments
  | DetectGenerated
  | ChatCompletionsDetection
  | CompletionsDetection
  | Health
  | Info

type_synonym routes = "(string \<times> http_method \<times> route) list"

definition health_router :: routes where
  "health_router = [(''/health'', GET, Health), (''/info'', GET, Info)]"

definition guardrails_router :: "orchestrator_config \<Rightarrow> routes" where
  "guardrails_router config =
     [(''/api/v1/task/classification-with-text-generation'', POST, ClassificationWithGen),
      (''/api/v1/task/server-streaming-classification-with-text-generation'', POST, StreamClassificationWithGen),
      (''/api/v2/text/detection/stream-content'', POST, StreamContentDetection),
      (''/api/v2/text/generation-detection'', POST, GenerationWithDetection),
      (''/api/v2/text/detection/content'', POST, DetectionContent),
      (''/api/v2/text/detection/chat'', POST, DetectChat),
      (''/api/v2/text/detection/context'', POST, DetectContextDocuments),
      (''/api/v2/text/detection/generated'', POST, DetectGenerated)]
     @ (if openai config \<noteq> None then
          [(''/api/v2/chat/completions-detection'', POST, ChatCompletionsDetection),
           (''/api/v2/text/completions-detection'', POST, CompletionsDetection)]
        else [])"

section \<open>Servers\<close>

text \<open>A server that runs: its port, its routes, and its TLS configuration if it has one. \<open>bind\<close> opens a port.\<close>

record running =
  rn_port :: nat
  rn_routes :: routes
  rn_tls :: "server_tls option"

type_synonym listener = "nat \<Rightarrow> string option"

definition run_health_server :: "listener \<Rightarrow> nat \<Rightarrow> (server_error, running) res" where
  "run_health_server bind port =
     (case bind port of
        Some e \<Rightarrow> Err (server_error_of_io e)
      | None \<Rightarrow> Ok \<lparr>rn_port = port, rn_routes = health_router, rn_tls = None\<rparr>)"

definition run_guardrails_server ::
  "pem_env \<Rightarrow> listener \<Rightarrow> nat \<Rightarrow> string option \<Rightarrow> string option \<Rightarrow> string option \<Rightarrow> orch_context \<Rightarrow> (server_error, running) res" where
  "run_guardrails_server pem bind port cert_path key_path client_ca_path ctx =
     (case bind port of
        Some e \<Rightarrow> Err (server_error_of_io e)
      | None \<Rightarrow> res_map (\<lambda>tls. \<lparr>rn_port = port, rn_routes = guardrails_router (ctx_config ctx), rn_tls = tls\<rparr>)
          (configure_tls pem cert_path key_path client_ca_path))"

text \<open>Both servers; the health server is started first.\<close>

definition server_run ::
  "pem_env \<Rightarrow> listener \<Rightarrow> nat \<Rightarrow> nat \<Rightarrow> string option \<Rightarrow> string option \<Rightarrow> string option \<Rightarrow> orch_context
     \<Rightarrow> (server_error, running \<times> running) res" where
  "server_run pem bind guardrails_port health_port cert_path key_path client_ca_path ctx =
     res_bind (run_health_server bind health_port) (\<lambda>health.
     res_map (Pair health) (run_guardrails_server pem bind guardrails_port cert_path key_path client_ca_path ctx))"

section \<open>The program\<close>

datatype start_error =
    StartOptions validation_error
  | StartTracing string
  | StartConfig config_error
  | StartOrchestrator error

record main_env =
  mn_build_span :: exporter_env
  mn_build_metric :: exporter_env
  mn_read_file :: "string \<Rightarrow> string option"
  mn_parse_config :: "string \<Rightarrow> orchestrator_config option"
  mn_clients :: client_env
  mn_health :: "string \<Rightarrow> headers \<Rightarrow> health_check_result"
  mn_bind :: listener

definition check_tls_args :: "args \<Rightarrow> (start_error, unit) res" where
  "check_tls_args a =
     (if (ar_tls_key_path a \<noteq> None) \<noteq> (ar_tls_cert_path a \<noteq> None) then Panic
      else if ar_tls_client_ca_cert_path a \<noteq> None \<and> ar_tls_cert_path a = None then Panic
      else Ok ())"

definition start :: "main_env \<Rightarrow> args \<Rightarrow> (start_error, orch_context \<times> running \<times> running) res" where
  "start env a =
     res_bind (check_tls_args a) (\<lambda>_.
     res_bind (res_map_err StartOptions (tracing_config_of_args a)) (\<lambda>tracing.
     res_bind (res_map_err StartTracing (init_tracing (mn_build_span env) (mn_build_metric env) False tracing)) (\<lambda>_.
     res_bind (res_map_err StartConfig (load_config (mn_read_file env) (mn_parse_config env) (ar_config_path a))) (\<lambda>config.
     res_bind (res_map_err StartOrchestrator (orchestrator_new (mn_clients env) (mn_health env) config (ar_start_up_health_check a))) (\<lambda>ctx.
     case server_run (ce_pem (mn_clients env)) (mn_bind env) (ar_http_port a) (ar_health_http_port a)
         (ar_tls_cert_path a) (ar_tls_key_path a) (ar_tls_client_ca_cert_path a) ctx of
       Ok (health, guardrails) \<Rightarrow> Ok (ctx, health, guardrails)
     | _ \<Rightarrow> Panic)))))"

section \<open>Lemmas\<close>

text \<open>axum panics when a route is added twice.\<close>

lemma routers_distinct: "distinct (map fst health_router)" "distinct (map fst (guardrails_router config))"
  by (simp add: health_router_def, cases "openai config = None") (simp_all add: guardrails_router_def)

lemma completions_routed_iff:
  "(\<exists>path. (path, POST, ChatCompletionsDetection) \<in> set (guardrails_router config)) \<longleftrightarrow> openai config \<noteq> None"
  "(\<exists>path. (path, POST, CompletionsDetection) \<in> set (guardrails_router config)) \<longleftrightarrow> openai config \<noteq> None"
  by (auto simp: guardrails_router_def)

lemma check_tls_args_Ok:
  "check_tls_args a = Ok () \<longleftrightarrow> (ar_tls_key_path a \<noteq> None \<longleftrightarrow> ar_tls_cert_path a \<noteq> None)
     \<and> (ar_tls_client_ca_cert_path a \<noteq> None \<longrightarrow> ar_tls_cert_path a \<noteq> None)"
  by (auto simp: check_tls_args_def)

lemma server_run_Ok:
  "server_run pem bind gport hport cert_path key_path client_ca_path ctx = Ok (health, guardrails) \<longleftrightarrow>
     bind hport = None \<and> bind gport = None \<and> health = \<lparr>rn_port = hport, rn_routes = health_router, rn_tls = None\<rparr>
     \<and> (\<exists>tls. configure_tls pem cert_path key_path client_ca_path = (Ok tls :: (server_error, server_tls option) res)
          \<and> guardrails = \<lparr>rn_port = gport, rn_routes = guardrails_router (ctx_config ctx), rn_tls = tls\<rparr>)"
  by (auto simp: server_run_def run_health_server_def run_guardrails_server_def split: option.splits)

lemma started_iff:
  "(case r of Ok (health, guardrails) \<Rightarrow> Ok (c, health, guardrails) | _ \<Rightarrow> Panic) = Ok (ctx, h, g) \<longleftrightarrow> r = Ok (h, g) \<and> ctx = c"
  by (cases r) auto

lemma start_Ok:
  assumes "start env a = Ok (ctx, health, guardrails)"
  obtains config tls where "check_tls_args a = Ok ()"
    and "load_config (mn_read_file env) (mn_parse_config env) (ar_config_path a) = Ok config"
    and "orchestrator_new (mn_clients env) (mn_health env) config (ar_start_up_health_check a) = Ok ctx"
    and "health = \<lparr>rn_port = ar_health_http_port a, rn_routes = health_router, rn_tls = None\<rparr>"
    and "configure_tls (ce_pem (mn_clients env)) (ar_tls_cert_path a) (ar_tls_key_path a) (ar_tls_client_ca_cert_path a)
       = (Ok tls :: (server_error, server_tls option) res)"
    and "guardrails = \<lparr>rn_port = ar_http_port a, rn_routes = guardrails_router (ctx_config ctx), rn_tls = tls\<rparr>"
  using assms unfolding start_def started_iff res_bind_Ok_iff res_map_err_Ok_iff server_run_Ok by auto

section \<open>Properties\<close>


text \<open>The program with the configuration of the orchestrator's example, every file readable and every port free.\<close>

definition ex_main_env :: main_env where
  "ex_main_env = \<lparr>mn_build_span = (\<lambda>_ _ _. True), mn_build_metric = (\<lambda>_ _ _. True), mn_read_file = Some,
     mn_parse_config = (\<lambda>_. Some (ex_config ''d'')), mn_clients = ex_client_env,
     mn_health = (\<lambda>_ _. \<lparr>hr_status = Healthy, hr_code = 200, hr_reason = None\<rparr>), mn_bind = (\<lambda>_. None)\<rparr>"

definition ex_args :: args where
  "ex_args = args_default\<lparr>ar_tls_cert_path := Some ''cert'', ar_tls_key_path := Some ''key'', ar_tls_client_ca_cert_path := Some ''ca'',
     ar_start_up_health_check := True, ar_otlp_export := [Traces]\<rparr>"

lemma ex_load_config: "load_config Some (\<lambda>_. Some (ex_config ''d'')) path = Ok (ex_config ''d'')"
proof -
  have h: "is_valid_hostname ''host''" "is_valid_hostname ''localhost''" by code_simp+
  have u: "(ex_config ''d'')\<lparr>passthrough_headers := []\<rparr> = ex_config ''d''" "passthrough_headers (ex_config ''d'') = []"
    "tls_configs (ex_config ''d'') = None"
    by (simp_all add: ex_config_def orchestrator_config_default_def)
  have "validate_config (ex_config ''d'') = Ok ()"
    by (simp add: validate_config_def validate_generation_config_def validate_openai_configs_def validate_detector_configs_def
        validate_chunker_configs_def ex_config_def ex_service_def ex_detector_def service_config_new_def h)
  then show ?thesis by (simp add: load_config_def Let_def apply_named_tls_configs_def u)
qed

lemma ex_server_tls: "\<exists>tls. configure_tls ex_pem (Some ''cert'') (Some ''key'') (Some ''ca'') = (Ok (Some tls) :: (server_error, server_tls option) res)"
  by (simp add: configure_tls_def load_certs_def load_private_key_def client_roots_def ex_pem_def Let_def)

lemma ex_start: "\<exists>ctx health guardrails. start ex_main_env ex_args = Ok (ctx, health, guardrails)"
proof -
  obtain ctx where "orchestrator_new ex_client_env (\<lambda>_ _. \<lparr>hr_status = Healthy, hr_code = 200, hr_reason = None\<rparr>) (ex_config ''d'') True = Ok ctx"
    using ex_orchestrator by blast
  moreover obtain tls where "configure_tls ex_pem (Some ''cert'') (Some ''key'') (Some ''ca'') = (Ok (Some tls) :: (server_error, server_tls option) res)"
    using ex_server_tls by blast
  moreover have "ce_pem ex_client_env = ex_pem" by (simp add: ex_client_env_def)
  ultimately show ?thesis
    by (simp add: start_def ex_main_env_def ex_args_def args_default_def check_tls_args_def tracing_config_of_args_def validate_endpoint_def
        init_tracing_def init_tracer_provider_def init_meter_provider_def ex_load_config server_run_def run_health_server_def
        run_guardrails_server_def Let_def)
qed


text \<open>
  The generation endpoints exist even when no generation service is configured. Then a valid request for one of them panics, with no input
  detectors; there is no answer that says that generation is not configured.
\<close>

theorem generation_endpoint_panics_unconfigured:
  assumes "orchestrator_new env health cfg start_up = Ok ctx" "generation cfg = None"
    and "generation_with_detection_validate request = Ok ()"
    and "validate_detectors (gwd_detectors request) (detectors cfg) [TextGeneration] True = Ok ()"
    and "input_detectors (cw_guardrails_config task) = []"
    and "validate_detectors (output_detectors (cw_guardrails_config task)) (detectors cfg) [TextContents] True = Ok ()"
  shows "(\<exists>path. (path, POST, GenerationWithDetection) \<in> set (guardrails_router cfg))
     \<and> generation_with_detection sv ctx s hs (Inr request) = Panic
     \<and> handle_classification_with_gen sv ctx s s' hs task = Panic"
proof -
  have "get_client GenerationClient (ctx_clients ctx) ''generation'' = None" "ctx_config ctx = cfg"
    using assms(2) by (auto simp: get_client_def orchestrator_parts [OF assms(1)] split: option.splits)
  then show ?thesis using assms(3-6)
    by (simp add: guardrails_router_def generation_with_detection_def endpoint_def handle_generation_with_detection_def
        handle_classification_with_gen_def Let_def)
qed

end
