(* ===== verification/Program.thy ===== *)
theory Program
  imports Startup
begin

text \<open>
  The whole program: the services that the handlers use are the clients that the program made from its configuration. Which URLs of the network
  a started program sends requests to.
\<close>

section \<open>The clients of the program as its services\<close>

text \<open>The clients of the map take the place of those of \<open>env\<close>, which has the rest: network, serializers and stubs.\<close>

fun generation_of :: "dyn_generation \<Rightarrow> generation_client" where
  "generation_of (DynTgis _ retries) = GenerationTgis retries"
| "generation_of (DynNlp _ retries) = GenerationNlp retries"

definition program_env :: "dyn_map \<Rightarrow> service_env \<Rightarrow> service_env" where
  "program_env m env = env\<lparr>
     se_detectors := (\<lambda>i. case cm_get DetectorClient m i of Some (DynDetector c) \<Rightarrow> c | _ \<Rightarrow> se_detectors env i),
     se_openai := (case cm_get OpenAiClient m ''openai'' of Some (DynOpenAi c) \<Rightarrow> c | _ \<Rightarrow> se_openai env),
     se_generation := (case cm_get GenerationClient m ''generation'' of Some (DynGeneration g) \<Rightarrow> generation_of g | _ \<Rightarrow> se_generation env)\<rparr>"

text \<open>The URLs of a service of the configuration: its scheme, host and port, with any path.\<close>

definition service_url :: "client_env \<Rightarrow> nat \<Rightarrow> service_config \<Rightarrow> url \<Rightarrow> bool" where
  "service_url env port s u \<longleftrightarrow>
     (\<exists>b. ce_url_parse env (protocol s @ ''://'' @ s_hostname s) = Some b
        \<and> url_scheme u = url_scheme b \<and> url_host u = url_host b \<and> url_port u = Some (unwrap_or port (s_port s)))"

definition router_url :: "client_env \<Rightarrow> orchestrator_config \<Rightarrow> url \<Rightarrow> bool" where
  "router_url env cfg u \<longleftrightarrow>
     (\<exists>rc. router cfg = Some rc \<and> r_enabled rc \<and> service_url env (r_port rc) (service_config_new (r_hostname rc) (r_port rc)) u)"

definition detector_url :: "client_env \<Rightarrow> orchestrator_config \<Rightarrow> url \<Rightarrow> bool" where
  "detector_url env cfg u \<longleftrightarrow>
     router_url env cfg u \<or> (\<exists>i d. config_detector cfg i = Some d \<and> service_url env 8080 (dc_service d) u)"

definition model_url :: "client_env \<Rightarrow> orchestrator_config \<Rightarrow> url \<Rightarrow> bool" where
  "model_url env cfg u \<longleftrightarrow> router_url env cfg u \<or> (\<exists>p. openai cfg = Some p \<and> service_url env 8080 (o_service p) u)"

text \<open>Two networks that answer alike at the URLs of \<open>U\<close>.\<close>

definition agree_at :: "(url \<Rightarrow> bool) \<Rightarrow> network \<Rightarrow> network \<Rightarrow> bool" where
  "agree_at U net net' \<longleftrightarrow> (\<forall>u m hs body. U u \<longrightarrow> net u m hs body = net' u m hs body)"

section \<open>Clients\<close>

lemma create_http_client_url:
  assumes "create_http_client env port s = Ok client"
  shows "service_url env port s (client_endpoint client path)"
proof -
  let ?base = "\<lambda>b. case s_path_prefix s of Some p \<Rightarrow> if trim_slashes p \<noteq> [] then b\<lparr>url_path := ''/'' @ trim_slashes p\<rparr> else b | None \<Rightarrow> b"
  from assms obtain b opts where b: "base_url env (unwrap_or port (s_port s)) s = Ok b"
    and c: "client = http_client_new (?base b) (s_api_token s) opts"
    unfolding create_http_client_def Let_def res_bind_Ok_iff res.inject by blast
  have "url_scheme (?base b) = url_scheme b \<and> url_host (?base b) = url_host b \<and> url_port (?base b) = url_port b"
    by (simp split: option.split)
  then have "url_scheme (hc_base_url client) = url_scheme b \<and> url_host (hc_base_url client) = url_host b \<and> url_port (hc_base_url client) = url_port b"
    unfolding c http_client_new_def by (simp add: Let_def)
  with b show ?thesis by (auto simp: service_url_def base_url_def client_endpoint_def url_join_def split: if_splits)
qed

lemma router_client_url:
  "router_client env (router cfg) = Ok (Some rcl) \<Longrightarrow> router_url env cfg (client_endpoint rcl path)"
  by (auto simp: router_client_def router_url_def split: option.splits if_splits intro: create_http_client_url)

lemma http_post_at: "agree_at U net net' \<Longrightarrow> U u \<Longrightarrow> http_post net client u hs body = http_post net' client u hs body"
  by (simp add: http_post_def http_send_def agree_at_def)

lemma build_router_headers_client:
  "build_router_headers config client uuid model meth hs = Ok (t, rcl, hs') \<Longrightarrow> client = Some rcl"
  by (cases client) (auto simp: build_router_headers_def split: prod.splits)

lemma detector_post_at:
  assumes "agree_at U net net'" "U u" "\<And>rcl path. dcl_router_client client = Some rcl \<Longrightarrow> U (client_endpoint rcl path)"
  shows "detector_post net encode uuid parse parse_error client i u hs body = detector_post net' encode uuid parse parse_error client i u hs body"
proof (cases "detector_uses_router client i")
  case True
  show ?thesis
  proof (cases "detector_router_headers client uuid (unwrap_or (dcl_detector_id client) (dcl_model_id client)) hs")
    case (Ok x)
    obtain t rcl hs' where x: "x = (t, rcl, hs')" by (cases x)
    have "dcl_router_client client = Some rcl" using Ok x by (simp add: detector_router_headers_def build_router_headers_client)
    then show ?thesis using True Ok x http_post_at [OF assms(1) assms(3)] by (simp add: detector_post_def post_via_router_def)
  qed (simp_all add: detector_post_def post_via_router_def True)
qed (simp add: detector_post_def http_post_at [OF assms(1,2)])

lemma detector_client_new_urls:
  assumes "detector_client_new env i s hsrv (router cfg) model = Ok c"
  shows "service_url env 8080 s (client_endpoint (dcl_client c) path)"
    and "dcl_router_client c = Some rcl \<Longrightarrow> router_url env cfg (client_endpoint rcl path)"
proof -
  from assms obtain client hc rc where "create_http_client env 8080 s = Ok client" "router_client env (router cfg) = Ok rc"
    "dcl_client c = client" "dcl_router_client c = rc"
    by (auto simp: detector_client_new_def)
  then show "service_url env 8080 s (client_endpoint (dcl_client c) path)"
    "dcl_router_client c = Some rcl \<Longrightarrow> router_url env cfg (client_endpoint rcl path)"
    using create_http_client_url router_client_url by auto
qed

lemma program_detector_urls:
  assumes "dyn_create_clients cenv cfg = Ok m" "hm_wf (detectors cfg)" "config_detector cfg i = Some d"
  shows "detector_url cenv cfg (client_endpoint (dcl_client (se_detectors (program_env m env) i)) path)"
    and "dcl_router_client (se_detectors (program_env m env) i) = Some rcl \<Longrightarrow> detector_url cenv cfg (client_endpoint rcl path)"
proof -
  from dyn_detector_get [OF assms] obtain c where "cm_get DetectorClient m i = Some (DynDetector c)"
    and n: "detector_client_new cenv i (dc_service d) (dc_health_service d) (router cfg) (dc_model_id d) = Ok c" by blast
  then have c: "se_detectors (program_env m env) i = c" by (simp add: program_env_def)
  show "detector_url cenv cfg (client_endpoint (dcl_client (se_detectors (program_env m env) i)) path)"
    "dcl_router_client (se_detectors (program_env m env) i) = Some rcl \<Longrightarrow> detector_url cenv cfg (client_endpoint rcl path)"
    unfolding c detector_url_def using detector_client_new_urls [OF n] assms(3) by blast+
qed

lemma program_answers_at:
  assumes "dyn_create_clients cenv cfg = Ok m" "hm_wf (detectors cfg)" "config_detector cfg i = Some d"
    and "agree_at (detector_url cenv cfg) net net'" "e = program_env m env"
  shows "contents_answer (e\<lparr>se_net := net\<rparr>) i contents params hs = contents_answer (e\<lparr>se_net := net'\<rparr>) i contents params hs"
    and "generated_answer (e\<lparr>se_net := net\<rparr>) i prompt text params hs = generated_answer (e\<lparr>se_net := net'\<rparr>) i prompt text params hs"
    and "chat_answer (e\<lparr>se_net := net\<rparr>) i messages tools params hs = chat_answer (e\<lparr>se_net := net'\<rparr>) i messages tools params hs"
    and "context_answer (e\<lparr>se_net := net\<rparr>) i content ctype docs params hs = context_answer (e\<lparr>se_net := net'\<rparr>) i content ctype docs params hs"
  by (simp_all add: assms(5) contents_answer_def generated_answer_def chat_answer_def context_answer_def detector_text_contents_def
      detector_text_generation_def detector_text_chat_def detector_text_context_doc_def Let_def
      detector_post_at [OF assms(4) program_detector_urls(1) [OF assms(1-3)] program_detector_urls(2) [OF assms(1-3)]])

section \<open>Tasks\<close>

text \<open>The tasks send requests to configured detectors only.\<close>

lemma detector_request_cong:
  assumes "\<And>d ps. config_detector (ctx_config ctx) i = Some d \<Longrightarrow> send ps = send' ps"
  shows "detector_request ctx i params send = detector_request ctx i params send'"
  using assms by (cases "config_detector (ctx_config ctx) i") (simp_all add: detector_request_def take_threshold_def)

lemma contents_detections_configured:
  assumes "sv_tokenization_task sv = sv_tokenization_task sv'"
    and "\<And>i d contents params. config_detector (ctx_config ctx) i = Some d \<Longrightarrow> sv_text_contents sv i contents params hs = sv_text_contents sv' i contents params hs"
  shows "contents_detections sv ctx s hs ds inputs = contents_detections sv' ctx s hs ds inputs"
proof -
  have "chunk_request sv = chunk_request sv'" by (intro ext) (simp add: chunk_request_def assms(1))
  then have c: "chunk_input sv = chunk_input sv'" by (intro ext) (simp only: chunk_input_def)
  have d: "detector_request ctx i params (\<lambda>ps. detect_text_contents sv hs i ps cs True)
      = detector_request ctx i params (\<lambda>ps. detect_text_contents sv' hs i ps cs True)" for i params cs
    by (rule detector_request_cong) (simp add: detect_text_contents_def assms(2))
  show ?thesis unfolding contents_detections_def text_contents_detections_def chunks_def c d ..
qed

lemma result_detections_configured:
  "(\<And>i d prompt text params. config_detector (ctx_config ctx) i = Some d \<Longrightarrow>
      sv_text_generation sv i prompt text params hs = sv_text_generation sv' i prompt text params hs) \<Longrightarrow>
     text_generation_detections sv ctx ord hs ds p t = text_generation_detections sv' ctx ord hs ds p t"
  "(\<And>i d messages tools params. config_detector (ctx_config ctx) i = Some d \<Longrightarrow>
      sv_text_chat sv i messages tools params hs = sv_text_chat sv' i messages tools params hs) \<Longrightarrow>
     text_chat_detections sv ctx ord hs ds ms ts = text_chat_detections sv' ctx ord hs ds ms ts"
  "(\<And>i d content ctype docs params. config_detector (ctx_config ctx) i = Some d \<Longrightarrow>
      sv_text_context_doc sv i content ctype docs params hs = sv_text_context_doc sv' i content ctype docs params hs) \<Longrightarrow>
     text_context_detections sv ctx ord hs ds c ct dc = text_context_detections sv' ctx ord hs ds c ct dc"
  unfolding text_generation_detections_def text_chat_detections_def text_context_detections_def
  by (intro arg_cong [where f = "\<lambda>rs. res_map concat (try_collect_unordered ord rs)"] map_cong refl,
      clarify, intro detector_request_cong, simp add: detect_text_generation_def detect_text_chat_def detect_text_context_def)+

section \<open>The model server\<close>

lemma handle_at:
  assumes "agree_at U net net'" "U u"
  shows "handle_unary_with_body net p pe client u body hs = handle_unary_with_body net' p pe client u body hs"
    and "handle_stream_with_body net w limit client u body hs = handle_stream_with_body net' w limit client u body hs"
    and "handle_unary net w' oc u request hs = handle_unary net' w' oc u request hs"
    and "handle_streaming net w' limit oc u request hs = handle_streaming net' w' limit oc u request hs"
  by (simp_all add: handle_unary_with_body_def handle_stream_with_body_def handle_unary_def handle_streaming_def http_post_at [OF assms])

lemma router_bind_cong:
  assumes "\<And>t rcl hs'. client = Some rcl \<Longrightarrow> f (t, rcl, hs') = g (t, rcl, hs')"
  shows "res_bind (build_router_headers config client uuid model meth hs) f = res_bind (build_router_headers config client uuid model meth hs) g"
proof (cases "build_router_headers config client uuid model meth hs")
  case (Ok x)
  obtain t rcl hs' where x: "x = (t, rcl, hs')" by (cases x)
  show ?thesis using assms [OF build_router_headers_client [OF Ok [unfolded x]]] by (simp add: Ok x)
qed simp_all

lemma route_via_router_at:
  assumes "agree_at U net net'" "\<And>rcl path. ocl_router_client client = Some rcl \<Longrightarrow> U (client_endpoint rcl path)"
  shows "route_via_router net w limit uuid client model body path stream hs = route_via_router net' w limit uuid client model body path stream hs"
  unfolding route_via_router_def by (auto intro!: router_bind_cong simp: handle_at [OF assms(1) assms(2)])

lemma tokenize_via_router_at:
  assumes "agree_at U net net'" "\<And>rcl path. ocl_router_client client = Some rcl \<Longrightarrow> U (client_endpoint rcl path)"
  shows "tokenize_via_router net w uuid client request hs model = tokenize_via_router net' w uuid client request hs model"
  unfolding tokenize_via_router_def by (auto intro!: router_bind_cong simp: handle_at [OF assms(1) assms(2)])

lemma openai_at:
  assumes "agree_at U net net'" "\<And>path. U (client_endpoint (ocl_client client) path)"
    and "\<And>rcl path. ocl_router_client client = Some rcl \<Longrightarrow> U (client_endpoint rcl path)"
  shows "chat_completions net w mj limit uuid client request hs = chat_completions net' w mj limit uuid client request hs"
    and "completions net w' limit uuid client request' hs = completions net' w' limit uuid client request' hs"
    and "openai_tokenize net w'' uuid client request'' hs = openai_tokenize net' w'' uuid client request'' hs"
  by (simp_all add: chat_completions_def chat_completions_via_router_def completions_def completions_via_router_def openai_tokenize_def
      tokenize_via_router_at [OF assms(1,3)] Let_def route_via_router_at [OF assms(1,3)] handle_at [OF assms(1,2)])

lemma dyn_insert_origin:
  "dyn_insert_clients new entries m = Ok m' \<Longrightarrow> hm_get m' i = Some x \<Longrightarrow> hm_get m i = Some x \<or> (\<exists>c. new c = Ok x)"
  by (induction new entries m rule: dyn_insert_clients.induct) (fastforce simp: cm_insert_def split: if_splits)+

lemma program_openai_new:
  assumes "dyn_create_clients env cfg = Ok m" "hm_get m i = Some (DynOpenAi c)"
  shows "\<exists>p. openai cfg = Some p \<and> openai_client_new env (o_service p) (o_health_service p) (router cfg) = Ok c"
proof -
  from assms(1) obtain m1 m2 m3 where m1: "(case generation cfg of
         Some g \<Rightarrow> res_map (\<lambda>c. cm_insert ''generation'' (DynGeneration c) cm_new) (dyn_generation_new env g) | None \<Rightarrow> Ok cm_new) = Ok m1"
    and m2: "(case openai cfg of
         Some p \<Rightarrow> res_map (\<lambda>c. cm_insert ''openai'' (DynOpenAi c) m1)
            (openai_client_new env (o_service p) (o_health_service p) (router cfg)) | None \<Rightarrow> Ok m1) = Ok m2"
    and m3: "(case chunkers cfg of
         Some cs \<Rightarrow> dyn_insert_clients (\<lambda>c. res_map DynChunker (chunker_client_new env (ch_service c))) cs m2 | None \<Rightarrow> Ok m2) = Ok m3"
    and m4: "dyn_insert_clients (dyn_detector_new env cfg) (map (\<lambda>(i, d). (i, i, d)) (detectors cfg)) m3 = Ok m"
    by (rule dyn_create_clients_parts)
  have "hm_get m3 i = Some (DynOpenAi c)"
    using dyn_insert_origin [OF m4 assms(2)] by (auto simp: dyn_detector_new_def split: prod.splits)
  then have "hm_get m2 i = Some (DynOpenAi c)"
    using m3 dyn_insert_origin [of "\<lambda>c. res_map DynChunker (chunker_client_new env (ch_service c))" _ m2 m3 i "DynOpenAi c"]
    by (cases "chunkers cfg") auto
  moreover have "hm_get m1 i \<noteq> Some (DynOpenAi c)" using m1 by (cases "generation cfg") (auto simp: cm_insert_def cm_new_def split: if_splits)
  ultimately show ?thesis using m2 by (cases "openai cfg") (auto simp: cm_insert_def split: if_splits)
qed

lemma program_openai_urls:
  assumes "dyn_create_clients cenv cfg = Ok m" "cm_get OpenAiClient m ''openai'' \<noteq> None"
  shows "model_url cenv cfg (client_endpoint (ocl_client (se_openai (program_env m env))) path)"
    and "ocl_router_client (se_openai (program_env m env)) = Some rcl \<Longrightarrow> model_url cenv cfg (client_endpoint rcl path)"
proof -
  from assms(2) obtain c where g: "cm_get OpenAiClient m ''openai'' = Some (DynOpenAi c)" "hm_get m ''openai'' = Some (DynOpenAi c)"
    by (auto simp: cm_get_eq) (metis client.distinct(5,9,11) type_id.elims)
  then have c: "se_openai (program_env m env) = c" by (simp add: program_env_def)
  from program_openai_new [OF assms(1) g(2)] obtain p where p: "openai cfg = Some p"
    and n: "openai_client_new cenv (o_service p) (o_health_service p) (router cfg) = Ok c" by blast
  from n have "create_http_client cenv 8080 (o_service p) = Ok (ocl_client c)" "router_client cenv (router cfg) = Ok (ocl_router_client c)"
    by (auto simp: openai_client_new_def)
  with p show "model_url cenv cfg (client_endpoint (ocl_client (se_openai (program_env m env))) path)"
    "ocl_router_client (se_openai (program_env m env)) = Some rcl \<Longrightarrow> model_url cenv cfg (client_endpoint rcl path)"
    unfolding c model_url_def by (auto intro: create_http_client_url router_client_url)
qed

section \<open>Handlers\<close>

text \<open>The handlers use the services through the detection tasks and, where there is a client for it, the model server.\<close>

definition same_tasks :: "services \<Rightarrow> services \<Rightarrow> orch_context \<Rightarrow> headers \<Rightarrow> bool" where
  "same_tasks sv sv' ctx hs \<longleftrightarrow>
     (\<forall>s ds inputs. contents_detections sv ctx s hs ds inputs = contents_detections sv' ctx s hs ds inputs)
     \<and> (\<forall>ord ds p t. text_generation_detections sv ctx ord hs ds p t = text_generation_detections sv' ctx ord hs ds p t)
     \<and> (\<forall>ord ds ms ts. text_chat_detections sv ctx ord hs ds ms ts = text_chat_detections sv' ctx ord hs ds ms ts)
     \<and> (\<forall>ord ds c ct dc. text_context_detections sv ctx ord hs ds c ct dc = text_context_detections sv' ctx ord hs ds c ct dc)"

definition same_model :: "services \<Rightarrow> services \<Rightarrow> bool" where
  "same_model sv sv' \<longleftrightarrow> sv_chat_completions sv = sv_chat_completions sv' \<and> sv_completions sv = sv_completions sv'
     \<and> sv_openai_tokenize sv = sv_openai_tokenize sv'"

lemma spawn_tasks_cong:
  assumes "same_tasks sv sv' ctx hs"
  shows "spawn_chat_tasks sv ctx sc hs messages tools choice groups = spawn_chat_tasks sv' ctx sc hs messages tools choice groups"
    and "spawn_completion_tasks sv ctx sc hs prompt ch groups = spawn_completion_tasks sv' ctx sc hs prompt ch groups"
  using assms unfolding same_tasks_def
  by (induction groups) (auto split: detector_type.splits option.splits)

lemma detection_endpoints_cong:
  assumes "same_tasks sv sv' ctx (passed_headers ctx hs)"
  shows "detection_content sv ctx s hs contents_request = detection_content sv' ctx s hs contents_request"
    and "detect_generated sv ctx s hs generated_request = detect_generated sv' ctx s hs generated_request"
    and "detect_chat sv ctx s hs chat_request = detect_chat sv' ctx s hs chat_request"
    and "detect_context_documents sv ctx s hs docs_request = detect_context_documents sv' ctx s hs docs_request"
  using assms
  by (simp_all add: same_tasks_def detection_content_def detect_generated_def detect_chat_def detect_context_documents_def endpoint_def
      handle_text_content_detection_def handle_detection_on_generation_def handle_chat_detection_def handle_context_docs_detection_def)

lemma guarded_call:
  "(x \<noteq> None \<Longrightarrow> r = r') \<Longrightarrow> res_bind (unwrap x) (\<lambda>_. res_bind r k) = res_bind (unwrap x) (\<lambda>_. res_bind r' k)"
  by (cases x) simp_all

lemma model_calls_cong:
  assumes "get_client OpenAiClient (ctx_clients ctx) ''openai'' \<noteq> None \<Longrightarrow> same_model sv sv'"
  shows "res_bind (unwrap (get_client OpenAiClient (ctx_clients ctx) ''openai'')) (\<lambda>_. res_bind (tokenize_openai sv hs t) k)
      = res_bind (unwrap (get_client OpenAiClient (ctx_clients ctx) ''openai'')) (\<lambda>_. res_bind (tokenize_openai sv' hs t) k)"
    and "res_bind (unwrap (get_client OpenAiClient (ctx_clients ctx) ''openai'')) (\<lambda>_. res_bind (chat_completion_call sv hs cr) l)
      = res_bind (unwrap (get_client OpenAiClient (ctx_clients ctx) ''openai'')) (\<lambda>_. res_bind (chat_completion_call sv' hs cr) l)"
    and "res_bind (unwrap (get_client OpenAiClient (ctx_clients ctx) ''openai'')) (\<lambda>_. res_bind (completion_call sv hs pr) j)
      = res_bind (unwrap (get_client OpenAiClient (ctx_clients ctx) ''openai'')) (\<lambda>_. res_bind (completion_call sv' hs pr) j)"
  using assms
  by (auto intro!: guarded_call simp: same_model_def tokenize_openai_def chat_completion_call_def completion_call_def)

lemma unary_completions_cong:
  assumes "same_tasks sv sv' ctx hs" "get_client OpenAiClient (ctx_clients ctx) ''openai'' \<noteq> None \<Longrightarrow> same_model sv sv'"
  shows "chat_handle_unary sv ctx env hs request = chat_handle_unary sv' ctx env hs request"
    and "completion_handle_unary sv ctx env hs request' = completion_handle_unary sv' ctx env hs request'"
proof -
  note s = spawn_tasks_cong [OF assms(1)] and m = model_calls_cong [of ctx sv sv', OF assms(2), simplified]
  have c: "contents_detections sv ctx s hs ds inputs = contents_detections sv' ctx s hs ds inputs" for s ds inputs
    using assms(1) by (simp add: same_tasks_def)
  have out: "chat_handle_output_detection sv ctx sc gord hord hs r ds cm = chat_handle_output_detection sv' ctx sc gord hord hs r ds cm"
    "completion_handle_output_detection sv ctx sc gord hord hs r' ds cm' = completion_handle_output_detection sv' ctx sc gord hord hs r' ds cm'"
    for sc gord hord r r' ds cm cm'
    unfolding chat_handle_output_detection_def completion_handle_output_detection_def s by (rule refl)+
  have inp: "chat_handle_input_detection sv ctx s uuid now hs r ds = chat_handle_input_detection sv' ctx s uuid now hs r ds"
    "completion_handle_input_detection sv ctx s uuid now hs r' ds = completion_handle_input_detection sv' ctx s uuid now hs r' ds"
    for s uuid now r r' ds
    unfolding chat_handle_input_detection_def completion_handle_input_detection_def c m by (rule refl)+
  show "chat_handle_unary sv ctx env hs request = chat_handle_unary sv' ctx env hs request"
    "completion_handle_unary sv ctx env hs request' = completion_handle_unary sv' ctx env hs request'"
    unfolding chat_handle_unary_def completion_handle_unary_def m out inp by (rule refl)+
qed

text \<open>Streaming handlers open detection streams, and the generation endpoints call the generation service, which is not reached over HTTP.\<close>

definition same_streams :: "services \<Rightarrow> services \<Rightarrow> orch_context \<Rightarrow> headers \<Rightarrow> bool" where
  "same_streams sv sv' ctx hs \<longleftrightarrow> (\<forall>rxs dxs ds i inputs.
     text_contents_detection_streams sv ctx rxs dxs hs ds i inputs = text_contents_detection_streams sv' ctx rxs dxs hs ds i inputs)"

definition same_generation :: "services \<Rightarrow> services \<Rightarrow> bool" where
  "same_generation sv sv' \<longleftrightarrow> sv_tokenize sv = sv_tokenize sv' \<and> sv_generate sv = sv_generate sv' \<and> sv_generate_stream sv = sv_generate_stream sv'"

lemma detection_task_cong:
  assumes "\<And>contents params. sv_text_contents sv i contents params hs = sv_text_contents sv' i contents params hs"
  shows "detection_task sv ctx hs i params threshold input_id ms = detection_task sv' ctx hs i params threshold input_id ms"
proof -
  have "detect_text_contents sv hs i params cs b = detect_text_contents sv' hs i params cs b" for cs b
    by (simp add: detect_text_contents_def assms)
  then show ?thesis by (induction sv ctx hs i params threshold input_id ms rule: detection_task.induct) (simp_all split: option.splits)
qed

lemma detection_streams_configured:
  assumes "sv_bidi_tokenization sv = sv_bidi_tokenization sv'"
    and "\<And>i d contents params. config_detector (ctx_config ctx) i = Some d \<Longrightarrow> sv_text_contents sv i contents params hs = sv_text_contents sv' i contents params hs"
  shows "same_streams sv sv' ctx hs"
proof -
  have "chunk_stream sv = chunk_stream sv'" by (intro ext) (simp add: chunk_stream_def assms(1))
  then have c: "chunk_streams sv = chunk_streams sv'" by (intro ext) (simp only: chunk_streams_def)
  have d: "res_bind (take_threshold ctx i params) (\<lambda>(threshold, ps). f threshold ps (detection_task sv ctx hs i ps threshold))
      = res_bind (take_threshold ctx i params) (\<lambda>(threshold, ps). f threshold ps (detection_task sv' ctx hs i ps threshold))"
    for i params and f :: "f64 \<Rightarrow> detector_params \<Rightarrow> _ \<Rightarrow> (error, item list) res"
  proof (cases "config_detector (ctx_config ctx) i")
    case (Some d)
    have "detection_task sv ctx hs i ps threshold = detection_task sv' ctx hs i ps threshold" for ps threshold
      by (intro ext detection_task_cong assms(2) [OF Some])
    then show ?thesis by simp
  qed (simp add: take_threshold_def)
  show ?thesis
    unfolding same_streams_def text_contents_detection_streams_def c
    by (intro allI) (simp only: d [where f = "\<lambda>threshold ps t. res_bind (unwrap (get_chunker_id (ctx_config ctx) _)) (\<lambda>chunker_id.
       res_map (\<lambda>cs. t _ (broadcast_recv _ cs)) (unwrap (hm_get _ chunker_id)))"])
qed

lemma spawn_whole_doc_tasks_cong:
  assumes "same_tasks sv sv' ctx hs"
  shows "spawn_whole_doc_chat_tasks sv ctx sc hs messages tools choice groups = spawn_whole_doc_chat_tasks sv' ctx sc hs messages tools choice groups"
proof (cases choice)
  case (Pair i m)
  show ?thesis using assms unfolding same_tasks_def Pair
    by (induction groups) (auto split: detector_type.splits option.splits)
qed

lemma guarded_stream:
  "(x \<noteq> None \<Longrightarrow> r = r') \<Longrightarrow> res_bind (unwrap x) (\<lambda>_. r) = res_bind (unwrap x) (\<lambda>_. r')"
  by (cases x) simp_all

lemma model_streams_cong:
  assumes "get_client OpenAiClient (ctx_clients ctx) ''openai'' \<noteq> None \<Longrightarrow> same_model sv sv'"
  shows "res_bind (unwrap (get_client OpenAiClient (ctx_clients ctx) ''openai'')) (\<lambda>_. chat_completion_stream sv hs cr)
      = res_bind (unwrap (get_client OpenAiClient (ctx_clients ctx) ''openai'')) (\<lambda>_. chat_completion_stream sv' hs cr)"
    and "res_bind (unwrap (get_client OpenAiClient (ctx_clients ctx) ''openai'')) (\<lambda>_. completion_stream sv hs pr)
      = res_bind (unwrap (get_client OpenAiClient (ctx_clients ctx) ''openai'')) (\<lambda>_. completion_stream sv' hs pr)"
  using assms by (auto intro!: guarded_stream simp: same_model_def chat_completion_stream_def completion_stream_def)

lemma streaming_completions_cong:
  assumes "same_tasks sv sv' ctx hs" "same_streams sv sv' ctx hs"
    and "get_client OpenAiClient (ctx_clients ctx) ''openai'' \<noteq> None \<Longrightarrow> same_model sv sv'"
  shows "chat_handle_streaming sv ctx env limit hs request = chat_handle_streaming sv' ctx env limit hs request"
    and "completion_handle_streaming sv ctx env' limit hs request' = completion_handle_streaming sv' ctx env' limit hs request'"
proof -
  note m = model_calls_cong [of ctx sv sv', OF assms(3), simplified] and ms = model_streams_cong [of ctx sv sv', OF assms(3), simplified]
  have c: "contents_detections sv ctx s hs ds inputs = contents_detections sv' ctx s hs ds inputs" for s ds inputs
    using assms(1) by (simp add: same_tasks_def)
  have st: "text_contents_detection_streams sv ctx rxs dxs hs ds i inputs = text_contents_detection_streams sv' ctx rxs dxs hs ds i inputs" for rxs dxs ds i inputs
    using assms(2) by (simp add: same_streams_def)
  have whole: "chat_handle_whole_doc_detection sv ctx e hs r ds cs = chat_handle_whole_doc_detection sv' ctx e hs r ds cs"
    "completion_handle_whole_doc_detection sv ctx e' hs r' ds cs' = completion_handle_whole_doc_detection sv' ctx e' hs r' ds cs'" for e e' r r' ds cs cs'
    unfolding chat_handle_whole_doc_detection_def completion_handle_whole_doc_detection_def spawn_whole_doc_tasks_cong [OF assms(1)]
      spawn_tasks_cong [OF assms(1)] by (rule refl)+
  have out: "chat_stream_handle_output_detection sv ctx e hs r ds msgs tx = chat_stream_handle_output_detection sv' ctx e hs r ds msgs tx"
    "completion_stream_handle_output_detection sv ctx e' hs r' ds msgs' tx' = completion_stream_handle_output_detection sv' ctx e' hs r' ds msgs' tx'"
    for e e' r r' ds msgs msgs' tx tx'
    unfolding chat_stream_handle_output_detection_def completion_stream_handle_output_detection_def chat_final_message_def completion_final_message_def st whole
    by (rule refl)+
  have inp: "chat_stream_handle_input_detection sv ctx s uuid now hs r ds = chat_stream_handle_input_detection sv' ctx s uuid now hs r ds"
    "completion_stream_handle_input_detection sv ctx s uuid now hs r' ds = completion_stream_handle_input_detection sv' ctx s uuid now hs r' ds"
    for s uuid now r r' ds
    unfolding chat_stream_handle_input_detection_def completion_stream_handle_input_detection_def c m by (rule refl)+
  show "chat_handle_streaming sv ctx env limit hs request = chat_handle_streaming sv' ctx env limit hs request"
    "completion_handle_streaming sv ctx env' limit hs request' = completion_handle_streaming sv' ctx env' limit hs request'"
    unfolding chat_handle_streaming_def chat_streaming_task_def completion_handle_streaming_def completion_streaming_task_def out inp ms by (rule refl)+
qed

lemma generation_endpoints_cong:
  assumes "same_tasks sv sv' ctx (passed_headers ctx hs)" "same_streams sv sv' ctx (passed_headers ctx hs)" "same_generation sv sv'"
  shows "classification_with_gen sv ctx s1 s2 hs request = classification_with_gen sv' ctx s1 s2 hs request"
    and "generation_with_detection sv ctx s hs request' = generation_with_detection sv' ctx s hs request'"
    and "stream_classification_with_gen sv ctx env limit hs request = stream_classification_with_gen sv' ctx env limit hs request"
    and "stream_content_detection sv ctx rxs dxs batches limit hs json_lines = stream_content_detection sv' ctx rxs dxs batches limit hs json_lines"
proof -
  let ?hs = "passed_headers ctx hs"
  have c: "contents_detections sv ctx s ?hs ds inputs = contents_detections sv' ctx s ?hs ds inputs"
    "text_generation_detections sv ctx ord ?hs ds p t = text_generation_detections sv' ctx ord ?hs ds p t"
    "text_contents_detection_streams sv ctx rxs dxs ?hs ds i msgs = text_contents_detection_streams sv' ctx rxs dxs ?hs ds i msgs"
    for s ds inputs ord p t rxs dxs i msgs
    using assms(1,2) by (simp_all add: same_tasks_def same_streams_def)
  have g: "generate sv = generate sv'" "tokenize sv = tokenize sv'" "generate_stream sv = generate_stream sv'"
    using assms(3) by (simp_all add: fun_eq_iff same_generation_def generate_def tokenize_def generate_stream_def)
  show "classification_with_gen sv ctx s1 s2 hs request = classification_with_gen sv' ctx s1 s2 hs request"
    "generation_with_detection sv ctx s hs request' = generation_with_detection sv' ctx s hs request'"
    "stream_classification_with_gen sv ctx env limit hs request = stream_classification_with_gen sv' ctx env limit hs request"
    "stream_content_detection sv ctx rxs dxs batches limit hs json_lines = stream_content_detection sv' ctx rxs dxs batches limit hs json_lines"
    unfolding classification_with_gen_def generation_with_detection_def endpoint_def handle_classification_with_gen_def cg_handle_input_detection_def
      cg_handle_output_detection_def handle_generation_with_detection_def stream_classification_with_gen_def
      handle_streaming_classification_with_gen_def gen_stream_handle_input_detection_def gen_stream_handle_output_detection_def
      stream_content_detection_def handle_streaming_content_detection_def content_handle_detection_def c g
    by (rule refl)+
qed

lemma completions_endpoints_cong:
  assumes "same_tasks sv sv' ctx (passed_headers ctx hs)" "same_streams sv sv' ctx (passed_headers ctx hs)"
    and "get_client OpenAiClient (ctx_clients ctx) ''openai'' \<noteq> None \<Longrightarrow> same_model sv sv'"
  shows "chat_completions_detection sv ctx uenv senv limit hs request = chat_completions_detection sv' ctx uenv senv limit hs request"
    and "completions_detection sv ctx uenv cenv limit hs request' = completions_detection sv' ctx uenv cenv limit hs request'"
  unfolding chat_completions_detection_def completions_detection_def endpoint_def handle_chat_completions_detection_def handle_completions_detection_def
    unary_completions_cong [OF assms(1,3), simplified] streaming_completions_cong [OF assms, simplified]
  by (rule refl)+

definition program_url :: "client_env \<Rightarrow> orchestrator_config \<Rightarrow> url \<Rightarrow> bool" where
  "program_url env cfg u \<longleftrightarrow> detector_url env cfg u \<or> model_url env cfg u"

lemma agree_at_mono: "agree_at U net net' \<Longrightarrow> (\<And>u. V u \<Longrightarrow> U u) \<Longrightarrow> agree_at V net net'"
  by (simp add: agree_at_def)

lemma program_services:
  assumes "dyn_create_clients cenv (ctx_config ctx) = Ok m" "hm_wf (detectors (ctx_config ctx))"
    and "agree_at (program_url cenv (ctx_config ctx)) net net'"
  shows "same_tasks (services_of ((program_env m env)\<lparr>se_net := net\<rparr>)) (services_of ((program_env m env)\<lparr>se_net := net'\<rparr>)) ctx hs"
    and "cm_get OpenAiClient m ''openai'' \<noteq> None \<Longrightarrow>
      same_model (services_of ((program_env m env)\<lparr>se_net := net\<rparr>)) (services_of ((program_env m env)\<lparr>se_net := net'\<rparr>))"
    and "same_streams (services_of ((program_env m env)\<lparr>se_net := net\<rparr>)) (services_of ((program_env m env)\<lparr>se_net := net'\<rparr>)) ctx hs"
    and "same_generation (services_of ((program_env m env)\<lparr>se_net := net\<rparr>)) (services_of ((program_env m env)\<lparr>se_net := net'\<rparr>))"
proof -
  have d: "agree_at (detector_url cenv (ctx_config ctx)) net net'" and o: "agree_at (model_url cenv (ctx_config ctx)) net net'"
    using assms(3) by (auto elim!: agree_at_mono simp: program_url_def)
  note a = program_answers_at [OF assms(1,2) _ d refl]
  show "same_tasks (services_of ((program_env m env)\<lparr>se_net := net\<rparr>)) (services_of ((program_env m env)\<lparr>se_net := net'\<rparr>)) ctx hs"
    unfolding same_tasks_def
    by (intro conjI allI contents_detections_configured result_detections_configured) (simp_all add: services_of_def a)
  show "same_streams (services_of ((program_env m env)\<lparr>se_net := net\<rparr>)) (services_of ((program_env m env)\<lparr>se_net := net'\<rparr>)) ctx hs"
    by (rule detection_streams_configured) (simp_all add: services_of_def a)
  show "same_generation (services_of ((program_env m env)\<lparr>se_net := net\<rparr>)) (services_of ((program_env m env)\<lparr>se_net := net'\<rparr>))"
    by (simp add: same_generation_def services_of_def)
  assume c: "cm_get OpenAiClient m ''openai'' \<noteq> None"
  show "same_model (services_of ((program_env m env)\<lparr>se_net := net\<rparr>)) (services_of ((program_env m env)\<lparr>se_net := net'\<rparr>))"
    by (simp add: same_model_def services_of_def fun_eq_iff openai_at [OF o program_openai_urls [OF assms(1) c]])
qed

lemma started_clients:
  assumes "start env a = Ok (ctx, health, guardrails)"
  shows "\<exists>m. dyn_create_clients (mn_clients env) (ctx_config ctx) = Ok m \<and> ctx_clients ctx = client_tags m"
proof -
  from assms obtain config where o: "orchestrator_new (mn_clients env) (mn_health env) config (ar_start_up_health_check a) = Ok ctx"
    by (rule start_Ok)
  then have "create_clients (mn_clients env) config = Ok (ctx_clients ctx)" "ctx_config ctx = config"
    by (auto simp: orchestrator_new_def Let_def)
  then show ?thesis using dyn_create_tags [of "mn_clients env" config] by (metis res_map_Ok_iff)
qed

section \<open>Properties\<close>


text \<open>No service of the example uses TLS; requests to other schemes fail in one of two networks and not in the other.\<close>

lemma ex_program_url: "program_url ex_client_env (ex_config ''d'') u \<Longrightarrow> url_scheme u = ''http''"
  by (auto simp: program_url_def detector_url_def model_url_def router_url_def service_url_def ex_client_env_def ex_config_def ex_service_def
      ex_detector_def service_config_new_def protocol_def config_detector_def orchestrator_config_default_def split: if_splits)


end
