(* ===== verification/Serde.thy ===== *)
theory Serde
  imports Models "HOL-Library.Char_ord" "HOL-Library.List_Lexorder"
begin

text \<open>
  JSON of structs and enums as the attributes of \<^verbatim>\<open>serde\<close> describe it: what a field contributes to an object (always, \<^verbatim>\<open>skip_serializing_if\<close>), and
  how a field is read (required, optional, \<^verbatim>\<open>default\<close>). The names of an object are distinct. A struct is read from an object; the form as an
  array, which \<^verbatim>\<open>serde\<close> reads as well and never writes, is left out.
\<close>

named_theorems serde

named_theorems reads

section \<open>Writing fields\<close>

definition put :: "string \<Rightarrow> json \<Rightarrow> (string \<times> json) list \<Rightarrow> (string \<times> json) list" where
  "put k j fs = (k, j) # fs"

text \<open>\<^verbatim>\<open>Option\<close> without an attribute, and with \<^verbatim>\<open>skip_serializing_if = "Option::is_none"\<close>.\<close>

definition put_opt :: "('a \<Rightarrow> json) \<Rightarrow> string \<Rightarrow> 'a option \<Rightarrow> (string \<times> json) list \<Rightarrow> (string \<times> json) list" where
  "put_opt enc k x fs = (k, case x of Some y \<Rightarrow> enc y | None \<Rightarrow> JNull) # fs"

definition put_some :: "('a \<Rightarrow> json) \<Rightarrow> string \<Rightarrow> 'a option \<Rightarrow> (string \<times> json) list \<Rightarrow> (string \<times> json) list" where
  "put_some enc k x fs = (case x of Some y \<Rightarrow> (k, enc y) # fs | None \<Rightarrow> fs)"

text \<open>\<^verbatim>\<open>skip_serializing_if = "String::is_empty"\<close> and the like.\<close>

definition put_nonempty :: "('a list \<Rightarrow> json) \<Rightarrow> string \<Rightarrow> 'a list \<Rightarrow> (string \<times> json) list \<Rightarrow> (string \<times> json) list" where
  "put_nonempty enc k x fs = (if x = [] then fs else (k, enc x) # fs)"

section \<open>Reading fields\<close>

text \<open>The value under a name, if there is one: required, optional (absent and \<^verbatim>\<open>null\<close> are \<^verbatim>\<open>None\<close>), and with \<^verbatim>\<open>default\<close>.\<close>

definition required :: "(json \<Rightarrow> 'a option) \<Rightarrow> json option \<Rightarrow> 'a option" where
  "required dec v = Option.bind v dec"

definition optional :: "(json \<Rightarrow> 'a option) \<Rightarrow> json option \<Rightarrow> 'a option option" where
  "optional dec v = (case v of None \<Rightarrow> Some None | Some j \<Rightarrow> if j = JNull then Some None else map_option Some (dec j))"

definition defaulted :: "'a \<Rightarrow> (json \<Rightarrow> 'a option) \<Rightarrow> json option \<Rightarrow> 'a option" where
  "defaulted d dec v = (case v of None \<Rightarrow> Some d | Some j \<Rightarrow> dec j)"

text \<open>A struct from an object; with \<^verbatim>\<open>deny_unknown_fields\<close> every name must be one of its fields.\<close>

fun struct :: "((string \<times> json) list \<Rightarrow> 'a option) \<Rightarrow> json \<Rightarrow> 'a option" where
  "struct dec (JObject fs) = dec fs"
| "struct dec _ = None"

definition known_only :: "string list \<Rightarrow> (string \<times> json) list \<Rightarrow> bool" where
  "known_only names fs \<longleftrightarrow> list_all (\<lambda>(k, _). k \<in> set names) fs"

text \<open>\<^verbatim>\<open>flatten\<close>: the fields that are none of the struct's own.\<close>

definition extra_fields :: "string list \<Rightarrow> (string \<times> json) list \<Rightarrow> (string \<times> json) list" where
  "extra_fields names fs = filter (\<lambda>(k, _). k \<notin> set names) fs"

text \<open>An untagged enum is read as its first variant that fits.\<close>

definition first_variant :: "'a option \<Rightarrow> 'a option \<Rightarrow> 'a option" where
  "first_variant x y = (case x of Some v \<Rightarrow> Some v | None \<Rightarrow> y)"

section \<open>Values\<close>

fun string_of :: "json \<Rightarrow> string option" where
  "string_of (JString s) = Some s"
| "string_of _ = None"

fun bool_of :: "json \<Rightarrow> bool option" where
  "bool_of (JBool b) = Some b"
| "bool_of _ = None"

definition nat_json :: "nat \<Rightarrow> json" where
  "nat_json n = JInt (int n)"

fun nat_below :: "nat \<Rightarrow> json \<Rightarrow> nat option" where
  "nat_below b (JInt i) = (if 0 \<le> i \<and> i < int b then Some (nat i) else None)"
| "nat_below b _ = None"

definition u32_json :: "u32 \<Rightarrow> json" where
  "u32_json w = JInt (uint w)"

definition u32_of :: "json \<Rightarrow> u32 option" where
  "u32_of j = map_option of_nat (nat_below (2 ^ 32) j)"

fun int_between :: "int \<Rightarrow> int \<Rightarrow> json \<Rightarrow> int option" where
  "int_between lo hi (JInt i) = (if lo \<le> i \<and> i \<le> hi then Some i else None)"
| "int_between lo hi _ = None"

definition usize_of :: "json \<Rightarrow> nat option" where
  "usize_of = nat_below (2 ^ 64)"

definition u16_of :: "json \<Rightarrow> nat option" where
  "u16_of = nat_below (2 ^ 16)"

definition u8_of :: "json \<Rightarrow> nat option" where
  "u8_of = nat_below (2 ^ 8)"

definition i64_of :: "json \<Rightarrow> int option" where
  "i64_of = int_between (- (2 ^ 63)) (2 ^ 63 - 1)"

definition i32_of :: "json \<Rightarrow> int option" where
  "i32_of = int_between (- (2 ^ 31)) (2 ^ 31 - 1)"

text \<open>The values in range.\<close>

definition is_usize :: "nat \<Rightarrow> bool" where
  "is_usize n \<longleftrightarrow> n < 2 ^ 64"

definition is_u16 :: "nat \<Rightarrow> bool" where
  "is_u16 n \<longleftrightarrow> n < 2 ^ 16"

definition is_u8 :: "nat \<Rightarrow> bool" where
  "is_u8 n \<longleftrightarrow> n < 2 ^ 8"

definition is_i64 :: "int \<Rightarrow> bool" where
  "is_i64 i \<longleftrightarrow> - (2 ^ 63) \<le> i \<and> i \<le> 2 ^ 63 - 1"

definition is_i32 :: "int \<Rightarrow> bool" where
  "is_i32 i \<longleftrightarrow> - (2 ^ 31) \<le> i \<and> i \<le> 2 ^ 31 - 1"

text \<open>Single precision: \<open>rnd\<close> rounds a number to the nearest \<^verbatim>\<open>f32\<close>.\<close>

definition f32_of :: "(f64 \<Rightarrow> f32) \<Rightarrow> json \<Rightarrow> f32 option" where
  "f32_of rnd j = map_option rnd (as_f64 j)"

definition list_json :: "('a \<Rightarrow> json) \<Rightarrow> 'a list \<Rightarrow> json" where
  "list_json enc xs = JArray (map enc xs)"

fun list_of :: "(json \<Rightarrow> 'a option) \<Rightarrow> json \<Rightarrow> 'a list option" where
  "list_of dec (JArray js) = those (map dec js)"
| "list_of dec _ = None"

text \<open>An element that is an \<^verbatim>\<open>Option\<close>.\<close>

definition option_json :: "('a \<Rightarrow> json) \<Rightarrow> 'a option \<Rightarrow> json" where
  "option_json enc x = (case x of Some y \<Rightarrow> enc y | None \<Rightarrow> JNull)"

definition option_of :: "(json \<Rightarrow> 'a option) \<Rightarrow> json \<Rightarrow> 'a option option" where
  "option_of dec j = (if j = JNull then Some None else map_option Some (dec j))"

definition map_json :: "('a \<Rightarrow> json) \<Rightarrow> (string \<times> 'a) list \<Rightarrow> json" where
  "map_json enc m = JObject (map (\<lambda>(k, v). (k, enc v)) m)"

definition map_of_json :: "(json \<Rightarrow> 'a option) \<Rightarrow> json \<Rightarrow> (string \<times> 'a) list option" where
  "map_of_json dec = struct (\<lambda>fs. those (map (\<lambda>(k, j). map_option (Pair k) (dec j)) fs))"

text \<open>\<^verbatim>\<open>BTreeMap<String, Value>\<close>, ordered by the bytes of the names.\<close>

definition btree_of :: "json \<Rightarrow> (string, json) btree option" where
  "btree_of = struct (\<lambda>fs. Some (fold (\<lambda>(k, v). bt_insert k v) fs []))"

definition pair_json :: "nat \<times> nat \<Rightarrow> json" where
  "pair_json = (\<lambda>(a, b). JArray [nat_json a, nat_json b])"

fun pair_of :: "json \<Rightarrow> (nat \<times> nat) option" where
  "pair_of (JArray [a, b]) = Option.bind (usize_of a) (\<lambda>x. map_option (Pair x) (usize_of b))"
| "pair_of _ = None"

section \<open>Looking fields up\<close>

lemma map_of_put [serde]:
  "map_of (put k j fs) k' = (if k = k' then Some j else map_of fs k')"
  by (simp add: put_def)

lemma map_of_put_other [serde]:
  "k \<noteq> k' \<Longrightarrow> map_of (put_opt enc k x fs) k' = map_of fs k'"
  "k \<noteq> k' \<Longrightarrow> map_of (put_some enc k x fs) k' = map_of fs k'"
  "k \<noteq> k' \<Longrightarrow> map_of (put_nonempty enc' k xs fs) k' = map_of fs k'"
  by (simp_all add: put_opt_def put_some_def put_nonempty_def split: option.splits)

lemma always_ok [serde]:
  "pred_option (\<lambda>_. True) x" "list_all (\<lambda>_. True) xs" "pred_option (list_all (\<lambda>_. True)) ys"
  by (simp_all add: list_all_iff option.pred_set)

lemma list_all_always: "list_all (\<lambda>_. True) = (\<lambda>_. True)"
  by (simp add: fun_eq_iff list_all_iff)

lemma field_Some [serde]: "required dec (Some j) = dec j" "defaulted d dec (Some j) = dec j"
  by (simp_all add: required_def defaulted_def)

lemma extra_fields_put [serde]:
  "k \<in> set names \<Longrightarrow> extra_fields names (put k j fs) = extra_fields names fs"
  "k \<in> set names \<Longrightarrow> extra_fields names (put_opt enc k x fs) = extra_fields names fs"
  "k \<in> set names \<Longrightarrow> extra_fields names (put_some enc k x fs) = extra_fields names fs"
  "k \<in> set names \<Longrightarrow> extra_fields names (put_nonempty enc' k xs fs) = extra_fields names fs"
  by (simp_all add: extra_fields_def put_def put_opt_def put_some_def put_nonempty_def split: option.splits)

lemma extra_fields_id: "\<forall>k \<in> fst ` set fs. k \<notin> set names \<Longrightarrow> extra_fields names fs = fs"
  by (induction fs) (auto simp: extra_fields_def)

lemma known_only_put [serde]:
  "k \<in> set names \<Longrightarrow> known_only names (put k j fs) = known_only names fs"
  "k \<in> set names \<Longrightarrow> known_only names (put_opt enc k x fs) = known_only names fs"
  "k \<in> set names \<Longrightarrow> known_only names (put_some enc k x fs) = known_only names fs"
  "k \<in> set names \<Longrightarrow> known_only names (put_nonempty enc' k xs fs) = known_only names fs"
  "known_only names []"
  by (simp_all add: known_only_def put_def put_opt_def put_some_def put_nonempty_def split: option.splits)

section \<open>Codecs\<close>

text \<open>A type with its JSON: what is written is read back, for values in range, and is never \<^verbatim>\<open>null\<close>.\<close>

locale codec =
  fixes enc :: "'a \<Rightarrow> json" and dec :: "json \<Rightarrow> 'a option" and ok :: "'a \<Rightarrow> bool"
  assumes dec_enc: "ok x \<Longrightarrow> dec (enc x) = Some x"
    and enc_not_null: "enc x \<noteq> JNull"
begin

lemma decoded [serde]: "ok x \<Longrightarrow> dec (enc x) = Some x"
  by (rule dec_enc)

lemma optional_put_opt [serde]:
  "pred_option ok x \<Longrightarrow> optional dec (map_of (put_opt enc k x fs) k) = Some x"
  by (cases x) (simp_all add: optional_def put_opt_def dec_enc enc_not_null)

lemma optional_put_some [serde]:
  "pred_option ok x \<Longrightarrow> map_of fs k = None \<Longrightarrow> optional dec (map_of (put_some enc k x fs) k) = Some x"
  by (cases x) (simp_all add: optional_def put_some_def dec_enc enc_not_null)

lemma option_decoded: "pred_option ok x \<Longrightarrow> option_of dec (option_json enc x) = Some x"
  by (cases x) (simp_all add: option_of_def option_json_def dec_enc enc_not_null)

lemma those_decoded: "list_all ok xs \<Longrightarrow> those (map (\<lambda>x. dec (enc x)) xs) = Some xs"
  by (induction xs) (simp_all add: dec_enc)

lemma list_codec: "codec (list_json enc) (list_of dec) (list_all ok)"
  by unfold_locales (simp_all add: list_json_def comp_def those_decoded)

lemma option_list_codec: "codec (list_json (option_json enc)) (list_of (option_of dec)) (list_all (pred_option ok))"
proof
  fix xs
  show "list_of (option_of dec) (list_json (option_json enc) xs) = Some xs" if "list_all (pred_option ok) xs"
    using that by (induction xs) (simp_all add: list_json_def option_decoded)
qed (simp add: list_json_def)

lemma map_decoded: "list_all (\<lambda>(_, v). ok v) m \<Longrightarrow> map_of_json dec (map_json enc m) = Some m"
proof -
  have "list_all (\<lambda>(_, v). ok v) m \<Longrightarrow> those (map ((\<lambda>(k, j). map_option (Pair k) (dec j)) \<circ> (\<lambda>(k, v). (k, enc v))) m) = Some m"
    by (induction m) (auto simp: dec_enc)
  then show "list_all (\<lambda>(_, v). ok v) m \<Longrightarrow> map_of_json dec (map_json enc m) = Some m"
    by (simp add: map_of_json_def map_json_def)
qed

lemma map_codec: "codec (map_json enc) (map_of_json dec) (list_all (\<lambda>(_, v). ok v))"
  by unfold_locales (simp_all add: map_decoded, simp add: map_json_def)

end

text \<open>Fields of lists that are left out when they are empty.\<close>

locale list_field = codec enc dec ok
  for enc :: "'a list \<Rightarrow> json" and dec :: "json \<Rightarrow> 'a list option" and ok :: "'a list \<Rightarrow> bool"
begin

lemma defaulted_put_nonempty [serde]:
  "ok x \<Longrightarrow> map_of fs k = None \<Longrightarrow> defaulted [] dec (map_of (put_nonempty enc k x fs) k) = Some x"
  by (simp add: defaulted_def put_nonempty_def dec_enc)

end

section \<open>Codecs of values\<close>

lemma bt_insert_after_all: "\<forall>e \<in> set m. fst e < k \<Longrightarrow> bt_insert k v m = m @ [(k, v)]"
  unfolding bt_insert_def by (induction m) auto

lemma btree_collect: "bt_wf id (m0 @ m) \<Longrightarrow> fold (\<lambda>(k, v). bt_insert k v) m m0 = m0 @ m"
proof (induction m arbitrary: m0)
  case (Cons e m)
  obtain k v where e: "e = (k, v)" by (cases e)
  have "\<forall>x \<in> set m0. fst x < k" using Cons.prems by (auto simp: bt_wf_def bt_keys_def sorted_wrt_append e)
  then have "bt_insert k v m0 = m0 @ [e]" by (simp add: bt_insert_after_all e)
  then show ?case using Cons.IH [of "m0 @ [e]"] Cons.prems by (simp add: e)
qed simp

interpretation string: list_field JString string_of "\<lambda>_. True"
  by unfold_locales simp_all

interpretation bool: codec JBool bool_of "\<lambda>_. True"
  by unfold_locales simp_all

interpretation usize: codec nat_json usize_of is_usize
  by unfold_locales (simp_all add: nat_json_def usize_of_def is_usize_def)

interpretation u16: codec nat_json u16_of is_u16
  by unfold_locales (simp_all add: nat_json_def u16_of_def is_u16_def)

interpretation u8: codec nat_json u8_of is_u8
  by unfold_locales (simp_all add: nat_json_def u8_of_def is_u8_def)

interpretation u32: codec u32_json u32_of "\<lambda>_. True"
proof
  fix w :: u32
  have "uint w < 2 ^ 32" using uint_lt2p [of w] by simp
  then show "u32_of (u32_json w) = Some w" by (simp add: u32_of_def u32_json_def)
qed (simp add: u32_json_def)

interpretation i64: codec JInt i64_of is_i64
  by unfold_locales (simp_all add: i64_of_def is_i64_def)

interpretation i32: codec JInt i32_of is_i32
  by unfold_locales (simp_all add: i32_of_def is_i32_def)

interpretation f64: codec JFloat as_f64 "\<lambda>_. True"
  by unfold_locales simp_all

interpretation f32: codec JFloat "f32_of rnd" "\<lambda>x. rnd x = x" for rnd
  by unfold_locales (simp_all add: f32_of_def)

interpretation btree: list_field JObject btree_of "bt_wf id"
  by unfold_locales (simp_all add: btree_of_def btree_collect [of "[]", simplified])

interpretation mask: codec pair_json pair_of "\<lambda>(a, b). is_usize a \<and> is_usize b"
  by unfold_locales (auto simp: pair_json_def serde)

interpretation strings: list_field "list_json JString" "list_of string_of" "list_all (\<lambda>_. True)"
  unfolding list_field_def by (rule string.list_codec)

interpretation u32s: list_field "list_json u32_json" "list_of u32_of" "list_all (\<lambda>_. True)"
  unfolding list_field_def by (rule u32.list_codec)

interpretation masks: list_field "list_json pair_json" "list_of pair_of" "list_all (\<lambda>(a, b). is_usize a \<and> is_usize b)"
  unfolding list_field_def by (rule mask.list_codec)

interpretation detectors: list_field "map_json JObject" "map_of_json btree_of" "list_all (\<lambda>(_, v). bt_wf id v)"
  unfolding list_field_def by (rule btree.map_codec)

section \<open>What is read is in range\<close>

text \<open>The values that a reader returns, whatever the JSON is; with a codec for the same values, every value that was read can be written and read again.\<close>

locale reader =
  fixes dec :: "json \<Rightarrow> 'a option" and ok :: "'a \<Rightarrow> bool"
  assumes dec_ok: "dec j = Some x \<Longrightarrow> ok x"
begin

lemma required_ok [reads]: "required dec v = Some x \<Longrightarrow> ok x"
  by (auto simp: required_def bind_eq_Some_conv dec_ok)

lemma optional_ok [reads]: "optional dec v = Some x \<Longrightarrow> pred_option ok x"
  by (auto simp: optional_def dec_ok split: option.splits if_splits)

lemma defaulted_ok [reads]: "defaulted d dec v = Some x \<Longrightarrow> ok d \<Longrightarrow> ok x"
  by (auto simp: defaulted_def dec_ok split: option.splits)

lemma list_ok: "list_of dec j = Some xs \<Longrightarrow> list_all ok xs"
proof -
  have "those (map dec js) = Some xs \<Longrightarrow> list_all ok xs" for js
    by (induction js arbitrary: xs) (auto simp: dec_ok split: option.splits)
  then show "list_of dec j = Some xs \<Longrightarrow> list_all ok xs" by (cases j) simp_all
qed

end

lemma struct_Some: "struct dec j = Some x \<longleftrightarrow> (\<exists>fs. j = JObject fs \<and> dec fs = Some x)"
  by (cases j) simp_all

lemma extra_fields_foreign: "\<forall>k \<in> fst ` set (extra_fields names fs). k \<notin> set names"
  by (auto simp: extra_fields_def)

lemma map_of_extra_fields: "map_of (extra_fields names fs) k = (if k \<in> set names then None else map_of fs k)"
  by (induction fs) (auto simp: extra_fields_def)

lemma btree_fold_wf: "bt_wf id m0 \<Longrightarrow> bt_wf id (fold (\<lambda>(k, v). bt_insert k v) m m0)"
  by (induction m arbitrary: m0) (auto simp: bt_insert_wf)

interpretation usize_in: reader usize_of is_usize
proof
  fix j x
  show "usize_of j = Some x \<Longrightarrow> is_usize x" by (cases j) (auto simp: usize_of_def is_usize_def split: if_splits)
qed

interpretation btree_in: reader btree_of "bt_wf id"
  by unfold_locales (auto simp: btree_of_def struct_Some intro: btree_fold_wf)

end
