(* ===== verification/Openai_Json.thy ===== *)
theory Openai_Json
  imports Serde
begin

text \<open>
  The JSON of the OpenAI API types (\<^verbatim>\<open>src/clients/openai.rs\<close>): requests as clients send them and as they are sent on to the model server,
  and the answers of the model server as they are read and as clients receive them. An object without the required fields, or with
  a value of the wrong type, is not read (\<open>None\<close>).
\<close>

section \<open>Messages\<close>

fun role_json :: "role \<Rightarrow> json" where
  "role_json User = JString ''user''"
| "role_json Developer = JString ''developer''"
| "role_json Assistant = JString ''assistant''"
| "role_json System = JString ''system''"
| "role_json ToolRole = JString ''tool''"

definition role_of :: "json \<Rightarrow> role option" where
  "role_of j = Option.bind (string_of j) (map_of [(''user'', User), (''developer'', Developer), (''assistant'', Assistant),
     (''system'', System), (''tool'', ToolRole)])"

fun content_type_json :: "content_type \<Rightarrow> json" where
  "content_type_json CText = JString ''text''"
| "content_type_json CImageUrl = JString ''image_url''"

definition content_type_of :: "json \<Rightarrow> content_type option" where
  "content_type_of j = Option.bind (string_of j) (map_of [(''text'', CText), (''image_url'', CImageUrl)])"

definition image_url_json :: "image_url \<Rightarrow> json" where
  "image_url_json u = JObject (put ''url'' (JString (iu_url u)) (put_some JString ''detail'' (iu_detail u) []))"

definition image_url_of :: "json \<Rightarrow> image_url option" where
  "image_url_of = struct (\<lambda>fs.
     Option.bind (required string_of (map_of fs ''url'')) (\<lambda>url.
     Option.bind (optional string_of (map_of fs ''detail'')) (\<lambda>detail.
     Some \<lparr>iu_url = url, iu_detail = detail\<rparr>)))"

definition content_part_json :: "content_part \<Rightarrow> json" where
  "content_part_json p = JObject (put ''type'' (content_type_json (cp_type p)) (put_some JString ''text'' (cp_text p)
     (put_some image_url_json ''image_url'' (cp_image_url p) (put_some JString ''refusal'' (cp_refusal p) []))))"

definition content_part_of :: "json \<Rightarrow> content_part option" where
  "content_part_of = struct (\<lambda>fs.
     Option.bind (required content_type_of (map_of fs ''type'')) (\<lambda>t.
     Option.bind (optional string_of (map_of fs ''text'')) (\<lambda>text.
     Option.bind (optional image_url_of (map_of fs ''image_url'')) (\<lambda>image_url.
     Option.bind (optional string_of (map_of fs ''refusal'')) (\<lambda>refusal.
     Some \<lparr>cp_type = t, cp_text = text, cp_image_url = image_url, cp_refusal = refusal\<rparr>)))))"

fun content_json :: "content \<Rightarrow> json" where
  "content_json (Text text) = JString text"
| "content_json (Array parts) = list_json content_part_json parts"

definition content_of :: "json \<Rightarrow> content option" where
  "content_of j = first_variant (map_option Text (string_of j)) (map_option Array (list_of content_part_of j))"

definition fn_call_json :: "fn_call \<Rightarrow> json" where
  "fn_call_json f = JObject (put_nonempty JString ''name'' (fn_name f) (put ''arguments'' (JString (fn_arguments f)) []))"

definition fn_call_of :: "json \<Rightarrow> fn_call option" where
  "fn_call_of = struct (\<lambda>fs.
     Option.bind (defaulted [] string_of (map_of fs ''name'')) (\<lambda>name.
     Option.bind (defaulted [] string_of (map_of fs ''arguments'')) (\<lambda>arguments.
     Some \<lparr>fn_name = name, fn_arguments = arguments\<rparr>)))"

definition custom_call_json :: "custom_call \<Rightarrow> json" where
  "custom_call_json c = JObject (put_nonempty JString ''name'' (cu_name c) (put ''input'' (JString (cu_input c)) []))"

definition custom_call_of :: "json \<Rightarrow> custom_call option" where
  "custom_call_of = struct (\<lambda>fs.
     Option.bind (defaulted [] string_of (map_of fs ''name'')) (\<lambda>name.
     Option.bind (defaulted [] string_of (map_of fs ''input'')) (\<lambda>input.
     Some \<lparr>cu_name = name, cu_input = input\<rparr>)))"

definition tool_call_json :: "tool_call \<Rightarrow> json" where
  "tool_call_json t = JObject (put_some nat_json ''index'' (tl_index t) (put_nonempty JString ''id'' (tl_id t)
     (put_nonempty JString ''type'' (tl_type t) (put_some fn_call_json ''function'' (tl_function t)
     (put_some custom_call_json ''custom'' (tl_custom t) [])))))"

definition tool_call_of :: "json \<Rightarrow> tool_call option" where
  "tool_call_of = struct (\<lambda>fs.
     Option.bind (optional usize_of (map_of fs ''index'')) (\<lambda>index.
     Option.bind (defaulted [] string_of (map_of fs ''id'')) (\<lambda>i.
     Option.bind (defaulted [] string_of (map_of fs ''type'')) (\<lambda>t.
     Option.bind (optional fn_call_of (map_of fs ''function'')) (\<lambda>f.
     Option.bind (optional custom_call_of (map_of fs ''custom'')) (\<lambda>c.
     Some \<lparr>tl_index = index, tl_id = i, tl_type = t, tl_function = f, tl_custom = c\<rparr>))))))"

definition tool_call_ok :: "tool_call \<Rightarrow> bool" where
  "tool_call_ok t \<longleftrightarrow> pred_option is_usize (tl_index t)"

definition message_json :: "message \<Rightarrow> json" where
  "message_json m = JObject (put ''role'' (role_json (m_role m)) (put_some content_json ''content'' (m_content m)
     (put_some JString ''name'' (m_name m) (put_some JString ''refusal'' (m_refusal m)
     (put_some (list_json tool_call_json) ''tool_calls'' (m_tool_calls m) (put_some JString ''tool_call_id'' (m_tool_call_id m)
     (put_some JString ''reasoning_content'' (m_reasoning_content m) [])))))))"

definition message_of :: "json \<Rightarrow> message option" where
  "message_of = struct (\<lambda>fs.
     Option.bind (required role_of (map_of fs ''role'')) (\<lambda>role.
     Option.bind (optional content_of (map_of fs ''content'')) (\<lambda>content.
     Option.bind (optional string_of (map_of fs ''name'')) (\<lambda>name.
     Option.bind (optional string_of (map_of fs ''refusal'')) (\<lambda>refusal.
     Option.bind (optional (list_of tool_call_of) (map_of fs ''tool_calls'')) (\<lambda>tool_calls.
     Option.bind (optional string_of (map_of fs ''tool_call_id'')) (\<lambda>tool_call_id.
     Option.bind (optional string_of (map_of fs ''reasoning_content'')) (\<lambda>reasoning_content.
     Some \<lparr>m_role = role, m_content = content, m_name = name, m_refusal = refusal, m_tool_calls = tool_calls,
       m_tool_call_id = tool_call_id, m_reasoning_content = reasoning_content\<rparr>))))))))"

definition message_ok :: "message \<Rightarrow> bool" where
  "message_ok m \<longleftrightarrow> pred_option (list_all tool_call_ok) (m_tool_calls m)"

interpretation role: codec role_json role_of "\<lambda>_. True"
proof
  fix r
  show "role_of (role_json r) = Some r" "role_json r \<noteq> JNull" by (cases r; simp add: role_of_def)+
qed

interpretation content_type: codec content_type_json content_type_of "\<lambda>_. True"
proof
  fix t
  show "content_type_of (content_type_json t) = Some t" "content_type_json t \<noteq> JNull" by (cases t; simp add: content_type_of_def)+
qed

interpretation image_url: codec image_url_json image_url_of "\<lambda>_. True"
  by unfold_locales (simp_all add: image_url_json_def image_url_of_def serde)

interpretation content_part: codec content_part_json content_part_of "\<lambda>_. True"
  by unfold_locales (simp_all add: content_part_json_def content_part_of_def serde)

interpretation content_parts: codec "list_json content_part_json" "list_of content_part_of" "list_all (\<lambda>_. True)"
  by (rule content_part.list_codec)

interpretation content: codec content_json content_of "\<lambda>_. True"
proof
  fix c
  show "content_of (content_json c) = Some c"
  proof (cases c)
    case (Array parts)
    have "list_all (\<lambda>_. True) parts" by (simp add: list_all_iff)
    then show ?thesis using content_parts.decoded [of parts] by (simp add: Array content_of_def first_variant_def list_json_def)
  qed (simp add: content_of_def first_variant_def)
  show "content_json c \<noteq> JNull" by (cases c) (simp_all add: list_json_def)
qed

interpretation fn_call: codec fn_call_json fn_call_of "\<lambda>_. True"
  by unfold_locales (simp_all add: fn_call_json_def fn_call_of_def serde)

interpretation custom_call: codec custom_call_json custom_call_of "\<lambda>_. True"
  by unfold_locales (simp_all add: custom_call_json_def custom_call_of_def serde)

interpretation tool_call: codec tool_call_json tool_call_of tool_call_ok
  by unfold_locales (simp_all add: tool_call_json_def tool_call_of_def tool_call_ok_def serde)

interpretation tool_calls: list_field "list_json tool_call_json" "list_of tool_call_of" "list_all tool_call_ok"
  unfolding list_field_def by (rule tool_call.list_codec)

interpretation message: codec message_json message_of message_ok
  by unfold_locales (simp_all add: message_json_def message_of_def message_ok_def serde)

interpretation messages: codec "list_json message_json" "list_of message_of" "list_all message_ok"
  by (rule message.list_codec)

section \<open>Tools\<close>

definition function_definition_json :: "function_definition \<Rightarrow> json" where
  "function_definition_json f = JObject (put ''name'' (JString (fd_name f)) (put_some JString ''description'' (fd_description f)
     (put_nonempty JObject ''parameters'' (fd_parameters f) (put_some JBool ''strict'' (fd_strict f) []))))"

definition function_definition_of :: "json \<Rightarrow> function_definition option" where
  "function_definition_of = struct (\<lambda>fs.
     Option.bind (required string_of (map_of fs ''name'')) (\<lambda>name.
     Option.bind (optional string_of (map_of fs ''description'')) (\<lambda>description.
     Option.bind (defaulted [] btree_of (map_of fs ''parameters'')) (\<lambda>parameters.
     Option.bind (optional bool_of (map_of fs ''strict'')) (\<lambda>strict.
     Some \<lparr>fd_name = name, fd_description = description, fd_parameters = parameters, fd_strict = strict\<rparr>)))))"

text \<open>An \<^verbatim>\<open>Option<Value>\<close> cannot hold \<^verbatim>\<open>null\<close> that was read, because \<^verbatim>\<open>null\<close> is \<^verbatim>\<open>None\<close>.\<close>

definition custom_definition_json :: "custom_definition \<Rightarrow> json" where
  "custom_definition_json c = JObject (put ''name'' (JString (cd_name c)) (put_some JString ''description'' (cd_description c)
     (put_some (\<lambda>j. j) ''format'' (cd_format c) [])))"

definition custom_definition_of :: "json \<Rightarrow> custom_definition option" where
  "custom_definition_of = struct (\<lambda>fs.
     Option.bind (required string_of (map_of fs ''name'')) (\<lambda>name.
     Option.bind (optional string_of (map_of fs ''description'')) (\<lambda>description.
     Option.bind (optional Some (map_of fs ''format'')) (\<lambda>format.
     Some \<lparr>cd_name = name, cd_description = description, cd_format = format\<rparr>))))"

definition function_tool_json :: "function_tool \<Rightarrow> json" where
  "function_tool_json t = JObject (put ''type'' (JString (ft_type t)) (put ''function'' (function_definition_json (ft_function t)) []))"

definition function_tool_of :: "json \<Rightarrow> function_tool option" where
  "function_tool_of = struct (\<lambda>fs.
     Option.bind (required string_of (map_of fs ''type'')) (\<lambda>t.
     Option.bind (required function_definition_of (map_of fs ''function'')) (\<lambda>f.
     Some \<lparr>ft_type = t, ft_function = f\<rparr>)))"

definition custom_tool_json :: "custom_tool \<Rightarrow> json" where
  "custom_tool_json t = JObject (put ''type'' (JString (ct_type t)) (put ''custom'' (custom_definition_json (ct_custom t)) []))"

definition custom_tool_of :: "json \<Rightarrow> custom_tool option" where
  "custom_tool_of = struct (\<lambda>fs.
     Option.bind (required string_of (map_of fs ''type'')) (\<lambda>t.
     Option.bind (required custom_definition_of (map_of fs ''custom'')) (\<lambda>c.
     Some \<lparr>ct_type = t, ct_custom = c\<rparr>)))"

fun tool_json :: "tool \<Rightarrow> json" where
  "tool_json (FunctionTool t) = function_tool_json t"
| "tool_json (CustomTool t) = custom_tool_json t"

definition tool_of :: "json \<Rightarrow> tool option" where
  "tool_of j = first_variant (map_option FunctionTool (function_tool_of j)) (map_option CustomTool (custom_tool_of j))"

fun tool_ok :: "tool \<Rightarrow> bool" where
  "tool_ok (FunctionTool t) \<longleftrightarrow> bt_wf id (fd_parameters (ft_function t))"
| "tool_ok (CustomTool t) \<longleftrightarrow> cd_format (ct_custom t) \<noteq> Some JNull"

interpretation function_definition: codec function_definition_json function_definition_of "\<lambda>f. bt_wf id (fd_parameters f)"
  by unfold_locales (simp_all add: function_definition_json_def function_definition_of_def serde)

lemma custom_definition_decoded [serde]:
  "cd_format c \<noteq> Some JNull \<Longrightarrow> custom_definition_of (custom_definition_json c) = Some c"
  by (cases "cd_format c")
    (simp_all add: custom_definition_json_def custom_definition_of_def serde optional_def [of Some] put_some_def [of _ "''format''"])

interpretation tool: codec tool_json tool_of tool_ok
proof
  fix t
  show "tool_of (tool_json t) = Some t" if "tool_ok t"
    using that
    by (cases t) (simp_all add: tool_of_def first_variant_def function_tool_json_def function_tool_of_def custom_tool_json_def
        custom_tool_of_def required_def [of _ None] serde)
  show "tool_json t \<noteq> JNull" by (cases t) (simp_all add: function_tool_json_def custom_tool_json_def)
qed

interpretation tools: codec "list_json tool_json" "list_of tool_of" "list_all tool_ok"
  by (rule tool.list_codec)

section \<open>Requests\<close>

definition detector_config_of :: "json \<Rightarrow> openai_detector_config option" where
  "detector_config_of = struct (\<lambda>fs.
     if known_only [''input'', ''output''] fs then
       Option.bind (defaulted [] (map_of_json btree_of) (map_of fs ''input'')) (\<lambda>input.
       Option.bind (defaulted [] (map_of_json btree_of) (map_of fs ''output'')) (\<lambda>output.
       Some \<lparr>od_input = input, od_output = output\<rparr>))
     else None)"

definition detector_config_json :: "openai_detector_config \<Rightarrow> json" where
  "detector_config_json c = JObject (put_nonempty (map_json JObject) ''input'' (od_input c)
     (put_nonempty (map_json JObject) ''output'' (od_output c) []))"

definition detector_config_default :: openai_detector_config where
  "detector_config_default = \<lparr>od_input = [], od_output = []\<rparr>"

definition chat_fields :: "string list" where
  "chat_fields = [''detectors'', ''stream'', ''model'', ''messages'', ''tools'']"

definition chat_request_json :: "chat_completions_request \<Rightarrow> json" where
  "chat_request_json r = JObject (put_some JBool ''stream'' (cr_stream r) (put ''model'' (JString (cr_model r))
     (put ''messages'' (list_json message_json (cr_messages r)) (put_some (list_json tool_json) ''tools'' (cr_tools r) (cr_extra r)))))"

definition chat_request_of :: "json \<Rightarrow> chat_completions_request option" where
  "chat_request_of = struct (\<lambda>fs.
     Option.bind (defaulted detector_config_default detector_config_of (map_of fs ''detectors'')) (\<lambda>detectors.
     Option.bind (optional bool_of (map_of fs ''stream'')) (\<lambda>stream.
     Option.bind (required string_of (map_of fs ''model'')) (\<lambda>model.
     Option.bind (required (list_of message_of) (map_of fs ''messages'')) (\<lambda>messages.
     Option.bind (optional (list_of tool_of) (map_of fs ''tools'')) (\<lambda>tools.
     Some \<lparr>cr_detectors = detectors, cr_stream = stream, cr_model = model, cr_messages = messages, cr_tools = tools,
       cr_extra = extra_fields chat_fields fs\<rparr>))))))"

definition completion_fields :: "string list" where
  "completion_fields = [''detectors'', ''_prompt_masks'', ''stream'', ''model'', ''prompt'']"

definition completions_request_json :: "completions_request \<Rightarrow> json" where
  "completions_request_json r = JObject (put_some JBool ''stream'' (pr_stream r) (put ''model'' (JString (pr_model r))
     (put ''prompt'' (JString (pr_prompt r)) (pr_extra r))))"

definition completions_request_of :: "json \<Rightarrow> completions_request option" where
  "completions_request_of = struct (\<lambda>fs.
     Option.bind (defaulted detector_config_default detector_config_of (map_of fs ''detectors'')) (\<lambda>detectors.
     Option.bind (optional (list_of pair_of) (map_of fs ''_prompt_masks'')) (\<lambda>masks.
     Option.bind (optional bool_of (map_of fs ''stream'')) (\<lambda>stream.
     Option.bind (required string_of (map_of fs ''model'')) (\<lambda>model.
     Option.bind (required string_of (map_of fs ''prompt'')) (\<lambda>prompt.
     Some \<lparr>pr_detectors = detectors, pr_prompt_masks = masks, pr_stream = stream, pr_model = model, pr_prompt = prompt,
       pr_extra = extra_fields completion_fields fs\<rparr>))))))"

definition tokenize_fields :: "string list" where
  "tokenize_fields = [''model'', ''prompt'', ''messages'']"

definition tokenize_request_json :: "tokenize_request \<Rightarrow> json" where
  "tokenize_request_json r = JObject (put ''model'' (JString (tr_model r)) (put_some JString ''prompt'' (tr_prompt r)
     (put_some (list_json message_json) ''messages'' (tr_messages r) (tr_extra r))))"

definition tokenize_request_of :: "json \<Rightarrow> tokenize_request option" where
  "tokenize_request_of = struct (\<lambda>fs.
     Option.bind (required string_of (map_of fs ''model'')) (\<lambda>model.
     Option.bind (optional string_of (map_of fs ''prompt'')) (\<lambda>prompt.
     Option.bind (optional (list_of message_of) (map_of fs ''messages'')) (\<lambda>messages.
     Some \<lparr>tr_model = model, tr_prompt = prompt, tr_messages = messages, tr_extra = extra_fields tokenize_fields fs\<rparr>))))"

definition tokenize_response_json :: "tokenize_response \<Rightarrow> json" where
  "tokenize_response_json r = JObject (put ''count'' (u32_json (tk_count r)) (put ''max_model_len'' (u32_json (tk_max_model_len r))
     (put ''tokens'' (list_json u32_json (tk_tokens r)) [])))"

definition tokenize_response_of :: "json \<Rightarrow> tokenize_response option" where
  "tokenize_response_of = struct (\<lambda>fs.
     Option.bind (required u32_of (map_of fs ''count'')) (\<lambda>count.
     Option.bind (required u32_of (map_of fs ''max_model_len'')) (\<lambda>max_model_len.
     Option.bind (required (list_of u32_of) (map_of fs ''tokens'')) (\<lambda>tokens.
     Some \<lparr>tk_count = count, tk_max_model_len = max_model_len, tk_tokens = tokens\<rparr>))))"

interpretation tokenize_response: codec tokenize_response_json tokenize_response_of "\<lambda>_. True"
  by unfold_locales (simp_all add: tokenize_response_json_def tokenize_response_of_def serde)

interpretation detector_config: codec detector_config_json detector_config_of
  "\<lambda>c. list_all (\<lambda>(_, v). bt_wf id v) (od_input c) \<and> list_all (\<lambda>(_, v). bt_wf id v) (od_output c)"
  by unfold_locales (simp_all add: detector_config_json_def detector_config_of_def serde)

section \<open>What is read\<close>

interpretation tool_call_in: reader tool_call_of tool_call_ok
  by unfold_locales (auto simp: tool_call_of_def tool_call_ok_def struct_Some bind_eq_Some_conv dest: reads)

interpretation tool_calls_in: reader "list_of tool_call_of" "list_all tool_call_ok"
  by unfold_locales (rule tool_call_in.list_ok)

interpretation message_in: reader message_of message_ok
  by unfold_locales (auto simp: message_of_def message_ok_def struct_Some bind_eq_Some_conv dest: reads)

interpretation messages_in: reader "list_of message_of" "list_all message_ok"
  by unfold_locales (rule message_in.list_ok)

interpretation function_definition_in: reader function_definition_of "\<lambda>f. bt_wf id (fd_parameters f)"
  by unfold_locales (auto simp: function_definition_of_def struct_Some bind_eq_Some_conv dest: reads)

interpretation custom_definition_in: reader custom_definition_of "\<lambda>c. cd_format c \<noteq> Some JNull"
  by unfold_locales (auto simp: custom_definition_of_def struct_Some bind_eq_Some_conv optional_def [of Some] split: option.splits if_splits)

interpretation tool_in: reader tool_of tool_ok
proof
  fix j t
  assume "tool_of j = Some t"
  then consider f where "t = FunctionTool f" "function_tool_of j = Some f" | c where "t = CustomTool c" "custom_tool_of j = Some c"
    by (auto simp: tool_of_def first_variant_def split: option.splits)
  then show "tool_ok t"
    by cases (auto simp: function_tool_of_def custom_tool_of_def struct_Some bind_eq_Some_conv dest: reads)
qed

interpretation tools_in: reader "list_of tool_of" "list_all tool_ok"
  by unfold_locales (rule tool_in.list_ok)

lemma chat_request_read:
  assumes "chat_request_of j = Some r"
  obtains fs where "j = JObject fs" "cr_extra r = extra_fields chat_fields fs"
    "required string_of (map_of fs ''model'') = Some (cr_model r)" "optional bool_of (map_of fs ''stream'') = Some (cr_stream r)"
    "required (list_of message_of) (map_of fs ''messages'') = Some (cr_messages r)"
    "optional (list_of tool_of) (map_of fs ''tools'') = Some (cr_tools r)"
  using assms by (auto simp: chat_request_of_def struct_Some bind_eq_Some_conv)

lemma chat_request_in:
  assumes "chat_request_of j = Some r"
  shows "list_all message_ok (cr_messages r)" "pred_option (list_all tool_ok) (cr_tools r)"
    "\<forall>k \<in> fst ` set (cr_extra r). k \<notin> set chat_fields"
  using assms extra_fields_foreign [of chat_fields] by (elim chat_request_read; auto dest: reads)+

lemma chat_request_written:
  assumes "list_all message_ok (cr_messages r)" "pred_option (list_all tool_ok) (cr_tools r)"
    and foreign: "\<forall>k \<in> fst ` set (cr_extra r). k \<notin> set chat_fields"
  shows "chat_request_of (chat_request_json r) = Some (r\<lparr>cr_detectors := detector_config_default\<rparr>)"
proof -
  have "map_of (cr_extra r) k = None" if "k \<in> set chat_fields" for k
    using that foreign by (auto simp: map_of_eq_None_iff)
  then have m: "map_of (cr_extra r) ''detectors'' = None" "map_of (cr_extra r) ''stream'' = None" "map_of (cr_extra r) ''tools'' = None"
    by (simp_all add: chat_fields_def)
  have e: "extra_fields chat_fields (cr_extra r) = cr_extra r" using foreign by (rule extra_fields_id)
  have n: "''stream'' \<in> set chat_fields" "''model'' \<in> set chat_fields" "''messages'' \<in> set chat_fields" "''tools'' \<in> set chat_fields"
    by (simp_all add: chat_fields_def)
  show ?thesis
    using assms(1,2) by (simp add: chat_request_of_def chat_request_json_def serde m e n defaulted_def [of detector_config_default])
qed

end
