(* ===== verification/Detection_Json.thy ===== *)
theory Detection_Json
  imports Serde
begin

text \<open>
  The JSON of detections: as detectors answer them (\<^verbatim>\<open>ContentAnalysisResponse\<close> of \<^verbatim>\<open>src/clients/detector.rs\<close>, \<^verbatim>\<open>DetectionResult\<close> and
  \<^verbatim>\<open>EvidenceObj\<close> of \<^verbatim>\<open>src/models.rs\<close>) and as clients of the completions endpoints receive them (\<^verbatim>\<open>Detection\<close> of
  \<^verbatim>\<open>src/orchestrator/types/detection.rs\<close>).
\<close>

section \<open>Answers of detectors\<close>

definition m_evidence_json :: "m_evidence \<Rightarrow> json" where
  "m_evidence_json x =
     JObject (put ''name'' (JString (me_name x)) (put_some JString ''value'' (me_value x) (put_some JFloat ''score'' (me_score x) [])))"

definition m_evidence_of_json :: "json \<Rightarrow> m_evidence option" where
  "m_evidence_of_json = struct (\<lambda>fs.
     Option.bind (required string_of (map_of fs ''name'')) (\<lambda>name.
     Option.bind (optional string_of (map_of fs ''value'')) (\<lambda>v.
     Option.bind (optional as_f64 (map_of fs ''score'')) (\<lambda>score.
     Some \<lparr>me_name = name, me_value = v, me_score = score\<rparr>))))"

interpretation m_evidence: codec m_evidence_json m_evidence_of_json "\<lambda>_. True"
  by unfold_locales (simp_all add: m_evidence_json_def m_evidence_of_json_def serde)

interpretation m_evidences: list_field "list_json m_evidence_json" "list_of m_evidence_of_json" "list_all (\<lambda>_. True)"
  unfolding list_field_def by (rule m_evidence.list_codec)

definition evidence_obj_json :: "evidence_obj \<Rightarrow> json" where
  "evidence_obj_json x =
     JObject (put ''name'' (JString (eo_name x)) (put_some JString ''value'' (eo_value x) (put_some JFloat ''score'' (eo_score x) (put_some
     (list_json m_evidence_json) ''evidence'' (eo_evidence x) []))))"

definition evidence_obj_of_json :: "json \<Rightarrow> evidence_obj option" where
  "evidence_obj_of_json = struct (\<lambda>fs.
     Option.bind (required string_of (map_of fs ''name'')) (\<lambda>name.
     Option.bind (optional string_of (map_of fs ''value'')) (\<lambda>v.
     Option.bind (optional as_f64 (map_of fs ''score'')) (\<lambda>score.
     Option.bind (optional (list_of m_evidence_of_json) (map_of fs ''evidence'')) (\<lambda>evidence.
     Some \<lparr>eo_name = name, eo_value = v, eo_score = score, eo_evidence = evidence\<rparr>)))))"

interpretation evidence_obj: codec evidence_obj_json evidence_obj_of_json "\<lambda>_. True"
  by unfold_locales (simp_all add: evidence_obj_json_def evidence_obj_of_json_def serde)

interpretation evidence_objs: list_field "list_json evidence_obj_json" "list_of evidence_obj_of_json" "list_all (\<lambda>_. True)"
  unfolding list_field_def by (rule evidence_obj.list_codec)

definition detection_result_json :: "detection_result \<Rightarrow> json" where
  "detection_result_json x =
     JObject (put ''detection_type'' (JString (dr_detection_type x)) (put ''detection'' (JString (dr_detection x)) (put_opt JString
     ''detector_id'' (dr_detector_id x) (put ''score'' (JFloat (dr_score x)) (put_some (list_json evidence_obj_json) ''evidence'' (dr_evidence x)
     (put_nonempty JObject ''metadata'' (dr_metadata x) []))))))"

definition detection_result_of :: "json \<Rightarrow> detection_result option" where
  "detection_result_of = struct (\<lambda>fs.
     Option.bind (required string_of (map_of fs ''detection_type'')) (\<lambda>t.
     Option.bind (required string_of (map_of fs ''detection'')) (\<lambda>detection.
     Option.bind (optional string_of (map_of fs ''detector_id'')) (\<lambda>detector_id.
     Option.bind (required as_f64 (map_of fs ''score'')) (\<lambda>score.
     Option.bind (optional (list_of evidence_obj_of_json) (map_of fs ''evidence'')) (\<lambda>evidence.
     Option.bind (defaulted [] btree_of (map_of fs ''metadata'')) (\<lambda>metadata.
     Some \<lparr>dr_detection_type = t, dr_detection = detection, dr_detector_id = detector_id, dr_score = score, dr_evidence = evidence,
       dr_metadata = metadata\<rparr>)))))))"

definition detection_result_ok :: "detection_result \<Rightarrow> bool" where
  "detection_result_ok x \<longleftrightarrow> bt_wf id (dr_metadata x)"

interpretation detection_result: codec detection_result_json detection_result_of detection_result_ok
  by unfold_locales (simp_all add: detection_result_json_def detection_result_of_def detection_result_ok_def serde)

interpretation detection_results: list_field "list_json detection_result_json" "list_of detection_result_of" "list_all detection_result_ok"
  unfolding list_field_def by (rule detection_result.list_codec)

definition content_analysis_response_json :: "content_analysis_response \<Rightarrow> json" where
  "content_analysis_response_json x =
     JObject (put ''start'' (nat_json (ca_start x)) (put ''end'' (nat_json (ca_end x)) (put ''text'' (JString (ca_text x)) (put ''detection''
     (JString (ca_detection x)) (put ''detection_type'' (JString (ca_detection_type x)) (put_opt JString ''detector_id'' (ca_detector_id x) (put
     ''score'' (JFloat (ca_score x)) (put_some (list_json evidence_obj_json) ''evidence'' (ca_evidence x) (put_nonempty JObject ''metadata''
     (ca_metadata x) [])))))))))"

definition content_analysis_response_of_json :: "json \<Rightarrow> content_analysis_response option" where
  "content_analysis_response_of_json = struct (\<lambda>fs.
     Option.bind (required usize_of (map_of fs ''start'')) (\<lambda>start.
     Option.bind (required usize_of (map_of fs ''end'')) (\<lambda>last.
     Option.bind (required string_of (map_of fs ''text'')) (\<lambda>text.
     Option.bind (required string_of (map_of fs ''detection'')) (\<lambda>detection.
     Option.bind (required string_of (map_of fs ''detection_type'')) (\<lambda>t.
     Option.bind (optional string_of (map_of fs ''detector_id'')) (\<lambda>detector_id.
     Option.bind (required as_f64 (map_of fs ''score'')) (\<lambda>score.
     Option.bind (optional (list_of evidence_obj_of_json) (map_of fs ''evidence'')) (\<lambda>evidence.
     Option.bind (defaulted [] btree_of (map_of fs ''metadata'')) (\<lambda>metadata.
     Some \<lparr>ca_start = start, ca_end = last, ca_text = text, ca_detection = detection, ca_detection_type = t, ca_detector_id = detector_id,
       ca_score = score, ca_evidence = evidence, ca_metadata = metadata\<rparr>))))))))))"

definition content_analysis_response_ok :: "content_analysis_response \<Rightarrow> bool" where
  "content_analysis_response_ok x \<longleftrightarrow> is_usize (ca_start x) \<and> is_usize (ca_end x) \<and> bt_wf id (ca_metadata x)"

interpretation content_analysis_response: codec content_analysis_response_json content_analysis_response_of_json content_analysis_response_ok
  by unfold_locales (simp_all add: content_analysis_response_json_def content_analysis_response_of_json_def content_analysis_response_ok_def serde)

interpretation content_analysis_responses: list_field "list_json content_analysis_response_json" "list_of content_analysis_response_of_json" "list_all content_analysis_response_ok"
  unfolding list_field_def by (rule content_analysis_response.list_codec)

section \<open>Detections in answers to clients\<close>

definition evidence_json :: "evidence \<Rightarrow> json" where
  "evidence_json x =
     JObject (put ''name'' (JString (ev_name x)) (put_some JString ''value'' (ev_value x) (put_some JFloat ''score'' (ev_score x) [])))"

definition evidence_of_json :: "json \<Rightarrow> evidence option" where
  "evidence_of_json = struct (\<lambda>fs.
     Option.bind (required string_of (map_of fs ''name'')) (\<lambda>name.
     Option.bind (optional string_of (map_of fs ''value'')) (\<lambda>v.
     Option.bind (optional as_f64 (map_of fs ''score'')) (\<lambda>score.
     Some \<lparr>ev_name = name, ev_value = v, ev_score = score\<rparr>))))"

interpretation evidence: codec evidence_json evidence_of_json "\<lambda>_. True"
  by unfold_locales (simp_all add: evidence_json_def evidence_of_json_def serde)

interpretation evidences: list_field "list_json evidence_json" "list_of evidence_of_json" "list_all (\<lambda>_. True)"
  unfolding list_field_def by (rule evidence.list_codec)

definition detection_evidence_json :: "detection_evidence \<Rightarrow> json" where
  "detection_evidence_json x =
     JObject (put ''name'' (JString (de_name x)) (put_some JString ''value'' (de_value x) (put_some JFloat ''score'' (de_score x) (put_nonempty
     (list_json evidence_json) ''evidence'' (de_evidence x) []))))"

definition detection_evidence_of_json :: "json \<Rightarrow> detection_evidence option" where
  "detection_evidence_of_json = struct (\<lambda>fs.
     Option.bind (required string_of (map_of fs ''name'')) (\<lambda>name.
     Option.bind (optional string_of (map_of fs ''value'')) (\<lambda>v.
     Option.bind (optional as_f64 (map_of fs ''score'')) (\<lambda>score.
     Option.bind (defaulted [] (list_of evidence_of_json) (map_of fs ''evidence'')) (\<lambda>evidence.
     Some \<lparr>de_name = name, de_value = v, de_score = score, de_evidence = evidence\<rparr>)))))"

interpretation detection_evidence: codec detection_evidence_json detection_evidence_of_json "\<lambda>_. True"
  by unfold_locales (simp_all add: detection_evidence_json_def detection_evidence_of_json_def serde)

interpretation detection_evidences: list_field "list_json detection_evidence_json" "list_of detection_evidence_of_json" "list_all (\<lambda>_. True)"
  unfolding list_field_def by (rule detection_evidence.list_codec)

definition detection_json :: "detection \<Rightarrow> json" where
  "detection_json x =
     JObject (put_some nat_json ''start'' (d_start x) (put_some nat_json ''end'' (d_end x) (put_some JString ''text'' (d_text x) (put_opt JString
     ''detector_id'' (d_detector_id x) (put ''detection_type'' (JString (d_detection_type x)) (put ''detection'' (JString (d_detection x)) (put
     ''score'' (JFloat (d_score x)) (put_nonempty (list_json detection_evidence_json) ''evidence'' (d_evidence x) (put_nonempty JObject
     ''metadata'' (d_metadata x) [])))))))))"

definition detection_of_json :: "json \<Rightarrow> detection option" where
  "detection_of_json = struct (\<lambda>fs.
     Option.bind (optional usize_of (map_of fs ''start'')) (\<lambda>start.
     Option.bind (optional usize_of (map_of fs ''end'')) (\<lambda>last.
     Option.bind (optional string_of (map_of fs ''text'')) (\<lambda>text.
     Option.bind (optional string_of (map_of fs ''detector_id'')) (\<lambda>detector_id.
     Option.bind (required string_of (map_of fs ''detection_type'')) (\<lambda>t.
     Option.bind (required string_of (map_of fs ''detection'')) (\<lambda>detection.
     Option.bind (required as_f64 (map_of fs ''score'')) (\<lambda>score.
     Option.bind (defaulted [] (list_of detection_evidence_of_json) (map_of fs ''evidence'')) (\<lambda>evidence.
     Option.bind (defaulted [] btree_of (map_of fs ''metadata'')) (\<lambda>metadata.
     Some \<lparr>d_start = start, d_end = last, d_text = text, d_detector_id = detector_id, d_detection_type = t, d_detection = detection,
       d_score = score, d_evidence = evidence, d_metadata = metadata\<rparr>))))))))))"

definition detection_ok :: "detection \<Rightarrow> bool" where
  "detection_ok x \<longleftrightarrow> pred_option is_usize (d_start x) \<and> pred_option is_usize (d_end x) \<and> bt_wf id (d_metadata x)"

interpretation detection: codec detection_json detection_of_json detection_ok
  by unfold_locales (simp_all add: detection_json_def detection_of_json_def detection_ok_def serde)

interpretation detections: list_field "list_json detection_json" "list_of detection_of_json" "list_all detection_ok"
  unfolding list_field_def by (rule detection.list_codec)

end
