(* ===== verification/Completion_Json.thy ===== *)
theory Completion_Json
  imports Openai_Json Detection_Json
begin

text \<open>
  The JSON of completions and of error answers (\<^verbatim>\<open>src/clients/openai.rs\<close>): what the model server answers is read with it, and what clients receive
  is written with it. \<open>rnd\<close> is the rounding of a number to single precision.
\<close>

section \<open>Usage and log probabilities\<close>

definition prompt_token_details_json :: "prompt_token_details \<Rightarrow> json" where
  "prompt_token_details_json x =
     JObject (put ''audio_tokens'' (u32_json (ptd_audio_tokens x)) (put ''cached_tokens'' (u32_json (ptd_cached_tokens x)) []))"

definition prompt_token_details_of :: "json \<Rightarrow> prompt_token_details option" where
  "prompt_token_details_of = struct (\<lambda>fs.
     Option.bind (required u32_of (map_of fs ''audio_tokens'')) (\<lambda>audio.
     Option.bind (required u32_of (map_of fs ''cached_tokens'')) (\<lambda>cached.
     Some \<lparr>ptd_audio_tokens = audio, ptd_cached_tokens = cached\<rparr>)))"

interpretation prompt_token_details: codec prompt_token_details_json prompt_token_details_of "\<lambda>_. True"
  by unfold_locales (simp_all add: prompt_token_details_json_def prompt_token_details_of_def serde)

definition completion_token_details_json :: "completion_token_details \<Rightarrow> json" where
  "completion_token_details_json x =
     JObject (put ''audio_tokens'' (u32_json (ctd_audio_tokens x)) (put ''reasoning_tokens'' (u32_json (ctd_reasoning_tokens x)) []))"

definition completion_token_details_of :: "json \<Rightarrow> completion_token_details option" where
  "completion_token_details_of = struct (\<lambda>fs.
     Option.bind (required u32_of (map_of fs ''audio_tokens'')) (\<lambda>audio.
     Option.bind (required u32_of (map_of fs ''reasoning_tokens'')) (\<lambda>reasoning.
     Some \<lparr>ctd_audio_tokens = audio, ctd_reasoning_tokens = reasoning\<rparr>)))"

interpretation completion_token_details: codec completion_token_details_json completion_token_details_of "\<lambda>_. True"
  by unfold_locales (simp_all add: completion_token_details_json_def completion_token_details_of_def serde)

definition usage_json :: "usage \<Rightarrow> json" where
  "usage_json x =
     JObject (put ''prompt_tokens'' (u32_json (us_prompt_tokens x)) (put ''total_tokens'' (u32_json (us_total_tokens x)) (put
     ''completion_tokens'' (u32_json (us_completion_tokens x)) (put_some prompt_token_details_json ''prompt_token_details''
     (us_prompt_token_details x) (put_some completion_token_details_json ''completion_token_details'' (us_completion_token_details x) [])))))"

definition usage_of :: "json \<Rightarrow> usage option" where
  "usage_of = struct (\<lambda>fs.
     Option.bind (required u32_of (map_of fs ''prompt_tokens'')) (\<lambda>prompt.
     Option.bind (required u32_of (map_of fs ''total_tokens'')) (\<lambda>all_tokens.
     Option.bind (required u32_of (map_of fs ''completion_tokens'')) (\<lambda>completion.
     Option.bind (optional prompt_token_details_of (map_of fs ''prompt_token_details'')) (\<lambda>prompt_details.
     Option.bind (optional completion_token_details_of (map_of fs ''completion_token_details'')) (\<lambda>completion_details.
     Some \<lparr>us_prompt_tokens = prompt, us_total_tokens = all_tokens, us_completion_tokens = completion, us_prompt_token_details =
       prompt_details, us_completion_token_details = completion_details\<rparr>))))))"

interpretation usage: codec usage_json usage_of "\<lambda>_. True"
  by unfold_locales (simp_all add: usage_json_def usage_of_def serde)

interpretation bytes: codec "list_json nat_json" "list_of u8_of" "list_all is_u8"
  by (rule u8.list_codec)

definition logprob_json :: "logprob \<Rightarrow> json" where
  "logprob_json x =
     JObject (put ''logprob'' (JFloat (lp_logprob x)) (put_opt JInt ''rank'' (lp_rank x) (put_opt JString ''decoded_token'' (lp_decoded_token x)
     [])))"

definition logprob_of :: "(f64 \<Rightarrow> f32) \<Rightarrow> json \<Rightarrow> logprob option" where
  "logprob_of rnd = struct (\<lambda>fs.
     Option.bind (required (f32_of rnd) (map_of fs ''logprob'')) (\<lambda>logprob.
     Option.bind (optional i32_of (map_of fs ''rank'')) (\<lambda>rank.
     Option.bind (optional string_of (map_of fs ''decoded_token'')) (\<lambda>decoded.
     Some \<lparr>lp_logprob = logprob, lp_rank = rank, lp_decoded_token = decoded\<rparr>))))"

definition logprob_ok :: "(f64 \<Rightarrow> f32) \<Rightarrow> logprob \<Rightarrow> bool" where
  "logprob_ok rnd x \<longleftrightarrow> rnd (lp_logprob x) = lp_logprob x \<and> pred_option is_i32 (lp_rank x)"

interpretation logprob: codec logprob_json "logprob_of rnd" "logprob_ok rnd" for rnd
  by unfold_locales (simp_all add: logprob_json_def logprob_of_def logprob_ok_def serde)

definition top_logprob_json :: "chat_completion_top_logprob \<Rightarrow> json" where
  "top_logprob_json x =
     JObject (put ''token'' (JString (tlp_token x)) (put ''logprob'' (JFloat (tlp_logprob x)) (put_opt (list_json nat_json) ''bytes'' (tlp_bytes
     x) [])))"

definition top_logprob_of :: "(f64 \<Rightarrow> f32) \<Rightarrow> json \<Rightarrow> chat_completion_top_logprob option" where
  "top_logprob_of rnd = struct (\<lambda>fs.
     Option.bind (required string_of (map_of fs ''token'')) (\<lambda>token.
     Option.bind (required (f32_of rnd) (map_of fs ''logprob'')) (\<lambda>logprob.
     Option.bind (optional (list_of u8_of) (map_of fs ''bytes'')) (\<lambda>bytes.
     Some \<lparr>tlp_token = token, tlp_logprob = logprob, tlp_bytes = bytes\<rparr>))))"

definition top_logprob_ok :: "(f64 \<Rightarrow> f32) \<Rightarrow> chat_completion_top_logprob \<Rightarrow> bool" where
  "top_logprob_ok rnd x \<longleftrightarrow> rnd (tlp_logprob x) = tlp_logprob x \<and> pred_option (list_all is_u8) (tlp_bytes x)"

interpretation top_logprob: codec top_logprob_json "top_logprob_of rnd" "top_logprob_ok rnd" for rnd
  by unfold_locales (simp_all add: top_logprob_json_def top_logprob_of_def top_logprob_ok_def serde)

interpretation top_logprobs: list_field "list_json top_logprob_json" "list_of (top_logprob_of rnd)" "list_all (top_logprob_ok rnd)" for rnd
  unfolding list_field_def by (rule top_logprob.list_codec)

definition chat_logprob_json :: "chat_completion_logprob \<Rightarrow> json" where
  "chat_logprob_json x =
     JObject (put ''token'' (JString (clp_token x)) (put ''logprob'' (JFloat (clp_logprob x)) (put_opt (list_json nat_json) ''bytes'' (clp_bytes
     x) (put_opt (list_json top_logprob_json) ''top_logprobs'' (clp_top_logprobs x) []))))"

definition chat_logprob_of :: "(f64 \<Rightarrow> f32) \<Rightarrow> json \<Rightarrow> chat_completion_logprob option" where
  "chat_logprob_of rnd = struct (\<lambda>fs.
     Option.bind (required string_of (map_of fs ''token'')) (\<lambda>token.
     Option.bind (required (f32_of rnd) (map_of fs ''logprob'')) (\<lambda>logprob.
     Option.bind (optional (list_of u8_of) (map_of fs ''bytes'')) (\<lambda>bytes.
     Option.bind (optional (list_of (top_logprob_of rnd)) (map_of fs ''top_logprobs'')) (\<lambda>top.
     Some \<lparr>clp_token = token, clp_logprob = logprob, clp_bytes = bytes, clp_top_logprobs = top\<rparr>)))))"

definition chat_logprob_ok :: "(f64 \<Rightarrow> f32) \<Rightarrow> chat_completion_logprob \<Rightarrow> bool" where
  "chat_logprob_ok rnd x \<longleftrightarrow> rnd (clp_logprob x) = clp_logprob x \<and> pred_option (list_all is_u8) (clp_bytes x)
     \<and> pred_option (list_all (top_logprob_ok rnd)) (clp_top_logprobs x)"

interpretation chat_logprob: codec chat_logprob_json "chat_logprob_of rnd" "chat_logprob_ok rnd" for rnd
  by unfold_locales (simp_all add: chat_logprob_json_def chat_logprob_of_def chat_logprob_ok_def serde)

interpretation chat_logprobs: list_field "list_json chat_logprob_json" "list_of (chat_logprob_of rnd)" "list_all (chat_logprob_ok rnd)" for rnd
  unfolding list_field_def by (rule chat_logprob.list_codec)

definition chat_logprobs_json :: "chat_completion_logprobs \<Rightarrow> json" where
  "chat_logprobs_json x =
     JObject (put_nonempty (list_json chat_logprob_json) ''content'' (lps_content x) (put_nonempty (list_json chat_logprob_json) ''refusal''
     (lps_refusal x) []))"

definition chat_logprobs_of :: "(f64 \<Rightarrow> f32) \<Rightarrow> json \<Rightarrow> chat_completion_logprobs option" where
  "chat_logprobs_of rnd = struct (\<lambda>fs.
     Option.bind (defaulted [] (list_of (chat_logprob_of rnd)) (map_of fs ''content'')) (\<lambda>content.
     Option.bind (defaulted [] (list_of (chat_logprob_of rnd)) (map_of fs ''refusal'')) (\<lambda>refusal.
     Some \<lparr>lps_content = content, lps_refusal = refusal\<rparr>)))"

definition chat_logprobs_ok :: "(f64 \<Rightarrow> f32) \<Rightarrow> chat_completion_logprobs \<Rightarrow> bool" where
  "chat_logprobs_ok rnd x \<longleftrightarrow> list_all (chat_logprob_ok rnd) (lps_content x) \<and> list_all (chat_logprob_ok rnd) (lps_refusal x)"

interpretation chat_choice_logprobs: codec chat_logprobs_json "chat_logprobs_of rnd" "chat_logprobs_ok rnd" for rnd
  by unfold_locales (simp_all add: chat_logprobs_json_def chat_logprobs_of_def chat_logprobs_ok_def serde)

definition prompt_logprobs_json :: "(string, logprob) hashmap option list \<Rightarrow> json" where
  "prompt_logprobs_json = list_json (option_json (map_json logprob_json))"

definition prompt_logprobs_of :: "(f64 \<Rightarrow> f32) \<Rightarrow> json \<Rightarrow> (string, logprob) hashmap option list option" where
  "prompt_logprobs_of rnd = list_of (option_of (map_of_json (logprob_of rnd)))"

definition prompt_logprobs_ok :: "(f64 \<Rightarrow> f32) \<Rightarrow> (string, logprob) hashmap option list \<Rightarrow> bool" where
  "prompt_logprobs_ok rnd = list_all (pred_option (list_all (\<lambda>(_, v). logprob_ok rnd v)))"

interpretation prompt_logprob_map: codec "map_json logprob_json" "map_of_json (logprob_of rnd)" "list_all (\<lambda>(_, v). logprob_ok rnd v)" for rnd
  by (rule logprob.map_codec)

interpretation prompt_logprobs: codec prompt_logprobs_json "prompt_logprobs_of rnd" "prompt_logprobs_ok rnd" for rnd
  unfolding prompt_logprobs_json_def prompt_logprobs_of_def prompt_logprobs_ok_def by (rule prompt_logprob_map.option_list_codec)

interpretation f32s: codec "list_json JFloat" "list_of (f32_of rnd)" "list_all (\<lambda>x. rnd x = x)" for rnd
  by (rule f32.list_codec)

interpretation f32_map: codec "map_json JFloat" "map_of_json (f32_of rnd)" "list_all (\<lambda>(_, x). rnd x = x)" for rnd
  by (rule f32.map_codec)

interpretation f32_maps: codec "list_json (map_json JFloat)" "list_of (map_of_json (f32_of rnd))" "list_all (list_all (\<lambda>(_, x). rnd x = x))" for rnd
  by (rule f32_map.list_codec)

definition completion_logprobs_json :: "completion_logprobs \<Rightarrow> json" where
  "completion_logprobs_json x =
     JObject (put ''tokens'' (list_json JString (cl_tokens x)) (put ''token_logprobs'' (list_json JFloat (cl_token_logprobs x)) (put
     ''top_logprobs'' (list_json (map_json JFloat) (cl_top_logprobs x)) (put ''text_offset'' (list_json u32_json (cl_text_offset x)) []))))"

definition completion_logprobs_of :: "(f64 \<Rightarrow> f32) \<Rightarrow> json \<Rightarrow> completion_logprobs option" where
  "completion_logprobs_of rnd = struct (\<lambda>fs.
     Option.bind (required (list_of string_of) (map_of fs ''tokens'')) (\<lambda>tokens.
     Option.bind (required (list_of (f32_of rnd)) (map_of fs ''token_logprobs'')) (\<lambda>logprobs.
     Option.bind (required (list_of (map_of_json (f32_of rnd))) (map_of fs ''top_logprobs'')) (\<lambda>top.
     Option.bind (required (list_of u32_of) (map_of fs ''text_offset'')) (\<lambda>offset.
     Some \<lparr>cl_tokens = tokens, cl_token_logprobs = logprobs, cl_top_logprobs = top, cl_text_offset = offset\<rparr>)))))"

definition completion_logprobs_ok :: "(f64 \<Rightarrow> f32) \<Rightarrow> completion_logprobs \<Rightarrow> bool" where
  "completion_logprobs_ok rnd x \<longleftrightarrow> list_all (\<lambda>y. rnd y = y) (cl_token_logprobs x) \<and> list_all (list_all (\<lambda>(_, y). rnd y = y)) (cl_top_logprobs x)"

interpretation completion_logprobs: codec completion_logprobs_json "completion_logprobs_of rnd" "completion_logprobs_ok rnd" for rnd
  by unfold_locales (simp_all add: completion_logprobs_json_def completion_logprobs_of_def completion_logprobs_ok_def serde)

section \<open>Choices\<close>

fun stop_reason_json :: "stop_reason \<Rightarrow> json" where
  "stop_reason_json (StopString s) = JString s"
| "stop_reason_json (StopInteger i) = JInt i"

definition stop_reason_of :: "json \<Rightarrow> stop_reason option" where
  "stop_reason_of j = first_variant (map_option StopString (string_of j)) (map_option StopInteger (i64_of j))"

fun stop_reason_ok :: "stop_reason \<Rightarrow> bool" where
  "stop_reason_ok (StopString s) \<longleftrightarrow> True"
| "stop_reason_ok (StopInteger i) \<longleftrightarrow> is_i64 i"

interpretation stop_reason: codec stop_reason_json stop_reason_of stop_reason_ok
proof
  fix r
  show "stop_reason_of (stop_reason_json r) = Some r" if "stop_reason_ok r"
    using that by (cases r) (simp_all add: stop_reason_of_def first_variant_def serde)
  show "stop_reason_json r \<noteq> JNull" by (cases r) simp_all
qed

definition chat_choice_json :: "chat_completion_choice \<Rightarrow> json" where
  "chat_choice_json x =
     JObject (put ''index'' (u32_json (cc_index x)) (put ''message'' (message_json (cc_message x)) (put_opt chat_logprobs_json ''logprobs''
     (cc_logprobs x) (put ''finish_reason'' (JString (cc_finish_reason x)) (put_opt stop_reason_json ''stop_reason'' (cc_stop_reason x) [])))))"

definition chat_choice_of_json :: "(f64 \<Rightarrow> f32) \<Rightarrow> json \<Rightarrow> chat_completion_choice option" where
  "chat_choice_of_json rnd = struct (\<lambda>fs.
     Option.bind (required u32_of (map_of fs ''index'')) (\<lambda>index.
     Option.bind (required message_of (map_of fs ''message'')) (\<lambda>message.
     Option.bind (optional (chat_logprobs_of rnd) (map_of fs ''logprobs'')) (\<lambda>logprobs.
     Option.bind (required string_of (map_of fs ''finish_reason'')) (\<lambda>finish_reason.
     Option.bind (optional stop_reason_of (map_of fs ''stop_reason'')) (\<lambda>stop_reason.
     Some \<lparr>cc_index = index, cc_message = message, cc_logprobs = logprobs, cc_finish_reason = finish_reason, cc_stop_reason =
       stop_reason\<rparr>))))))"

definition chat_choice_ok :: "(f64 \<Rightarrow> f32) \<Rightarrow> chat_completion_choice \<Rightarrow> bool" where
  "chat_choice_ok rnd x \<longleftrightarrow> message_ok (cc_message x) \<and> pred_option (chat_logprobs_ok rnd) (cc_logprobs x) \<and> pred_option stop_reason_ok (cc_stop_reason x)"

interpretation chat_choice: codec chat_choice_json "chat_choice_of_json rnd" "chat_choice_ok rnd" for rnd
  by unfold_locales (simp_all add: chat_choice_json_def chat_choice_of_json_def chat_choice_ok_def serde)

interpretation chat_choices: list_field "list_json chat_choice_json" "list_of (chat_choice_of_json rnd)" "list_all (chat_choice_ok rnd)" for rnd
  unfolding list_field_def by (rule chat_choice.list_codec)

definition delta_json :: "chat_completion_delta \<Rightarrow> json" where
  "delta_json x =
     JObject (put_some role_json ''role'' (dl_role x) (put_some JString ''content'' (dl_content x) (put_some JString ''refusal'' (dl_refusal x)
     (put_nonempty (list_json tool_call_json) ''tool_calls'' (dl_tool_calls x) []))))"

definition delta_of :: "json \<Rightarrow> chat_completion_delta option" where
  "delta_of = struct (\<lambda>fs.
     Option.bind (optional role_of (map_of fs ''role'')) (\<lambda>role.
     Option.bind (optional string_of (map_of fs ''content'')) (\<lambda>content.
     Option.bind (optional string_of (map_of fs ''refusal'')) (\<lambda>refusal.
     Option.bind (defaulted [] (list_of tool_call_of) (map_of fs ''tool_calls'')) (\<lambda>tool_calls.
     Some \<lparr>dl_role = role, dl_content = content, dl_refusal = refusal, dl_tool_calls = tool_calls\<rparr>)))))"

definition delta_ok :: "chat_completion_delta \<Rightarrow> bool" where
  "delta_ok x \<longleftrightarrow> list_all tool_call_ok (dl_tool_calls x)"

interpretation delta: codec delta_json delta_of delta_ok
  by unfold_locales (simp_all add: delta_json_def delta_of_def delta_ok_def serde)

definition chunk_choice_json :: "chat_completion_chunk_choice \<Rightarrow> json" where
  "chunk_choice_json x =
     JObject (put ''index'' (u32_json (kc_index x)) (put ''delta'' (delta_json (kc_delta x)) (put_opt chat_logprobs_json ''logprobs''
     (kc_logprobs x) (put_opt JString ''finish_reason'' (kc_finish_reason x) (put_opt stop_reason_json ''stop_reason'' (kc_stop_reason x) [])))))"

definition chunk_choice_of :: "(f64 \<Rightarrow> f32) \<Rightarrow> json \<Rightarrow> chat_completion_chunk_choice option" where
  "chunk_choice_of rnd = struct (\<lambda>fs.
     Option.bind (required u32_of (map_of fs ''index'')) (\<lambda>index.
     Option.bind (required delta_of (map_of fs ''delta'')) (\<lambda>delta.
     Option.bind (optional (chat_logprobs_of rnd) (map_of fs ''logprobs'')) (\<lambda>logprobs.
     Option.bind (optional string_of (map_of fs ''finish_reason'')) (\<lambda>finish_reason.
     Option.bind (optional stop_reason_of (map_of fs ''stop_reason'')) (\<lambda>stop_reason.
     Some \<lparr>kc_index = index, kc_delta = delta, kc_logprobs = logprobs, kc_finish_reason = finish_reason, kc_stop_reason =
       stop_reason\<rparr>))))))"

definition chunk_choice_ok :: "(f64 \<Rightarrow> f32) \<Rightarrow> chat_completion_chunk_choice \<Rightarrow> bool" where
  "chunk_choice_ok rnd x \<longleftrightarrow> delta_ok (kc_delta x) \<and> pred_option (chat_logprobs_ok rnd) (kc_logprobs x) \<and> pred_option stop_reason_ok (kc_stop_reason x)"

interpretation chunk_choice: codec chunk_choice_json "chunk_choice_of rnd" "chunk_choice_ok rnd" for rnd
  by unfold_locales (simp_all add: chunk_choice_json_def chunk_choice_of_def chunk_choice_ok_def serde)

interpretation chunk_choices: list_field "list_json chunk_choice_json" "list_of (chunk_choice_of rnd)" "list_all (chunk_choice_ok rnd)" for rnd
  unfolding list_field_def by (rule chunk_choice.list_codec)

definition completion_choice_json :: "completion_choice \<Rightarrow> json" where
  "completion_choice_json x =
     JObject (put ''index'' (u32_json (co_index x)) (put ''text'' (JString (co_text x)) (put_opt completion_logprobs_json ''logprobs''
     (co_logprobs x) (put_opt JString ''finish_reason'' (co_finish_reason x) (put_opt stop_reason_json ''stop_reason'' (co_stop_reason x)
     (put_some prompt_logprobs_json ''prompt_logprobs'' (co_prompt_logprobs x) []))))))"

definition completion_choice_of_json :: "(f64 \<Rightarrow> f32) \<Rightarrow> json \<Rightarrow> completion_choice option" where
  "completion_choice_of_json rnd = struct (\<lambda>fs.
     Option.bind (required u32_of (map_of fs ''index'')) (\<lambda>index.
     Option.bind (required string_of (map_of fs ''text'')) (\<lambda>text.
     Option.bind (optional (completion_logprobs_of rnd) (map_of fs ''logprobs'')) (\<lambda>logprobs.
     Option.bind (optional string_of (map_of fs ''finish_reason'')) (\<lambda>finish_reason.
     Option.bind (optional stop_reason_of (map_of fs ''stop_reason'')) (\<lambda>stop_reason.
     Option.bind (optional (prompt_logprobs_of rnd) (map_of fs ''prompt_logprobs'')) (\<lambda>prompt_logprobs.
     Some \<lparr>co_index = index, co_text = text, co_logprobs = logprobs, co_finish_reason = finish_reason, co_stop_reason = stop_reason,
       co_prompt_logprobs = prompt_logprobs\<rparr>)))))))"

definition completion_choice_ok :: "(f64 \<Rightarrow> f32) \<Rightarrow> completion_choice \<Rightarrow> bool" where
  "completion_choice_ok rnd x \<longleftrightarrow> pred_option (completion_logprobs_ok rnd) (co_logprobs x) \<and> pred_option stop_reason_ok (co_stop_reason x) \<and> pred_option
     (prompt_logprobs_ok rnd) (co_prompt_logprobs x)"

interpretation completion_choice: codec completion_choice_json "completion_choice_of_json rnd" "completion_choice_ok rnd" for rnd
  by unfold_locales (simp_all add: completion_choice_json_def completion_choice_of_json_def completion_choice_ok_def serde)

interpretation completion_choices: list_field "list_json completion_choice_json" "list_of (completion_choice_of_json rnd)" "list_all (completion_choice_ok rnd)" for rnd
  unfolding list_field_def by (rule completion_choice.list_codec)

section \<open>Detections and warnings\<close>

fun warning_reason_json :: "detection_warning_reason \<Rightarrow> json" where
  "warning_reason_json UnsuitableInput = JString ''UNSUITABLE_INPUT''"
| "warning_reason_json UnsuitableOutput = JString ''UNSUITABLE_OUTPUT''"
| "warning_reason_json EmptyOutput = JString ''EMPTY_OUTPUT''"

definition warning_reason_of :: "json \<Rightarrow> detection_warning_reason option" where
  "warning_reason_of j = Option.bind (string_of j) (map_of [(''UNSUITABLE_INPUT'', UnsuitableInput),
     (''UNSUITABLE_OUTPUT'', UnsuitableOutput), (''EMPTY_OUTPUT'', EmptyOutput)])"

interpretation warning_reason: codec warning_reason_json warning_reason_of "\<lambda>_. True"
proof
  fix r
  show "warning_reason_of (warning_reason_json r) = Some r" "warning_reason_json r \<noteq> JNull"
    by (cases r; simp add: warning_reason_of_def)+
qed

definition warning_json :: "completion_detection_warning \<Rightarrow> json" where
  "warning_json x =
     JObject (put ''type'' (warning_reason_json (w_type x)) (put ''message'' (JString (w_message x)) []))"

definition warning_of :: "json \<Rightarrow> completion_detection_warning option" where
  "warning_of = struct (\<lambda>fs.
     Option.bind (required warning_reason_of (map_of fs ''type'')) (\<lambda>t.
     Option.bind (required string_of (map_of fs ''message'')) (\<lambda>message.
     Some \<lparr>w_type = t, w_message = message\<rparr>)))"

interpretation warning: codec warning_json warning_of "\<lambda>_. True"
  by unfold_locales (simp_all add: warning_json_def warning_of_def serde)

interpretation warnings: list_field "list_json warning_json" "list_of warning_of" "list_all (\<lambda>_. True)"
  unfolding list_field_def by (rule warning.list_codec)

definition input_detections_json :: "completion_input_detections \<Rightarrow> json" where
  "input_detections_json x =
     JObject (put ''message_index'' (u32_json (cid_message_index x)) (put ''results'' (list_json detection_json (cid_results x)) []))"

definition input_detections_of :: "json \<Rightarrow> completion_input_detections option" where
  "input_detections_of = struct (\<lambda>fs.
     Option.bind (required u32_of (map_of fs ''message_index'')) (\<lambda>index.
     Option.bind (defaulted [] (list_of detection_of_json) (map_of fs ''results'')) (\<lambda>results.
     Some \<lparr>cid_message_index = index, cid_results = results\<rparr>)))"

definition input_detections_ok :: "completion_input_detections \<Rightarrow> bool" where
  "input_detections_ok x \<longleftrightarrow> list_all detection_ok (cid_results x)"

interpretation input_detections: codec input_detections_json input_detections_of input_detections_ok
  by unfold_locales (simp_all add: input_detections_json_def input_detections_of_def input_detections_ok_def serde)

interpretation input_detections_list: list_field "list_json input_detections_json" "list_of input_detections_of" "list_all input_detections_ok"
  unfolding list_field_def by (rule input_detections.list_codec)

definition output_detections_json :: "completion_output_detections \<Rightarrow> json" where
  "output_detections_json x =
     JObject (put ''choice_index'' (u32_json (cod_choice_index x)) (put ''results'' (list_json detection_json (cod_results x)) []))"

definition output_detections_of :: "json \<Rightarrow> completion_output_detections option" where
  "output_detections_of = struct (\<lambda>fs.
     Option.bind (required u32_of (map_of fs ''choice_index'')) (\<lambda>index.
     Option.bind (defaulted [] (list_of detection_of_json) (map_of fs ''results'')) (\<lambda>results.
     Some \<lparr>cod_choice_index = index, cod_results = results\<rparr>)))"

definition output_detections_ok :: "completion_output_detections \<Rightarrow> bool" where
  "output_detections_ok x \<longleftrightarrow> list_all detection_ok (cod_results x)"

interpretation output_detections: codec output_detections_json output_detections_of output_detections_ok
  by unfold_locales (simp_all add: output_detections_json_def output_detections_of_def output_detections_ok_def serde)

interpretation output_detections_list: list_field "list_json output_detections_json" "list_of output_detections_of" "list_all output_detections_ok"
  unfolding list_field_def by (rule output_detections.list_codec)

definition completion_detections_json :: "completion_detections \<Rightarrow> json" where
  "completion_detections_json x =
     JObject (put_nonempty (list_json input_detections_json) ''input'' (cdet_input x) (put_nonempty (list_json output_detections_json) ''output''
     (cdet_output x) []))"

definition completion_detections_of :: "json \<Rightarrow> completion_detections option" where
  "completion_detections_of = struct (\<lambda>fs.
     Option.bind (defaulted [] (list_of input_detections_of) (map_of fs ''input'')) (\<lambda>input.
     Option.bind (defaulted [] (list_of output_detections_of) (map_of fs ''output'')) (\<lambda>output.
     Some \<lparr>cdet_input = input, cdet_output = output\<rparr>)))"

definition completion_detections_ok :: "completion_detections \<Rightarrow> bool" where
  "completion_detections_ok x \<longleftrightarrow> list_all input_detections_ok (cdet_input x) \<and> list_all output_detections_ok (cdet_output x)"

interpretation completion_detections: codec completion_detections_json completion_detections_of completion_detections_ok
  by unfold_locales (simp_all add: completion_detections_json_def completion_detections_of_def completion_detections_ok_def serde)

section \<open>Completions\<close>

definition chat_completion_json :: "chat_completion \<Rightarrow> json" where
  "chat_completion_json x =
     JObject (put ''id'' (JString (ch_id x)) (put ''object'' (JString (ch_object x)) (put ''created'' (JInt (ch_created x)) (put ''model''
     (JString (ch_model x)) (put ''choices'' (list_json chat_choice_json (ch_choices x)) (put ''usage'' (usage_json (ch_usage x)) (put_opt
     prompt_logprobs_json ''prompt_logprobs'' (ch_prompt_logprobs x) (put_some JString ''system_fingerprint'' (ch_system_fingerprint x) (put_some
     JString ''service_tier'' (ch_service_tier x) (put_some completion_detections_json ''detections'' (ch_detections x) (put_nonempty (list_json
     warning_json) ''warnings'' (ch_warnings x) [])))))))))))"

definition chat_completion_of :: "(f64 \<Rightarrow> f32) \<Rightarrow> json \<Rightarrow> chat_completion option" where
  "chat_completion_of rnd = struct (\<lambda>fs.
     Option.bind (required string_of (map_of fs ''id'')) (\<lambda>i.
     Option.bind (required string_of (map_of fs ''object'')) (\<lambda>obj.
     Option.bind (required i64_of (map_of fs ''created'')) (\<lambda>created.
     Option.bind (required string_of (map_of fs ''model'')) (\<lambda>model.
     Option.bind (required (list_of (chat_choice_of_json rnd)) (map_of fs ''choices'')) (\<lambda>choices.
     Option.bind (required usage_of (map_of fs ''usage'')) (\<lambda>used.
     Option.bind (optional (prompt_logprobs_of rnd) (map_of fs ''prompt_logprobs'')) (\<lambda>prompt_logprobs.
     Option.bind (optional string_of (map_of fs ''system_fingerprint'')) (\<lambda>fingerprint.
     Option.bind (optional string_of (map_of fs ''service_tier'')) (\<lambda>tier.
     Option.bind (optional completion_detections_of (map_of fs ''detections'')) (\<lambda>detections.
     Option.bind (defaulted [] (list_of warning_of) (map_of fs ''warnings'')) (\<lambda>warnings.
     Some \<lparr>ch_id = i, ch_object = obj, ch_created = created, ch_model = model, ch_choices = choices, ch_usage = used, ch_prompt_logprobs =
       prompt_logprobs, ch_system_fingerprint = fingerprint, ch_service_tier = tier, ch_detections = detections, ch_warnings =
       warnings\<rparr>))))))))))))"

definition chat_completion_ok :: "(f64 \<Rightarrow> f32) \<Rightarrow> chat_completion \<Rightarrow> bool" where
  "chat_completion_ok rnd x \<longleftrightarrow> is_i64 (ch_created x) \<and> list_all (chat_choice_ok rnd) (ch_choices x) \<and> pred_option completion_detections_ok (ch_detections x)
     \<and> pred_option (prompt_logprobs_ok rnd) (ch_prompt_logprobs x)"

interpretation chat_completion: codec chat_completion_json "chat_completion_of rnd" "chat_completion_ok rnd" for rnd
  by unfold_locales (simp_all add: chat_completion_json_def chat_completion_of_def chat_completion_ok_def serde)

definition chunk_json :: "chat_completion_chunk \<Rightarrow> json" where
  "chunk_json x =
     JObject (put ''id'' (JString (ck_id x)) (put ''object'' (JString (ck_object x)) (put ''created'' (JInt (ck_created x)) (put ''model''
     (JString (ck_model x)) (put_some JString ''system_fingerprint'' (ck_system_fingerprint x) (put ''choices'' (list_json chunk_choice_json
     (ck_choices x)) (put_some JString ''service_tier'' (ck_service_tier x) (put_some usage_json ''usage'' (ck_usage x) (put_some
     completion_detections_json ''detections'' (ck_detections x) (put_nonempty (list_json warning_json) ''warnings'' (ck_warnings x) []))))))))))"

definition chunk_of :: "(f64 \<Rightarrow> f32) \<Rightarrow> json \<Rightarrow> chat_completion_chunk option" where
  "chunk_of rnd = struct (\<lambda>fs.
     Option.bind (required string_of (map_of fs ''id'')) (\<lambda>i.
     Option.bind (required string_of (map_of fs ''object'')) (\<lambda>obj.
     Option.bind (required i64_of (map_of fs ''created'')) (\<lambda>created.
     Option.bind (required string_of (map_of fs ''model'')) (\<lambda>model.
     Option.bind (optional string_of (map_of fs ''system_fingerprint'')) (\<lambda>fingerprint.
     Option.bind (required (list_of (chunk_choice_of rnd)) (map_of fs ''choices'')) (\<lambda>choices.
     Option.bind (optional string_of (map_of fs ''service_tier'')) (\<lambda>tier.
     Option.bind (optional usage_of (map_of fs ''usage'')) (\<lambda>used.
     Option.bind (optional completion_detections_of (map_of fs ''detections'')) (\<lambda>detections.
     Option.bind (defaulted [] (list_of warning_of) (map_of fs ''warnings'')) (\<lambda>warnings.
     Some \<lparr>ck_id = i, ck_object = obj, ck_created = created, ck_model = model, ck_system_fingerprint = fingerprint, ck_choices = choices,
       ck_service_tier = tier, ck_usage = used, ck_detections = detections, ck_warnings = warnings\<rparr>)))))))))))"

definition chunk_ok :: "(f64 \<Rightarrow> f32) \<Rightarrow> chat_completion_chunk \<Rightarrow> bool" where
  "chunk_ok rnd x \<longleftrightarrow> is_i64 (ck_created x) \<and> list_all (chunk_choice_ok rnd) (ck_choices x) \<and> pred_option completion_detections_ok (ck_detections x)"

interpretation chunk: codec chunk_json "chunk_of rnd" "chunk_ok rnd" for rnd
  by unfold_locales (simp_all add: chunk_json_def chunk_of_def chunk_ok_def serde)

definition completion_json :: "completion \<Rightarrow> json" where
  "completion_json x =
     JObject (put ''id'' (JString (cm_id x)) (put ''object'' (JString (cm_object x)) (put ''created'' (JInt (cm_created x)) (put ''model''
     (JString (cm_model x)) (put ''choices'' (list_json completion_choice_json (cm_choices x)) (put_opt usage_json ''usage'' (cm_usage x)
     (put_some JString ''system_fingerprint'' (cm_system_fingerprint x) (put_some completion_detections_json ''detections'' (cm_detections x)
     (put_nonempty (list_json warning_json) ''warnings'' (cm_warnings x) [])))))))))"

definition completion_of :: "(f64 \<Rightarrow> f32) \<Rightarrow> json \<Rightarrow> completion option" where
  "completion_of rnd = struct (\<lambda>fs.
     Option.bind (required string_of (map_of fs ''id'')) (\<lambda>i.
     Option.bind (required string_of (map_of fs ''object'')) (\<lambda>obj.
     Option.bind (required i64_of (map_of fs ''created'')) (\<lambda>created.
     Option.bind (required string_of (map_of fs ''model'')) (\<lambda>model.
     Option.bind (required (list_of (completion_choice_of_json rnd)) (map_of fs ''choices'')) (\<lambda>choices.
     Option.bind (optional usage_of (map_of fs ''usage'')) (\<lambda>used.
     Option.bind (optional string_of (map_of fs ''system_fingerprint'')) (\<lambda>fingerprint.
     Option.bind (optional completion_detections_of (map_of fs ''detections'')) (\<lambda>detections.
     Option.bind (defaulted [] (list_of warning_of) (map_of fs ''warnings'')) (\<lambda>warnings.
     Some \<lparr>cm_id = i, cm_object = obj, cm_created = created, cm_model = model, cm_choices = choices, cm_usage = used,
       cm_system_fingerprint = fingerprint, cm_detections = detections, cm_warnings = warnings\<rparr>))))))))))"

definition completion_ok :: "(f64 \<Rightarrow> f32) \<Rightarrow> completion \<Rightarrow> bool" where
  "completion_ok rnd x \<longleftrightarrow> is_i64 (cm_created x) \<and> list_all (completion_choice_ok rnd) (cm_choices x) \<and> pred_option completion_detections_ok (cm_detections
     x)"

interpretation completion: codec completion_json "completion_of rnd" "completion_ok rnd" for rnd
  by unfold_locales (simp_all add: completion_json_def completion_of_def completion_ok_def serde)

section \<open>Error answers\<close>

definition error_v1_json :: "error_response_v1 \<Rightarrow> json" where
  "error_v1_json x =
     JObject (put ''object'' (JString (e1_object x)) (put ''message'' (JString (e1_message x)) (put ''type'' (JString (e1_type x)) (put_opt
     JString ''param'' (e1_param x) (put ''code'' (nat_json (e1_code x)) [])))))"

definition error_v1_of :: "json \<Rightarrow> error_response_v1 option" where
  "error_v1_of = struct (\<lambda>fs.
     Option.bind (required string_of (map_of fs ''object'')) (\<lambda>obj.
     Option.bind (required string_of (map_of fs ''message'')) (\<lambda>message.
     Option.bind (required string_of (map_of fs ''type'')) (\<lambda>t.
     Option.bind (optional string_of (map_of fs ''param'')) (\<lambda>param.
     Option.bind (required u16_of (map_of fs ''code'')) (\<lambda>code.
     Some \<lparr>e1_object = obj, e1_message = message, e1_type = t, e1_param = param, e1_code = code\<rparr>))))))"

definition error_v1_ok :: "error_response_v1 \<Rightarrow> bool" where
  "error_v1_ok x \<longleftrightarrow> is_u16 (e1_code x)"

interpretation error_v1: codec error_v1_json error_v1_of error_v1_ok
  by unfold_locales (simp_all add: error_v1_json_def error_v1_of_def error_v1_ok_def serde)

definition error_info_json :: "error_info \<Rightarrow> json" where
  "error_info_json x =
     JObject (put ''message'' (JString (ei_message x)) (put ''type'' (JString (ei_type x)) (put_opt JString ''param'' (ei_param x) (put ''code''
     (nat_json (ei_code x)) []))))"

definition error_info_of :: "json \<Rightarrow> error_info option" where
  "error_info_of = struct (\<lambda>fs.
     Option.bind (required string_of (map_of fs ''message'')) (\<lambda>message.
     Option.bind (required string_of (map_of fs ''type'')) (\<lambda>t.
     Option.bind (optional string_of (map_of fs ''param'')) (\<lambda>param.
     Option.bind (required u16_of (map_of fs ''code'')) (\<lambda>code.
     Some \<lparr>ei_message = message, ei_type = t, ei_param = param, ei_code = code\<rparr>)))))"

definition error_info_ok :: "error_info \<Rightarrow> bool" where
  "error_info_ok x \<longleftrightarrow> is_u16 (ei_code x)"

interpretation error_info: codec error_info_json error_info_of error_info_ok
  by unfold_locales (simp_all add: error_info_json_def error_info_of_def error_info_ok_def serde)

fun error_response_json :: "error_response \<Rightarrow> json" where
  "error_response_json (V1 e) = error_v1_json e"
| "error_response_json (V2 e) = JObject (put ''error'' (error_info_json e) [])"

definition error_response_of :: "json \<Rightarrow> error_response option" where
  "error_response_of j = first_variant (map_option V1 (error_v1_of j))
     (map_option V2 (struct (\<lambda>fs. required error_info_of (map_of fs ''error'')) j))"

fun error_response_ok :: "error_response \<Rightarrow> bool" where
  "error_response_ok (V1 e) \<longleftrightarrow> error_v1_ok e"
| "error_response_ok (V2 e) \<longleftrightarrow> error_info_ok e"

interpretation error_response: codec error_response_json error_response_of error_response_ok
proof
  fix e
  show "error_response_of (error_response_json e) = Some e" if "error_response_ok e"
  proof (cases e)
    case (V2 i)
    have "error_v1_of (JObject (put ''error'' (error_info_json i) [])) = None"
      by (simp add: error_v1_of_def put_def required_def)
    then show ?thesis using that by (simp add: V2 error_response_of_def first_variant_def serde)
  qed (use that in \<open>simp add: error_response_of_def first_variant_def serde\<close>)
  show "error_response_json e \<noteq> JNull" by (cases e) (simp_all add: error_v1_json_def)
qed

end
