(* ===== verification/Models_Json.thy ===== *)
theory Models_Json
  imports Completion_Json Detector_Client
begin

text \<open>
  The JSON of the guardrails endpoints (\<^verbatim>\<open>src/models.rs\<close>): their requests, which are read with \<^verbatim>\<open>deny_unknown_fields\<close>, and their answers.
\<close>

abbreviation detector_map_ok :: "detector_map \<Rightarrow> bool" where
  "detector_map_ok \<equiv> list_all (\<lambda>(_, v). bt_wf id v)"

section \<open>Generation requests\<close>

definition guardrails_input_json :: "guardrails_config_input \<Rightarrow> json" where
  "guardrails_input_json x =
     JObject (put ''models'' (map_json JObject (gi_models x)) (put_some (list_json pair_json) ''masks'' (gi_masks x) []))"

definition guardrails_input_of :: "json \<Rightarrow> guardrails_config_input option" where
  "guardrails_input_of = struct (\<lambda>fs.
     Option.bind (required (map_of_json btree_of) (map_of fs ''models'')) (\<lambda>models.
     Option.bind (optional (list_of pair_of) (map_of fs ''masks'')) (\<lambda>masks.
     Some \<lparr>gi_models = models, gi_masks = masks\<rparr>)))"

definition guardrails_input_ok :: "guardrails_config_input \<Rightarrow> bool" where
  "guardrails_input_ok x \<longleftrightarrow> detector_map_ok (gi_models x) \<and> pred_option (list_all (\<lambda>(a, b). is_usize a \<and> is_usize b)) (gi_masks x)"

interpretation guardrails_input: codec guardrails_input_json guardrails_input_of guardrails_input_ok
  by unfold_locales (simp_all add: guardrails_input_json_def guardrails_input_of_def guardrails_input_ok_def serde)

definition guardrails_output_json :: "guardrails_config_output \<Rightarrow> json" where
  "guardrails_output_json x =
     JObject (put ''models'' (map_json JObject (go_models x)) [])"

definition guardrails_output_of :: "json \<Rightarrow> guardrails_config_output option" where
  "guardrails_output_of = struct (\<lambda>fs.
     Option.bind (required (map_of_json btree_of) (map_of fs ''models'')) (\<lambda>models.
     Some \<lparr>go_models = models\<rparr>))"

definition guardrails_output_ok :: "guardrails_config_output \<Rightarrow> bool" where
  "guardrails_output_ok x \<longleftrightarrow> detector_map_ok (go_models x)"

interpretation guardrails_output: codec guardrails_output_json guardrails_output_of guardrails_output_ok
  by unfold_locales (simp_all add: guardrails_output_json_def guardrails_output_of_def guardrails_output_ok_def serde)

definition guardrails_config_json :: "guardrails_config \<Rightarrow> json" where
  "guardrails_config_json x =
     JObject (put_some guardrails_input_json ''input'' (gc_input x) (put_some guardrails_output_json ''output'' (gc_output x) []))"

definition guardrails_config_of :: "json \<Rightarrow> guardrails_config option" where
  "guardrails_config_of = struct (\<lambda>fs.
     Option.bind (optional guardrails_input_of (map_of fs ''input'')) (\<lambda>input.
     Option.bind (optional guardrails_output_of (map_of fs ''output'')) (\<lambda>output.
     Some \<lparr>gc_input = input, gc_output = output\<rparr>)))"

definition guardrails_config_ok :: "guardrails_config \<Rightarrow> bool" where
  "guardrails_config_ok x \<longleftrightarrow> pred_option guardrails_input_ok (gc_input x) \<and> pred_option guardrails_output_ok (gc_output x)"

interpretation guardrails_config: codec guardrails_config_json guardrails_config_of guardrails_config_ok
  by unfold_locales (simp_all add: guardrails_config_json_def guardrails_config_of_def guardrails_config_ok_def serde)

definition length_penalty_json :: "exponential_decay_length_penalty \<Rightarrow> json" where
  "length_penalty_json x =
     JObject (put_some u32_json ''start_index'' (ed_start_index x) (put_some JFloat ''decay_factor'' (ed_decay_factor x) []))"

definition length_penalty_of :: "json \<Rightarrow> exponential_decay_length_penalty option" where
  "length_penalty_of = struct (\<lambda>fs.
     Option.bind (optional u32_of (map_of fs ''start_index'')) (\<lambda>start_index.
     Option.bind (optional as_f64 (map_of fs ''decay_factor'')) (\<lambda>decay_factor.
     Some \<lparr>ed_start_index = start_index, ed_decay_factor = decay_factor\<rparr>)))"

interpretation length_penalty: codec length_penalty_json length_penalty_of "\<lambda>_. True"
  by unfold_locales (simp_all add: length_penalty_json_def length_penalty_of_def serde)

definition gen_parameters_json :: "text_generation_parameters \<Rightarrow> json" where
  "gen_parameters_json x =
     JObject (put_some u32_json ''max_new_tokens'' (tg_max_new_tokens x) (put_some u32_json ''min_new_tokens'' (tg_min_new_tokens x) (put_some
     u32_json ''truncate_input_tokens'' (tg_truncate_input_tokens x) (put_some JString ''decoding_method'' (tg_decoding_method x) (put_some
     u32_json ''top_k'' (tg_top_k x) (put_some JFloat ''top_p'' (tg_top_p x) (put_some JFloat ''typical_p'' (tg_typical_p x) (put_some JFloat
     ''temperature'' (tg_temperature x) (put_some JFloat ''repetition_penalty'' (tg_repetition_penalty x) (put_some JFloat ''max_time''
     (tg_max_time x) (put_some length_penalty_json ''exponential_decay_length_penalty'' (tg_exponential_decay_length_penalty x) (put_some
     (list_json JString) ''stop_sequences'' (tg_stop_sequences x) (put_some u32_json ''seed'' (tg_seed x) (put_some JBool ''preserve_input_text''
     (tg_preserve_input_text x) (put_some JBool ''input_tokens'' (tg_input_tokens x) (put_some JBool ''generated_tokens'' (tg_generated_tokens x)
     (put_some JBool ''token_logprobs'' (tg_token_logprobs x) (put_some JBool ''token_ranks'' (tg_token_ranks x) (put_some JBool
     ''include_stop_sequence'' (tg_include_stop_sequence x) [])))))))))))))))))))"

definition gen_parameters_of :: "json \<Rightarrow> text_generation_parameters option" where
  "gen_parameters_of = struct (\<lambda>fs.
     Option.bind (optional u32_of (map_of fs ''max_new_tokens'')) (\<lambda>max_new_tokens.
     Option.bind (optional u32_of (map_of fs ''min_new_tokens'')) (\<lambda>min_new_tokens.
     Option.bind (optional u32_of (map_of fs ''truncate_input_tokens'')) (\<lambda>truncate_input_tokens.
     Option.bind (optional string_of (map_of fs ''decoding_method'')) (\<lambda>decoding_method.
     Option.bind (optional u32_of (map_of fs ''top_k'')) (\<lambda>top_k.
     Option.bind (optional as_f64 (map_of fs ''top_p'')) (\<lambda>top_p.
     Option.bind (optional as_f64 (map_of fs ''typical_p'')) (\<lambda>typical_p.
     Option.bind (optional as_f64 (map_of fs ''temperature'')) (\<lambda>temperature.
     Option.bind (optional as_f64 (map_of fs ''repetition_penalty'')) (\<lambda>repetition_penalty.
     Option.bind (optional as_f64 (map_of fs ''max_time'')) (\<lambda>max_time.
     Option.bind (optional length_penalty_of (map_of fs ''exponential_decay_length_penalty'')) (\<lambda>length_penalty.
     Option.bind (optional (list_of string_of) (map_of fs ''stop_sequences'')) (\<lambda>stop_sequences.
     Option.bind (optional u32_of (map_of fs ''seed'')) (\<lambda>seed.
     Option.bind (optional bool_of (map_of fs ''preserve_input_text'')) (\<lambda>preserve_input_text.
     Option.bind (optional bool_of (map_of fs ''input_tokens'')) (\<lambda>input_tokens.
     Option.bind (optional bool_of (map_of fs ''generated_tokens'')) (\<lambda>generated_tokens.
     Option.bind (optional bool_of (map_of fs ''token_logprobs'')) (\<lambda>token_logprobs.
     Option.bind (optional bool_of (map_of fs ''token_ranks'')) (\<lambda>token_ranks.
     Option.bind (optional bool_of (map_of fs ''include_stop_sequence'')) (\<lambda>include_stop_sequence.
     Some \<lparr>tg_max_new_tokens = max_new_tokens, tg_min_new_tokens = min_new_tokens, tg_truncate_input_tokens = truncate_input_tokens,
       tg_decoding_method = decoding_method, tg_top_k = top_k, tg_top_p = top_p, tg_typical_p = typical_p, tg_temperature = temperature,
       tg_repetition_penalty = repetition_penalty, tg_max_time = max_time, tg_exponential_decay_length_penalty = length_penalty, tg_stop_sequences
       = stop_sequences, tg_seed = seed, tg_preserve_input_text = preserve_input_text, tg_input_tokens = input_tokens, tg_generated_tokens =
       generated_tokens, tg_token_logprobs = token_logprobs, tg_token_ranks = token_ranks, tg_include_stop_sequence =
       include_stop_sequence\<rparr>))))))))))))))))))))"

interpretation gen_parameters: codec gen_parameters_json gen_parameters_of "\<lambda>_. True"
  by unfold_locales (simp_all add: gen_parameters_json_def gen_parameters_of_def serde)

definition guardrails_http_json :: "guardrails_http_request \<Rightarrow> json" where
  "guardrails_http_json x =
     JObject (put ''model_id'' (JString (gr_model_id x)) (put ''inputs'' (JString (gr_inputs x)) (put_some guardrails_config_json
     ''guardrail_config'' (gr_guardrail_config x) (put_some gen_parameters_json ''text_gen_parameters'' (gr_text_gen_parameters x) []))))"

definition guardrails_http_of :: "json \<Rightarrow> guardrails_http_request option" where
  "guardrails_http_of = struct (\<lambda>fs.
     if \<not> known_only [''model_id'', ''inputs'', ''guardrail_config'', ''text_gen_parameters''] fs then None else
     Option.bind (required string_of (map_of fs ''model_id'')) (\<lambda>model_id.
     Option.bind (required string_of (map_of fs ''inputs'')) (\<lambda>inputs.
     Option.bind (optional guardrails_config_of (map_of fs ''guardrail_config'')) (\<lambda>config.
     Option.bind (optional gen_parameters_of (map_of fs ''text_gen_parameters'')) (\<lambda>parameters.
     Some \<lparr>gr_model_id = model_id, gr_inputs = inputs, gr_guardrail_config = config, gr_text_gen_parameters = parameters\<rparr>)))))"

definition guardrails_http_ok :: "guardrails_http_request \<Rightarrow> bool" where
  "guardrails_http_ok x \<longleftrightarrow> pred_option guardrails_config_ok (gr_guardrail_config x)"

interpretation guardrails_http: codec guardrails_http_json guardrails_http_of guardrails_http_ok
  by unfold_locales (simp_all add: guardrails_http_json_def guardrails_http_of_def guardrails_http_ok_def serde)

section \<open>Detection requests\<close>

definition contents_http_json :: "text_content_detection_request \<Rightarrow> json" where
  "contents_http_json x =
     JObject (put ''content'' (JString (tcr_content x)) (put ''detectors'' (map_json JObject (tcr_detectors x)) []))"

definition contents_http_of :: "json \<Rightarrow> text_content_detection_request option" where
  "contents_http_of = struct (\<lambda>fs.
     if \<not> known_only [''content'', ''detectors''] fs then None else
     Option.bind (required string_of (map_of fs ''content'')) (\<lambda>content.
     Option.bind (required (map_of_json btree_of) (map_of fs ''detectors'')) (\<lambda>ds.
     Some \<lparr>tcr_content = content, tcr_detectors = ds\<rparr>)))"

definition contents_http_ok :: "text_content_detection_request \<Rightarrow> bool" where
  "contents_http_ok x \<longleftrightarrow> detector_map_ok (tcr_detectors x)"

interpretation contents_http: codec contents_http_json contents_http_of contents_http_ok
  by unfold_locales (simp_all add: contents_http_json_def contents_http_of_def contents_http_ok_def serde)

definition generation_http_json :: "generation_with_detection_request \<Rightarrow> json" where
  "generation_http_json x =
     JObject (put ''model_id'' (JString (gwd_model_id x)) (put ''prompt'' (JString (gwd_prompt x)) (put ''detectors'' (map_json JObject
     (gwd_detectors x)) (put_some gen_parameters_json ''text_gen_parameters'' (gwd_text_gen_parameters x) []))))"

definition generation_http_of :: "json \<Rightarrow> generation_with_detection_request option" where
  "generation_http_of = struct (\<lambda>fs.
     if \<not> known_only [''model_id'', ''prompt'', ''detectors'', ''text_gen_parameters''] fs then None else
     Option.bind (required string_of (map_of fs ''model_id'')) (\<lambda>model_id.
     Option.bind (required string_of (map_of fs ''prompt'')) (\<lambda>prompt.
     Option.bind (required (map_of_json btree_of) (map_of fs ''detectors'')) (\<lambda>ds.
     Option.bind (optional gen_parameters_of (map_of fs ''text_gen_parameters'')) (\<lambda>parameters.
     Some \<lparr>gwd_model_id = model_id, gwd_prompt = prompt, gwd_detectors = ds, gwd_text_gen_parameters = parameters\<rparr>)))))"

definition generation_http_ok :: "generation_with_detection_request \<Rightarrow> bool" where
  "generation_http_ok x \<longleftrightarrow> detector_map_ok (gwd_detectors x)"

interpretation generation_http: codec generation_http_json generation_http_of generation_http_ok
  by unfold_locales (simp_all add: generation_http_json_def generation_http_of_def generation_http_ok_def serde)

definition context_type_of :: "json \<Rightarrow> context_type option" where
  "context_type_of j = Option.bind (string_of j) (map_of [(''docs'', Document), (''url'', Url)])"

interpretation context_type: codec context_type_json context_type_of "\<lambda>_. True"
proof
  fix t
  show "context_type_of (context_type_json t) = Some t" "context_type_json t \<noteq> JNull" by (cases t; simp add: context_type_of_def)+
qed

definition context_http_json :: "context_docs_request \<Rightarrow> json" where
  "context_http_json x =
     JObject (put ''detectors'' (map_json JObject (cdr_detectors x)) (put ''content'' (JString (cdr_content x)) (put ''context_type''
     (context_type_json (cdr_context_type x)) (put ''context'' (list_json JString (cdr_context x)) []))))"

definition context_http_of :: "json \<Rightarrow> context_docs_request option" where
  "context_http_of = struct (\<lambda>fs.
     if \<not> known_only [''detectors'', ''content'', ''context_type'', ''context''] fs then None else
     Option.bind (required (map_of_json btree_of) (map_of fs ''detectors'')) (\<lambda>ds.
     Option.bind (required string_of (map_of fs ''content'')) (\<lambda>content.
     Option.bind (required context_type_of (map_of fs ''context_type'')) (\<lambda>t.
     Option.bind (required (list_of string_of) (map_of fs ''context'')) (\<lambda>docs.
     Some \<lparr>cdr_detectors = ds, cdr_content = content, cdr_context_type = t, cdr_context = docs\<rparr>)))))"

definition context_http_ok :: "context_docs_request \<Rightarrow> bool" where
  "context_http_ok x \<longleftrightarrow> detector_map_ok (cdr_detectors x)"

interpretation context_http: codec context_http_json context_http_of context_http_ok
  by unfold_locales (simp_all add: context_http_json_def context_http_of_def context_http_ok_def serde)

interpretation tool_list: list_field "list_json tool_json" "list_of tool_of" "list_all tool_ok"
  unfolding list_field_def by (rule tool.list_codec)

definition chat_http_json :: "chat_detection_request \<Rightarrow> json" where
  "chat_http_json x =
     JObject (put ''detectors'' (map_json JObject (chr_detectors x)) (put ''messages'' (list_json message_json (chr_messages x)) (put_nonempty
     (list_json tool_json) ''tools'' (chr_tools x) [])))"

definition chat_http_of :: "json \<Rightarrow> chat_detection_request option" where
  "chat_http_of = struct (\<lambda>fs.
     if \<not> known_only [''detectors'', ''messages'', ''tools''] fs then None else
     Option.bind (required (map_of_json btree_of) (map_of fs ''detectors'')) (\<lambda>ds.
     Option.bind (required (list_of message_of) (map_of fs ''messages'')) (\<lambda>messages.
     Option.bind (defaulted [] (list_of tool_of) (map_of fs ''tools'')) (\<lambda>tools.
     Some \<lparr>chr_detectors = ds, chr_messages = messages, chr_tools = tools\<rparr>))))"

definition chat_http_ok :: "chat_detection_request \<Rightarrow> bool" where
  "chat_http_ok x \<longleftrightarrow> detector_map_ok (chr_detectors x) \<and> list_all message_ok (chr_messages x) \<and> list_all tool_ok (chr_tools x)"

interpretation chat_http: codec chat_http_json chat_http_of chat_http_ok
  by unfold_locales (simp_all add: chat_http_json_def chat_http_of_def chat_http_ok_def serde)

definition generated_http_json :: "detection_on_generated_request \<Rightarrow> json" where
  "generated_http_json x =
     JObject (put ''prompt'' (JString (dgr_prompt x)) (put ''generated_text'' (JString (dgr_generated_text x)) (put ''detectors'' (map_json
     JObject (dgr_detectors x)) [])))"

definition generated_http_of :: "json \<Rightarrow> detection_on_generated_request option" where
  "generated_http_of = struct (\<lambda>fs.
     if \<not> known_only [''prompt'', ''generated_text'', ''detectors''] fs then None else
     Option.bind (required string_of (map_of fs ''prompt'')) (\<lambda>prompt.
     Option.bind (required string_of (map_of fs ''generated_text'')) (\<lambda>generated_text.
     Option.bind (required (map_of_json btree_of) (map_of fs ''detectors'')) (\<lambda>ds.
     Some \<lparr>dgr_prompt = prompt, dgr_generated_text = generated_text, dgr_detectors = ds\<rparr>))))"

definition generated_http_ok :: "detection_on_generated_request \<Rightarrow> bool" where
  "generated_http_ok x \<longleftrightarrow> detector_map_ok (dgr_detectors x)"

interpretation generated_http: codec generated_http_json generated_http_of generated_http_ok
  by unfold_locales (simp_all add: generated_http_json_def generated_http_of_def generated_http_ok_def serde)

definition stream_http_json :: "streaming_content_request \<Rightarrow> json" where
  "stream_http_json x =
     JObject (put_opt (map_json JObject) ''detectors'' (scr_detectors x) (put ''content'' (JString (scr_content x)) []))"

definition stream_http_of :: "json \<Rightarrow> streaming_content_request option" where
  "stream_http_of = struct (\<lambda>fs.
     if \<not> known_only [''detectors'', ''content''] fs then None else
     Option.bind (optional (map_of_json btree_of) (map_of fs ''detectors'')) (\<lambda>ds.
     Option.bind (required string_of (map_of fs ''content'')) (\<lambda>content.
     Some \<lparr>scr_detectors = ds, scr_content = content\<rparr>)))"

definition stream_http_ok :: "streaming_content_request \<Rightarrow> bool" where
  "stream_http_ok x \<longleftrightarrow> pred_option detector_map_ok (scr_detectors x)"

interpretation stream_http: codec stream_http_json stream_http_of stream_http_ok
  by unfold_locales (simp_all add: stream_http_json_def stream_http_of_def stream_http_ok_def serde)

section \<open>Answers\<close>

fun finish_reason_json :: "finish_reason \<Rightarrow> json" where
  "finish_reason_json NotFinished = JString ''NOT_FINISHED''"
| "finish_reason_json MaxTokens = JString ''MAX_TOKENS''"
| "finish_reason_json EosToken = JString ''EOS_TOKEN''"
| "finish_reason_json FCancelled = JString ''CANCELLED''"
| "finish_reason_json TimeLimit = JString ''TIME_LIMIT''"
| "finish_reason_json StopSequence = JString ''STOP_SEQUENCE''"
| "finish_reason_json TokenLimit = JString ''TOKEN_LIMIT''"
| "finish_reason_json FError = JString ''ERROR''"

definition finish_reason_of_json :: "json \<Rightarrow> finish_reason option" where
  "finish_reason_of_json j = Option.bind (string_of j) (map_of [(''NOT_FINISHED'', NotFinished), (''MAX_TOKENS'', MaxTokens), (''EOS_TOKEN'',
     EosToken), (''CANCELLED'', FCancelled), (''TIME_LIMIT'', TimeLimit), (''STOP_SEQUENCE'', StopSequence), (''TOKEN_LIMIT'', TokenLimit),
     (''ERROR'', FError)])"

interpretation finish_reason: codec finish_reason_json finish_reason_of_json "\<lambda>_. True"
proof
  fix r
  show "finish_reason_of_json (finish_reason_json r) = Some r" "finish_reason_json r \<noteq> JNull" by (cases r; simp add: finish_reason_of_json_def)+
qed

definition detection_warning_json :: "detection_warning \<Rightarrow> json" where
  "detection_warning_json x =
     JObject (put_some warning_reason_json ''id'' (dw_id x) (put_some JString ''message'' (dw_message x) []))"

definition detection_warning_of :: "json \<Rightarrow> detection_warning option" where
  "detection_warning_of = struct (\<lambda>fs.
     Option.bind (optional warning_reason_of (map_of fs ''id'')) (\<lambda>i.
     Option.bind (optional string_of (map_of fs ''message'')) (\<lambda>message.
     Some \<lparr>dw_id = i, dw_message = message\<rparr>)))"

interpretation detection_warning: codec detection_warning_json detection_warning_of "\<lambda>_. True"
  by unfold_locales (simp_all add: detection_warning_json_def detection_warning_of_def serde)

interpretation detection_warnings: list_field "list_json detection_warning_json" "list_of detection_warning_of" "list_all (\<lambda>_. True)"
  unfolding list_field_def by (rule detection_warning.list_codec)

definition generated_token_json :: "generated_token \<Rightarrow> json" where
  "generated_token_json x =
     JObject (put ''text'' (JString (gt_text x)) (put_some JFloat ''logprob'' (gt_logprob x) (put_some u32_json ''rank'' (gt_rank x) [])))"

definition generated_token_of :: "json \<Rightarrow> generated_token option" where
  "generated_token_of = struct (\<lambda>fs.
     Option.bind (required string_of (map_of fs ''text'')) (\<lambda>text.
     Option.bind (optional as_f64 (map_of fs ''logprob'')) (\<lambda>logprob.
     Option.bind (optional u32_of (map_of fs ''rank'')) (\<lambda>rank.
     Some \<lparr>gt_text = text, gt_logprob = logprob, gt_rank = rank\<rparr>))))"

interpretation generated_token: codec generated_token_json generated_token_of "\<lambda>_. True"
  by unfold_locales (simp_all add: generated_token_json_def generated_token_of_def serde)

interpretation generated_tokens: list_field "list_json generated_token_json" "list_of generated_token_of" "list_all (\<lambda>_. True)"
  unfolding list_field_def by (rule generated_token.list_codec)

definition token_classification_json :: "token_classification_result \<Rightarrow> json" where
  "token_classification_json x =
     JObject (put ''start'' (u32_json (tc_start x)) (put ''end'' (u32_json (tc_end x)) (put ''word'' (JString (tc_word x)) (put ''entity''
     (JString (tc_entity x)) (put ''entity_group'' (JString (tc_entity_group x)) (put_opt JString ''detector_id'' (tc_detector_id x) (put
     ''score'' (JFloat (tc_score x)) (put_some u32_json ''token_count'' (tc_token_count x) []))))))))"

definition token_classification_of :: "json \<Rightarrow> token_classification_result option" where
  "token_classification_of = struct (\<lambda>fs.
     Option.bind (required u32_of (map_of fs ''start'')) (\<lambda>start.
     Option.bind (required u32_of (map_of fs ''end'')) (\<lambda>last.
     Option.bind (required string_of (map_of fs ''word'')) (\<lambda>word.
     Option.bind (required string_of (map_of fs ''entity'')) (\<lambda>entity.
     Option.bind (required string_of (map_of fs ''entity_group'')) (\<lambda>entity_group.
     Option.bind (optional string_of (map_of fs ''detector_id'')) (\<lambda>detector_id.
     Option.bind (required as_f64 (map_of fs ''score'')) (\<lambda>score.
     Option.bind (optional u32_of (map_of fs ''token_count'')) (\<lambda>token_count.
     Some \<lparr>tc_start = start, tc_end = last, tc_word = word, tc_entity = entity, tc_entity_group = entity_group, tc_detector_id =
       detector_id, tc_score = score, tc_token_count = token_count\<rparr>)))))))))"

interpretation token_classification: codec token_classification_json token_classification_of "\<lambda>_. True"
  by unfold_locales (simp_all add: token_classification_json_def token_classification_of_def serde)

interpretation token_classifications: list_field "list_json token_classification_json" "list_of token_classification_of" "list_all (\<lambda>_. True)"
  unfolding list_field_def by (rule token_classification.list_codec)

definition classification_results_json :: "token_classification_results \<Rightarrow> json" where
  "classification_results_json x =
     JObject (put_some (list_json token_classification_json) ''input'' (tr_input x) (put_some (list_json token_classification_json) ''output''
     (tr_output x) []))"

definition classification_results_of :: "json \<Rightarrow> token_classification_results option" where
  "classification_results_of = struct (\<lambda>fs.
     Option.bind (optional (list_of token_classification_of) (map_of fs ''input'')) (\<lambda>input.
     Option.bind (optional (list_of token_classification_of) (map_of fs ''output'')) (\<lambda>output.
     Some \<lparr>tr_input = input, tr_output = output\<rparr>)))"

interpretation classification_results: codec classification_results_json classification_results_of "\<lambda>_. True"
  by unfold_locales (simp_all add: classification_results_json_def classification_results_of_def serde)

definition classified_result_json :: "classified_generated_text_result \<Rightarrow> json" where
  "classified_result_json x =
     JObject (put_some JString ''generated_text'' (cg_generated_text x) (put ''token_classification_results'' (classification_results_json
     (cg_token_classification_results x)) (put_some finish_reason_json ''finish_reason'' (cg_finish_reason x) (put_some u32_json
     ''generated_token_count'' (cg_generated_token_count x) (put_some u32_json ''seed'' (cg_seed x) (put ''input_token_count'' (u32_json
     (cg_input_token_count x)) (put_some (list_json detection_warning_json) ''warnings'' (cg_warnings x) (put_some (list_json
     generated_token_json) ''tokens'' (cg_tokens x) (put_some (list_json generated_token_json) ''input_tokens'' (cg_input_tokens x) [])))))))))"

definition classified_result_of :: "json \<Rightarrow> classified_generated_text_result option" where
  "classified_result_of = struct (\<lambda>fs.
     Option.bind (optional string_of (map_of fs ''generated_text'')) (\<lambda>generated_text.
     Option.bind (required classification_results_of (map_of fs ''token_classification_results'')) (\<lambda>results.
     Option.bind (optional finish_reason_of_json (map_of fs ''finish_reason'')) (\<lambda>reason.
     Option.bind (optional u32_of (map_of fs ''generated_token_count'')) (\<lambda>generated_token_count.
     Option.bind (optional u32_of (map_of fs ''seed'')) (\<lambda>seed.
     Option.bind (required u32_of (map_of fs ''input_token_count'')) (\<lambda>input_token_count.
     Option.bind (optional (list_of detection_warning_of) (map_of fs ''warnings'')) (\<lambda>warnings.
     Option.bind (optional (list_of generated_token_of) (map_of fs ''tokens'')) (\<lambda>tokens.
     Option.bind (optional (list_of generated_token_of) (map_of fs ''input_tokens'')) (\<lambda>input_tokens.
     Some \<lparr>cg_generated_text = generated_text, cg_token_classification_results = results, cg_finish_reason = reason,
       cg_generated_token_count = generated_token_count, cg_seed = seed, cg_input_token_count = input_token_count, cg_warnings = warnings,
       cg_tokens = tokens, cg_input_tokens = input_tokens\<rparr>))))))))))"

interpretation classified_result: codec classified_result_json classified_result_of "\<lambda>_. True"
  by unfold_locales (simp_all add: classified_result_json_def classified_result_of_def serde)

definition classified_stream_result_json :: "classified_generated_text_stream_result \<Rightarrow> json" where
  "classified_stream_result_json x =
     JObject (put_some JString ''generated_text'' (cs_generated_text x) (put ''token_classification_results'' (classification_results_json
     (cs_token_classification_results x)) (put_some finish_reason_json ''finish_reason'' (cs_finish_reason x) (put_some u32_json
     ''generated_token_count'' (cs_generated_token_count x) (put_some u32_json ''seed'' (cs_seed x) (put ''input_token_count'' (u32_json
     (cs_input_token_count x)) (put_some (list_json detection_warning_json) ''warnings'' (cs_warnings x) (put_some (list_json
     generated_token_json) ''tokens'' (cs_tokens x) (put_some (list_json generated_token_json) ''input_tokens'' (cs_input_tokens x) (put_some
     u32_json ''processed_index'' (cs_processed_index x) (put_some u32_json ''start_index'' (cs_start_index x) [])))))))))))"

definition classified_stream_result_of :: "json \<Rightarrow> classified_generated_text_stream_result option" where
  "classified_stream_result_of = struct (\<lambda>fs.
     Option.bind (optional string_of (map_of fs ''generated_text'')) (\<lambda>generated_text.
     Option.bind (required classification_results_of (map_of fs ''token_classification_results'')) (\<lambda>results.
     Option.bind (optional finish_reason_of_json (map_of fs ''finish_reason'')) (\<lambda>reason.
     Option.bind (optional u32_of (map_of fs ''generated_token_count'')) (\<lambda>generated_token_count.
     Option.bind (optional u32_of (map_of fs ''seed'')) (\<lambda>seed.
     Option.bind (required u32_of (map_of fs ''input_token_count'')) (\<lambda>input_token_count.
     Option.bind (optional (list_of detection_warning_of) (map_of fs ''warnings'')) (\<lambda>warnings.
     Option.bind (optional (list_of generated_token_of) (map_of fs ''tokens'')) (\<lambda>tokens.
     Option.bind (optional (list_of generated_token_of) (map_of fs ''input_tokens'')) (\<lambda>input_tokens.
     Option.bind (optional u32_of (map_of fs ''processed_index'')) (\<lambda>processed_index.
     Option.bind (optional u32_of (map_of fs ''start_index'')) (\<lambda>start_index.
     Some \<lparr>cs_generated_text = generated_text, cs_token_classification_results = results, cs_finish_reason = reason,
       cs_generated_token_count = generated_token_count, cs_seed = seed, cs_input_token_count = input_token_count, cs_warnings = warnings,
       cs_tokens = tokens, cs_input_tokens = input_tokens, cs_processed_index = processed_index, cs_start_index = start_index\<rparr>))))))))))))"

interpretation classified_stream_result: codec classified_stream_result_json classified_stream_result_of "\<lambda>_. True"
  by unfold_locales (simp_all add: classified_stream_result_json_def classified_stream_result_of_def serde)

definition generation_result_json :: "generation_with_detection_result \<Rightarrow> json" where
  "generation_result_json x =
     JObject (put ''generated_text'' (JString (gwr_generated_text x)) (put ''detections'' (list_json detection_result_json (gwr_detections x))
     (put ''input_token_count'' (u32_json (gwr_input_token_count x)) [])))"

definition generation_result_of :: "json \<Rightarrow> generation_with_detection_result option" where
  "generation_result_of = struct (\<lambda>fs.
     Option.bind (required string_of (map_of fs ''generated_text'')) (\<lambda>generated_text.
     Option.bind (required (list_of detection_result_of) (map_of fs ''detections'')) (\<lambda>detections.
     Option.bind (required u32_of (map_of fs ''input_token_count'')) (\<lambda>input_token_count.
     Some \<lparr>gwr_generated_text = generated_text, gwr_detections = detections, gwr_input_token_count = input_token_count\<rparr>))))"

definition generation_result_ok :: "generation_with_detection_result \<Rightarrow> bool" where
  "generation_result_ok x \<longleftrightarrow> list_all detection_result_ok (gwr_detections x)"

interpretation generation_result: codec generation_result_json generation_result_of generation_result_ok
  by unfold_locales (simp_all add: generation_result_json_def generation_result_of_def generation_result_ok_def serde)

definition stream_content_json :: "streaming_content_response \<Rightarrow> json" where
  "stream_content_json x =
     JObject (put ''detections'' (list_json content_analysis_response_json (sc_detections x)) (put ''processed_index'' (u32_json
     (sc_processed_index x)) (put ''start_index'' (u32_json (sc_start_index x)) [])))"

definition stream_content_of :: "json \<Rightarrow> streaming_content_response option" where
  "stream_content_of = struct (\<lambda>fs.
     Option.bind (required (list_of content_analysis_response_of_json) (map_of fs ''detections'')) (\<lambda>detections.
     Option.bind (required u32_of (map_of fs ''processed_index'')) (\<lambda>processed_index.
     Option.bind (required u32_of (map_of fs ''start_index'')) (\<lambda>start_index.
     Some \<lparr>sc_detections = detections, sc_processed_index = processed_index, sc_start_index = start_index\<rparr>))))"

definition stream_content_ok :: "streaming_content_response \<Rightarrow> bool" where
  "stream_content_ok x \<longleftrightarrow> list_all content_analysis_response_ok (sc_detections x)"

interpretation stream_content: codec stream_content_json stream_content_of stream_content_ok
  by unfold_locales (simp_all add: stream_content_json_def stream_content_of_def stream_content_ok_def serde)

section \<open>Health\<close>

fun health_status_json :: "health_status \<Rightarrow> json" where
  "health_status_json Healthy = JString ''HEALTHY''"
| "health_status_json Unhealthy = JString ''UNHEALTHY''"
| "health_status_json HealthUnknown = JString ''UNKNOWN''"

definition health_status_of :: "json \<Rightarrow> health_status option" where
  "health_status_of j = Option.bind (string_of j) (map_of [(''HEALTHY'', Healthy), (''UNHEALTHY'', Unhealthy), (''UNKNOWN'', HealthUnknown)])"

text \<open>The status code is left out when it is a success.\<close>

definition health_check_result_json :: "health_check_result \<Rightarrow> json" where
  "health_check_result_json r =
     (let reason = put_some JString ''reason'' (hr_reason r) [] in
      JObject (put ''status'' (health_status_json (hr_status r))
        (if 200 \<le> hr_code r \<and> hr_code r < 300 then reason else put ''code'' (nat_json (hr_code r)) reason)))"

definition info_response_json :: "(string, health_check_result) hashmap \<Rightarrow> json" where
  "info_response_json services = JObject (put ''services'' (map_json health_check_result_json services) [])"

text \<open>The body that a service may answer a health check with.\<close>

definition health_body_of :: "json \<Rightarrow> (health_status \<times> string option) option" where
  "health_body_of = struct (\<lambda>fs.
     Option.bind (required health_status_of (map_of fs ''status'')) (\<lambda>status.
     Option.bind (optional string_of (map_of fs ''reason'')) (\<lambda>reason.
     Some (status, reason))))"

interpretation health_status: codec health_status_json health_status_of "\<lambda>_. True"
proof
  fix s
  show "health_status_of (health_status_json s) = Some s" "health_status_json s \<noteq> JNull" by (cases s; simp add: health_status_of_def)+
qed

text \<open>What one orchestrator reports of a service, another reads as the service's own health.\<close>

lemma health_reported_is_read: "health_body_of (health_check_result_json r) = Some (hr_status r, hr_reason r)"
  by (cases "hr_reason r")
    (simp_all add: health_check_result_json_def health_body_of_def Let_def optional_def put_some_def serde)

end
