(* ===== verification/Model_Api.thy ===== *)
theory Model_Api
  imports Program Models_Json
begin

text \<open>
  The program with the JSON of its APIs: bodies of clients are read with the API types, requests to the model server and to detectors are written with them,
  and their answers are read with them. What of a request reaches the model server, directly and through the router, and what of its answer reaches the client.
\<close>

section \<open>Reading text\<close>

text \<open>
  \<^verbatim>\<open>serde_json\<close> is a parameter: \<open>jt_parse\<close> reads a text as JSON, \<open>jt_mismatch\<close> is the message for JSON that is not of the expected type, and \<open>jt_f32\<close> rounds to
  single precision.
\<close>

record json_text =
  jt_parse :: "json parser"
  jt_mismatch :: "json \<Rightarrow> string"
  jt_f32 :: "f64 \<Rightarrow> f32"

definition from_str :: "json_text \<Rightarrow> (json \<Rightarrow> 'a option) \<Rightarrow> 'a parser" where
  "from_str jt dec text =
     (case jt_parse jt text of
        Inl e \<Rightarrow> Inl e
      | Inr j \<Rightarrow> (case dec j of Some x \<Rightarrow> Inr x | None \<Rightarrow> Inl (jt_mismatch jt j)))"

text \<open>The extractor of an endpoint: a body of the wrong type is a data error of the status 422.\<close>

definition json_body :: "json_text \<Rightarrow> (json \<Rightarrow> 'a option) \<Rightarrow> json \<Rightarrow> json_rejection + 'a" where
  "json_body jt dec j = (case dec j of Some request \<Rightarrow> Inr request | None \<Rightarrow> Inl (JsonDataError 422 (Some (jt_mismatch jt j))))"

definition detector_error_of :: "json \<Rightarrow> detector_error option" where
  "detector_error_of = struct (\<lambda>fs.
     Option.bind (required u16_of (map_of fs ''code'')) (\<lambda>code.
     Option.bind (required string_of (map_of fs ''message'')) (\<lambda>message.
     Some \<lparr>dte_code = code, dte_message = message\<rparr>)))"

text \<open>What is sent for the result of an endpoint: the status and the JSON; a panic drops the connection.\<close>

definition server_error_json :: "server_error \<Rightarrow> json" where
  "server_error_json e = JObject (put ''code'' (nat_json (sve_code e)) (put ''details'' (JString (sve_details e)) []))"

fun into_response :: "('a \<Rightarrow> json) \<Rightarrow> (server_error, 'a) res \<Rightarrow> (nat \<times> json) option" where
  "into_response enc (Ok x) = Some (200, enc x)"
| "into_response enc (Err e) = Some (sve_code e, server_error_json e)"
| "into_response enc Panic = None"

text \<open>The answers of the four detection endpoints.\<close>

definition detections_json :: "('a \<Rightarrow> json) \<Rightarrow> 'a list \<Rightarrow> json" where
  "detections_json enc detections = JObject (put ''detections'' (list_json enc detections) [])"

section \<open>The clients with the JSON of their APIs\<close>

definition chat_wire :: "json_text \<Rightarrow> (json \<Rightarrow> string) \<Rightarrow> (chat_completions_request, chat_completion, chat_completion_chunk) wire" where
  "chat_wire jt encode =
     \<lparr>w_body = chat_request_json, w_unary = from_str jt (chat_completion_of (jt_f32 jt)), w_chunk = from_str jt (chunk_of (jt_f32 jt)),
      w_error = from_str jt error_response_of, w_json = jt_parse jt, w_encode = encode\<rparr>"

definition completion_wire :: "json_text \<Rightarrow> (json \<Rightarrow> string) \<Rightarrow> (completions_request, completion, completion) wire" where
  "completion_wire jt encode =
     \<lparr>w_body = completions_request_json, w_unary = from_str jt (completion_of (jt_f32 jt)), w_chunk = from_str jt (completion_of (jt_f32 jt)),
      w_error = from_str jt error_response_of, w_json = jt_parse jt, w_encode = encode\<rparr>"

text \<open>No tokenize answer is a stream.\<close>

definition tokenize_wire :: "json_text \<Rightarrow> (json \<Rightarrow> string) \<Rightarrow> (tokenize_request, tokenize_response, unit) wire" where
  "tokenize_wire jt encode =
     \<lparr>w_body = tokenize_request_json, w_unary = from_str jt tokenize_response_of, w_chunk = from_str jt (\<lambda>_. None),
      w_error = from_str jt error_response_of, w_json = jt_parse jt, w_encode = encode\<rparr>"

definition api_env :: "json_text \<Rightarrow> service_env \<Rightarrow> service_env" where
  "api_env jt env = env\<lparr>
     se_message_json := message_json, se_tool_json := tool_json,
     se_contents_parser := from_str jt (list_of (list_of content_analysis_response_of_json)),
     se_results_parser := from_str jt (list_of detection_result_of), se_detector_error_parser := from_str jt detector_error_of,
     se_chat_wire := chat_wire jt (se_encode env), se_completion_wire := completion_wire jt (se_encode env),
     se_tokenize_wire := tokenize_wire jt (se_encode env)\<rparr>"

section \<open>Requests on their way to the model server\<close>

lemma map_of_put_present: "map_of (put k j fs) k = Some j"
  by (simp add: put_def)

lemma map_of_direct:
  "map_of (put_some JBool ''stream'' s (put ''model'' m (put ''messages'' ms (put_some te ''tools'' ts extra)))) k =
     (if k = ''stream'' \<and> s \<noteq> None then map_option JBool s else if k = ''model'' then Some m else if k = ''messages'' then Some ms
      else if k = ''tools'' \<and> ts \<noteq> None then map_option te ts else map_of extra k)"
  by (cases s; cases ts) (simp_all add: put_some_def put_def)

definition chat_request_fields :: "chat_completions_request \<Rightarrow> (string \<times> json) list" where
  "chat_request_fields r = (case chat_request_json r of JObject fs \<Rightarrow> fs | _ \<Rightarrow> [])"

lemma chat_request_fields_lookup:
  "map_of (chat_request_fields r) k =
     (if k = ''stream'' \<and> cr_stream r \<noteq> None then map_option JBool (cr_stream r) else if k = ''model'' then Some (JString (cr_model r))
      else if k = ''messages'' then Some (list_json message_json (cr_messages r))
      else if k = ''tools'' \<and> cr_tools r \<noteq> None then map_option (list_json tool_json) (cr_tools r) else map_of (cr_extra r) k)"
  by (simp add: chat_request_fields_def chat_request_json_def map_of_direct)

lemma map_of_rev_distinct: "distinct (map fst xs) \<Longrightarrow> map_of (rev xs) = map_of xs"
  by (intro map_of_inject_set [THEN iffD2]) (simp_all add: rev_map [symmetric])

lemma distinct_extra: "distinct (map fst fs) \<Longrightarrow> distinct (map fst (extra_fields names fs))"
  unfolding extra_fields_def by (rule distinct_map_filter)

lemma unknown_field: "k \<in> fst ` set fs \<Longrightarrow> k \<notin> set names \<Longrightarrow> \<not> known_only names fs"
  by (auto simp: known_only_def list_all_iff)

definition rejected :: "json_text \<Rightarrow> json \<Rightarrow> (nat \<times> json) option" where
  "rejected jt j = Some (422, JObject [(''code'', JInt 422), (''details'', JString (jt_mismatch jt j))])"

lemma denied:
  assumes "dec j = None"
  shows "into_response enc (endpoint ctx validate handle hs (json_body jt dec j)) = rejected jt j"
    and "into_response enc' (res_bind (extract_json (json_body jt dec j)) f) = rejected jt j"
  using assms by (simp_all add: json_body_def endpoint_rejected rejected_def server_error_json_def put_def nat_json_def)

lemma denied_fields:
  assumes "k \<in> fst ` set fs"
  shows "k \<notin> set [''model_id'', ''inputs'', ''guardrail_config'', ''text_gen_parameters''] \<Longrightarrow> guardrails_http_of (JObject fs) = None"
    and "k \<notin> set [''model_id'', ''prompt'', ''detectors'', ''text_gen_parameters''] \<Longrightarrow> generation_http_of (JObject fs) = None"
    and "k \<notin> set [''content'', ''detectors''] \<Longrightarrow> contents_http_of (JObject fs) = None"
    and "k \<notin> set [''detectors'', ''content'', ''context_type'', ''context''] \<Longrightarrow> context_http_of (JObject fs) = None"
    and "k \<notin> set [''detectors'', ''messages'', ''tools''] \<Longrightarrow> chat_http_of (JObject fs) = None"
    and "k \<notin> set [''prompt'', ''generated_text'', ''detectors''] \<Longrightarrow> generated_http_of (JObject fs) = None"
  using unknown_field [OF assms]
  by (simp_all only: guardrails_http_of_def generation_http_of_def contents_http_of_def context_http_of_def chat_http_of_def generated_http_of_def struct.simps if_True not_False_eq_True)

section \<open>Properties\<close>

text \<open>
  C13. What is sent on of a chat completions request that was read from a client: its own fields with the values that were read and every field that the
  orchestrator does not know, unchanged, but no detectors. The model server, reading the same types, reads the request of the client without its detectors.
\<close>

theorem chat_request_forwarded:
  assumes "chat_request_of (JObject fs) = Some r"
  shows "chat_request_of (chat_request_json r) = Some (r\<lparr>cr_detectors := detector_config_default\<rparr>)
     \<and> map_of (chat_request_fields r) ''detectors'' = None
     \<and> map_of (chat_request_fields r) ''model'' = map_of fs ''model''
     \<and> (\<forall>k. k \<notin> set chat_fields \<longrightarrow> map_of (chat_request_fields r) k = map_of fs k)"
proof -
  from assms obtain fs' where fs': "JObject fs = JObject fs'" "cr_extra r = extra_fields chat_fields fs'"
    "required string_of (map_of fs' ''model'') = Some (cr_model r)"
    by (rule chat_request_read)
  then have fs: "cr_extra r = extra_fields chat_fields fs" "required string_of (map_of fs ''model'') = Some (cr_model r)" by simp_all
  have m: "map_of fs ''model'' = Some (JString (cr_model r))"
    using fs(2) by (auto simp: required_def bind_eq_Some_conv elim!: string_of.elims)
  have n: "set chat_fields = {''detectors'', ''stream'', ''model'', ''messages'', ''tools''}" by (simp add: chat_fields_def)
  have "map_of (chat_request_fields r) k = map_of fs k" if "k \<notin> set chat_fields" for k
    using that unfolding chat_request_fields_lookup fs map_of_extra_fields n by auto
  moreover have "map_of (chat_request_fields r) ''detectors'' = None"
    unfolding chat_request_fields_lookup fs map_of_extra_fields n by simp
  moreover have "map_of (chat_request_fields r) ''model'' = map_of fs ''model''"
    unfolding chat_request_fields_lookup m by simp
  ultimately show ?thesis using chat_request_written [OF chat_request_in [OF assms]] by blast
qed

definition ex_chat_body :: "(string \<times> json) list" where
  "ex_chat_body = [(''model'', JString ''m''), (''messages'', JArray [JObject [(''role'', JString ''user''), (''content'', JString ''hi'')]]),
     (''top_k'', JInt 5), (''detectors'', JObject [(''input'', JObject [(''d'', JObject [])])]), (''stream'', JBool True), (''tools'', JArray [])]"

definition ex_chat_read :: chat_completions_request where
  "ex_chat_read = \<lparr>cr_detectors = \<lparr>od_input = [(''d'', [])], od_output = []\<rparr>, cr_stream = Some True, cr_model = ''m'',
     cr_messages = [message_default\<lparr>m_content := Some (Text ''hi'')\<rparr>], cr_tools = Some [], cr_extra = [(''top_k'', JInt 5)]\<rparr>"

lemma ex_chat_body_read: "chat_request_of (JObject ex_chat_body) = Some ex_chat_read"
  by (simp add: ex_chat_body_def ex_chat_read_def chat_request_of_def required_def optional_def defaulted_def detector_config_of_def known_only_def
      map_of_json_def btree_of_def message_of_def role_of_def content_of_def first_variant_def extra_fields_def chat_fields_def message_default_def)

theorem chat_request_forwarded_witness:
  "map_of (chat_request_fields ex_chat_read) ''detectors'' = None \<and> map_of (chat_request_fields ex_chat_read) ''top_k'' = Some (JInt 5)
     \<and> chat_request_of (chat_request_json ex_chat_read) = Some (ex_chat_read\<lparr>cr_detectors := detector_config_default\<rparr>)"
proof -
  have "''top_k'' \<notin> set chat_fields" "map_of ex_chat_body ''top_k'' = Some (JInt 5)" by (simp_all add: chat_fields_def ex_chat_body_def)
  with chat_request_forwarded [OF ex_chat_body_read] show ?thesis by metis
qed

text \<open>
  C16. The two ways to the model server send the same request, but for three fields: through the router the tools are missing, a stream parameter is only sent when
  it is true, and a chat request's field \<^verbatim>\<open>_prompt_masks\<close> is left out.
\<close>

theorem routed_chat_request_agrees:
  assumes "chat_request_of (JObject fs) = Some r" "distinct (map fst fs)"
  shows "(\<forall>k. k \<notin> {''tools'', ''stream'', ''_prompt_masks''} \<longrightarrow>
           hm_get (chat_router_request (list_json message_json) r) k = map_of (chat_request_fields r) k)
     \<and> hm_get (chat_router_request (list_json message_json) r) ''tools'' = None
     \<and> map_of (chat_request_fields r) ''tools'' = map_option (list_json tool_json) (cr_tools r)
     \<and> hm_get (chat_router_request (list_json message_json) r) ''stream'' = (if cr_stream r = Some True then Some (JBool True) else None)
     \<and> map_of (chat_request_fields r) ''stream'' = map_option JBool (cr_stream r)"
proof -
  obtain fs' where "JObject fs = JObject fs'" "cr_extra r = extra_fields chat_fields fs'" using assms(1) by (rule chat_request_read)
  then have e: "cr_extra r = extra_fields chat_fields fs" by simp
  have x: "map_of (rev (cr_extra r)) k = map_of (cr_extra r) k" for k
    unfolding e by (simp add: map_of_rev_distinct distinct_extra assms(2))
  have n: "map_of (cr_extra r) k = None" if "k \<in> set chat_fields" for k unfolding e map_of_extra_fields using that by simp
  have own: "map_of (cr_extra r) ''model'' = None" "map_of (cr_extra r) ''messages'' = None" "map_of (cr_extra r) ''tools'' = None"
    "map_of (cr_extra r) ''stream'' = None" "map_of (cr_extra r) ''detectors'' = None"
    by (simp_all add: n chat_fields_def)
  show ?thesis
    by (cases "cr_stream r"; cases "cr_tools r")
      (auto simp: chat_router_request_def merge_extra_fields_get stream_field_def chat_request_fields_lookup map_add_def x own split: option.splits)
qed

theorem routed_chat_request_agrees_witness:
  "hm_get (chat_router_request (list_json message_json) ex_chat_read) ''top_k'' = map_of (chat_request_fields ex_chat_read) ''top_k''
     \<and> hm_get (chat_router_request (list_json message_json) ex_chat_read) ''tools'' = None
     \<and> map_of (chat_request_fields ex_chat_read) ''tools'' = Some (JArray [])"
proof -
  have "distinct (map fst ex_chat_body)" by (simp add: ex_chat_body_def)
  from routed_chat_request_agrees [OF ex_chat_body_read this] show ?thesis by (simp add: ex_chat_read_def list_json_def)
qed

text \<open>
  C14. The detectors of a request, and the masks of a prompt, are the orchestrator's own: whatever the network does with what it is sent, the answer to a
  completions request does not depend on them, directly and through the router.
\<close>

theorem detectors_stay_private:
  "sv_chat_completions (services_of (api_env jt env)) (chat_request\<lparr>cr_detectors := ds\<rparr>) hs
     = sv_chat_completions (services_of (api_env jt env)) chat_request hs
   \<and> sv_completions (services_of (api_env jt env)) (request\<lparr>pr_detectors := ds, pr_prompt_masks := masks\<rparr>) hs
     = sv_completions (services_of (api_env jt env)) request hs"
proof -
  have b: "chat_request_json (chat_request\<lparr>cr_detectors := ds\<rparr>) = chat_request_json chat_request"
    "completions_request_json (request\<lparr>pr_detectors := ds, pr_prompt_masks := masks\<rparr>) = completions_request_json request"
    by (simp_all add: chat_request_json_def completions_request_json_def)
  have r: "chat_router_request mj (chat_request\<lparr>cr_detectors := ds\<rparr>) = chat_router_request mj chat_request"
    "completion_router_request (request\<lparr>pr_detectors := ds, pr_prompt_masks := masks\<rparr>) = completion_router_request request" for mj
    by (simp_all add: chat_router_request_def completion_router_request_def)
  show ?thesis
    by (simp add: services_of_def api_env_def chat_completions_def completions_def chat_completions_via_router_def completions_via_router_def Let_def
        handle_unary_def handle_streaming_def chat_wire_def completion_wire_def b r)
qed


definition ex_plain_body :: json where
  "ex_plain_body = JObject [(''model'', JString ''m''), (''messages'', JArray [JObject [(''role'', JString ''user''), (''content'', JString ''hi'')]])]"

definition ex_plain :: chat_completions_request where
  "ex_plain = \<lparr>cr_detectors = detector_config_default, cr_stream = None, cr_model = ''m'',
     cr_messages = [message_default\<lparr>m_content := Some (Text ''hi'')\<rparr>], cr_tools = None, cr_extra = []\<rparr>"

definition ex_answer :: chat_completion where
  "ex_answer = chat_completion_default\<lparr>ch_choices := [\<lparr>cc_index = 0, cc_message = message_default\<lparr>m_content := Some (Text ''yes'')\<rparr>,
     cc_logprobs = None, cc_finish_reason = ''stop'', cc_stop_reason = None\<rparr>]\<rparr>"

definition ex_json_text :: json_text where
  "ex_json_text = \<lparr>jt_parse = (\<lambda>t. if t = ''answer'' then Inr (chat_completion_json ex_answer) else Inl []), jt_mismatch = (\<lambda>_. []), jt_f32 = (\<lambda>x. x)\<rparr>"

definition ex_model_env :: service_env where
  "ex_model_env = ex_service_env\<lparr>se_net := (\<lambda>_ _ _ _. Inr \<lparr>rs_status = 200, rs_body = ''answer'', rs_events = []\<rparr>)\<rparr>"


text \<open>
  C17. A misspelt field does not switch a check off unnoticed: the guardrails endpoints answer a body with a field that is none of theirs with the status 422
  and the message of the deserializer, without a call of any service.
\<close>

theorem unknown_field_rejected:
  assumes "k \<in> fst ` set fs"
  shows "(k \<notin> set [''model_id'', ''inputs'', ''guardrail_config'', ''text_gen_parameters''] \<longrightarrow>
           into_response classified_result_json (classification_with_gen sv ctx s1 s2 hs (json_body jt guardrails_http_of (JObject fs))) = rejected jt (JObject fs))
     \<and> (k \<notin> set [''model_id'', ''inputs'', ''guardrail_config'', ''text_gen_parameters''] \<longrightarrow>
           into_response enc (stream_classification_with_gen sv ctx senv limit hs (json_body jt guardrails_http_of (JObject fs))) = rejected jt (JObject fs))
     \<and> (k \<notin> set [''model_id'', ''prompt'', ''detectors'', ''text_gen_parameters''] \<longrightarrow>
           into_response generation_result_json (generation_with_detection sv ctx s hs (json_body jt generation_http_of (JObject fs))) = rejected jt (JObject fs))
     \<and> (k \<notin> set [''content'', ''detectors''] \<longrightarrow>
           into_response (detections_json content_analysis_response_json) (detection_content sv ctx s hs (json_body jt contents_http_of (JObject fs))) = rejected jt (JObject fs))
     \<and> (k \<notin> set [''detectors'', ''content'', ''context_type'', ''context''] \<longrightarrow>
           into_response (detections_json detection_result_json) (detect_context_documents sv ctx s hs (json_body jt context_http_of (JObject fs))) = rejected jt (JObject fs))
     \<and> (k \<notin> set [''detectors'', ''messages'', ''tools''] \<longrightarrow>
           into_response (detections_json detection_result_json) (detect_chat sv ctx s hs (json_body jt chat_http_of (JObject fs))) = rejected jt (JObject fs))
     \<and> (k \<notin> set [''prompt'', ''generated_text'', ''detectors''] \<longrightarrow>
           into_response (detections_json detection_result_json) (detect_generated sv ctx s hs (json_body jt generated_http_of (JObject fs))) = rejected jt (JObject fs))"
proof -
  note n = denied_fields [OF assms]
  show ?thesis
    unfolding classification_with_gen_def generation_with_detection_def detection_content_def detect_context_documents_def detect_chat_def detect_generated_def
      stream_classification_with_gen_def
    by (intro conjI impI)
      (rule denied, erule n)+
qed

theorem unknown_field_rejected_witness:
  "into_response (detections_json content_analysis_response_json) (detection_content ex_services ex_ctx ex_sched [] (json_body ex_json_text contents_http_of
       (JObject [(''content'', JString ''bad''), (''detectors'', JObject []), (''detector'', JObject [(''d'', JObject [])])])))
     = Some (422, JObject [(''code'', JInt 422), (''details'', JString [])])"
  using unknown_field_rejected [of "''detector''" "[(''content'', JString ''bad''), (''detectors'', JObject []), (''detector'', JObject [(''d'', JObject [])])]"
      ex_services ex_ctx ex_sched ex_sched "[]" ex_json_text]
  by (simp add: ex_json_text_def rejected_def)

end
