(* ===== verification/Config_Yaml.thy ===== *)
theory Config_Yaml
  imports Startup Serde
begin

text \<open>
  The deserialization of the configuration file (\<^verbatim>\<open>src/config.rs\<close>): the fields, their defaults and aliases. A YAML document is the value it denotes, with the
  keys of its mappings as strings; \<open>str\<close> is how the YAML library reads a scalar where a string is wanted (the text of a number, for instance, is
  one), \<open>getenv\<close> the environment of the process. With \<open>load_config\<close>: what holds of every configuration that the program loads.
\<close>

section \<open>Defaults\<close>

definition default_detector_concurrent_requests :: nat where
  "default_detector_concurrent_requests = 5"

definition default_chunker_concurrent_requests :: nat where
  "default_chunker_concurrent_requests = 5"

definition default_router_hostname :: string where
  "default_router_hostname = ''localhost''"

definition default_router_port :: nat where
  "default_router_port = 19080"

definition default_router_sla_seconds :: nat where
  "default_router_sla_seconds = 60"

definition default_router_reply_type :: string where
  "default_router_reply_type = ''redis''"

section \<open>Reading\<close>

text \<open>A field with aliases; two of its names are a duplicate field.\<close>

fun aliased :: "string list \<Rightarrow> (string \<times> json) list \<Rightarrow> json option option" where
  "aliased names fs =
     (case filter (\<lambda>(k, _). k \<in> set names) fs of
        [] \<Rightarrow> Some None
      | [(_, j)] \<Rightarrow> Some (Some j)
      | _ \<Rightarrow> None)"

text \<open>\<^verbatim>\<open>deserialize_with = "from_env"\<close>: the value of the variable that the field names.\<close>

definition token_of :: "(json \<Rightarrow> string option) \<Rightarrow> (string \<Rightarrow> string option) \<Rightarrow> json \<Rightarrow> string option option" where
  "token_of str getenv j = Option.bind (option_of str j) (\<lambda>name. case from_env getenv name of Ok v \<Rightarrow> Some v | _ \<Rightarrow> None)"

definition tls_config_of :: "(json \<Rightarrow> string option) \<Rightarrow> json \<Rightarrow> tls_config option" where
  "tls_config_of str = struct (\<lambda>fs.
     Option.bind (optional str (map_of fs ''cert_path'')) (\<lambda>cert.
     Option.bind (optional str (map_of fs ''key_path'')) (\<lambda>key.
     Option.bind (optional str (map_of fs ''client_ca_cert_path'')) (\<lambda>ca.
     Option.bind (optional bool_of (map_of fs ''insecure'')) (\<lambda>insecure.
     Some \<lparr>tls_cert_path = cert, tls_key_path = key, tls_client_ca_cert_path = ca, tls_insecure = insecure\<rparr>)))))"

text \<open>An untagged enum is read from the values, where only strings are strings.\<close>

definition tls_of :: "json \<Rightarrow> tls option" where
  "tls_of j = first_variant (map_option TlsName (string_of j)) (map_option TlsConfig (tls_config_of string_of j))"

definition service_config_of :: "(json \<Rightarrow> string option) \<Rightarrow> (string \<Rightarrow> string option) \<Rightarrow> json \<Rightarrow> service_config option" where
  "service_config_of str getenv = struct (\<lambda>fs.
     Option.bind (required str (map_of fs ''hostname'')) (\<lambda>hostname.
     Option.bind (optional u16_of (map_of fs ''port'')) (\<lambda>port.
     Option.bind (optional str (map_of fs ''path_prefix'')) (\<lambda>path_prefix.
     Option.bind (optional usize_of (map_of fs ''request_timeout'')) (\<lambda>request_timeout.
     Option.bind (optional tls_of (map_of fs ''tls'')) (\<lambda>t.
     Option.bind (optional usize_of (map_of fs ''grpc_dns_probe_interval'')) (\<lambda>probe_interval.
     Option.bind (optional str (map_of fs ''resolution_strategy'')) (\<lambda>strategy.
     Option.bind (optional usize_of (map_of fs ''resolution_strategy_timeout'')) (\<lambda>strategy_timeout.
     Option.bind (optional usize_of (map_of fs ''max_retries'')) (\<lambda>max_retries.
     Option.bind (optional usize_of (map_of fs ''http2_keep_alive_interval'')) (\<lambda>keep_alive_interval.
     Option.bind (optional usize_of (map_of fs ''keep_alive_timeout'')) (\<lambda>keep_alive_timeout.
     Option.bind (defaulted None (token_of str getenv) (map_of fs ''api_token'')) (\<lambda>api_token.
     Some \<lparr>s_hostname = hostname, s_port = port, s_path_prefix = path_prefix, s_request_timeout = request_timeout, s_tls = t,
       s_grpc_dns_probe_interval = probe_interval, s_resolution_strategy = strategy, s_resolution_strategy_timeout = strategy_timeout,
       s_max_retries = max_retries, s_http2_keep_alive_interval = keep_alive_interval, s_keep_alive_timeout = keep_alive_timeout, s_api_token =
       api_token\<rparr>)))))))))))))"

definition provider_of :: "(json \<Rightarrow> string option) \<Rightarrow> json \<Rightarrow> generation_provider option" where
  "provider_of str j = Option.bind (str j) (map_of [(''tgis'', Tgis), (''nlp'', Nlp)])"

definition generation_config_of :: "(json \<Rightarrow> string option) \<Rightarrow> (string \<Rightarrow> string option) \<Rightarrow> json \<Rightarrow> generation_config option" where
  "generation_config_of str getenv = struct (\<lambda>fs.
     Option.bind (required (provider_of str) (map_of fs ''provider'')) (\<lambda>provider.
     Option.bind (required (service_config_of str getenv) (map_of fs ''service'')) (\<lambda>service.
     Some \<lparr>g_provider = provider, g_service = service\<rparr>)))"

definition router_config_of :: "(json \<Rightarrow> string option) \<Rightarrow> json \<Rightarrow> router_config option" where
  "router_config_of str = struct (\<lambda>fs.
     Option.bind (defaulted False bool_of (map_of fs ''enabled'')) (\<lambda>enabled.
     Option.bind (defaulted default_router_hostname str (map_of fs ''hostname'')) (\<lambda>hostname.
     Option.bind (defaulted default_router_port u16_of (map_of fs ''port'')) (\<lambda>port.
     Option.bind (defaulted default_router_sla_seconds usize_of (map_of fs ''sla_seconds'')) (\<lambda>sla_seconds.
     Option.bind (defaulted default_router_reply_type str (map_of fs ''reply_type'')) (\<lambda>reply_type.
     Option.bind (defaulted [] (list_of str) (map_of fs ''supported_detectors'')) (\<lambda>supported.
     Some \<lparr>r_enabled = enabled, r_hostname = hostname, r_port = port, r_sla_seconds = sla_seconds, r_reply_type = reply_type,
       r_supported_detectors = supported\<rparr>)))))))"

definition openai_config_of :: "(json \<Rightarrow> string option) \<Rightarrow> (string \<Rightarrow> string option) \<Rightarrow> json \<Rightarrow> openai_config option" where
  "openai_config_of str getenv = struct (\<lambda>fs.
     Option.bind (required (service_config_of str getenv) (map_of fs ''service'')) (\<lambda>service.
     Option.bind (optional (service_config_of str getenv) (map_of fs ''health_service'')) (\<lambda>health_service.
     Some \<lparr>o_service = service, o_health_service = health_service\<rparr>)))"

definition chunker_type_of :: "(json \<Rightarrow> string option) \<Rightarrow> json \<Rightarrow> chunker_type option" where
  "chunker_type_of str j = Option.bind (str j) (map_of [(''sentence'', Sentence), (''all'', All)])"

definition chunker_config_of :: "(json \<Rightarrow> string option) \<Rightarrow> (string \<Rightarrow> string option) \<Rightarrow> json \<Rightarrow> chunker_config option" where
  "chunker_config_of str getenv = struct (\<lambda>fs.
     Option.bind (required (chunker_type_of str) (map_of fs ''type'')) (\<lambda>t.
     Option.bind (required (service_config_of str getenv) (map_of fs ''service'')) (\<lambda>service.
     Some \<lparr>ch_type = t, ch_service = service\<rparr>)))"

definition detector_type_of :: "(json \<Rightarrow> string option) \<Rightarrow> json \<Rightarrow> detector_type option" where
  "detector_type_of str j = Option.bind (str j) (map_of [(''text_contents'', TextContents), (''text_generation'', TextGeneration),
     (''text_chat'', TextChat), (''text_context_doc'', TextContextDoc)])"

definition detector_entry_of :: "(json \<Rightarrow> string option) \<Rightarrow> (string \<Rightarrow> string option) \<Rightarrow> json \<Rightarrow> detector_config option" where
  "detector_entry_of str getenv = struct (\<lambda>fs.
     Option.bind (required (service_config_of str getenv) (map_of fs ''service'')) (\<lambda>service.
     Option.bind (optional (service_config_of str getenv) (map_of fs ''health_service'')) (\<lambda>health_service.
     Option.bind (required str (map_of fs ''chunker_id'')) (\<lambda>chunker_id.
     Option.bind (required as_f64 (map_of fs ''default_threshold'')) (\<lambda>threshold.
     Option.bind (required (detector_type_of str) (map_of fs ''type'')) (\<lambda>t.
     Option.bind (optional str (map_of fs ''model_id'')) (\<lambda>model_id.
     Some \<lparr>dc_service = service, dc_health_service = health_service, dc_chunker_id = chunker_id, dc_default_threshold = threshold, dc_type
       = t, dc_model_id = model_id\<rparr>)))))))"

text \<open>A set of strings is read from a list.\<close>

definition orchestrator_config_of :: "(json \<Rightarrow> string option) \<Rightarrow> (string \<Rightarrow> string option) \<Rightarrow> json \<Rightarrow> orchestrator_config option" where
  "orchestrator_config_of str getenv = struct (\<lambda>fs.
     Option.bind (optional (generation_config_of str getenv) (map_of fs ''generation'')) (\<lambda>gen.
     Option.bind (Option.bind (aliased [''openai'', ''chat_generation'', ''chat_completions''] fs) (optional (openai_config_of str getenv))) (\<lambda>model_server.
     Option.bind (optional (map_of_json (chunker_config_of str getenv)) (map_of fs ''chunkers'')) (\<lambda>cs.
     Option.bind (required (map_of_json (detector_entry_of str getenv)) (map_of fs ''detectors'')) (\<lambda>ds.
     Option.bind (optional (map_of_json (tls_config_of str)) (map_of fs ''tls'')) (\<lambda>tls_entries.
     Option.bind (optional (router_config_of str) (map_of fs ''router'')) (\<lambda>rc.
     Option.bind (defaulted [] (\<lambda>j. map_option remdups (list_of str j)) (map_of fs ''passthrough_headers'')) (\<lambda>hs.
     Option.bind (defaulted False bool_of (map_of fs ''rewrite_forwarded_access_header'')) (\<lambda>rewrite.
     Option.bind (defaulted default_detector_concurrent_requests usize_of (map_of fs ''detector_concurrent_requests'')) (\<lambda>dn.
     Option.bind (defaulted default_chunker_concurrent_requests usize_of (map_of fs ''chunker_concurrent_requests'')) (\<lambda>cn.
     Some \<lparr>generation = gen, openai = model_server, chunkers = cs, detectors = ds, tls_configs = tls_entries, router = rc,
       passthrough_headers = hs, rewrite_forwarded_access_header = rewrite, detector_concurrent_requests = dn, chunker_concurrent_requests =
       cn\<rparr>)))))))))))"

text \<open>\<^verbatim>\<open>serde_yml::from_str\<close>: \<open>yaml\<close> reads the document.\<close>

definition config_from_str :: "(string \<Rightarrow> json option) \<Rightarrow> (json \<Rightarrow> string option) \<Rightarrow> (string \<Rightarrow> string option) \<Rightarrow> string \<Rightarrow> orchestrator_config option" where
  "config_from_str yaml str getenv text = Option.bind (yaml text) (orchestrator_config_of str getenv)"

section \<open>Lemmas\<close>

lemma to_lowercase_idem: "to_lowercase (to_lowercase s) = to_lowercase s"
proof -
  have "(let b = of_char (char_of (of_char c + 32 :: nat)) :: nat in \<not> (65 \<le> b \<and> b \<le> 90))" if "65 \<le> (of_char c :: nat)" "(of_char c :: nat) \<le> 90" for c
    using that by (simp add: Let_def)
  then show ?thesis by (auto simp: to_lowercase_def Let_def)
qed

text \<open>What the resolution of TLS names does not change.\<close>

lemma apply_named_tls_configs_keeps:
  assumes "apply_named_tls_configs cfg = Ok cfg'"
  shows "router cfg' = router cfg" "passthrough_headers cfg' = passthrough_headers cfg" "tls_configs cfg' = tls_configs cfg"
    "rewrite_forwarded_access_header cfg' = rewrite_forwarded_access_header cfg"
    "detector_concurrent_requests cfg' = detector_concurrent_requests cfg" "chunker_concurrent_requests cfg' = chunker_concurrent_requests cfg"
    "generation cfg = None \<Longrightarrow> generation cfg' = None" "openai cfg = None \<Longrightarrow> openai cfg' = None"
    "map fst (detectors cfg') = map fst (detectors cfg)"
proof -
  have keys: "map fst m' = map fst m" if "update_values f m = Ok m'" for f :: "detector_config \<Rightarrow> (config_error, detector_config) res" and m m'
    using update_values_Ok [OF that] by (induction rule: list_all2_induct) auto
  show "router cfg' = router cfg" "passthrough_headers cfg' = passthrough_headers cfg" "tls_configs cfg' = tls_configs cfg"
    "rewrite_forwarded_access_header cfg' = rewrite_forwarded_access_header cfg"
    "detector_concurrent_requests cfg' = detector_concurrent_requests cfg" "chunker_concurrent_requests cfg' = chunker_concurrent_requests cfg"
    "generation cfg = None \<Longrightarrow> generation cfg' = None" "openai cfg = None \<Longrightarrow> openai cfg' = None"
    "map fst (detectors cfg') = map fst (detectors cfg)"
    using assms by (cases "tls_configs cfg"; auto simp: apply_named_tls_configs_def update_option_def keys)+
qed

lemma load_config_Ok:
  assumes "load_config read_file parse path = Ok cfg"
  obtains t cfg0 where "read_file path = Some t" "parse t = Some cfg0"
    "apply_named_tls_configs (cfg0\<lparr>passthrough_headers := remdups (map to_lowercase (passthrough_headers cfg0))\<rparr>) = Ok cfg"
    "validate_config cfg = Ok ()"
  using assms by (cases "read_file path"; cases "parse (the (read_file path))") (auto simp: load_config_def Let_def)

lemma those_keys: "those (map (\<lambda>(k, j). map_option (Pair k) (dec j)) fs) = Some m \<Longrightarrow> map fst m = map fst fs"
  by (induction fs arbitrary: m) (auto split: option.splits)

lemma map_of_json_keys: "map_of_json dec j = Some m \<Longrightarrow> \<exists>fs. j = JObject fs \<and> map fst m = map fst fs"
  by (auto simp: map_of_json_def struct_Some dest: those_keys)

lemma aliased_absent:
  assumes "\<forall>k \<in> set names. map_of fs k = None"
  shows "aliased names fs = Some None"
proof -
  have "filter (\<lambda>(k, _). k \<in> set names) fs = []" using assms by (auto simp: filter_empty_conv map_of_eq_None_iff image_iff)
  then show ?thesis by simp
qed

text \<open>The fields of a configuration that was read.\<close>

lemma orchestrator_config_read:
  assumes "orchestrator_config_of str getenv j = Some cfg"
  obtains fs where "j = JObject fs" "optional (generation_config_of str getenv) (map_of fs ''generation'') = Some (generation cfg)"
    "Option.bind (aliased [''openai'', ''chat_generation'', ''chat_completions''] fs) (optional (openai_config_of str getenv)) = Some (openai cfg)"
    "required (map_of_json (detector_entry_of str getenv)) (map_of fs ''detectors'') = Some (detectors cfg)"
    "optional (router_config_of str) (map_of fs ''router'') = Some (router cfg)"
    "defaulted [] (\<lambda>j. map_option remdups (list_of str j)) (map_of fs ''passthrough_headers'') = Some (passthrough_headers cfg)"
    "defaulted False bool_of (map_of fs ''rewrite_forwarded_access_header'') = Some (rewrite_forwarded_access_header cfg)"
    "defaulted default_detector_concurrent_requests usize_of (map_of fs ''detector_concurrent_requests'') = Some (detector_concurrent_requests cfg)"
    "defaulted default_chunker_concurrent_requests usize_of (map_of fs ''chunker_concurrent_requests'') = Some (chunker_concurrent_requests cfg)"
  using assms by (auto simp: orchestrator_config_of_def struct_Some bind_eq_Some_conv simp del: aliased.simps)

text \<open>The keys of a YAML mapping are distinct; then every detector of the loaded configuration has one entry.\<close>

lemma loaded_detectors_wf:
  assumes "load_config read_file (config_from_str yaml str getenv) path = Ok cfg"
    and "\<forall>t fs ds. yaml t = Some (JObject fs) \<longrightarrow> map_of fs ''detectors'' = Some (JObject ds) \<longrightarrow> distinct (map fst ds)"
  shows "hm_wf (detectors cfg)"
proof -
  from assms(1) obtain t cfg0 where c: "config_from_str yaml str getenv t = Some cfg0"
    and a: "apply_named_tls_configs (cfg0\<lparr>passthrough_headers := remdups (map to_lowercase (passthrough_headers cfg0))\<rparr>) = Ok cfg"
    by (rule load_config_Ok)
  from c obtain j where j: "yaml t = Some j" "orchestrator_config_of str getenv j = Some cfg0" by (auto simp: config_from_str_def bind_eq_Some_conv)
  from j(2) obtain fs where fs: "j = JObject fs" "required (map_of_json (detector_entry_of str getenv)) (map_of fs ''detectors'') = Some (detectors cfg0)"
    by (rule orchestrator_config_read)
  from fs(2) obtain d where d: "map_of fs ''detectors'' = Some d" "map_of_json (detector_entry_of str getenv) d = Some (detectors cfg0)"
    by (auto simp: required_def bind_eq_Some_conv)
  from map_of_json_keys [OF d(2)] obtain ds where ds: "d = JObject ds" "map fst (detectors cfg0) = map fst ds" by blast
  have "distinct (map fst ds)" using assms(2) [rule_format, OF j(1) [unfolded fs(1)] d(1) [unfolded ds(1)]] .
  then show ?thesis by (simp add: hm_wf_def apply_named_tls_configs_keeps(9) [OF a] ds(2))
qed

lemma started_detectors_wf:
  assumes "start env a = Ok (ctx, health, guardrails)" "mn_parse_config env = config_from_str yaml str getenv"
    and "\<forall>t fs ds. yaml t = Some (JObject fs) \<longrightarrow> map_of fs ''detectors'' = Some (JObject ds) \<longrightarrow> distinct (map fst ds)"
  shows "hm_wf (detectors (ctx_config ctx))"
proof -
  from assms(1) obtain config where "load_config (mn_read_file env) (mn_parse_config env) (ar_config_path a) = Ok config"
    "orchestrator_new (mn_clients env) (mn_health env) config (ar_start_up_health_check a) = Ok ctx"
    by (rule start_Ok)
  then show ?thesis using loaded_detectors_wf [OF _ assms(3)] by (simp add: assms(2) orchestrator_parts(1))
qed

section \<open>Properties\<close>


text \<open>A file with one detector, one header to pass on and a router that is not enabled.\<close>

definition ex_document :: json where
  "ex_document = JObject [(''detectors'', JObject [(''d'', JObject [(''type'', JString ''text_contents''),
       (''service'', JObject [(''hostname'', JString ''localhost''), (''port'', JInt 8000)]),
       (''chunker_id'', JString ''whole_doc_chunker''), (''default_threshold'', JInt 1)])]),
     (''passthrough_headers'', JArray [JString ''X-Model'']), (''router'', JObject [])]"

lemma ex_document_loads:
  "\<exists>cfg. load_config Some (config_from_str (\<lambda>_. Some ex_document) string_of (\<lambda>_. None)) ''config.yaml'' = Ok cfg
     \<and> passthrough_headers cfg = [''x-model'']"
proof -
  have h: "is_valid_hostname ''localhost''" "to_lowercase ''X-Model'' = ''x-model''" by code_simp+
  show ?thesis
    by (simp add: load_config_def config_from_str_def ex_document_def orchestrator_config_of_def required_def optional_def defaulted_def map_of_json_def
        detector_entry_of_def service_config_of_def detector_type_of_def router_config_of_def u16_of_def Let_def apply_named_tls_configs_def
        validate_config_def validate_generation_config_def validate_openai_configs_def validate_detector_configs_def validate_chunker_configs_def
        DEFAULT_CHUNKER_ID_def h)
qed


end
