(* ===== verification/Spec2Isabelle.thy ===== *)
theory Spec2Isabelle
  imports Model_Api Config_Yaml
begin

text \<open>
  Verification of the FMS guardrails orchestrator, the server under \<^verbatim>\<open>src/\<close> that puts detectors between a
  client and a language model: a request is checked before it reaches the model (input detection), the model's answer is
  checked before or while it reaches the client (output detection).

  \<^bold>\<open>Parts of the program and their theories.\<close> A request enters at an endpoint of the HTTP server, which validates it,
  filters its headers and runs a handler; the handler runs detection tasks, which split texts into chunks with chunker services and
  send the chunks to detector services, and calls the model through a client; the streaming handlers consume the
  model's messages in one task and the detections in another, and join the detections of one chunk in a batcher.

  \<^item> \<open>Rust_Prelude\<close>: what the code uses of Rust. \<open>('e, 'a) res\<close> is a result with panics as a third outcome, strings are UTF-8
    bytes with \<open>chars\<close>, \<open>btree\<close> and \<open>hashmap\<close> are association lists (sorted; in iteration order), casts are those of
    release builds, where integers wrap.
  \<^item> \<open>Orch_Types\<close>: errors, chunks, detections and their conversions (\<^verbatim>\<open>orchestrator/errors.rs\<close>, \<^verbatim>\<open>orchestrator/types/chunk.rs\<close>,
    \<^verbatim>\<open>detection.rs\<close>, \<^verbatim>\<open>clients/errors.rs\<close>). The round trip of the conversions.
  \<^item> \<open>Orch_Config\<close>: configuration, TLS resolution, validation (\<^verbatim>\<open>config.rs\<close>). What validation accepts, what resolution leaves.
  \<^item> \<open>Batcher\<close>: the two batchers (\<^verbatim>\<open>orchestrator/types/detection_batcher/\<close>). The interface \<open>detection_batcher\<close> states what
    push and pop promise; both batchers are interpretations of it, over the interface \<open>ordered_map\<close>.
  \<^item> \<open>Batch_Stream\<close>: the select loop, the batcher actor and its mailbox (\<^verbatim>\<open>detection_batch_stream.rs\<close>) as the step relation
    \<open>bs_step\<close> over all interleavings. Safety of what is sent, what is delivered, and the two ways it goes wrong.
  \<^item> \<open>Openai\<close>, \<open>Models\<close>: request and response types, their methods and validation (\<^verbatim>\<open>clients/openai.rs\<close>, \<^verbatim>\<open>models.rs\<close>).
  \<^item> \<open>Common_Utils\<close>, \<open>Tasks\<close>: masks, detector checks, client requests and the unary detection tasks
    (\<^verbatim>\<open>orchestrator/common/utils.rs\<close>, \<^verbatim>\<open>client.rs\<close>, \<^verbatim>\<open>tasks.rs\<close>). Contents detection is complete for every order of completion.
  \<^item> \<open>Unary_Handlers\<close>, \<open>Completions_Unary\<close>: the unary handlers (\<^verbatim>\<open>orchestrator/handlers/\<close>). Unsuitable input does not reach the
    model; unchecked output does not reach the client.
  \<^item> \<open>Completion_State\<close>: channels, the shared completion state (\<^verbatim>\<open>types/completion_state.rs\<close>) and the interface \<open>chunk_log\<close>
    of a consumer of model messages, interpreted by both streaming handlers.
  \<^item> \<open>Stream_Tasks\<close>: the streaming part of \<^verbatim>\<open>common/tasks.rs\<close>: broadcast channels, chunk streams, detection streams.
  \<^item> \<open>Chat_Streaming\<close>, \<open>Completion_Streaming\<close>: the streaming completions handlers. The state they keep refines the log of the
    model's messages; the responses they send; what they leave unchecked.
  \<^item> \<open>Guardrails_Streaming\<close>: streaming content detection and streaming generation
    (\<^verbatim>\<open>handlers/streaming_content_detection.rs\<close>, \<^verbatim>\<open>streaming_classification_with_gen.rs\<close>).
  \<^item> \<open>Tls\<close>: the TLS configuration of clients and server, and the loop that accepts connections as the step relation \<open>serve_step\<close>
    (\<^verbatim>\<open>utils/tls.rs\<close>, \<^verbatim>\<open>server/tls.rs\<close>). Which side verifies which, with which roots; which connections are served.
  \<^item> \<open>Clients\<close>: header maps, building HTTP and gRPC clients, health checks, retries (\<^verbatim>\<open>clients.rs\<close>, \<^verbatim>\<open>clients/http.rs\<close>,
    \<^verbatim>\<open>clients/generation.rs\<close>, \<^verbatim>\<open>health.rs\<close>).
  \<^item> \<open>Orchestrator\<close>: creating the clients and start-up (\<^verbatim>\<open>orchestrator.rs\<close>); the tasks' assumption \<open>ctx_ok\<close> on the client map is
    proved of an orchestrator that starts.
  \<^item> \<open>Openai_Client\<close>, \<open>Detector_Client\<close>: requests to the model server and the detectors, directly or through the router sidecar, and the
    reading of event streams (\<^verbatim>\<open>clients/openai.rs\<close>, \<^verbatim>\<open>clients/detector.rs\<close>). Both ways deliver the same messages.
  \<^item> \<open>Grpc_Clients\<close>, \<open>Generation_Client\<close>: the chunker, NLP and TGIS clients and the generation client over them, with the conversion of
    requests and answers (\<^verbatim>\<open>clients/chunker.rs\<close>, \<^verbatim>\<open>nlp.rs\<close>, \<^verbatim>\<open>tgis.rs\<close>, \<^verbatim>\<open>generation.rs\<close>, \<^verbatim>\<open>models.rs\<close>).
  \<^item> \<open>Server\<close>: error responses, header filtering and all endpoints (\<^verbatim>\<open>server/errors.rs\<close>, \<^verbatim>\<open>server/routes.rs\<close>).
  \<^item> \<open>Service_Clients\<close>: the whole program, with the clients as the services of the handlers: when no client panics, and which headers of
    a request reach the network.
  \<^item> \<open>Client_Map\<close>: the map of clients (\<^verbatim>\<open>clients.rs\<close>, \<^verbatim>\<open>orchestrator.rs\<close>). The interface \<open>typed_map\<close> states what a map with values of several
    types promises, and is interpreted by the map of clients and by the map of their types that the handlers use; the first refines the second.
  \<^item> \<open>Telemetry\<close>: the options for traces, metrics and logs, the providers and layers they lead to, and what the hooks of server and clients
    count (\<^verbatim>\<open>args.rs\<close>, \<^verbatim>\<open>utils/trace.rs\<close>, \<^verbatim>\<open>clients/http.rs\<close>, \<^verbatim>\<open>clients/otel_grpc.rs\<close>).
  \<^item> \<open>Startup\<close>: routes, both servers and the start of the program (\<^verbatim>\<open>main.rs\<close>, \<^verbatim>\<open>server.rs\<close>, \<^verbatim>\<open>server/routes.rs\<close>, \<^verbatim>\<open>utils.rs\<close>): what
    holds of every program that has started.
  \<^item> \<open>Program\<close>: the started program with the clients it made as the services of its handlers, and the URLs it sends requests to.
  \<^item> \<open>Serde\<close>: what the \<^verbatim>\<open>serde\<close> attributes of the source mean for the JSON of a struct or enum. The interface \<open>codec\<close> states that what is
    written is read back, \<open>reader\<close> that what is read is in range; both are interpreted by every type below.
  \<^item> \<open>Openai_Json\<close>, \<open>Detection_Json\<close>, \<open>Completion_Json\<close>, \<open>Models_Json\<close>: the JSON of the API types (\<^verbatim>\<open>clients/openai.rs\<close>, \<^verbatim>\<open>clients/detector.rs\<close>,
    \<^verbatim>\<open>orchestrator/types/detection.rs\<close>, \<^verbatim>\<open>models.rs\<close>, \<^verbatim>\<open>health.rs\<close>), field by field as their attributes say, each with its round trip.
  \<^item> \<open>Config_Yaml\<close>: the deserialization of the configuration file with its defaults and aliases (\<^verbatim>\<open>config.rs\<close>). What holds of every configuration
    that the program loads.
  \<^item> \<open>Model_Api\<close>: the program with the JSON of its APIs: what of a client's request reaches the model server, directly and through the router,
    what of its answer reaches the client, and that the guardrails endpoints reject unknown fields.

  \<^bold>\<open>State and environment.\<close> The code keeps state in the batchers (\<open>completion_batcher\<close>, \<open>max_processed_index_batcher\<close>), the
  batch stream (\<open>bs_state\<close>), the completion state (\<open>completion_state\<close>) and its channels (\<open>tx\<close>: what the receiver has accepted
  and when it goes away); each is a record with one definition per operation. What the environment decides is
  an argument: the \<open>services\<close> record gives the answer of every service to every request; \<open>order\<close> and \<open>sched\<close> give the order in
  which concurrent requests complete and hash maps are traversed; \<open>rx_run\<close> says when a broadcast receiver
  subscribes and how far it lags; \<open>stream_env\<close> has the batches that the batch stream delivers (the predicate
  \<open>batch_stream_sends\<close> ties them to runs of \<open>bs_step\<close>) and how many of the model's messages have been stored at
  each read. Theorems hold for all of these, or state what they need of them. A handler that panics returns the
  channel as it is and \<open>False\<close>.

  \<^bold>\<open>Recursion.\<close> All functions are total without fuel: loops are recursions over the messages, lists or maps they consume. The retry
  loop has a measure (the attempts left); the select loop, which may run for ever, is the relation \<open>bs_step\<close>, and that it
  does not end in some situations is itself a theorem.

  \<^bold>\<open>Kinds of theorems.\<close> Safety (input and output are checked, headers are filtered, chunks are sent complete and once), functional
  behaviour of tasks, handlers and validation on all branches, refinement (the streaming state against the message log, the map of clients against their types),
  equivalence (merging of tool call pieces against grouping, the router's stream and request against the model's), round trips (API types and their JSON), bounds (indices modulo $2^{32}$), types (the
  client map), termination and non-termination, errors and panics. Several theorems state that the code does something it should
  not, e.g. \<open>completion_stream_batch_lost\<close>, \<open>chat_finish_chunk_unchecked\<close>, \<open>gen_stream_early_batch_panics\<close>,
  \<open>client_id_clash_panics\<close>, \<open>grpc_unresolved_tls_plaintext\<close>; they hold of runs that the model allows.

  \<^bold>\<open>Not modelled.\<close> The text of JSON and YAML documents and protobuf encoding (libraries and generated code; bodies are the values encoded); the parsing of the
  command line, the matching of paths, sockets and TLS connections (clap, axum, hyper, tonic, rustls, whose results are parameters); spans,
  log texts and the propagation of trace contexts, which no other code reads. The
  handlers take what a service answers from \<open>services\<close>, where a client does not panic; when the clients do is shown in
  \<open>Service_Clients\<close> and their own theories. Channel capacities only delay senders and are left out. Scores are real numbers.
\<close>

end
